(* ===== verification/Prelude.thy ===== *)
theory Prelude
  imports Main "HOL-Library.Word" "HOL-Library.AList" "HOL-Library.State_Monad"
begin

text \<open>
  What every component of the operator shares: the machine integers, Go's string maps,
  the error values, and the state monad in which the controller's code runs, with its
  loops and its fail-fast sequencing. The lemma collections that carry the component
  proofs are declared here:
  \<^item> \<open>go_simps\<close>: evaluation of Go maps;
  \<^item> \<open>builder_simps\<close>: the unfolding of the object literals of \<open>internal/resources\<close>;
  \<^item> \<open>run_simps\<close>: one step of a monadic program;
  \<^item> \<open>emit_rules\<close>: which API calls a program may issue, by its structure.
  \<^item> \<open>flag_rules\<close>: which programs leave the cached OpenShift answer alone.
\<close>

named_theorems go_simps
named_theorems builder_simps
named_theorems run_simps
named_theorems emit_rules
named_theorems flag_rules

section \<open>Integers\<close>

text \<open>Go's \<open>int32\<close> and \<open>int64\<close>: two's complement words, read with \<open>sint\<close>.\<close>

type_synonym int32 = "32 word"
type_synonym int64 = "64 word"

section \<open>Go maps from strings to strings\<close>

text \<open>
  A \<open>map[string]string\<close> is nil or an allocated map. The entries are kept as an
  association list; the order of the list has no meaning (two maps are the same when
  \<open>go_lookup\<close> agrees), and a \<open>range\<close> loop is modelled with an explicit order.
\<close>

datatype gomap = NilMap | GoMap "(string \<times> string) list"

fun entries :: "gomap \<Rightarrow> (string \<times> string) list" where
  "entries NilMap = []"
| "entries (GoMap xs) = xs"

text \<open>\<open>v, ok := m[k]\<close>\<close>

definition go_lookup :: "gomap \<Rightarrow> string \<Rightarrow> string option" where
  "go_lookup m k = map_of (entries m) k"

text \<open>\<open>m[k]\<close>: the zero value (the empty string) for a missing key.\<close>

definition go_index :: "gomap \<Rightarrow> string \<Rightarrow> string" where
  "go_index m k = (case go_lookup m k of None \<Rightarrow> [] | Some v \<Rightarrow> v)"

definition go_len :: "gomap \<Rightarrow> nat" where
  "go_len m = length (remdups (map fst (entries m)))"

text \<open>\<open>m[k] = v\<close>: an assignment to a nil map panics, which is the result \<open>None\<close>.\<close>

fun go_assign :: "gomap \<Rightarrow> string \<Rightarrow> string \<Rightarrow> gomap option" where
  "go_assign NilMap k v = None"
| "go_assign (GoMap xs) k v = Some (GoMap (AList.update k v xs))"

text \<open>The same on a map the code has just allocated, so that it cannot panic.\<close>

definition go_put :: "gomap \<Rightarrow> string \<Rightarrow> string \<Rightarrow> gomap" where
  "go_put m k v = (case go_assign m k v of Some m' \<Rightarrow> m' | None \<Rightarrow> m)"

text \<open>\<open>delete(m, k)\<close>: no effect on a nil map or a missing key.\<close>

fun go_delete :: "gomap \<Rightarrow> string \<Rightarrow> gomap" where
  "go_delete NilMap k = NilMap"
| "go_delete (GoMap xs) k = GoMap (AList.delete k xs)"

lemma go_lookup_Nil [simp, go_simps]: "go_lookup NilMap k = None"
  by (simp add: go_lookup_def)

lemma go_lookup_empty [simp, go_simps]: "go_lookup (GoMap []) k = None"
  by (simp add: go_lookup_def)

lemma go_lookup_Cons [go_simps]:
  "go_lookup (GoMap ((k', v) # xs)) k = (if k = k' then Some v else go_lookup (GoMap xs) k)"
  by (simp add: go_lookup_def)

lemma go_lookup_assign:
  "go_assign m k v = Some m' \<Longrightarrow> go_lookup m' = (go_lookup m)(k \<mapsto> v)"
  by (cases m) (auto simp: go_lookup_def update_conv' fun_eq_iff)

lemma go_assign_Some: "m \<noteq> NilMap \<Longrightarrow> \<exists>m'. go_assign m k v = Some m' \<and> m' \<noteq> NilMap"
  by (cases m) auto

lemma go_put_GoMap [simp]: "go_put (GoMap xs) k v = GoMap (AList.update k v xs)"
  by (simp add: go_put_def)

lemma go_lookup_delete: "go_lookup (go_delete m k) = (go_lookup m)(k := None)"
  by (cases m) (auto simp: go_lookup_def delete_conv' fun_eq_iff)

lemma go_delete_NilMap_iff [simp]: "go_delete m k = NilMap \<longleftrightarrow> m = NilMap"
  by (cases m) auto

lemma go_len_pos_iff: "0 < go_len m \<longleftrightarrow> entries m \<noteq> []"
  by (cases m) (simp_all add: go_len_def)

lemma go_lookup_entries: "(k, v) \<in> set (entries m) \<Longrightarrow> go_lookup m k \<noteq> None"
  by (metis go_lookup_def option.distinct(1) weak_map_of_SomeI)

lemma go_index_inject:
  assumes "distinct (map snd (entries m))"
    and "k \<in> set (map fst (entries m))" and "l \<in> set (map fst (entries m))"
    and "go_index m k = go_index m l"
  shows "k = l"
proof -
  obtain v w where v: "map_of (entries m) k = Some v" and w: "map_of (entries m) l = Some w"
    using assms(2,3) by (metis list.set_map map_of_eq_None_iff not_None_eq)
  have "v = w" using assms(4) v w by (simp add: go_index_def go_lookup_def)
  with v w have "(k, v) \<in> set (entries m)" and "(l, v) \<in> set (entries m)"
    by (auto dest: map_of_SomeD)
  with assms(1) show ?thesis
    by (metis distinct_map inj_onD prod.inject snd_conv)
qed

text \<open>The keys of a well-formed map are distinct, as Go guarantees.\<close>

definition wf_gomap :: "gomap \<Rightarrow> bool" where
  "wf_gomap m \<longleftrightarrow> distinct (map fst (entries m))"

lemma wf_gomap_lookup: "wf_gomap m \<Longrightarrow> go_lookup m k = Some v \<longleftrightarrow> (k, v) \<in> set (entries m)"
  by (simp add: wf_gomap_def go_lookup_def)

text \<open>
  Two maps are the same Go map when they hold the same entries (and are both nil or both
  allocated, which an object sent to the API server does not keep apart).
\<close>

definition same_entries :: "gomap \<Rightarrow> gomap \<Rightarrow> bool" where
  "same_entries m m' \<longleftrightarrow> go_lookup m = go_lookup m'"

section \<open>Errors\<close>

text \<open>
  Go's \<open>error\<close> values the operator makes: one from the API client (of the client's own
  type), one made by \<open>fmt.Errorf\<close> without a cause, and one that wraps a cause with
  \<open>%w\<close> behind a prefix (and a colon). \<open>Panicked\<close> is a run-time panic, which no code of the operator
  recovers from. The nil error is \<open>None\<close>.
\<close>

datatype 'e error = ClientError 'e | Errorf string | Wrapped string "'e error" | Panicked string

section \<open>Programs\<close>

text \<open>
  A piece of the controller's code is a program of the state monad. \<open>fail_fast\<close> is a
  straight line of \<open>if err := step(); err != nil { return err }\<close>, \<open>for_err\<close> the loop
  whose body returns at the first error, \<open>for_each\<close> the loop that carries on.
\<close>

fun fail_fast :: "('w, 'e option) state list \<Rightarrow> ('w, 'e option) state" where
  "fail_fast [] = State_Monad.return None"
| "fail_fast (m # ms) =
     do {
       err \<leftarrow> m;
       (case err of Some e \<Rightarrow> State_Monad.return (Some e) | None \<Rightarrow> fail_fast ms)
     }"

definition for_err :: "('a \<Rightarrow> ('w, 'e option) state) \<Rightarrow> 'a list \<Rightarrow> ('w, 'e option) state" where
  "for_err body xs = fail_fast (map body xs)"

fun for_each :: "('a \<Rightarrow> ('w, unit) state) \<Rightarrow> 'a list \<Rightarrow> ('w, unit) state" where
  "for_each body [] = State_Monad.return ()"
| "for_each body (x # xs) = do { _ \<leftarrow> body x; for_each body xs }"

text \<open>\<open>fmt.Errorf("prefix: %w", err)\<close> around the error of a step, if it has one.\<close>

definition wrap_err :: "string \<Rightarrow> ('w, 'e error option) state \<Rightarrow> ('w, 'e error option) state" where
  "wrap_err prefix m =
     do { err \<leftarrow> m; State_Monad.return (map_option (Wrapped prefix) err) }"

abbreviation run :: "('w, 'a) state \<Rightarrow> 'w \<Rightarrow> 'a \<times> 'w" where
  "run \<equiv> run_state"

lemma run_fail_fast_Cons [run_simps]:
  "run (fail_fast (m # ms)) w =
     (case run m w of (Some e, w') \<Rightarrow> (Some e, w') | (None, w') \<Rightarrow> run (fail_fast ms) w')"
  by (auto split: prod.splits option.splits)

lemma run_fail_fast_Nil [run_simps]: "run (fail_fast []) w = (None, w)"
  by simp

lemma run_wrap_err [run_simps]:
  "run (wrap_err p m) w = (case run m w of (err, w') \<Rightarrow> (map_option (Wrapped p) err, w'))"
  by (simp add: wrap_err_def split: prod.splits)

lemma run_for_err_Cons [run_simps]:
  "run (for_err f (x # xs)) w =
     (case run (f x) w of (Some e, w') \<Rightarrow> (Some e, w') | (None, w') \<Rightarrow> run (for_err f xs) w')"
  by (auto simp: for_err_def run_fail_fast_Cons simp del: fail_fast.simps split: prod.splits option.splits)

lemma run_for_err_Nil [run_simps]: "run (for_err f []) w = (None, w)"
  by (simp add: for_err_def)

lemma fail_fast_append:
  "run (fail_fast (ms @ ns)) w =
     (case run (fail_fast ms) w of (Some e, w') \<Rightarrow> (Some e, w') | (None, w') \<Rightarrow> run (fail_fast ns) w')"
  by (induction ms arbitrary: w) (auto simp: run_simps simp del: fail_fast.simps split: prod.splits option.splits)

declare fail_fast.simps [simp del]

section \<open>Hoare triples for programs\<close>

text \<open>
  \<open>hoare P m Q\<close>: from a state that satisfies \<open>P\<close>, the program \<open>m\<close> returns a value and
  a state that satisfy \<open>Q\<close>. Programs are total, so this is total correctness.
\<close>

definition hoare :: "('w \<Rightarrow> bool) \<Rightarrow> ('w, 'a) state \<Rightarrow> ('a \<Rightarrow> 'w \<Rightarrow> bool) \<Rightarrow> bool" where
  "hoare P m Q \<longleftrightarrow> (\<forall>w. P w \<longrightarrow> (case run m w of (x, w') \<Rightarrow> Q x w'))"

lemma hoareI: "(\<And>w x w'. P w \<Longrightarrow> run m w = (x, w') \<Longrightarrow> Q x w') \<Longrightarrow> hoare P m Q"
  by (auto simp: hoare_def split: prod.splits)

lemma hoareD: "hoare P m Q \<Longrightarrow> P w \<Longrightarrow> run m w = (x, w') \<Longrightarrow> Q x w'"
  by (auto simp: hoare_def split: prod.splits)

lemma hoare_return: "(\<And>w. P w \<Longrightarrow> Q x w) \<Longrightarrow> hoare P (State_Monad.return x) Q"
  by (simp add: hoare_def)

lemma hoare_bind:
  "hoare P m R \<Longrightarrow> (\<And>x. hoare (R x) (f x) Q) \<Longrightarrow> hoare P (State_Monad.bind m f) Q"
  by (fastforce simp: hoare_def split: prod.splits)

lemma hoare_weaken:
  "hoare P' m Q' \<Longrightarrow> (\<And>w. P w \<Longrightarrow> P' w) \<Longrightarrow> (\<And>x w. Q' x w \<Longrightarrow> Q x w) \<Longrightarrow> hoare P m Q"
  by (fastforce simp: hoare_def split: prod.splits)

text \<open>A fail-fast line whose steps all succeed, each from the state its predecessor left.\<close>

lemma hoare_fail_fast_Cons:
  assumes "hoare P m (\<lambda>err w. err = None \<and> R w)"
    and "hoare R (fail_fast ms) Q"
  shows "hoare P (fail_fast (m # ms)) Q"
  using assms by (fastforce simp: hoare_def run_simps split: prod.splits option.splits)

lemma hoare_fail_fast_Nil: "hoare (Q None) (fail_fast []) Q"
  by (simp add: hoare_def run_simps)

lemma hoare_wrap_err:
  "hoare P m (\<lambda>err w. err = None \<and> R w) \<Longrightarrow> hoare P (wrap_err p m) (\<lambda>err w. err = None \<and> R w)"
  by (fastforce simp: hoare_def run_simps split: prod.splits)

end
