(* ===== verification/Api_Types.thy ===== *)
theory Api_Types
  imports Prelude
begin

text \<open>
  The custom resource of \<open>api/v1alpha1/fakegpuconfig_types.go\<close>, field by field, over the
  object metadata every Kubernetes object carries (the fields the operator reads or writes).
  A pointer field is an \<open>option\<close> (nil is \<open>None\<close>). \<open>schema_valid\<close> is the admission that the
  \<open>+kubebuilder:validation\<close> markers of the same file ask of the API server.
\<close>

section \<open>Object metadata\<close>

record OwnerReference =
  owner_kind :: string
  owner_name :: string

text \<open>
  \<open>DeletionTimestamp\<close> is a pointer to a time, \<open>None\<close> when nil; the number is the distance
  from Go's zero time. \<open>IsZero\<close> is true of the nil pointer and of the zero time.
\<close>

record ObjectMeta =
  Name :: string
  Namespace :: string
  Labels :: gomap
  Annotations :: gomap
  ResourceVersion :: string
  DeletionTimestamp :: "nat option"
  Finalizers :: "string list"
  OwnerReferences :: "OwnerReference list"

text \<open>The metadata of a literal that sets the first fields only.\<close>

definition object_meta :: "string \<Rightarrow> string \<Rightarrow> gomap \<Rightarrow> ObjectMeta" where
  "object_meta n ns ls =
     \<lparr>Name = n, Namespace = ns, Labels = ls, Annotations = NilMap, ResourceVersion = [],
      DeletionTimestamp = None, Finalizers = [], OwnerReferences = []\<rparr>"

definition IsZero :: "nat option \<Rightarrow> bool" where
  "IsZero t = (case t of None \<Rightarrow> True | Some d \<Rightarrow> d = 0)"

lemma object_meta_sel [simp]:
  "Name (object_meta n ns ls) = n"
  "Namespace (object_meta n ns ls) = ns"
  "Labels (object_meta n ns ls) = ls"
  "Annotations (object_meta n ns ls) = NilMap"
  "ResourceVersion (object_meta n ns ls) = []"
  "OwnerReferences (object_meta n ns ls) = []"
  "Finalizers (object_meta n ns ls) = []"
  "DeletionTimestamp (object_meta n ns ls) = None"
  by (simp_all add: object_meta_def)

section \<open>The FakeGPUConfig resource\<close>

record MIGDevice =
  mig_device_name :: string
  mig_device_count :: int32

record MIGSpec =
  Enabled :: bool
  Strategy :: string
  Devices :: "MIGDevice list"

record CustomGPUSpec =
  GPUProduct :: string
  GPUMemory :: int32

record ImagesSpec =
  Registry :: string
  Tag :: string
  Overrides :: gomap

record ComponentsSpec =
  DevicePlugin :: bool
  MetricsExporter :: bool
  TopologyServer :: bool
  StatusUpdater :: bool
  DRA :: bool
  ComputeDomainController :: bool

record FakeGPUConfigSpec =
  spec_GPUProfile :: string
  GPUCount :: int32
  Custom :: "CustomGPUSpec option"
  NodeSelector :: gomap
  MIG :: "MIGSpec option"
  Components :: "ComponentsSpec option"
  Images :: "ImagesSpec option"

record Condition =
  cond_Type :: string
  cond_Status :: string
  cond_Reason :: string
  cond_Message :: string

record FakeGPUConfigStatus =
  Conditions :: "Condition list"
  ReadyNodes :: int32
  TotalNodes :: int32
  status_GPUProfile :: string
  GPUCountPerNode :: int32

record FakeGPUConfig =
  cfg_meta :: ObjectMeta
  Spec :: FakeGPUConfigSpec
  Status :: FakeGPUConfigStatus

text \<open>\<open>cfg.Name\<close>\<close>

abbreviation cfg_name :: "FakeGPUConfig \<Rightarrow> string" where
  "cfg_name cfg \<equiv> Name (cfg_meta cfg)"

section \<open>Admission\<close>

definition profile_enum :: "string list" where
  "profile_enum = [''a100'', ''h100'', ''h200'', ''b200'', ''gb200'', ''l40s'', ''t4'']"

definition strategy_enum :: "string list" where
  "strategy_enum = [''mixed'', ''single'']"

definition schema_valid :: "FakeGPUConfigSpec \<Rightarrow> bool" where
  "schema_valid sp \<longleftrightarrow>
     (spec_GPUProfile sp = [] \<or> spec_GPUProfile sp \<in> set profile_enum)
     \<and> 1 \<le> sint (GPUCount sp) \<and> sint (GPUCount sp) \<le> 32
     \<and> (case Custom sp of None \<Rightarrow> True | Some c \<Rightarrow> 1 \<le> sint (GPUMemory c))
     \<and> (case MIG sp of None \<Rightarrow> True | Some m \<Rightarrow> Strategy m \<in> set strategy_enum)"

section \<open>On the wire\<close>

text \<open>
  What the API server stores of a specification that the operator sends: \<open>encoding/json\<close>
  leaves out an \<open>omitempty\<close> field that has its zero value (a false switch, the number 0, an
  empty string, map or slice, a nil pointer), and the server fills a missing field with the
  \<open>kubebuilder:default\<close> of the resource's schema. The answer of the update is decoded into the
  operator's own copy.
\<close>

definition wire_bool :: "bool \<Rightarrow> bool \<Rightarrow> bool" where
  "wire_bool dflt b = (if b then True else dflt)"

definition wire_int32 :: "int32 \<Rightarrow> int32 \<Rightarrow> int32" where
  "wire_int32 dflt n = (if n = 0 then dflt else n)"

definition wire_string :: "string \<Rightarrow> string \<Rightarrow> string" where
  "wire_string dflt x = (if x = [] then dflt else x)"

definition wire_map :: "gomap \<Rightarrow> gomap" where
  "wire_map m = (if go_len m = 0 then NilMap else m)"

definition wire_components :: "ComponentsSpec \<Rightarrow> ComponentsSpec" where
  "wire_components c =
     \<lparr>DevicePlugin = wire_bool True (DevicePlugin c),
      MetricsExporter = wire_bool True (MetricsExporter c),
      TopologyServer = wire_bool True (TopologyServer c),
      StatusUpdater = wire_bool True (StatusUpdater c),
      DRA = wire_bool False (DRA c),
      ComputeDomainController = wire_bool False (ComputeDomainController c)\<rparr>"

definition wire_images :: "ImagesSpec \<Rightarrow> ImagesSpec" where
  "wire_images im = im\<lparr>Overrides := wire_map (Overrides im)\<rparr>"

definition wire_mig :: "MIGSpec \<Rightarrow> MIGSpec" where
  "wire_mig m = m\<lparr>Strategy := wire_string ''mixed'' (Strategy m)\<rparr>"

definition wire_spec :: "FakeGPUConfigSpec \<Rightarrow> FakeGPUConfigSpec" where
  "wire_spec sp = sp
     \<lparr>GPUCount := wire_int32 8 (GPUCount sp),
      NodeSelector := wire_map (NodeSelector sp),
      MIG := map_option wire_mig (MIG sp),
      Components := map_option wire_components (Components sp),
      Images := map_option wire_images (Images sp)\<rparr>"

lemma wire_spec_keeps [simp]:
  "spec_GPUProfile (wire_spec sp) = spec_GPUProfile sp" "Custom (wire_spec sp) = Custom sp"
  by (simp_all add: wire_spec_def)

lemma wire_components_idem: "wire_components (wire_components c) = wire_components c"
  by (simp add: wire_components_def wire_bool_def)

section \<open>Questions the operator asks of a configuration\<close>

text \<open>\<open>cfg.Spec.MIG != nil \&\& cfg.Spec.MIG.Enabled\<close>\<close>

definition mig_enabled :: "FakeGPUConfig \<Rightarrow> bool" where
  "mig_enabled cfg = (case MIG (Spec cfg) of None \<Rightarrow> False | Some m \<Rightarrow> Enabled m)"

text \<open>\<open>components == nil || components.X\<close>, for the components that are on by default.\<close>

definition on_by_default :: "(ComponentsSpec \<Rightarrow> bool) \<Rightarrow> FakeGPUConfig \<Rightarrow> bool" where
  "on_by_default X cfg = (case Components (Spec cfg) of None \<Rightarrow> True | Some c \<Rightarrow> X c)"

text \<open>\<open>components != nil \&\& components.X\<close>, for the components that are off by default.\<close>

definition off_by_default :: "(ComponentsSpec \<Rightarrow> bool) \<Rightarrow> FakeGPUConfig \<Rightarrow> bool" where
  "off_by_default X cfg = (case Components (Spec cfg) of None \<Rightarrow> False | Some c \<Rightarrow> X c)"

end
