(* ===== verification/Objects.thy ===== *)
theory Objects
  imports Api_Types
begin

text \<open>
  The Kubernetes objects the operator builds, as far as its literals fill them in, the union
  of the kinds it writes (\<open>obj\<close>, Go's \<open>client.Object\<close>), and the label keys and label maps
  (\<open>commonLabels\<close> and \<open>selectorLabels\<close> of \<open>internal/resources/daemonset.go\<close>, the constants
  of \<open>internal/controller/fakegpuconfig_controller.go\<close>).
\<close>

section \<open>Pods\<close>

record EnvVar =
  env_Name :: string
  env_Value :: string
  env_FieldPath :: "string option"

record VolumeMount =
  mount_Name :: string
  MountPath :: string

datatype HostPathType = HostPathDirectory | HostPathDirectoryOrCreate

record Volume =
  vol_Name :: string
  HostPath :: string
  HostPath_Type :: HostPathType

datatype Protocol = ProtocolTCP

record ContainerPort =
  cport_Name :: string
  ContainerPort_number :: int32
  cport_Protocol :: Protocol

record Container =
  ct_Name :: string
  Image_ref :: string
  Command :: "string list"
  Ports :: "ContainerPort list"
  Env :: "EnvVar list"
  Privileged :: "bool option"
  VolumeMounts :: "VolumeMount list"

record PodSpec =
  ServiceAccountName :: string
  pod_NodeSelector :: gomap
  Containers :: "Container list"
  Volumes :: "Volume list"

record PodTemplateSpec =
  tpl_Labels :: gomap
  tpl_Spec :: PodSpec

section \<open>Workloads, services, RBAC, configuration\<close>

record DaemonSet =
  ds_meta :: ObjectMeta
  ds_MatchLabels :: gomap
  ds_Template :: PodTemplateSpec

record Deployment =
  dep_meta :: ObjectMeta
  Replicas :: "int32 option"
  dep_MatchLabels :: gomap
  dep_Template :: PodTemplateSpec

datatype ServiceType = ServiceTypeClusterIP

record ServicePort =
  sport_Name :: string
  Port :: int32
  TargetPort :: int32
  sport_Protocol :: Protocol

record Service =
  svc_meta :: ObjectMeta
  Selector :: gomap
  svc_Type :: ServiceType
  svc_Ports :: "ServicePort list"

record PolicyRule =
  APIGroups :: "string list"
  Resources :: "string list"
  ResourceNames :: "string list"
  Verbs :: "string list"

record ClusterRole =
  role_meta :: ObjectMeta
  Rules :: "PolicyRule list"

record Subject =
  subj_Kind :: string
  subj_Name :: string
  subj_Namespace :: string

record RoleRef =
  ref_APIGroup :: string
  ref_Kind :: string
  ref_Name :: string

record ClusterRoleBinding =
  binding_meta :: ObjectMeta
  Subjects :: "Subject list"
  binding_RoleRef :: RoleRef

record ConfigMap =
  cm_meta :: ObjectMeta
  Data :: gomap

record ServiceAccount =
  sa_meta :: ObjectMeta

record RuntimeClass =
  rc_meta :: ObjectMeta
  Handler :: string

text \<open>A Secret, of which the operator reads the metadata only.\<close>

record Secret =
  secret_meta :: ObjectMeta

record Node =
  node_meta :: ObjectMeta

abbreviation node_labels :: "Node \<Rightarrow> gomap" where
  "node_labels n \<equiv> Labels (node_meta n)"

abbreviation node_name :: "Node \<Rightarrow> string" where
  "node_name n \<equiv> Name (node_meta n)"

section \<open>Objects of any kind\<close>

datatype kind =
    KServiceAccount | KClusterRole | KClusterRoleBinding | KConfigMap | KDaemonSet
  | KDeployment | KService | KRuntimeClass | KSecret

datatype obj =
    OServiceAccount ServiceAccount
  | OClusterRole ClusterRole
  | OClusterRoleBinding ClusterRoleBinding
  | OConfigMap ConfigMap
  | ODaemonSet DaemonSet
  | ODeployment Deployment
  | OService Service
  | ORuntimeClass RuntimeClass
  | OSecret Secret

fun obj_kind :: "obj \<Rightarrow> kind" where
  "obj_kind (OServiceAccount _) = KServiceAccount"
| "obj_kind (OClusterRole _) = KClusterRole"
| "obj_kind (OClusterRoleBinding _) = KClusterRoleBinding"
| "obj_kind (OConfigMap _) = KConfigMap"
| "obj_kind (ODaemonSet _) = KDaemonSet"
| "obj_kind (ODeployment _) = KDeployment"
| "obj_kind (OService _) = KService"
| "obj_kind (ORuntimeClass _) = KRuntimeClass"
| "obj_kind (OSecret _) = KSecret"

fun obj_meta :: "obj \<Rightarrow> ObjectMeta" where
  "obj_meta (OServiceAccount x) = sa_meta x"
| "obj_meta (OClusterRole x) = role_meta x"
| "obj_meta (OClusterRoleBinding x) = binding_meta x"
| "obj_meta (OConfigMap x) = cm_meta x"
| "obj_meta (ODaemonSet x) = ds_meta x"
| "obj_meta (ODeployment x) = dep_meta x"
| "obj_meta (OService x) = svc_meta x"
| "obj_meta (ORuntimeClass x) = rc_meta x"
| "obj_meta (OSecret x) = secret_meta x"

fun map_meta :: "(ObjectMeta \<Rightarrow> ObjectMeta) \<Rightarrow> obj \<Rightarrow> obj" where
  "map_meta f (OServiceAccount x) = OServiceAccount (x\<lparr>sa_meta := f (sa_meta x)\<rparr>)"
| "map_meta f (OClusterRole x) = OClusterRole (x\<lparr>role_meta := f (role_meta x)\<rparr>)"
| "map_meta f (OClusterRoleBinding x) = OClusterRoleBinding (x\<lparr>binding_meta := f (binding_meta x)\<rparr>)"
| "map_meta f (OConfigMap x) = OConfigMap (x\<lparr>cm_meta := f (cm_meta x)\<rparr>)"
| "map_meta f (ODaemonSet x) = ODaemonSet (x\<lparr>ds_meta := f (ds_meta x)\<rparr>)"
| "map_meta f (ODeployment x) = ODeployment (x\<lparr>dep_meta := f (dep_meta x)\<rparr>)"
| "map_meta f (OService x) = OService (x\<lparr>svc_meta := f (svc_meta x)\<rparr>)"
| "map_meta f (ORuntimeClass x) = ORuntimeClass (x\<lparr>rc_meta := f (rc_meta x)\<rparr>)"
| "map_meta f (OSecret x) = OSecret (x\<lparr>secret_meta := f (secret_meta x)\<rparr>)"

definition GetName :: "obj \<Rightarrow> string" where
  "GetName ob = Name (obj_meta ob)"

definition GetNamespace :: "obj \<Rightarrow> string" where
  "GetNamespace ob = Namespace (obj_meta ob)"

definition SetResourceVersion :: "string \<Rightarrow> obj \<Rightarrow> obj" where
  "SetResourceVersion rv ob = map_meta (\<lambda>m. m\<lparr>ResourceVersion := rv\<rparr>) ob"

text \<open>How the API server addresses an object.\<close>

type_synonym key = "kind \<times> string \<times> string"

definition obj_key :: "obj \<Rightarrow> key" where
  "obj_key ob = (obj_kind ob, GetNamespace ob, GetName ob)"

lemma obj_meta_map_meta [simp]: "obj_meta (map_meta f ob) = f (obj_meta ob)"
  by (cases ob) simp_all

lemma obj_kind_map_meta [simp]: "obj_kind (map_meta f ob) = obj_kind ob"
  by (cases ob) simp_all

lemma map_meta_map_meta: "map_meta f (map_meta g ob) = map_meta (f \<circ> g) ob"
  by (cases ob) simp_all

lemma map_meta_id: "map_meta (\<lambda>m. m) ob = ob"
  by (cases ob) simp_all

lemma SetResourceVersion_twice [simp]:
  "SetResourceVersion a (SetResourceVersion b ob) = SetResourceVersion a ob"
  by (simp add: SetResourceVersion_def map_meta_map_meta comp_def)

lemma SetResourceVersion_key [simp]: "obj_key (SetResourceVersion rv ob) = obj_key ob"
  by (simp add: obj_key_def GetName_def GetNamespace_def SetResourceVersion_def)

lemma SetResourceVersion_meta [simp]:
  "obj_meta (SetResourceVersion rv ob) = (obj_meta ob)\<lparr>ResourceVersion := rv\<rparr>"
  by (simp add: SetResourceVersion_def)

lemma SetResourceVersion_kind [simp]: "obj_kind (SetResourceVersion rv ob) = obj_kind ob"
  by (simp add: SetResourceVersion_def)

section \<open>Label keys\<close>

definition keyName :: string where "keyName = ''app.kubernetes.io/name''"
definition keyInstance :: string where "keyInstance = ''app.kubernetes.io/instance''"
definition keyComponent :: string where "keyComponent = ''app.kubernetes.io/component''"
definition keyManagedBy :: string where "keyManagedBy = ''app.kubernetes.io/managed-by''"
definition keyGpuProfile :: string where "keyGpuProfile = ''fake-gpu-operator/gpu-profile''"
definition keyNodeTopology :: string where "keyNodeTopology = ''node-topology''"
definition keyNodeName :: string where "keyNodeName = ''node-name''"

definition finalizerName :: string where "finalizerName = ''gpu.openshift.io/finalizer''"
definition nodePoolLabel :: string where "nodePoolLabel = ''run.ai/simulated-gpu-node-pool''"
definition deployDPLabel :: string where "deployDPLabel = ''nvidia.com/gpu.deploy.device-plugin''"
definition deployDCGMLabel :: string where "deployDCGMLabel = ''nvidia.com/gpu.deploy.dcgm-exporter''"
definition migLabel :: string where "migLabel = ''node-role.kubernetes.io/runai-dynamic-mig''"
definition draLabel :: string where "draLabel = ''nvidia.com/gpu.deploy.dra-plugin-gpu''"
definition cdLabel :: string where
  "cdLabel = ''nvidia.com/gpu.deploy.compute-domain-dra-plugin''"

lemmas key_defs = keyName_def keyInstance_def keyComponent_def keyManagedBy_def
  keyGpuProfile_def keyNodeTopology_def keyNodeName_def

lemmas node_key_defs = nodePoolLabel_def deployDPLabel_def deployDCGMLabel_def migLabel_def
  draLabel_def cdLabel_def

lemma object_keys_distinct:
  "distinct [keyName, keyInstance, keyComponent, keyManagedBy, keyGpuProfile, keyNodeTopology,
     keyNodeName]"
  by (simp add: key_defs)

lemma node_keys_distinct:
  "distinct [nodePoolLabel, deployDPLabel, deployDCGMLabel, migLabel, draLabel, cdLabel]"
  by (simp add: node_key_defs)

lemma object_keys_neq [simp]:
  "keyName \<noteq> keyInstance" "keyName \<noteq> keyComponent" "keyName \<noteq> keyManagedBy" "keyName \<noteq> keyGpuProfile" "keyName \<noteq> keyNodeTopology" "keyName \<noteq> keyNodeName"
  "keyInstance \<noteq> keyComponent" "keyInstance \<noteq> keyManagedBy" "keyInstance \<noteq> keyGpuProfile" "keyInstance \<noteq> keyNodeTopology" "keyInstance \<noteq> keyNodeName"
  "keyComponent \<noteq> keyManagedBy" "keyComponent \<noteq> keyGpuProfile" "keyComponent \<noteq> keyNodeTopology" "keyComponent \<noteq> keyNodeName"
  "keyManagedBy \<noteq> keyGpuProfile" "keyManagedBy \<noteq> keyNodeTopology" "keyManagedBy \<noteq> keyNodeName"
  "keyGpuProfile \<noteq> keyNodeTopology" "keyGpuProfile \<noteq> keyNodeName"
  "keyNodeTopology \<noteq> keyNodeName"
  using object_keys_distinct by simp_all

lemma node_keys_neq [simp]:
  "nodePoolLabel \<noteq> deployDPLabel" "nodePoolLabel \<noteq> deployDCGMLabel" "nodePoolLabel \<noteq> migLabel" "nodePoolLabel \<noteq> draLabel" "nodePoolLabel \<noteq> cdLabel"
  "deployDPLabel \<noteq> deployDCGMLabel" "deployDPLabel \<noteq> migLabel" "deployDPLabel \<noteq> draLabel" "deployDPLabel \<noteq> cdLabel"
  "deployDCGMLabel \<noteq> migLabel" "deployDCGMLabel \<noteq> draLabel" "deployDCGMLabel \<noteq> cdLabel"
  "migLabel \<noteq> draLabel" "migLabel \<noteq> cdLabel"
  "draLabel \<noteq> cdLabel"
  using node_keys_distinct by simp_all

lemmas object_keys_neq_sym [simp] = object_keys_neq [THEN not_sym]
lemmas node_keys_neq_sym [simp] = node_keys_neq [THEN not_sym]

section \<open>Label maps\<close>

definition commonLabels :: "FakeGPUConfig \<Rightarrow> string \<Rightarrow> gomap" where
  "commonLabels cfg component =
     GoMap [(keyName, ''fake-gpu-operator''),
            (keyInstance, cfg_name cfg),
            (keyComponent, component),
            (keyManagedBy, ''openshift-fake-gpu-operator'')]"

definition selectorLabels :: "FakeGPUConfig \<Rightarrow> string \<Rightarrow> gomap" where
  "selectorLabels cfg component =
     GoMap [(keyName, ''fake-gpu-operator''),
            (keyInstance, cfg_name cfg),
            (keyComponent, component)]"

text \<open>
  How a label selector reads a label map (the API server's \<open>MatchLabels\<close> and the client's
  \<open>MatchingLabels\<close>): every entry of the selector is present with its value.
\<close>

definition labels_match :: "gomap \<Rightarrow> gomap \<Rightarrow> bool" where
  "labels_match sel ls \<longleftrightarrow> list_all (\<lambda>(k, v). go_lookup ls k = Some v) (entries sel)"

lemma labels_match_single [simp]:
  "labels_match (GoMap [(k, v)]) ls \<longleftrightarrow> go_lookup ls k = Some v"
  by (simp add: labels_match_def)

lemma labels_match_refl: "wf_gomap ls \<Longrightarrow> labels_match ls ls"
  by (auto simp: labels_match_def list_all_iff wf_gomap_lookup)

lemma commonLabels_lookup [simp]:
  "go_lookup (commonLabels cfg c) keyName = Some ''fake-gpu-operator''"
  "go_lookup (commonLabels cfg c) keyInstance = Some (cfg_name cfg)"
  "go_lookup (commonLabels cfg c) keyComponent = Some c"
  "go_lookup (commonLabels cfg c) keyManagedBy = Some ''openshift-fake-gpu-operator''"
  "go_lookup (commonLabels cfg c) keyNodeTopology = None"
  by (simp_all add: commonLabels_def go_simps)

lemma selectorLabels_match:
  "labels_match (selectorLabels cfg c) ls \<longleftrightarrow>
     go_lookup ls keyName = Some ''fake-gpu-operator''
     \<and> go_lookup ls keyInstance = Some (cfg_name cfg) \<and> go_lookup ls keyComponent = Some c"
  by (simp add: labels_match_def selectorLabels_def)

lemma selectorLabels_lookup [simp]:
  "go_lookup (selectorLabels cfg c) keyName = Some ''fake-gpu-operator''"
  "go_lookup (selectorLabels cfg c) keyInstance = Some (cfg_name cfg)"
  "go_lookup (selectorLabels cfg c) keyComponent = Some c"
  by (simp_all add: selectorLabels_def go_simps)

section \<open>The interface of the builders\<close>

text \<open>An object that no finalizer holds and that is not being deleted.\<close>

definition plain :: "obj \<Rightarrow> bool" where
  "plain ob \<longleftrightarrow> Finalizers (obj_meta ob) = [] \<and> DeletionTimestamp (obj_meta ob) = None"

lemma plain_SetResourceVersion [simp]: "plain (SetResourceVersion rv ob) = plain ob"
  by (simp add: plain_def)

text \<open>
  What the controller relies on when it is given an object of \<open>internal/resources\<close>: the kind
  and the scope are fixed, the name is a fixed stem followed by the configuration's name, the
  labels carry the instance by which \<open>handleDeletion\<close> finds the object again, and there is
  no resource version yet. \<open>scope\<close> is the identity for a namespaced object and constantly
  empty for a cluster-scoped one.
\<close>

locale builder =
  fixes build :: "FakeGPUConfig \<Rightarrow> string \<Rightarrow> obj"
    and kd :: kind
    and stem :: string
    and component :: string
    and scope :: "string \<Rightarrow> string"
  assumes build_kind: "obj_kind (build cfg ns) = kd"
    and build_name: "GetName (build cfg ns) = stem @ cfg_name cfg"
    and build_namespace: "GetNamespace (build cfg ns) = scope ns"
    and build_labels: "Labels (obj_meta (build cfg ns)) = commonLabels cfg component"
    and build_fresh: "ResourceVersion (obj_meta (build cfg ns)) = []"
    and build_owner: "OwnerReferences (obj_meta (build cfg ns)) = []"
    and build_plain: "plain (build cfg ns)"
begin

lemma build_key [simp]: "obj_key (build cfg ns) = (kd, scope ns, stem @ cfg_name cfg)"
  by (simp add: obj_key_def build_kind build_name build_namespace)

lemma build_key_inject:
  "obj_key (build cfg ns) = obj_key (build cfg' ns') \<Longrightarrow> cfg_name cfg = cfg_name cfg'"
  by simp

lemma build_instance: "go_lookup (Labels (obj_meta (build cfg ns))) keyInstance = Some (cfg_name cfg)"
  by (simp add: build_labels)

lemma build_swept:
  "labels_match (GoMap [(keyInstance, n)]) (Labels (obj_meta (build cfg ns))) \<longleftrightarrow> n = cfg_name cfg"
  by (auto simp: build_instance)

end

text \<open>
  What Kubernetes requires of a workload, and the rest of the operator of its pods: the
  selector matches the pod template, every volume mount has its volume, and the pods run under
  the account of a component that \<open>reconcileRBAC\<close> creates.
\<close>

definition mounts_have_volumes :: "PodSpec \<Rightarrow> bool" where
  "mounts_have_volumes ps \<longleftrightarrow>
     (\<forall>c \<in> set (Containers ps). \<forall>m \<in> set (VolumeMounts c).
        \<exists>v \<in> set (Volumes ps). vol_Name v = mount_Name m)"

fun pod_template :: "obj \<Rightarrow> PodTemplateSpec option" where
  "pod_template (ODaemonSet d) = Some (ds_Template d)"
| "pod_template (ODeployment d) = Some (dep_Template d)"
| "pod_template _ = None"

fun match_labels :: "obj \<Rightarrow> gomap option" where
  "match_labels (ODaemonSet d) = Some (ds_MatchLabels d)"
| "match_labels (ODeployment d) = Some (dep_MatchLabels d)"
| "match_labels _ = None"

locale workload_builder = builder build kd stem component scope
  for build :: "FakeGPUConfig \<Rightarrow> string \<Rightarrow> obj" and kd stem component scope +
  fixes account :: string
    and template :: "FakeGPUConfig \<Rightarrow> string \<Rightarrow> PodTemplateSpec"
  assumes build_template: "pod_template (build cfg ns) = Some (template cfg ns)"
    and build_selector: "match_labels (build cfg ns) = Some (selectorLabels cfg component)"
    and template_labels: "tpl_Labels (template cfg ns) = selectorLabels cfg component"
    and template_account:
      "ServiceAccountName (tpl_Spec (template cfg ns)) = account @ ''-'' @ cfg_name cfg"
    and template_mounts: "mounts_have_volumes (tpl_Spec (template cfg ns))"
begin

lemma selector_matches_template:
  "match_labels (build cfg ns) = Some sel \<Longrightarrow> pod_template (build cfg ns) = Some tpl \<Longrightarrow>
   labels_match sel (tpl_Labels tpl)"
  by (auto simp: build_selector build_template template_labels selectorLabels_match)

lemma selects_own_pods:
  "labels_match (selectorLabels cfg' c) (tpl_Labels (template cfg ns)) \<longleftrightarrow>
     cfg_name cfg' = cfg_name cfg \<and> c = component"
  by (auto simp: selectorLabels_match template_labels)

end

end
