(* ===== verification/Images.thy ===== *)
theory Images
  imports Objects
begin

text \<open>
  \<open>internal/resources/images.go\<close> and \<open>imageFor\<close> of \<open>daemonset.go\<close>: which container image a
  component runs. The process environment (\<open>os.Getenv\<close>, the empty string for an unset
  variable) is the argument \<open>env\<close>. The lemmas give the precedence the README documents.
\<close>

type_synonym environment = "string \<Rightarrow> string"

definition defaultImageRegistry :: string where
  "defaultImageRegistry = ''ghcr.io/run-ai/fake-gpu-operator''"

definition defaultImageTag :: string where
  "defaultImageTag = ''0.1.0''"

definition componentRepos :: gomap where
  "componentRepos = GoMap
    [(''device-plugin'', ''device-plugin''),
     (''status-updater'', ''status-updater''),
     (''metrics-exporter'', ''status-exporter''),
     (''topology-server'', ''topology-server''),
     (''mig-faker'', ''mig-faker''),
     (''dra-plugin'', ''dra-plugin-gpu''),
     (''compute-domain-controller'', ''compute-domain-controller''),
     (''compute-domain-dra'', ''compute-domain-dra-plugin'')]"

definition DefaultRegistry :: "environment \<Rightarrow> string" where
  "DefaultRegistry env =
     (let v = env ''RELATED_IMAGE_REGISTRY'' in if v \<noteq> [] then v else defaultImageRegistry)"

definition DefaultTag :: "environment \<Rightarrow> string" where
  "DefaultTag env =
     (let v = env ''RELATED_IMAGE_TAG'' in if v \<noteq> [] then v else defaultImageTag)"

definition Image :: "environment \<Rightarrow> string \<Rightarrow> string \<Rightarrow> string \<Rightarrow> gomap \<Rightarrow> string" where
  "Image env component registry tag overrides =
     (case go_lookup overrides component of
        Some img \<Rightarrow> img
      | None \<Rightarrow>
          (let registry' = (if registry = [] then DefaultRegistry env else registry);
               tag' = (if tag = [] then DefaultTag env else tag)
           in registry' @ ''/'' @ go_index componentRepos component @ '':'' @ tag'))"

definition imageFor :: "environment \<Rightarrow> FakeGPUConfig \<Rightarrow> string \<Rightarrow> string" where
  "imageFor env cfg component =
     (case Images (Spec cfg) of
        None \<Rightarrow> Image env component [] [] NilMap
      | Some im \<Rightarrow> Image env component (Registry im) (Tag im) (Overrides im))"

lemma Image_override: "go_lookup ov c = Some img \<Longrightarrow> Image env c reg tag ov = img"
  by (simp add: Image_def)

lemma Image_no_override:
  "go_lookup ov c = None \<Longrightarrow>
   Image env c reg tag ov =
     (if reg = [] then DefaultRegistry env else reg) @ ''/'' @ go_index componentRepos c
       @ '':'' @ (if tag = [] then DefaultTag env else tag)"
  by (simp add: Image_def Let_def)

end
