(* ===== verification/Api_Client.thy ===== *)
theory Api_Client
  imports Objects Images
begin

text \<open>
  The interface between the controller and everything it calls that is not part of the
  repository: the API server behind \<open>client.Client\<close> (record \<open>Client\<close>, one function per
  verb and type the controller uses, over a server state of any type), and the helper
  functions of apimachinery and controller-runtime (record \<open>Library\<close>). Both are parameters
  of the model. A call may return any answer, an error included.

  A run of the controller happens in a \<open>World\<close>: the server's state, the reconciler's one
  mutable field, and a ghost \<open>trace\<close> of the calls made so far, each with its success. The
  trace is what the safety lemmas speak about (\<open>emits\<close>).
\<close>

section \<open>The parameters\<close>

record ('s, 'e) Client =
  c_get_cfg :: "string \<Rightarrow> string \<Rightarrow> 's \<Rightarrow> ('e + FakeGPUConfig) \<times> 's"
  c_get :: "kind \<Rightarrow> string \<Rightarrow> string \<Rightarrow> 's \<Rightarrow> ('e + ObjectMeta) \<times> 's"
  c_list :: "kind \<Rightarrow> gomap \<Rightarrow> string option \<Rightarrow> 's \<Rightarrow> ('e + ObjectMeta list) \<times> 's"
  c_list_nodes :: "gomap \<Rightarrow> 's \<Rightarrow> ('e + Node list) \<times> 's"
  c_list_cfgs :: "'s \<Rightarrow> ('e + FakeGPUConfig list) \<times> 's"
  c_create :: "obj \<Rightarrow> 's \<Rightarrow> ('e + unit) \<times> 's"
  c_update :: "obj \<Rightarrow> 's \<Rightarrow> ('e + unit) \<times> 's"
  c_update_node :: "Node \<Rightarrow> 's \<Rightarrow> ('e + unit) \<times> 's"
  c_update_cfg :: "FakeGPUConfig \<Rightarrow> 's \<Rightarrow> ('e + FakeGPUConfig) \<times> 's"
  c_update_status :: "FakeGPUConfig \<Rightarrow> 's \<Rightarrow> ('e + unit) \<times> 's"
  c_delete :: "kind \<Rightarrow> string \<Rightarrow> string \<Rightarrow> 's \<Rightarrow> ('e + unit) \<times> 's"
  c_resources_for :: "string \<Rightarrow> string \<Rightarrow> string \<Rightarrow> 's \<Rightarrow> ('e + unit) \<times> 's"

text \<open>
  \<open>errors.IsNotFound\<close>, \<open>meta.SetStatusCondition\<close> and the three finalizer functions of
  \<open>controllerutil\<close>, the latter on the list of finalizers.
\<close>

record 'e Library =
  IsNotFound :: "'e \<Rightarrow> bool"
  SetStatusCondition :: "Condition list \<Rightarrow> Condition \<Rightarrow> Condition list"
  ContainsFinalizer :: "string list \<Rightarrow> string \<Rightarrow> bool"
  AddFinalizer :: "string list \<Rightarrow> string \<Rightarrow> string list"
  RemoveFinalizer :: "string list \<Rightarrow> string \<Rightarrow> string list"

text \<open>
  \<open>FakeGPUConfigReconciler\<close>: its client and namespace, with what the process gives it: the
  library, the environment, the table of printable runes, and the order in which a \<open>range\<close>
  over a map visits it (Go leaves it open; here it may differ from node to node).
\<close>

record ('s, 'e) Reconciler =
  r_Client :: "('s, 'e) Client"
  r_Library :: "'e Library"
  r_Namespace :: string
  r_Env :: environment
  r_IsPrint :: "nat \<Rightarrow> bool"
  r_Range :: "Node \<Rightarrow> gomap \<Rightarrow> (string \<times> string) list"

section \<open>Calls and the world\<close>

datatype call =
    GetCfg string string
  | GetObj kind string string
  | ListObj kind gomap "string option"
  | ListNode gomap
  | ListCfg
  | CreateObj obj
  | UpdateObj obj
  | UpdateNode Node
  | UpdateCfg FakeGPUConfig
  | UpdateStatus FakeGPUConfig
  | DeleteObj kind string string
  | LookupResource string string string

type_synonym event = "call \<times> bool"

record 's World =
  server :: 's
  isOpenShift :: "bool option"
  trace :: "event list"

type_synonym ('s, 'a) prog = "('s World, 'a) state"

definition invoke :: "call \<Rightarrow> ('s \<Rightarrow> ('e + 'a) \<times> 's) \<Rightarrow> ('s, 'e + 'a) prog" where
  "invoke c f = State (\<lambda>w. case f (server w) of
     (res, s') \<Rightarrow> (res, w\<lparr>server := s', trace := trace w @ [(c, \<not> isl res)]\<rparr>))"

lemma run_invoke [run_simps]:
  "run (invoke c f) w =
     (fst (f (server w)),
      w\<lparr>server := snd (f (server w)), trace := trace w @ [(c, \<not> isl (fst (f (server w))))]\<rparr>)"
  by (simp add: invoke_def split: prod.splits)

definition api_get_cfg ::
  "('s, 'e) Reconciler \<Rightarrow> string \<Rightarrow> string \<Rightarrow> ('s, 'e + FakeGPUConfig) prog" where
  "api_get_cfg r ns n = invoke (GetCfg ns n) (c_get_cfg (r_Client r) ns n)"

definition api_get ::
  "('s, 'e) Reconciler \<Rightarrow> kind \<Rightarrow> string \<Rightarrow> string \<Rightarrow> ('s, 'e + ObjectMeta) prog" where
  "api_get r kd ns n = invoke (GetObj kd ns n) (c_get (r_Client r) kd ns n)"

definition api_list ::
  "('s, 'e) Reconciler \<Rightarrow> kind \<Rightarrow> gomap \<Rightarrow> string option \<Rightarrow> ('s, 'e + ObjectMeta list) prog" where
  "api_list r kd sel ns = invoke (ListObj kd sel ns) (c_list (r_Client r) kd sel ns)"

definition api_list_nodes ::
  "('s, 'e) Reconciler \<Rightarrow> gomap \<Rightarrow> ('s, 'e + Node list) prog" where
  "api_list_nodes r sel = invoke (ListNode sel) (c_list_nodes (r_Client r) sel)"

definition api_list_cfgs ::
  "('s, 'e) Reconciler \<Rightarrow> ('s, 'e + FakeGPUConfig list) prog" where
  "api_list_cfgs r = invoke ListCfg (c_list_cfgs (r_Client r))"

definition api_create ::
  "('s, 'e) Reconciler \<Rightarrow> obj \<Rightarrow> ('s, 'e + unit) prog" where
  "api_create r ob = invoke (CreateObj ob) (c_create (r_Client r) ob)"

definition api_update ::
  "('s, 'e) Reconciler \<Rightarrow> obj \<Rightarrow> ('s, 'e + unit) prog" where
  "api_update r ob = invoke (UpdateObj ob) (c_update (r_Client r) ob)"

definition api_update_node ::
  "('s, 'e) Reconciler \<Rightarrow> Node \<Rightarrow> ('s, 'e + unit) prog" where
  "api_update_node r n = invoke (UpdateNode n) (c_update_node (r_Client r) n)"

definition api_update_cfg ::
  "('s, 'e) Reconciler \<Rightarrow> FakeGPUConfig \<Rightarrow> ('s, 'e + FakeGPUConfig) prog" where
  "api_update_cfg r cfg = invoke (UpdateCfg cfg) (c_update_cfg (r_Client r) cfg)"

definition api_update_status ::
  "('s, 'e) Reconciler \<Rightarrow> FakeGPUConfig \<Rightarrow> ('s, 'e + unit) prog" where
  "api_update_status r cfg = invoke (UpdateStatus cfg) (c_update_status (r_Client r) cfg)"

definition api_delete ::
  "('s, 'e) Reconciler \<Rightarrow> kind \<Rightarrow> string \<Rightarrow> string \<Rightarrow> ('s, 'e + unit) prog" where
  "api_delete r kd ns n = invoke (DeleteObj kd ns n) (c_delete (r_Client r) kd ns n)"

definition api_resources_for ::
  "('s, 'e) Reconciler \<Rightarrow> string \<Rightarrow> string \<Rightarrow> string \<Rightarrow> ('s, 'e + unit) prog" where
  "api_resources_for r g v res =
     invoke (LookupResource g v res) (c_resources_for (r_Client r) g v res)"

lemmas api_defs = api_get_cfg_def api_get_def api_list_def api_list_nodes_def api_list_cfgs_def
  api_create_def api_update_def api_update_node_def api_update_cfg_def api_update_status_def
  api_delete_def api_resources_for_def

text \<open>The Go error of a call's answer.\<close>

definition err_of :: "'e + 'a \<Rightarrow> 'e error option" where
  "err_of res = (case res of Inl e \<Rightarrow> Some (ClientError e) | Inr _ \<Rightarrow> None)"

lemma err_of_simps [simp]: "err_of (Inl e) = Some (ClientError e)" "err_of (Inr x) = None"
  by (simp_all add: err_of_def)

section \<open>Which calls a program makes\<close>

text \<open>
  \<open>emits P m\<close>: whatever the server answers, every call the program \<open>m\<close> makes satisfies
  \<open>P\<close>. The rules follow the structure of a program.
\<close>

definition emits :: "(event \<Rightarrow> bool) \<Rightarrow> ('s, 'a) prog \<Rightarrow> bool" where
  "emits P m \<longleftrightarrow> (\<forall>w. \<exists>es. trace (snd (run m w)) = trace w @ es \<and> list_all P es)"

lemma emitsD: "emits P m \<Longrightarrow> run m w = (x, w') \<Longrightarrow> \<exists>es. trace w' = trace w @ es \<and> list_all P es"
  by (metis emits_def snd_conv)

lemma emits_return [emit_rules]: "emits P (State_Monad.return x)"
  by (simp add: emits_def)

lemma emits_bind [emit_rules]:
  assumes "emits P m" and "\<And>x. emits P (f x)"
  shows "emits P (State_Monad.bind m f)"
proof (unfold emits_def, intro allI)
  fix w
  obtain x w1 where m: "run m w = (x, w1)" by (cases "run m w")
  obtain y w2 where f: "run (f x) w1 = (y, w2)" by (cases "run (f x) w1")
  from emitsD [OF assms(1) m] obtain es where "trace w1 = trace w @ es" "list_all P es" by blast
  moreover from emitsD [OF assms(2) f] obtain fs where "trace w2 = trace w1 @ fs" "list_all P fs"
    by blast
  ultimately show "\<exists>es. trace (snd (run (State_Monad.bind m f) w)) = trace w @ es \<and> list_all P es"
    using m f by (intro exI [of _ "es @ fs"]) simp
qed

lemma emits_invoke [emit_rules]:
  assumes "P (c, True)" and "P (c, False)"
  shows "emits P (invoke c f)"
proof (unfold emits_def, intro allI)
  fix w
  from assms have "P (c, b)" for b by (cases b) simp_all
  then show "\<exists>es. trace (snd (run (invoke c f) w)) = trace w @ es \<and> list_all P es"
    by (simp add: run_invoke)
qed

lemma emits_if [emit_rules]: "(b \<Longrightarrow> emits P m) \<Longrightarrow> (\<not> b \<Longrightarrow> emits P n) \<Longrightarrow> emits P (if b then m else n)"
  by simp

lemma emits_sum [emit_rules]:
  "(\<And>a. x = Inl a \<Longrightarrow> emits P (f a)) \<Longrightarrow> (\<And>b. x = Inr b \<Longrightarrow> emits P (g b)) \<Longrightarrow>
   emits P (case x of Inl a \<Rightarrow> f a | Inr b \<Rightarrow> g b)"
  by (cases x) simp_all

lemma emits_option [emit_rules]:
  "(x = None \<Longrightarrow> emits P m) \<Longrightarrow> (\<And>a. x = Some a \<Longrightarrow> emits P (f a)) \<Longrightarrow>
   emits P (case x of None \<Rightarrow> m | Some a \<Rightarrow> f a)"
  by (cases x) simp_all

lemma emits_prod [emit_rules]:
  "(\<And>a b. x = (a, b) \<Longrightarrow> emits P (f a b)) \<Longrightarrow> emits P (case x of (a, b) \<Rightarrow> f a b)"
  by (cases x) simp

lemma emits_fail_fast [emit_rules]:
  "(\<And>m. m \<in> set ms \<Longrightarrow> emits P m) \<Longrightarrow> emits P (fail_fast ms)"
proof (induction ms)
  case Nil
  show ?case by (simp add: fail_fast.simps emits_return)
next
  case (Cons m ms)
  then show ?case
    by (auto simp: fail_fast.simps intro!: emits_bind emits_option emits_return)
qed

lemma emits_for_err [emit_rules]:
  "(\<And>x. x \<in> set xs \<Longrightarrow> emits P (f x)) \<Longrightarrow> emits P (for_err f xs)"
  by (auto simp: for_err_def intro!: emits_fail_fast)

lemma emits_for_each [emit_rules]:
  "(\<And>x. x \<in> set xs \<Longrightarrow> emits P (f x)) \<Longrightarrow> emits P (for_each f xs)"
  by (induction xs) (auto intro!: emits_bind emits_return)

lemma emits_wrap_err [emit_rules]: "emits P m \<Longrightarrow> emits P (wrap_err p m)"
  by (auto simp: wrap_err_def intro!: emits_bind emits_return)

lemma emits_mono: "emits P m \<Longrightarrow> (\<And>e. P e \<Longrightarrow> Q e) \<Longrightarrow> emits Q m"
  unfolding emits_def by (metis list_all_iff)

end
