(* ===== verification/Workloads.thy ===== *)
theory Workloads
  imports Images
begin

text \<open>
  The DaemonSets and Deployments of \<open>internal/resources/daemonset.go\<close> and \<open>deployment.go\<close>,
  one definition per builder, with every field the Go literals set.
\<close>

section \<open>Literals the builders share\<close>

definition env_value :: "string \<Rightarrow> string \<Rightarrow> EnvVar" where
  "env_value n v = \<lparr>env_Name = n, env_Value = v, env_FieldPath = None\<rparr>"

definition env_node_name :: EnvVar where
  "env_node_name = \<lparr>env_Name = ''NODE_NAME'', env_Value = [], env_FieldPath = Some ''spec.nodeName''\<rparr>"

definition host_volume :: "string \<Rightarrow> string \<Rightarrow> HostPathType \<Rightarrow> Volume" where
  "host_volume n p t = \<lparr>vol_Name = n, HostPath = p, HostPath_Type = t\<rparr>"

definition volume_mount :: "string \<Rightarrow> string \<Rightarrow> VolumeMount" where
  "volume_mount n p = \<lparr>mount_Name = n, MountPath = p\<rparr>"

section \<open>DaemonSets\<close>

definition DevicePluginDaemonSet :: "environment \<Rightarrow> FakeGPUConfig \<Rightarrow> string \<Rightarrow> DaemonSet" where
  "DevicePluginDaemonSet env cfg namespace =
    \<lparr>ds_meta = object_meta (''device-plugin-'' @ cfg_name cfg) namespace
                 (commonLabels cfg ''device-plugin''),
     ds_MatchLabels = selectorLabels cfg ''device-plugin'',
     ds_Template =
       \<lparr>tpl_Labels = selectorLabels cfg ''device-plugin'',
        tpl_Spec =
          \<lparr>ServiceAccountName = ''device-plugin-'' @ cfg_name cfg,
           pod_NodeSelector = GoMap [(deployDPLabel, ''true'')],
           Containers =
             [\<lparr>ct_Name = ''nvidia-device-plugin-ctr'',
               Image_ref = imageFor env cfg ''device-plugin'',
               Command = [],
               Ports = [],
               Env = [env_node_name,
                      env_value ''TOPOLOGY_CM_NAMESPACE'' namespace,
                      env_value ''TOPOLOGY_CM_NAME'' ''topology''],
               Privileged = Some True,
               VolumeMounts =
                 [volume_mount ''device-plugin'' ''/var/lib/kubelet/device-plugins'',
                  volume_mount ''runai-bin-directory'' ''/runai/bin'',
                  volume_mount ''runai-shared-directory'' ''/runai/shared'']\<rparr>],
           Volumes =
             [host_volume ''device-plugin'' ''/var/lib/kubelet/device-plugins'' HostPathDirectory,
              host_volume ''runai-bin-directory'' ''/var/lib/runai/bin'' HostPathDirectoryOrCreate,
              host_volume ''runai-shared-directory'' ''/var/lib/runai/shared''
                HostPathDirectoryOrCreate]\<rparr>\<rparr>\<rparr>"

definition MetricsExporterDaemonSet :: "environment \<Rightarrow> FakeGPUConfig \<Rightarrow> string \<Rightarrow> DaemonSet" where
  "MetricsExporterDaemonSet env cfg namespace =
    \<lparr>ds_meta = object_meta (''nvidia-dcgm-exporter-'' @ cfg_name cfg) namespace
                 (commonLabels cfg ''metrics-exporter''),
     ds_MatchLabels = selectorLabels cfg ''metrics-exporter'',
     ds_Template =
       \<lparr>tpl_Labels = selectorLabels cfg ''metrics-exporter'',
        tpl_Spec =
          \<lparr>ServiceAccountName = ''metrics-exporter-'' @ cfg_name cfg,
           pod_NodeSelector = GoMap [(deployDCGMLabel, ''true'')],
           Containers =
             [\<lparr>ct_Name = ''nvidia-dcgm-exporter'',
               Image_ref = imageFor env cfg ''metrics-exporter'',
               Command = [],
               Ports = [\<lparr>cport_Name = ''metrics'', ContainerPort_number = 9400,
                         cport_Protocol = ProtocolTCP\<rparr>],
               Env = [env_node_name,
                      env_value ''TOPOLOGY_CM_NAMESPACE'' namespace,
                      env_value ''TOPOLOGY_CM_NAME'' ''topology''],
               Privileged = None,
               VolumeMounts = []\<rparr>],
           Volumes = []\<rparr>\<rparr>\<rparr>"

definition MIGFakerDaemonSet :: "environment \<Rightarrow> FakeGPUConfig \<Rightarrow> string \<Rightarrow> DaemonSet" where
  "MIGFakerDaemonSet env cfg namespace =
    \<lparr>ds_meta = object_meta (''mig-faker-'' @ cfg_name cfg) namespace
                 (commonLabels cfg ''mig-faker''),
     ds_MatchLabels = selectorLabels cfg ''mig-faker'',
     ds_Template =
       \<lparr>tpl_Labels = selectorLabels cfg ''mig-faker'',
        tpl_Spec =
          \<lparr>ServiceAccountName = ''device-plugin-'' @ cfg_name cfg,
           pod_NodeSelector = GoMap [(migLabel, ''true'')],
           Containers =
             [\<lparr>ct_Name = ''mig-faker'',
               Image_ref = imageFor env cfg ''mig-faker'',
               Command = [],
               Ports = [],
               Env = [env_node_name],
               Privileged = Some True,
               VolumeMounts = []\<rparr>],
           Volumes = []\<rparr>\<rparr>\<rparr>"

definition DRAPluginDaemonSet :: "environment \<Rightarrow> FakeGPUConfig \<Rightarrow> string \<Rightarrow> DaemonSet" where
  "DRAPluginDaemonSet env cfg namespace =
    \<lparr>ds_meta = object_meta (''dra-plugin-'' @ cfg_name cfg) namespace
                 (commonLabels cfg ''dra-plugin''),
     ds_MatchLabels = selectorLabels cfg ''dra-plugin'',
     ds_Template =
       \<lparr>tpl_Labels = selectorLabels cfg ''dra-plugin'',
        tpl_Spec =
          \<lparr>ServiceAccountName = ''device-plugin-'' @ cfg_name cfg,
           pod_NodeSelector = GoMap [(draLabel, ''true'')],
           Containers =
             [\<lparr>ct_Name = ''dra-plugin'',
               Image_ref = imageFor env cfg ''dra-plugin'',
               Command = [''dra-plugin-gpu''],
               Ports = [],
               Env = [env_node_name,
                      env_value ''CDI_ROOT'' ''/var/run/cdi'',
                      env_value ''KUBELET_REGISTRAR_DIRECTORY_PATH'' ''/var/lib/kubelet/plugins_registry'',
                      env_value ''KUBELET_PLUGINS_DIRECTORY_PATH'' ''/var/lib/kubelet/plugins''],
               Privileged = Some True,
               VolumeMounts =
                 [volume_mount ''plugins-registry'' ''/var/lib/kubelet/plugins_registry'',
                  volume_mount ''plugins'' ''/var/lib/kubelet/plugins'',
                  volume_mount ''cdi'' ''/var/run/cdi'']\<rparr>],
           Volumes =
             [host_volume ''plugins-registry'' ''/var/lib/kubelet/plugins_registry''
                HostPathDirectoryOrCreate,
              host_volume ''plugins'' ''/var/lib/kubelet/plugins'' HostPathDirectoryOrCreate,
              host_volume ''cdi'' ''/var/run/cdi'' HostPathDirectoryOrCreate]\<rparr>\<rparr>\<rparr>"

definition ComputeDomainDRADaemonSet :: "environment \<Rightarrow> FakeGPUConfig \<Rightarrow> string \<Rightarrow> DaemonSet" where
  "ComputeDomainDRADaemonSet env cfg namespace =
    \<lparr>ds_meta = object_meta (''compute-domain-dra-'' @ cfg_name cfg) namespace
                 (commonLabels cfg ''compute-domain-dra''),
     ds_MatchLabels = selectorLabels cfg ''compute-domain-dra'',
     ds_Template =
       \<lparr>tpl_Labels = selectorLabels cfg ''compute-domain-dra'',
        tpl_Spec =
          \<lparr>ServiceAccountName = ''device-plugin-'' @ cfg_name cfg,
           pod_NodeSelector = GoMap [(cdLabel, ''true'')],
           Containers =
             [\<lparr>ct_Name = ''compute-domain-dra'',
               Image_ref = imageFor env cfg ''compute-domain-dra'',
               Command = [],
               Ports = [],
               Env = [env_node_name,
                      env_value ''CDI_ROOT'' ''/etc/cdi'',
                      env_value ''KUBELET_REGISTRAR_DIRECTORY_PATH'' ''/var/lib/kubelet/plugins_registry'',
                      env_value ''KUBELET_PLUGINS_DIRECTORY_PATH'' ''/var/lib/kubelet/plugins''],
               Privileged = Some True,
               VolumeMounts =
                 [volume_mount ''plugins-registry'' ''/var/lib/kubelet/plugins_registry'',
                  volume_mount ''plugins'' ''/var/lib/kubelet/plugins'',
                  volume_mount ''cdi'' ''/etc/cdi'']\<rparr>],
           Volumes =
             [host_volume ''plugins-registry'' ''/var/lib/kubelet/plugins_registry''
                HostPathDirectoryOrCreate,
              host_volume ''plugins'' ''/var/lib/kubelet/plugins'' HostPathDirectoryOrCreate,
              host_volume ''cdi'' ''/etc/cdi'' HostPathDirectoryOrCreate]\<rparr>\<rparr>\<rparr>"

section \<open>Deployments\<close>

definition StatusUpdaterDeployment :: "environment \<Rightarrow> FakeGPUConfig \<Rightarrow> string \<Rightarrow> Deployment" where
  "StatusUpdaterDeployment env cfg namespace =
    \<lparr>dep_meta = object_meta (''status-updater-'' @ cfg_name cfg) namespace
                  (commonLabels cfg ''status-updater''),
     Replicas = Some 1,
     dep_MatchLabels = selectorLabels cfg ''status-updater'',
     dep_Template =
       \<lparr>tpl_Labels = selectorLabels cfg ''status-updater'',
        tpl_Spec =
          \<lparr>ServiceAccountName = ''status-updater-'' @ cfg_name cfg,
           pod_NodeSelector = NilMap,
           Containers =
             [\<lparr>ct_Name = ''status-updater'',
               Image_ref = imageFor env cfg ''status-updater'',
               Command = [],
               Ports = [],
               Env = [env_value ''TOPOLOGY_CM_NAMESPACE'' namespace,
                      env_value ''TOPOLOGY_CM_NAME'' ''topology'',
                      env_value ''FAKE_GPU_OPERATOR_NAMESPACE'' namespace,
                      env_value ''RESOURCE_RESERVATION_NAMESPACE'' ''runai-reservation'',
                      env_value ''DISABLE_NODE_LABELING'' ''true'',
                      env_value ''RUNAI_INTEGRATION_ENABLED'' ''false'',
                      env_node_name],
               Privileged = None,
               VolumeMounts = []\<rparr>],
           Volumes = []\<rparr>\<rparr>\<rparr>"

definition ComputeDomainControllerDeployment :: "environment \<Rightarrow> FakeGPUConfig \<Rightarrow> string \<Rightarrow> Deployment" where
  "ComputeDomainControllerDeployment env cfg namespace =
    \<lparr>dep_meta = object_meta (''compute-domain-controller-'' @ cfg_name cfg) namespace
                  (commonLabels cfg ''compute-domain-controller''),
     Replicas = Some 1,
     dep_MatchLabels = selectorLabels cfg ''compute-domain-controller'',
     dep_Template =
       \<lparr>tpl_Labels = selectorLabels cfg ''compute-domain-controller'',
        tpl_Spec =
          \<lparr>ServiceAccountName = ''device-plugin-'' @ cfg_name cfg,
           pod_NodeSelector = NilMap,
           Containers =
             [\<lparr>ct_Name = ''compute-domain-controller'',
               Image_ref = imageFor env cfg ''compute-domain-controller'',
               Command = [],
               Ports = [],
               Env = [env_value ''METRICS_BIND_ADDRESS'' '':8080'',
                      env_value ''HEALTH_PROBE_BIND_ADDRESS'' '':8081'',
                      env_value ''LEADER_ELECT'' ''false''],
               Privileged = None,
               VolumeMounts = []\<rparr>],
           Volumes = []\<rparr>\<rparr>\<rparr>"

definition TopologyServerDeployment :: "environment \<Rightarrow> FakeGPUConfig \<Rightarrow> string \<Rightarrow> Deployment" where
  "TopologyServerDeployment env cfg namespace =
    \<lparr>dep_meta = object_meta (''topology-server-'' @ cfg_name cfg) namespace
                  (commonLabels cfg ''topology-server''),
     Replicas = Some 1,
     dep_MatchLabels = selectorLabels cfg ''topology-server'',
     dep_Template =
       \<lparr>tpl_Labels = selectorLabels cfg ''topology-server'',
        tpl_Spec =
          \<lparr>ServiceAccountName = ''topology-server-'' @ cfg_name cfg,
           pod_NodeSelector = NilMap,
           Containers =
             [\<lparr>ct_Name = ''topology-server'',
               Image_ref = imageFor env cfg ''topology-server'',
               Command = [],
               Ports = [\<lparr>cport_Name = ''http'', ContainerPort_number = 8080,
                         cport_Protocol = ProtocolTCP\<rparr>],
               Env = [env_value ''TOPOLOGY_CM_NAMESPACE'' namespace,
                      env_value ''TOPOLOGY_CM_NAME'' ''topology''],
               Privileged = None,
               VolumeMounts = []\<rparr>],
           Volumes = []\<rparr>\<rparr>\<rparr>"

lemmas [builder_simps] =
  DevicePluginDaemonSet_def MetricsExporterDaemonSet_def MIGFakerDaemonSet_def
  DRAPluginDaemonSet_def ComputeDomainDRADaemonSet_def StatusUpdaterDeployment_def
  ComputeDomainControllerDeployment_def TopologyServerDeployment_def
  env_value_def env_node_name_def host_volume_def volume_mount_def

section \<open>The builders keep the interface\<close>

interpretation dp_ds: workload_builder "\<lambda>cfg ns. ODaemonSet (DevicePluginDaemonSet env cfg ns)" KDaemonSet
    "''device-plugin-''" "''device-plugin''" "\<lambda>ns. ns" "''device-plugin''"
    "\<lambda>cfg ns. ds_Template (DevicePluginDaemonSet env cfg ns)" for env
  by unfold_locales
    (simp_all add: builder_simps GetName_def GetNamespace_def plain_def mounts_have_volumes_def)

interpretation me_ds: workload_builder "\<lambda>cfg ns. ODaemonSet (MetricsExporterDaemonSet env cfg ns)" KDaemonSet
    "''nvidia-dcgm-exporter-''" "''metrics-exporter''" "\<lambda>ns. ns" "''metrics-exporter''"
    "\<lambda>cfg ns. ds_Template (MetricsExporterDaemonSet env cfg ns)" for env
  by unfold_locales
    (simp_all add: builder_simps GetName_def GetNamespace_def plain_def mounts_have_volumes_def)

interpretation mig_ds: workload_builder "\<lambda>cfg ns. ODaemonSet (MIGFakerDaemonSet env cfg ns)" KDaemonSet
    "''mig-faker-''" "''mig-faker''" "\<lambda>ns. ns" "''device-plugin''"
    "\<lambda>cfg ns. ds_Template (MIGFakerDaemonSet env cfg ns)" for env
  by unfold_locales
    (simp_all add: builder_simps GetName_def GetNamespace_def plain_def mounts_have_volumes_def)

interpretation dra_ds: workload_builder "\<lambda>cfg ns. ODaemonSet (DRAPluginDaemonSet env cfg ns)" KDaemonSet
    "''dra-plugin-''" "''dra-plugin''" "\<lambda>ns. ns" "''device-plugin''"
    "\<lambda>cfg ns. ds_Template (DRAPluginDaemonSet env cfg ns)" for env
  by unfold_locales
    (simp_all add: builder_simps GetName_def GetNamespace_def plain_def mounts_have_volumes_def)

interpretation cd_ds: workload_builder "\<lambda>cfg ns. ODaemonSet (ComputeDomainDRADaemonSet env cfg ns)" KDaemonSet
    "''compute-domain-dra-''" "''compute-domain-dra''" "\<lambda>ns. ns" "''device-plugin''"
    "\<lambda>cfg ns. ds_Template (ComputeDomainDRADaemonSet env cfg ns)" for env
  by unfold_locales
    (simp_all add: builder_simps GetName_def GetNamespace_def plain_def mounts_have_volumes_def)

interpretation su_dep: workload_builder "\<lambda>cfg ns. ODeployment (StatusUpdaterDeployment env cfg ns)" KDeployment
    "''status-updater-''" "''status-updater''" "\<lambda>ns. ns" "''status-updater''"
    "\<lambda>cfg ns. dep_Template (StatusUpdaterDeployment env cfg ns)" for env
  by unfold_locales
    (simp_all add: builder_simps GetName_def GetNamespace_def plain_def mounts_have_volumes_def)

interpretation cd_dep: workload_builder "\<lambda>cfg ns. ODeployment (ComputeDomainControllerDeployment env cfg ns)" KDeployment
    "''compute-domain-controller-''" "''compute-domain-controller''" "\<lambda>ns. ns" "''device-plugin''"
    "\<lambda>cfg ns. dep_Template (ComputeDomainControllerDeployment env cfg ns)" for env
  by unfold_locales
    (simp_all add: builder_simps GetName_def GetNamespace_def plain_def mounts_have_volumes_def)

interpretation ts_dep: workload_builder "\<lambda>cfg ns. ODeployment (TopologyServerDeployment env cfg ns)" KDeployment
    "''topology-server-''" "''topology-server''" "\<lambda>ns. ns" "''topology-server''"
    "\<lambda>cfg ns. dep_Template (TopologyServerDeployment env cfg ns)" for env
  by unfold_locales
    (simp_all add: builder_simps GetName_def GetNamespace_def plain_def mounts_have_volumes_def)

end
