(* ===== verification/Services_Rbac.thy ===== *)
theory Services_Rbac
  imports Objects
begin

text \<open>
  The services of \<open>internal/resources/service.go\<close>, the accounts, roles and bindings of
  \<open>rbac.go\<close> and the runtime class of \<open>runtimeclass.go\<close>.
\<close>

section \<open>Services\<close>

definition MetricsExporterService :: "FakeGPUConfig \<Rightarrow> string \<Rightarrow> Service" where
  "MetricsExporterService cfg namespace =
    \<lparr>svc_meta = (object_meta (''nvidia-dcgm-exporter-'' @ cfg_name cfg) namespace
                   (commonLabels cfg ''metrics-exporter''))
                  \<lparr>Annotations := GoMap [(''prometheus.io/scrape'', ''true'')]\<rparr>,
     Selector = selectorLabels cfg ''metrics-exporter'',
     svc_Type = ServiceTypeClusterIP,
     svc_Ports = [\<lparr>sport_Name = ''gpu-metrics'', Port = 9400, TargetPort = 9400,
                   sport_Protocol = ProtocolTCP\<rparr>]\<rparr>"

definition TopologyServerService :: "FakeGPUConfig \<Rightarrow> string \<Rightarrow> Service" where
  "TopologyServerService cfg namespace =
    \<lparr>svc_meta = object_meta (''topology-server-'' @ cfg_name cfg) namespace
                  (commonLabels cfg ''topology-server''),
     Selector = selectorLabels cfg ''topology-server'',
     svc_Type = ServiceTypeClusterIP,
     svc_Ports = [\<lparr>sport_Name = ''http'', Port = 80, TargetPort = 8080,
                   sport_Protocol = ProtocolTCP\<rparr>]\<rparr>"

section \<open>Accounts, roles and bindings\<close>

definition ServiceAccount :: "FakeGPUConfig \<Rightarrow> string \<Rightarrow> string \<Rightarrow> ServiceAccount" where
  "ServiceAccount cfg component namespace =
    \<lparr>sa_meta = object_meta (component @ ''-'' @ cfg_name cfg) namespace (commonLabels cfg component)\<rparr>"

definition core_rule :: "string \<Rightarrow> string list \<Rightarrow> PolicyRule" where
  "core_rule res verbs =
    \<lparr>APIGroups = [[]], Resources = [res], ResourceNames = [], Verbs = verbs\<rparr>"

definition DevicePluginClusterRole :: "FakeGPUConfig \<Rightarrow> ClusterRole" where
  "DevicePluginClusterRole cfg =
    \<lparr>role_meta = object_meta (''fake-gpu-device-plugin-'' @ cfg_name cfg) []
                   (commonLabels cfg ''device-plugin''),
     Rules = [core_rule ''nodes'' [''get'', ''list'', ''watch'', ''patch'', ''update''],
              core_rule ''configmaps'' [''get'', ''list'', ''watch''],
              core_rule ''pods'' [''get'', ''list'', ''watch'']]\<rparr>"

definition StatusUpdaterClusterRole :: "FakeGPUConfig \<Rightarrow> ClusterRole" where
  "StatusUpdaterClusterRole cfg =
    \<lparr>role_meta = object_meta (''fake-gpu-status-updater-'' @ cfg_name cfg) []
                   (commonLabels cfg ''status-updater''),
     Rules = [core_rule ''nodes'' [''get'', ''list'', ''watch'', ''patch'', ''update''],
              core_rule ''configmaps''
                [''get'', ''list'', ''watch'', ''create'', ''update'', ''patch'', ''delete''],
              core_rule ''pods'' [''get'', ''list'', ''watch'', ''patch'']]\<rparr>"

definition MetricsExporterClusterRole :: "FakeGPUConfig \<Rightarrow> ClusterRole" where
  "MetricsExporterClusterRole cfg =
    \<lparr>role_meta = object_meta (''fake-gpu-metrics-exporter-'' @ cfg_name cfg) []
                   (commonLabels cfg ''metrics-exporter''),
     Rules = [core_rule ''nodes'' [''get'', ''list'', ''watch''],
              core_rule ''configmaps'' [''get'', ''list'', ''watch''],
              core_rule ''pods'' [''get'', ''list'', ''watch'']]\<rparr>"

definition SCCClusterRole :: "FakeGPUConfig \<Rightarrow> ClusterRole" where
  "SCCClusterRole cfg =
    \<lparr>role_meta = object_meta (''fake-gpu-scc-'' @ cfg_name cfg) [] (commonLabels cfg ''scc''),
     Rules = [\<lparr>APIGroups = [''security.openshift.io''],
               Resources = [''securitycontextconstraints''],
               ResourceNames = [''privileged''],
               Verbs = [''use'']\<rparr>]\<rparr>"

definition sa_subject :: "string \<Rightarrow> string \<Rightarrow> Subject" where
  "sa_subject n namespace =
    \<lparr>subj_Kind = ''ServiceAccount'', subj_Name = n, subj_Namespace = namespace\<rparr>"

definition SCCClusterRoleBinding :: "FakeGPUConfig \<Rightarrow> string \<Rightarrow> ClusterRoleBinding" where
  "SCCClusterRoleBinding cfg namespace =
    \<lparr>binding_meta = object_meta (''fake-gpu-scc-'' @ cfg_name cfg) [] (commonLabels cfg ''scc''),
     Subjects = map (\<lambda>comp. sa_subject (comp @ ''-'' @ cfg_name cfg) namespace)
                  [''device-plugin'', ''metrics-exporter'', ''status-updater''],
     binding_RoleRef = \<lparr>ref_APIGroup = ''rbac.authorization.k8s.io'', ref_Kind = ''ClusterRole'',
                        ref_Name = ''fake-gpu-scc-'' @ cfg_name cfg\<rparr>\<rparr>"

definition ClusterRoleBinding :: "FakeGPUConfig \<Rightarrow> string \<Rightarrow> string \<Rightarrow> ClusterRole \<Rightarrow> ClusterRoleBinding" where
  "ClusterRoleBinding cfg component namespace clusterRole =
    \<lparr>binding_meta = object_meta (Name (role_meta clusterRole)) [] (commonLabels cfg component),
     Subjects = [sa_subject (component @ ''-'' @ cfg_name cfg) namespace],
     binding_RoleRef = \<lparr>ref_APIGroup = ''rbac.authorization.k8s.io'', ref_Kind = ''ClusterRole'',
                        ref_Name = Name (role_meta clusterRole)\<rparr>\<rparr>"

section \<open>Runtime class\<close>

definition NvidiaRuntimeClass :: "FakeGPUConfig \<Rightarrow> RuntimeClass" where
  "NvidiaRuntimeClass cfg =
    \<lparr>rc_meta = object_meta ''nvidia'' [] (commonLabels cfg ''runtime''), Handler = ''nvidia''\<rparr>"

lemmas [builder_simps] =
  MetricsExporterService_def TopologyServerService_def ServiceAccount_def core_rule_def
  DevicePluginClusterRole_def StatusUpdaterClusterRole_def MetricsExporterClusterRole_def
  SCCClusterRole_def sa_subject_def SCCClusterRoleBinding_def ClusterRoleBinding_def
  NvidiaRuntimeClass_def

section \<open>The builders keep the interface\<close>

interpretation account: builder "\<lambda>cfg ns. OServiceAccount (ServiceAccount cfg comp ns)"
    KServiceAccount "comp @ ''-''" comp "\<lambda>ns. ns" for comp
  by unfold_locales (simp_all add: builder_simps GetName_def GetNamespace_def plain_def)

interpretation me_svc: builder "\<lambda>cfg ns. OService (MetricsExporterService cfg ns)"
    KService "''nvidia-dcgm-exporter-''" "''metrics-exporter''" "\<lambda>ns. ns"
  by unfold_locales (simp_all add: builder_simps GetName_def GetNamespace_def plain_def)

interpretation ts_svc: builder "\<lambda>cfg ns. OService (TopologyServerService cfg ns)"
    KService "''topology-server-''" "''topology-server''" "\<lambda>ns. ns"
  by unfold_locales (simp_all add: builder_simps GetName_def GetNamespace_def plain_def)

interpretation dp_role: builder "\<lambda>cfg ns. OClusterRole (DevicePluginClusterRole cfg)"
    KClusterRole "''fake-gpu-device-plugin-''" "''device-plugin''" "\<lambda>_. []"
  by unfold_locales (simp_all add: builder_simps GetName_def GetNamespace_def plain_def)

interpretation su_role: builder "\<lambda>cfg ns. OClusterRole (StatusUpdaterClusterRole cfg)"
    KClusterRole "''fake-gpu-status-updater-''" "''status-updater''" "\<lambda>_. []"
  by unfold_locales (simp_all add: builder_simps GetName_def GetNamespace_def plain_def)

interpretation me_role: builder "\<lambda>cfg ns. OClusterRole (MetricsExporterClusterRole cfg)"
    KClusterRole "''fake-gpu-metrics-exporter-''" "''metrics-exporter''" "\<lambda>_. []"
  by unfold_locales (simp_all add: builder_simps GetName_def GetNamespace_def plain_def)

interpretation scc_role: builder "\<lambda>cfg ns. OClusterRole (SCCClusterRole cfg)"
    KClusterRole "''fake-gpu-scc-''" "''scc''" "\<lambda>_. []"
  by unfold_locales (simp_all add: builder_simps GetName_def GetNamespace_def plain_def)

interpretation dp_binding: builder "\<lambda>cfg ns. OClusterRoleBinding (ClusterRoleBinding cfg ''device-plugin'' ns (DevicePluginClusterRole cfg))"
    KClusterRoleBinding "''fake-gpu-device-plugin-''" "''device-plugin''" "\<lambda>_. []"
  by unfold_locales (simp_all add: builder_simps GetName_def GetNamespace_def plain_def)

interpretation su_binding: builder "\<lambda>cfg ns. OClusterRoleBinding (ClusterRoleBinding cfg ''status-updater'' ns (StatusUpdaterClusterRole cfg))"
    KClusterRoleBinding "''fake-gpu-status-updater-''" "''status-updater''" "\<lambda>_. []"
  by unfold_locales (simp_all add: builder_simps GetName_def GetNamespace_def plain_def)

interpretation me_binding: builder "\<lambda>cfg ns. OClusterRoleBinding (ClusterRoleBinding cfg ''metrics-exporter'' ns (MetricsExporterClusterRole cfg))"
    KClusterRoleBinding "''fake-gpu-metrics-exporter-''" "''metrics-exporter''" "\<lambda>_. []"
  by unfold_locales (simp_all add: builder_simps GetName_def GetNamespace_def plain_def)

interpretation scc_binding: builder "\<lambda>cfg ns. OClusterRoleBinding (SCCClusterRoleBinding cfg ns)"
    KClusterRoleBinding "''fake-gpu-scc-''" "''scc''" "\<lambda>_. []"
  by unfold_locales (simp_all add: builder_simps GetName_def GetNamespace_def plain_def)

section \<open>What the operator itself is allowed\<close>

text \<open>
  The \<open>kubebuilder:rbac\<close> markers above \<open>Reconcile\<close>, one rule for each, from which the
  operator's own role (\<open>config/rbac/role.yaml\<close>) is generated.
\<close>

definition rbac_marker :: "string \<Rightarrow> string list \<Rightarrow> string list \<Rightarrow> PolicyRule" where
  "rbac_marker grp res verbs =
    \<lparr>APIGroups = [grp], Resources = res, ResourceNames = [], Verbs = verbs\<rparr>"

definition all_verbs :: "string list" where
  "all_verbs = [''get'', ''list'', ''watch'', ''create'', ''update'', ''patch'', ''delete'']"

definition manager_rules :: "PolicyRule list" where
  "manager_rules =
    [rbac_marker ''gpu.openshift.io'' [''fakegpuconfigs''] all_verbs,
     rbac_marker ''gpu.openshift.io'' [''fakegpuconfigs/status''] [''get'', ''update'', ''patch''],
     rbac_marker ''gpu.openshift.io'' [''fakegpuconfigs/finalizers''] [''update''],
     rbac_marker [] [''nodes''] [''get'', ''list'', ''watch'', ''patch'', ''update''],
     rbac_marker [] [''configmaps''] all_verbs,
     rbac_marker [] [''serviceaccounts''] all_verbs,
     rbac_marker [] [''pods''] [''get'', ''list'', ''watch''],
     rbac_marker [] [''secrets''] [''list''],
     rbac_marker [] [''services''] all_verbs,
     rbac_marker ''apps'' [''daemonsets''] all_verbs,
     rbac_marker ''apps'' [''deployments''] all_verbs,
     rbac_marker ''rbac.authorization.k8s.io'' [''clusterroles'', ''clusterrolebindings''] all_verbs,
     rbac_marker ''node.k8s.io'' [''runtimeclasses''] all_verbs,
     \<lparr>APIGroups = [''security.openshift.io''], Resources = [''securitycontextconstraints''],
      ResourceNames = [''privileged''], Verbs = [''use'']\<rparr>]"

text \<open>
  What a role grants, permission by permission (an empty list of resource names stands for all
  names), and whether the held rules allow it: Kubernetes lets a subject without the \<open>escalate\<close>
  verb create or update a role only if it holds every permission of the role.
\<close>

definition grants :: "PolicyRule \<Rightarrow> (string \<times> string \<times> string) list" where
  "grants rule = concat (map (\<lambda>g. concat (map (\<lambda>res. map (\<lambda>v. (g, res, v)) (Verbs rule))
     (Resources rule))) (APIGroups rule))"

definition allows :: "PolicyRule \<Rightarrow> string list \<Rightarrow> string \<times> string \<times> string \<Rightarrow> bool" where
  "allows held names perm = (case perm of (g, res, v) \<Rightarrow>
     g \<in> set (APIGroups held) \<and> res \<in> set (Resources held) \<and> v \<in> set (Verbs held)
     \<and> (ResourceNames held = [] \<or> names \<noteq> [] \<and> set names \<subseteq> set (ResourceNames held)))"

definition escalations :: "PolicyRule list \<Rightarrow> ClusterRole \<Rightarrow> (string \<times> string \<times> string) list" where
  "escalations held role = concat (map (\<lambda>rule.
     filter (\<lambda>perm. \<not> list_ex (\<lambda>h. allows h (ResourceNames rule) perm) held) (grants rule)) (Rules role))"

lemmas escalation_defs = escalations_def grants_def allows_def manager_rules_def rbac_marker_def
  all_verbs_def

end
