(* ===== verification/Profiles.thy ===== *)
theory Profiles
  imports Api_Types
begin

text \<open>
  \<open>internal/profiles/profiles.go\<close>: the built-in GPU profiles and their lookup, and the lemmas
  that show the table covers what the schema admits and is consistent with itself.
\<close>

record MIGFamily =
  fam_Name :: string
  fam_Memory :: string
  MaxCount :: int32

record GPUProfile =
  prof_Name :: string
  Product :: string
  Memory :: int32
  Architecture :: string
  MIGCapable :: bool
  MIGFamilies :: "MIGFamily list"

definition family :: "string \<Rightarrow> string \<Rightarrow> int32 \<Rightarrow> MIGFamily" where
  "family n m c = \<lparr>fam_Name = n, fam_Memory = m, MaxCount = c\<rparr>"

definition ProfileTable :: "(string \<times> GPUProfile) list" where
  "ProfileTable =
    [(''a100'',
      \<lparr>prof_Name = ''a100'', Product = ''NVIDIA-A100-SXM4-40GB'', Memory = 40960,
       Architecture = ''Ampere'', MIGCapable = True,
       MIGFamilies =
         [family ''1g.5gb'' ''5gb'' 7, family ''1g.10gb'' ''10gb'' 4,
          family ''2g.10gb'' ''10gb'' 3, family ''3g.20gb'' ''20gb'' 2,
          family ''4g.20gb'' ''20gb'' 1, family ''7g.40gb'' ''40gb'' 1]\<rparr>),
     (''h100'',
      \<lparr>prof_Name = ''h100'', Product = ''NVIDIA-H100-80GB-HBM3'', Memory = 81920,
       Architecture = ''Hopper'', MIGCapable = True,
       MIGFamilies =
         [family ''1g.10gb'' ''10gb'' 7, family ''1g.20gb'' ''20gb'' 4,
          family ''2g.20gb'' ''20gb'' 3, family ''3g.40gb'' ''40gb'' 2,
          family ''4g.40gb'' ''40gb'' 1, family ''7g.80gb'' ''80gb'' 1]\<rparr>),
     (''h200'',
      \<lparr>prof_Name = ''h200'', Product = ''NVIDIA-H200'', Memory = 143771,
       Architecture = ''Hopper'', MIGCapable = True,
       MIGFamilies =
         [family ''1g.18gb'' ''18gb'' 7, family ''2g.35gb'' ''35gb'' 3,
          family ''3g.71gb'' ''71gb'' 2]\<rparr>),
     (''b200'',
      \<lparr>prof_Name = ''b200'', Product = ''NVIDIA-B200'', Memory = 196608,
       Architecture = ''Blackwell'', MIGCapable = True,
       MIGFamilies =
         [family ''1g.24gb'' ''24gb'' 7, family ''2g.48gb'' ''48gb'' 3,
          family ''3g.96gb'' ''96gb'' 2]\<rparr>),
     (''gb200'',
      \<lparr>prof_Name = ''gb200'', Product = ''NVIDIA-GB200-NVL'', Memory = 196608,
       Architecture = ''Blackwell'', MIGCapable = True,
       MIGFamilies =
         [family ''1g.24gb'' ''24gb'' 7, family ''2g.48gb'' ''48gb'' 3,
          family ''3g.96gb'' ''96gb'' 2]\<rparr>),
     (''l40s'',
      \<lparr>prof_Name = ''l40s'', Product = ''NVIDIA-L40S'', Memory = 49152,
       Architecture = ''Ada Lovelace'', MIGCapable = False, MIGFamilies = []\<rparr>),
     (''t4'',
      \<lparr>prof_Name = ''t4'', Product = ''Tesla-T4'', Memory = 16384,
       Architecture = ''Turing'', MIGCapable = False, MIGFamilies = []\<rparr>)]"

text \<open>The package variable \<open>Profiles\<close> and its lookup \<open>Get\<close> (\<open>None\<close> when not ok).\<close>

definition profiles_Get :: "string \<Rightarrow> GPUProfile option" where
  "profiles_Get name = map_of ProfileTable name"

lemma ProfileTable_keys: "map fst ProfileTable = profile_enum"
  by (simp add: ProfileTable_def profile_enum_def)

lemma distinct_profile_enum: "distinct profile_enum"
  by (simp add: profile_enum_def)

lemma profiles_Get_Some_iff: "(\<exists>p. profiles_Get n = Some p) \<longleftrightarrow> n \<in> set profile_enum"
  using ProfileTable_keys
  by (metis list.set_map map_of_eq_None_iff not_None_eq profiles_Get_def)

lemma profiles_Get_in_table: "profiles_Get n = Some p \<Longrightarrow> (n, p) \<in> set ProfileTable"
  by (simp add: profiles_Get_def map_of_SomeD)

text \<open>
  What every row keeps: its key is its name; the GPU slices of a family (the digit before
  \<open>g\<close>) times its count fit in the seven slices of a GPU; the memory after the dot is the
  family's memory; and the family list is empty exactly for a profile without MIG.
\<close>

definition family_slices :: "MIGFamily \<Rightarrow> nat" where
  "family_slices f = (case fam_Name f of [] \<Rightarrow> 0 | c # _ \<Rightarrow> of_char c - 48)"

definition family_ok :: "MIGFamily \<Rightarrow> bool" where
  "family_ok f \<longleftrightarrow>
     drop 3 (fam_Name f) = fam_Memory f
     \<and> 1 \<le> family_slices f
     \<and> 1 \<le> sint (MaxCount f)
     \<and> int (family_slices f) * sint (MaxCount f) \<le> 7"

definition profile_ok :: "string \<times> GPUProfile \<Rightarrow> bool" where
  "profile_ok row = (case row of (k, p) \<Rightarrow>
     prof_Name p = k \<and> Product p \<noteq> [] \<and> Architecture p \<noteq> []
     \<and> 0 < sint (Memory p)
     \<and> (MIGCapable p \<longleftrightarrow> MIGFamilies p \<noteq> [])
     \<and> list_all family_ok (MIGFamilies p))"

lemma ProfileTable_ok: "list_all profile_ok ProfileTable"
  by (simp add: ProfileTable_def profile_ok_def family_ok_def family_slices_def family_def)

end
