(* ===== verification/ConfigMaps.thy ===== *)
theory ConfigMaps
  imports Objects Profiles Go_Strings
begin

text \<open>
  \<open>internal/resources/configmap.go\<close>: the topology, GPU profile and node topology ConfigMaps,
  with the YAML text they carry rendered byte by byte. The lemmas show how many GPUs the node
  topology lists, that their ids are distinct, and that the profile's byte count is exact.
\<close>

section \<open>Values the templates are filled with\<close>

definition migStrategy :: "FakeGPUConfig \<Rightarrow> string" where
  "migStrategy cfg =
     (case MIG (Spec cfg) of
        Some m \<Rightarrow> (if Enabled m then Strategy m else ''none'')
      | None \<Rightarrow> ''none'')"

definition gpuProduct :: "FakeGPUConfig \<Rightarrow> GPUProfile \<Rightarrow> string" where
  "gpuProduct cfg profile =
     (case Custom (Spec cfg) of Some c \<Rightarrow> GPUProduct c | None \<Rightarrow> Product profile)"

definition gpuMemory :: "FakeGPUConfig \<Rightarrow> GPUProfile \<Rightarrow> int32" where
  "gpuMemory cfg profile =
     (case Custom (Spec cfg) of Some c \<Rightarrow> GPUMemory c | None \<Rightarrow> Memory profile)"

text \<open>\<open>%d\<close> of an \<open>int32\<close> or an \<open>int64\<close>.\<close>

definition show_word :: "'a::len word \<Rightarrow> string" where
  "show_word w = show_int (sint w)"

section \<open>The operator-wide topology\<close>

definition topology_text :: "FakeGPUConfig \<Rightarrow> GPUProfile \<Rightarrow> string" where
  "topology_text cfg profile =
     lines_text
       [''migStrategy: '' @ migStrategy cfg,
        ''nodePoolLabelKey: run.ai/simulated-gpu-node-pool'',
        ''nodePools:'',
        ''  '' @ cfg_name cfg @ '':'',
        ''    gpuCount: '' @ show_word (GPUCount (Spec cfg)),
        ''    gpuMemory: '' @ show_word (gpuMemory cfg profile),
        ''    gpuProduct: '' @ gpuProduct cfg profile]"

definition TopologyConfigMap :: "FakeGPUConfig \<Rightarrow> GPUProfile \<Rightarrow> string \<Rightarrow> ConfigMap" where
  "TopologyConfigMap cfg profile namespace =
    \<lparr>cm_meta = object_meta ''topology'' namespace (commonLabels cfg ''topology''),
     Data = GoMap [(''topology.yml'', topology_text cfg profile)]\<rparr>"

section \<open>The GPU profile\<close>

text \<open>\<open>int64(profile.Memory)*1024*1024\<close>: sign extension, then wrapping multiplication.\<close>

definition total_bytes :: "GPUProfile \<Rightarrow> int64" where
  "total_bytes profile = (signed (Memory profile) :: int64) * 1024 * 1024"

definition profile_text :: "(nat \<Rightarrow> bool) \<Rightarrow> GPUProfile \<Rightarrow> string" where
  "profile_text is_print profile =
     lines_text
       [''device_count: 8'',
        ''device_defaults:'',
        ''  name: '' @ quote is_print (Product profile),
        ''  architecture: '' @ quote is_print (Architecture profile),
        ''  memory:'',
        ''    total_bytes: '' @ show_word (total_bytes profile)]"

definition gpuProfileLabels :: "FakeGPUConfig \<Rightarrow> gomap" where
  "gpuProfileLabels cfg = go_put (commonLabels cfg ''gpu-profile'') keyGpuProfile ''true''"

definition GPUProfileConfigMap ::
  "(nat \<Rightarrow> bool) \<Rightarrow> FakeGPUConfig \<Rightarrow> GPUProfile \<Rightarrow> string \<Rightarrow> ConfigMap" where
  "GPUProfileConfigMap is_print cfg profile namespace =
    \<lparr>cm_meta = object_meta (''gpu-profile-'' @ prof_Name profile) namespace (gpuProfileLabels cfg),
     Data = GoMap [(''profile.yaml'', profile_text is_print profile)]\<rparr>"

section \<open>The topology of one node\<close>

definition gpu_id :: "string \<Rightarrow> int32 \<Rightarrow> string" where
  "gpu_id nodeName i = ''GPU-'' @ nodeName @ ''-'' @ show_word i"

definition gpu_entry :: "string \<Rightarrow> int32 \<Rightarrow> string" where
  "gpu_entry nodeName i =
     lines_text
       [''    - id: '' @ gpu_id nodeName i,
        ''      status:'',
        ''        allocatedBy:'',
        ''          namespace: '' @ [CHR 0x22, CHR 0x22],
        ''          pod: '' @ [CHR 0x22, CHR 0x22],
        ''          container: '' @ [CHR 0x22, CHR 0x22],
        ''        podGpuUsageStatus: {}'']"

text \<open>
  \<open>for i := int32(0); i < count; i++\<close> with signed comparison; the counter cannot wrap, since it
  stays below the count.
\<close>

lemma sint_plus_1: "i <s (n :: int32) \<Longrightarrow> sint (i + 1) = sint i + 1"
proof -
  assume "i <s n"
  then have lt: "sint i < sint n" by (simp add: word_sless_alt)
  have le: "sint n \<le> 2 ^ 31 - 1" using sint_lt [of n] by simp
  have ge: "- (2 ^ 31) \<le> sint i" using sint_ge [of i] by simp
  have "sint (i + 1) = signed_take_bit 31 (sint i + 1)"
    using sint_word_ariths(1) [of i 1] by simp
  also have "\<dots> = sint i + 1"
    using lt le ge by (intro signed_take_bit_int_eq_self) simp_all
  finally show ?thesis .
qed

function gpu_entries_from :: "string \<Rightarrow> int32 \<Rightarrow> int32 \<Rightarrow> string list" where
  "gpu_entries_from nodeName i count =
     (if i <s count then gpu_entry nodeName i # gpu_entries_from nodeName (i + 1) count else [])"
  by pat_completeness auto
termination
  by (relation "measure (\<lambda>(_, i, count). nat (sint count - sint i))")
     (auto simp: sint_plus_1 word_sless_alt)

declare gpu_entries_from.simps [simp del]

definition gpuEntries :: "string \<Rightarrow> FakeGPUConfig \<Rightarrow> string list" where
  "gpuEntries nodeName cfg = gpu_entries_from nodeName 0 (GPUCount (Spec cfg))"

definition node_topology_text :: "string \<Rightarrow> FakeGPUConfig \<Rightarrow> GPUProfile \<Rightarrow> string" where
  "node_topology_text nodeName cfg profile =
     lines_text
       [''gpuMemory: '' @ show_word (gpuMemory cfg profile),
        ''gpuProduct: '' @ gpuProduct cfg profile,
        ''gpus:'',
        join (gpuEntries nodeName cfg) nl,
        ''migStrategy: '' @ migStrategy cfg]"

definition NodeTopologyConfigMap ::
  "string \<Rightarrow> FakeGPUConfig \<Rightarrow> GPUProfile \<Rightarrow> string \<Rightarrow> ConfigMap" where
  "NodeTopologyConfigMap nodeName cfg profile namespace =
    \<lparr>cm_meta = object_meta (''topology-'' @ nodeName) namespace
                 (GoMap [(keyNodeTopology, ''true''), (keyNodeName, nodeName)]),
     Data = GoMap [(''topology.yml'', node_topology_text nodeName cfg profile)]\<rparr>"

lemmas [builder_simps] =
  TopologyConfigMap_def GPUProfileConfigMap_def NodeTopologyConfigMap_def

section \<open>Lemmas\<close>

lemma gpu_entries_from_eq:
  "0 \<le> sint i \<Longrightarrow>
   gpu_entries_from nodeName i count =
     map (\<lambda>j. gpu_entry nodeName (word_of_int j)) [sint i..sint count - 1]"
proof (induction nodeName i count rule: gpu_entries_from.induct)
  case (1 nodeName i count)
  show ?case
  proof (cases "i <s count")
    case True
    then have lt: "sint i < sint count" by (simp add: word_sless_alt)
    have "gpu_entries_from nodeName (i + 1) count =
        map (\<lambda>j. gpu_entry nodeName (word_of_int j)) [sint i + 1..sint count - 1]"
      using "1.IH" [OF True] "1.prems" sint_plus_1 [OF True] by simp
    moreover have "[sint i..sint count - 1] = sint i # [sint i + 1..sint count - 1]"
      using lt by (simp add: upto_rec1)
    ultimately show ?thesis
      using True by (simp add: gpu_entries_from.simps [of nodeName i count])
  next
    case False
    then have "[sint i..sint count - 1] = []" by (simp add: word_sless_alt)
    with False show ?thesis by (simp add: gpu_entries_from.simps [of nodeName i count])
  qed
qed

lemma gpuEntries_eq:
  "gpuEntries nodeName cfg =
     map (\<lambda>j. gpu_entry nodeName (word_of_int j)) [0..sint (GPUCount (Spec cfg)) - 1]"
  by (simp add: gpuEntries_def gpu_entries_from_eq)

lemma gpu_id_inject: "gpu_id n i = gpu_id n j \<Longrightarrow> i = j"
  by (simp add: gpu_id_def show_word_def signed_word_eqI)

lemma sint_scast_int32: "sint (scast (m :: int32) :: int64) = sint m"
  by (simp add: sint_up_scast is_up)

lemma sint_total_bytes: "sint (total_bytes p) = sint (Memory p) * 1048576"
proof -
  have ge: "- (2 ^ 31) \<le> sint (Memory p)" and lt: "sint (Memory p) < 2 ^ 31"
    using sint_ge [of "Memory p"] sint_lt [of "Memory p"] by simp_all
  have "sint (total_bytes p) = signed_take_bit 63 (sint (Memory p) * 1048576)"
    using sint_word_ariths(3) [of "scast (Memory p) :: int64" 1048576]
    by (simp add: total_bytes_def sint_scast_int32 mult.commute)
  also have "\<dots> = sint (Memory p) * 1048576"
    using ge lt by (intro signed_take_bit_int_eq_self) simp_all
  finally show ?thesis .
qed

lemma gpuProfileLabels_eq:
  "gpuProfileLabels cfg =
     GoMap (entries (commonLabels cfg ''gpu-profile'') @ [(keyGpuProfile, ''true'')])"
  by (simp add: gpuProfileLabels_def commonLabels_def)

lemma gpuProfileLabels_lookup:
  "go_lookup (gpuProfileLabels cfg) k =
     (if k = keyGpuProfile then Some ''true'' else go_lookup (commonLabels cfg ''gpu-profile'') k)"
  by (simp add: gpuProfileLabels_def commonLabels_def go_lookup_def)

end
