(* ===== verification/Controller.thy ===== *)
theory Controller
  imports Api_Client Workloads Services_Rbac ConfigMaps
begin

text \<open>
  \<open>internal/controller/fakegpuconfig_controller.go\<close>: the reconciler, one definition per
  method, as programs over the API calls of \<open>Api_Client\<close>. Logging is left out. The Go
  receiver \<open>r\<close> is the argument \<open>r\<close>; its one mutable field, the cached answer of
  \<open>detectOpenShift\<close>, is in the world.
\<close>

record ctrl_Result =
  Requeue :: bool
  RequeueAfter :: int

text \<open>\<open>ctrl.Result{}\<close>\<close>

definition ctrl_Result0 :: ctrl_Result where
  "ctrl_Result0 = \<lparr>Requeue = False, RequeueAfter = 0\<rparr>"

type_synonym 'e outcome = "ctrl_Result \<times> 'e error option"

section \<open>Creating or updating one object\<close>

definition createOrUpdate ::
  "('s, 'e) Reconciler \<Rightarrow> obj \<Rightarrow> FakeGPUConfig \<Rightarrow> ('s, 'e error option) prog" where
  "createOrUpdate r ob owner =
     do {
       existing \<leftarrow> api_get r (obj_kind ob) (GetNamespace ob) (GetName ob);
       (case existing of
          Inl e \<Rightarrow>
            if IsNotFound (r_Library r) e
            then do { res \<leftarrow> api_create r ob; State_Monad.return (err_of res) }
            else State_Monad.return (Some (ClientError e))
        | Inr m \<Rightarrow>
            do {
              res \<leftarrow> api_update r (SetResourceVersion (ResourceVersion m) ob);
              State_Monad.return (err_of res)
            })
     }"

definition createOrUpdateClusterScoped ::
  "('s, 'e) Reconciler \<Rightarrow> obj \<Rightarrow> ('s, 'e error option) prog" where
  "createOrUpdateClusterScoped r ob =
     do {
       existing \<leftarrow> api_get r (obj_kind ob) [] (GetName ob);
       (case existing of
          Inl e \<Rightarrow>
            if IsNotFound (r_Library r) e
            then do { res \<leftarrow> api_create r ob; State_Monad.return (err_of res) }
            else State_Monad.return (Some (ClientError e))
        | Inr m \<Rightarrow>
            do {
              res \<leftarrow> api_update r (SetResourceVersion (ResourceVersion m) ob);
              State_Monad.return (err_of res)
            })
     }"

section \<open>Detection\<close>

definition detectOpenShift :: "('s, 'e) Reconciler \<Rightarrow> ('s, bool) prog" where
  "detectOpenShift r =
     do {
       cached \<leftarrow> State (\<lambda>w. (isOpenShift w, w));
       (case cached of
          Some b \<Rightarrow> State_Monad.return b
        | None \<Rightarrow>
            do {
              res \<leftarrow> api_resources_for r ''security.openshift.io'' ''v1''
                       ''securitycontextconstraints'';
              let result = \<not> isl res;
              _ \<leftarrow> State (\<lambda>w. ((), w\<lparr>isOpenShift := Some result\<rparr>));
              State_Monad.return result
            })
     }"

text \<open>The first ConfigMap named \<open>topology\<close> of a list, by its namespace.\<close>

fun find_topology :: "ObjectMeta list \<Rightarrow> bool \<times> string" where
  "find_topology [] = (False, [])"
| "find_topology (m # ms) =
     (if Name m = ''topology'' then (True, Namespace m) else find_topology ms)"

definition detectHelmConflict :: "('s, 'e) Reconciler \<Rightarrow> ('s, bool \<times> string) prog" where
  "detectHelmConflict r =
     do {
       secrets \<leftarrow> api_list r KSecret (GoMap [(''owner'', ''helm''), (''name'', ''gpu-operator'')]) None;
       (case secrets of
          Inl _ \<Rightarrow> State_Monad.return (False, [])
        | Inr (s # _) \<Rightarrow> State_Monad.return (True, Namespace s)
        | Inr [] \<Rightarrow>
            do {
              cms \<leftarrow> api_list r KConfigMap (GoMap [(keyManagedBy, ''Helm'')]) None;
              State_Monad.return
                (case cms of Inl _ \<Rightarrow> (False, []) | Inr items \<Rightarrow> find_topology items)
            })
     }"

definition customProfile :: "CustomGPUSpec \<Rightarrow> GPUProfile" where
  "customProfile c =
     \<lparr>prof_Name = ''custom'', Product = GPUProduct c, Memory = GPUMemory c,
      Architecture = [], MIGCapable = False, MIGFamilies = []\<rparr>"

definition resolveProfile :: "FakeGPUConfig \<Rightarrow> string + GPUProfile" where
  "resolveProfile cfg =
     (case Custom (Spec cfg) of
        Some c \<Rightarrow> Inr (customProfile c)
      | None \<Rightarrow>
          if spec_GPUProfile (Spec cfg) = []
          then Inl ''either gpuProfile or custom must be specified''
          else (case profiles_Get (spec_GPUProfile (Spec cfg)) of
                  None \<Rightarrow> Inl (''unknown GPU profile: '' @ spec_GPUProfile (Spec cfg))
                | Some p \<Rightarrow> Inr p))"

section \<open>The reconcile steps\<close>

definition reconcileRBAC ::
  "('s, 'e) Reconciler \<Rightarrow> FakeGPUConfig \<Rightarrow> ('s, 'e error option) prog" where
  "reconcileRBAC r cfg =
     fail_fast
       [for_err (\<lambda>comp. createOrUpdate r (OServiceAccount (ServiceAccount cfg comp (r_Namespace r))) cfg)
          [''device-plugin'', ''status-updater'', ''metrics-exporter'', ''topology-server''],
        createOrUpdateClusterScoped r (OClusterRole (DevicePluginClusterRole cfg)),
        createOrUpdateClusterScoped r (OClusterRoleBinding
          (ClusterRoleBinding cfg ''device-plugin'' (r_Namespace r) (DevicePluginClusterRole cfg))),
        createOrUpdateClusterScoped r (OClusterRole (StatusUpdaterClusterRole cfg)),
        createOrUpdateClusterScoped r (OClusterRoleBinding
          (ClusterRoleBinding cfg ''status-updater'' (r_Namespace r) (StatusUpdaterClusterRole cfg))),
        createOrUpdateClusterScoped r (OClusterRole (MetricsExporterClusterRole cfg)),
        createOrUpdateClusterScoped r (OClusterRoleBinding
          (ClusterRoleBinding cfg ''metrics-exporter'' (r_Namespace r)
             (MetricsExporterClusterRole cfg))),
        do {
          openshift \<leftarrow> detectOpenShift r;
          (if openshift
           then fail_fast
             [createOrUpdateClusterScoped r (OClusterRole (SCCClusterRole cfg)),
              createOrUpdateClusterScoped r (OClusterRoleBinding
                (SCCClusterRoleBinding cfg (r_Namespace r)))]
           else State_Monad.return None)
        }]"

definition reconcileTopologyConfigMap ::
  "('s, 'e) Reconciler \<Rightarrow> FakeGPUConfig \<Rightarrow> GPUProfile \<Rightarrow> ('s, 'e error option) prog" where
  "reconcileTopologyConfigMap r cfg profile =
     createOrUpdate r (OConfigMap (TopologyConfigMap cfg profile (r_Namespace r))) cfg"

definition reconcileGPUProfileConfigMap ::
  "('s, 'e) Reconciler \<Rightarrow> FakeGPUConfig \<Rightarrow> GPUProfile \<Rightarrow> ('s, 'e error option) prog" where
  "reconcileGPUProfileConfigMap r cfg profile =
     createOrUpdate r
       (OConfigMap (GPUProfileConfigMap (r_IsPrint r) cfg profile (r_Namespace r))) cfg"

definition reconcileDevicePlugin ::
  "('s, 'e) Reconciler \<Rightarrow> FakeGPUConfig \<Rightarrow> ('s, 'e error option) prog" where
  "reconcileDevicePlugin r cfg =
     createOrUpdate r (ODaemonSet (DevicePluginDaemonSet (r_Env r) cfg (r_Namespace r))) cfg"

definition reconcileStatusUpdater ::
  "('s, 'e) Reconciler \<Rightarrow> FakeGPUConfig \<Rightarrow> ('s, 'e error option) prog" where
  "reconcileStatusUpdater r cfg =
     createOrUpdate r (ODeployment (StatusUpdaterDeployment (r_Env r) cfg (r_Namespace r))) cfg"

definition reconcileMetricsExporter ::
  "('s, 'e) Reconciler \<Rightarrow> FakeGPUConfig \<Rightarrow> ('s, 'e error option) prog" where
  "reconcileMetricsExporter r cfg =
     createOrUpdate r (ODaemonSet (MetricsExporterDaemonSet (r_Env r) cfg (r_Namespace r))) cfg"

definition reconcileTopologyServer ::
  "('s, 'e) Reconciler \<Rightarrow> FakeGPUConfig \<Rightarrow> ('s, 'e error option) prog" where
  "reconcileTopologyServer r cfg =
     createOrUpdate r (ODeployment (TopologyServerDeployment (r_Env r) cfg (r_Namespace r))) cfg"

definition reconcileServices ::
  "('s, 'e) Reconciler \<Rightarrow> FakeGPUConfig \<Rightarrow> ('s, 'e error option) prog" where
  "reconcileServices r cfg =
     fail_fast
       [createOrUpdate r (OService (MetricsExporterService cfg (r_Namespace r))) cfg,
        createOrUpdate r (OService (TopologyServerService cfg (r_Namespace r))) cfg]"

definition reconcileMIGFaker ::
  "('s, 'e) Reconciler \<Rightarrow> FakeGPUConfig \<Rightarrow> ('s, 'e error option) prog" where
  "reconcileMIGFaker r cfg =
     createOrUpdate r (ODaemonSet (MIGFakerDaemonSet (r_Env r) cfg (r_Namespace r))) cfg"

definition reconcileDRAPlugin ::
  "('s, 'e) Reconciler \<Rightarrow> FakeGPUConfig \<Rightarrow> ('s, 'e error option) prog" where
  "reconcileDRAPlugin r cfg =
     createOrUpdate r (ODaemonSet (DRAPluginDaemonSet (r_Env r) cfg (r_Namespace r))) cfg"

definition reconcileComputeDomainController ::
  "('s, 'e) Reconciler \<Rightarrow> FakeGPUConfig \<Rightarrow> ('s, 'e error option) prog" where
  "reconcileComputeDomainController r cfg =
     createOrUpdate r
       (ODeployment (ComputeDomainControllerDeployment (r_Env r) cfg (r_Namespace r))) cfg"

definition reconcileComputeDomainDRA ::
  "('s, 'e) Reconciler \<Rightarrow> FakeGPUConfig \<Rightarrow> ('s, 'e error option) prog" where
  "reconcileComputeDomainDRA r cfg =
     createOrUpdate r (ODaemonSet (ComputeDomainDRADaemonSet (r_Env r) cfg (r_Namespace r))) cfg"

definition reconcileRuntimeClass ::
  "('s, 'e) Reconciler \<Rightarrow> FakeGPUConfig \<Rightarrow> ('s, 'e error option) prog" where
  "reconcileRuntimeClass r cfg =
     createOrUpdateClusterScoped r (ORuntimeClass (NvidiaRuntimeClass cfg))"

section \<open>Node labels\<close>

definition nodeListOption :: "FakeGPUConfig \<Rightarrow> gomap" where
  "nodeListOption cfg =
     (if 0 < go_len (NodeSelector (Spec cfg)) then NodeSelector (Spec cfg)
      else GoMap [(nodePoolLabel, cfg_name cfg)])"

text \<open>The map \<open>labels\<close> that \<open>reconcileNodeLabels\<close> allocates for each node.\<close>

definition wantedLabels :: "FakeGPUConfig \<Rightarrow> gomap" where
  "wantedLabels cfg =
     (let labels0 = GoMap [(nodePoolLabel, cfg_name cfg),
                           (deployDPLabel, ''true''),
                           (deployDCGMLabel, ''true'')];
          labels1 = (if mig_enabled cfg then go_put labels0 migLabel ''true'' else labels0);
          labels2 = (if off_by_default DRA cfg then go_put labels1 draLabel ''true'' else labels1)
      in if off_by_default ComputeDomainController cfg then go_put labels2 cdLabel ''true''
         else labels2)"

text \<open>
  \<open>for k, v := range labels\<close> over a node's labels: the labels, \<open>needsUpdate\<close>, and \<open>None\<close>
  for the panic of an assignment to a nil map.
\<close>

fun label_loop :: "gomap \<Rightarrow> bool \<Rightarrow> (string \<times> string) list \<Rightarrow> (gomap \<times> bool) option" where
  "label_loop ls needsUpdate [] = Some (ls, needsUpdate)"
| "label_loop ls needsUpdate ((k, v) # kvs) =
     (if go_index ls k \<noteq> v
      then (case go_assign (if ls = NilMap then GoMap [] else ls) k v of
              None \<Rightarrow> None
            | Some ls' \<Rightarrow> label_loop ls' True kvs)
      else label_loop ls needsUpdate kvs)"

definition with_labels :: "gomap \<Rightarrow> Node \<Rightarrow> Node" where
  "with_labels ls node = node\<lparr>node_meta := (node_meta node)\<lparr>Labels := ls\<rparr>\<rparr>"

definition labelNode ::
  "('s, 'e) Reconciler \<Rightarrow> FakeGPUConfig \<Rightarrow> Node \<Rightarrow> ('s, 'e error option) prog" where
  "labelNode r cfg node =
     (case label_loop (node_labels node) False (r_Range r node (wantedLabels cfg)) of
        None \<Rightarrow> State_Monad.return (Some (Panicked ''assignment to entry in nil map''))
      | Some (ls, needsUpdate) \<Rightarrow>
          if needsUpdate
          then do {
            res \<leftarrow> api_update_node r (with_labels ls node);
            State_Monad.return
              (map_option (Wrapped (''labeling node '' @ node_name node)) (err_of res))
          }
          else State_Monad.return None)"

definition reconcileNodeLabels ::
  "('s, 'e) Reconciler \<Rightarrow> FakeGPUConfig \<Rightarrow> ('s, 'e error option) prog" where
  "reconcileNodeLabels r cfg =
     do {
       res \<leftarrow> api_list_nodes r (nodeListOption cfg);
       (case res of
          Inl e \<Rightarrow> State_Monad.return (Some (ClientError e))
        | Inr items \<Rightarrow> for_err (labelNode r cfg) items)
     }"

definition reconcileNodeTopologyConfigMaps ::
  "('s, 'e) Reconciler \<Rightarrow> FakeGPUConfig \<Rightarrow> GPUProfile \<Rightarrow> ('s, 'e error option) prog" where
  "reconcileNodeTopologyConfigMaps r cfg profile =
     do {
       res \<leftarrow> api_list_nodes r (GoMap [(nodePoolLabel, cfg_name cfg)]);
       (case res of
          Inl e \<Rightarrow> State_Monad.return (Some (ClientError e))
        | Inr items \<Rightarrow>
            for_err (\<lambda>node. createOrUpdate r
              (OConfigMap (NodeTopologyConfigMap (node_name node) cfg profile (r_Namespace r))) cfg)
              items)
     }"

section \<open>Status\<close>

text \<open>\<open>for _, node := range nodeList.Items { if ... { readyNodes++ } }\<close>\<close>

fun count_ready :: "int32 \<Rightarrow> Node list \<Rightarrow> int32" where
  "count_ready n [] = n"
| "count_ready n (node # nodes) =
     count_ready (if go_index (node_labels node) deployDPLabel = ''true'' then n + 1 else n) nodes"

definition set_condition ::
  "('s, 'e) Reconciler \<Rightarrow> string \<Rightarrow> string \<Rightarrow> string \<Rightarrow> FakeGPUConfig \<Rightarrow> FakeGPUConfig" where
  "set_condition r st reason msg cfg =
     cfg\<lparr>Status := (Status cfg)\<lparr>Conditions :=
       SetStatusCondition (r_Library r) (Conditions (Status cfg))
         \<lparr>cond_Type = ''Available'', cond_Status = st, cond_Reason = reason,
          cond_Message = msg\<rparr>\<rparr>\<rparr>"

definition status_for ::
  "('s, 'e) Reconciler \<Rightarrow> FakeGPUConfig \<Rightarrow> GPUProfile \<Rightarrow> Node list \<Rightarrow> FakeGPUConfig" where
  "status_for r cfg profile nodes =
     (let readyNodes = count_ready 0 nodes in
      set_condition r ''True'' ''Reconciled''
        (''Fake GPU resources deployed for '' @ show_word readyNodes @ '' nodes'')
        (cfg\<lparr>Status := (Status cfg)
           \<lparr>TotalNodes := word_of_int (int (length nodes)),
            ReadyNodes := readyNodes,
            status_GPUProfile := prof_Name profile,
            GPUCountPerNode := GPUCount (Spec cfg)\<rparr>\<rparr>))"

definition updateStatus ::
  "('s, 'e) Reconciler \<Rightarrow> FakeGPUConfig \<Rightarrow> GPUProfile \<Rightarrow> ('s, 'e outcome) prog" where
  "updateStatus r cfg profile =
     do {
       res \<leftarrow> api_list_nodes r (nodeListOption cfg);
       (case res of
          Inl e \<Rightarrow> State_Monad.return (ctrl_Result0, Some (ClientError e))
        | Inr items \<Rightarrow>
            do {
              st \<leftarrow> api_update_status r (status_for r cfg profile items);
              State_Monad.return (ctrl_Result0, err_of st)
            })
     }"

section \<open>Deletion\<close>

text \<open>
  \<open>if err := r.List(...); err == nil { for ... { r.Delete(...) } }\<close>: a failed listing is
  skipped and a failed deletion only logged.
\<close>

definition deleteListed ::
  "('s, 'e) Reconciler \<Rightarrow> kind \<Rightarrow> gomap \<Rightarrow> ('s, unit) prog" where
  "deleteListed r kd sel =
     do {
       res \<leftarrow> api_list r kd sel (Some (r_Namespace r));
       (case res of
          Inl _ \<Rightarrow> State_Monad.return ()
        | Inr items \<Rightarrow>
            for_each (\<lambda>m. do { _ \<leftarrow> api_delete r kd (Namespace m) (Name m); State_Monad.return () })
              items)
     }"

definition strip_node_labels :: "gomap \<Rightarrow> gomap" where
  "strip_node_labels ls =
     go_delete (go_delete (go_delete (go_delete (go_delete (go_delete ls
       nodePoolLabel) deployDPLabel) deployDCGMLabel) migLabel) draLabel) cdLabel"

definition unlabelNode :: "('s, 'e) Reconciler \<Rightarrow> Node \<Rightarrow> ('s, unit) prog" where
  "unlabelNode r node =
     do {
       _ \<leftarrow> api_update_node r (with_labels (strip_node_labels (node_labels node)) node);
       State_Monad.return ()
     }"

definition clusterScopedResources :: "FakeGPUConfig \<Rightarrow> bool \<Rightarrow> (kind \<times> string) list" where
  "clusterScopedResources cfg openshift =
     [(KClusterRole, ''fake-gpu-device-plugin-'' @ cfg_name cfg),
      (KClusterRoleBinding, ''fake-gpu-device-plugin-'' @ cfg_name cfg),
      (KClusterRole, ''fake-gpu-status-updater-'' @ cfg_name cfg),
      (KClusterRoleBinding, ''fake-gpu-status-updater-'' @ cfg_name cfg),
      (KClusterRole, ''fake-gpu-metrics-exporter-'' @ cfg_name cfg),
      (KClusterRoleBinding, ''fake-gpu-metrics-exporter-'' @ cfg_name cfg),
      (KRuntimeClass, ''nvidia'')]
     @ (if openshift
        then [(KClusterRole, ''fake-gpu-scc-'' @ cfg_name cfg),
              (KClusterRoleBinding, ''fake-gpu-scc-'' @ cfg_name cfg)]
        else [])"

definition with_finalizers :: "string list \<Rightarrow> FakeGPUConfig \<Rightarrow> FakeGPUConfig" where
  "with_finalizers fs cfg = cfg\<lparr>cfg_meta := (cfg_meta cfg)\<lparr>Finalizers := fs\<rparr>\<rparr>"

definition handleDeletion :: "('s, 'e) Reconciler \<Rightarrow> FakeGPUConfig \<Rightarrow> ('s, 'e outcome) prog" where
  "handleDeletion r cfg =
     (let instanceLabels = GoMap [(keyInstance, cfg_name cfg)] in
      do {
        _ \<leftarrow> deleteListed r KDaemonSet instanceLabels;
        _ \<leftarrow> deleteListed r KDeployment instanceLabels;
        _ \<leftarrow> deleteListed r KService instanceLabels;
        _ \<leftarrow> deleteListed r KServiceAccount instanceLabels;
        _ \<leftarrow> deleteListed r KConfigMap instanceLabels;
        _ \<leftarrow> deleteListed r KConfigMap (GoMap [(keyNodeTopology, ''true'')]);
        res \<leftarrow> api_list_nodes r (GoMap [(nodePoolLabel, cfg_name cfg)]);
        (case res of
           Inl e \<Rightarrow> State_Monad.return (ctrl_Result0, Some (ClientError e))
         | Inr items \<Rightarrow>
             do {
               _ \<leftarrow> for_each (unlabelNode r) items;
               openshift \<leftarrow> detectOpenShift r;
               _ \<leftarrow> for_each (\<lambda>(kd, n). do { _ \<leftarrow> api_delete r kd [] n; State_Monad.return () })
                      (clusterScopedResources cfg openshift);
               upd \<leftarrow> api_update_cfg r (with_finalizers
                        (RemoveFinalizer (r_Library r) (Finalizers (cfg_meta cfg)) finalizerName) cfg);
               State_Monad.return (ctrl_Result0, err_of upd)
             })
      })"

section \<open>Reconcile\<close>

text \<open>The steps between the profile and the status, each wrapped with its prefix.\<close>

definition reconcileSteps ::
  "('s, 'e) Reconciler \<Rightarrow> FakeGPUConfig \<Rightarrow> GPUProfile \<Rightarrow> ('s, 'e error option) prog list" where
  "reconcileSteps r cfg profile =
     [wrap_err ''reconciling RBAC'' (reconcileRBAC r cfg),
      wrap_err ''reconciling topology ConfigMap'' (reconcileTopologyConfigMap r cfg profile),
      wrap_err ''reconciling GPU profile ConfigMap'' (reconcileGPUProfileConfigMap r cfg profile),
      wrap_err ''reconciling device plugin'' (reconcileDevicePlugin r cfg)]
     @ (if on_by_default StatusUpdater cfg
        then [wrap_err ''reconciling status updater'' (reconcileStatusUpdater r cfg)] else [])
     @ (if on_by_default MetricsExporter cfg
        then [wrap_err ''reconciling metrics exporter'' (reconcileMetricsExporter r cfg)] else [])
     @ (if on_by_default TopologyServer cfg
        then [wrap_err ''reconciling topology server'' (reconcileTopologyServer r cfg)] else [])
     @ [wrap_err ''reconciling services'' (reconcileServices r cfg)]
     @ (if mig_enabled cfg
        then [wrap_err ''reconciling MIG faker'' (reconcileMIGFaker r cfg)] else [])
     @ (if off_by_default DRA cfg
        then [wrap_err ''reconciling DRA plugin'' (reconcileDRAPlugin r cfg)] else [])
     @ (if off_by_default ComputeDomainController cfg
        then [wrap_err ''reconciling compute domain controller''
                (reconcileComputeDomainController r cfg),
              wrap_err ''reconciling compute domain DRA'' (reconcileComputeDomainDRA r cfg)]
        else [])
     @ [wrap_err ''reconciling RuntimeClass'' (reconcileRuntimeClass r cfg),
        wrap_err ''reconciling node labels'' (reconcileNodeLabels r cfg),
        wrap_err ''reconciling node topology ConfigMaps''
          (reconcileNodeTopologyConfigMaps r cfg profile)]"

definition helm_message :: "string \<Rightarrow> string" where
  "helm_message ns =
     ''Helm-installed fake-gpu-operator detected in namespace '' @ ns
     @ ''. Uninstall it with 'helm uninstall gpu-operator -n '' @ ns
     @ ''' before using this operator.''"

text \<open>The part of \<open>Reconcile\<close> after the finalizer is in place.\<close>

definition reconcileLive :: "('s, 'e) Reconciler \<Rightarrow> FakeGPUConfig \<Rightarrow> ('s, 'e outcome) prog" where
  "reconcileLive r cfg =
     do {
       helm \<leftarrow> detectHelmConflict r;
       (case helm of
          (True, ns) \<Rightarrow>
            do {
              _ \<leftarrow> api_update_status r (set_condition r ''False'' ''HelmConflict''
                     (helm_message ns) cfg);
              State_Monad.return (ctrl_Result0, None)
            }
        | (False, _) \<Rightarrow>
            (case resolveProfile cfg of
               Inl msg \<Rightarrow>
                 do {
                   _ \<leftarrow> api_update_status r
                          (set_condition r ''False'' ''InvalidProfile'' msg cfg);
                   State_Monad.return (ctrl_Result0, Some (Errorf msg))
                 }
             | Inr profile \<Rightarrow>
                 do {
                   err \<leftarrow> fail_fast (reconcileSteps r cfg profile);
                   (case err of
                      Some e \<Rightarrow> State_Monad.return (ctrl_Result0, Some e)
                    | None \<Rightarrow> updateStatus r cfg profile)
                 }))
     }"

definition ensureFinalizer ::
  "('s, 'e) Reconciler \<Rightarrow> FakeGPUConfig \<Rightarrow> ('s, 'e + FakeGPUConfig) prog" where
  "ensureFinalizer r cfg =
     (if \<not> ContainsFinalizer (r_Library r) (Finalizers (cfg_meta cfg)) finalizerName
      then api_update_cfg r (with_finalizers
             (AddFinalizer (r_Library r) (Finalizers (cfg_meta cfg)) finalizerName) cfg)
      else State_Monad.return (Inr cfg))"

definition Reconcile ::
  "('s, 'e) Reconciler \<Rightarrow> string \<Rightarrow> string \<Rightarrow> ('s, 'e outcome) prog" where
  "Reconcile r ns n =
     do {
       res \<leftarrow> api_get_cfg r ns n;
       (case res of
          Inl e \<Rightarrow>
            if IsNotFound (r_Library r) e then State_Monad.return (ctrl_Result0, None)
            else State_Monad.return (ctrl_Result0, Some (ClientError e))
        | Inr cfg \<Rightarrow>
            if \<not> IsZero (DeletionTimestamp (cfg_meta cfg)) then handleDeletion r cfg
            else do {
              upd \<leftarrow> ensureFinalizer r cfg;
              (case upd of
                 Inl e \<Rightarrow> State_Monad.return (ctrl_Result0, Some (ClientError e))
               | Inr cfg' \<Rightarrow> reconcileLive r cfg')
            })
     }"

section \<open>Watching nodes\<close>

text \<open>The loop over the selector in \<open>nodeMatchesCfg\<close>.\<close>

fun selector_loop :: "Node \<Rightarrow> (string \<times> string) list \<Rightarrow> bool" where
  "selector_loop node [] = True"
| "selector_loop node ((k, v) # kvs) =
     (if go_index (node_labels node) k \<noteq> v then False else selector_loop node kvs)"

definition nodeMatchesCfg :: "Node \<Rightarrow> FakeGPUConfig \<Rightarrow> bool" where
  "nodeMatchesCfg node cfg =
     (if 0 < go_len (NodeSelector (Spec cfg))
      then selector_loop node (entries (NodeSelector (Spec cfg)))
      else go_index (node_labels node) nodePoolLabel = cfg_name cfg)"

text \<open>The requests (by name; their namespace is empty) that a change of a node triggers.\<close>

definition nodeToFakeGPUConfig :: "('s, 'e) Reconciler \<Rightarrow> Node \<Rightarrow> ('s, string list) prog" where
  "nodeToFakeGPUConfig r node =
     do {
       res \<leftarrow> api_list_cfgs r;
       State_Monad.return
         (case res of
            Inl _ \<Rightarrow> []
          | Inr items \<Rightarrow> map cfg_name (filter (nodeMatchesCfg node) items))
     }"

end
