(* ===== verification/Store.thy ===== *)
theory Store
  imports Api_Client
begin

text \<open>
  Two views of the API server. The abstract store maps a key to the object under it without
  its resource version; \<open>put\<close> is what a successful write does to it. The locales
  \<open>object_store\<close>, \<open>node_store\<close> and \<open>api_server\<close> are the documented behaviour of a server
  that is reachable, admits the operator's requests and is not changed by anyone else during a
  run: what a read returns, when a write is accepted (optimistic concurrency by resource
  version) and what it leaves unchanged. A read sees the writes before it, which idealises the
  cached reads of the manager's client. They are hypotheses of the convergence lemmas and of
  nothing else.
\<close>

section \<open>Writing objects to an abstract store\<close>

type_synonym store = "key \<Rightarrow> obj option"

text \<open>An object without its resource version, which is the server's to choose.\<close>

definition strip :: "obj \<Rightarrow> obj" where
  "strip ob = SetResourceVersion [] ob"

definition put :: "obj \<Rightarrow> store \<Rightarrow> store" where
  "put ob V = V(obj_key ob \<mapsto> strip ob)"

definition put_all :: "obj list \<Rightarrow> store \<Rightarrow> store" where
  "put_all obs V = fold put obs V"

lemma strip_key [simp]: "obj_key (strip ob) = obj_key ob"
  by (simp add: strip_def)

lemma strip_strip [simp]: "strip (strip ob) = strip ob"
  by (simp add: strip_def)

lemma strip_SetResourceVersion [simp]: "strip (SetResourceVersion rv ob) = strip ob"
  by (simp add: strip_def)

lemma put_all_Nil [simp]: "put_all [] V = V"
  by (simp add: put_all_def)

lemma put_all_Cons [simp]: "put_all (ob # obs) V = put_all obs (put ob V)"
  by (simp add: put_all_def)

lemma put_all_append [simp]: "put_all (obs @ obs') V = put_all obs' (put_all obs V)"
  by (simp add: put_all_def)

text \<open>Keys that are not written are untouched; a written key holds what was written.\<close>

lemma put_all_other: "k \<notin> obj_key ` set obs \<Longrightarrow> put_all obs V k = V k"
  by (induction obs arbitrary: V) (auto simp: put_def)

lemma put_all_in:
  "distinct (map obj_key obs) \<Longrightarrow> ob \<in> set obs \<Longrightarrow> put_all obs V (obj_key ob) = Some (strip ob)"
  by (induction obs arbitrary: V) (auto simp: put_all_other put_def)

text \<open>Writing the same objects again changes nothing.\<close>

lemma put_all_put_all:
  assumes "distinct (map obj_key obs)"
  shows "put_all obs (put_all obs V) = put_all obs V"
proof
  fix k
  show "put_all obs (put_all obs V) k = put_all obs V k"
  proof (cases "k \<in> obj_key ` set obs")
    case True
    then obtain ob where "ob \<in> set obs" "k = obj_key ob" by blast
    with assms show ?thesis by (simp add: put_all_in)
  next
    case False
    then show ?thesis by (simp add: put_all_other)
  qed
qed

section \<open>Writing the same objects in another order\<close>

lemma put_all_cases:
  assumes "distinct (map obj_key obs)"
  shows "put_all obs V k = (if k \<in> obj_key ` set obs
     then Some (strip (THE ob. ob \<in> set obs \<and> obj_key ob = k)) else V k)"
proof (cases "k \<in> obj_key ` set obs")
  case True
  then obtain ob where ob: "ob \<in> set obs" "k = obj_key ob" by blast
  with assms have "(THE ob. ob \<in> set obs \<and> obj_key ob = k) = ob"
    by (intro the_equality) (auto simp: distinct_map dest: inj_onD)
  with assms ob True show ?thesis by (simp add: put_all_in)
qed (simp add: put_all_other)

lemma put_all_set_eq:
  "distinct (map obj_key obs) \<Longrightarrow> distinct (map obj_key obs') \<Longrightarrow> set obs = set obs' \<Longrightarrow>
   put_all obs V = put_all obs' V"
  by (rule ext) (simp add: put_all_cases)

lemma put_all_again:
  assumes "distinct (map obj_key obs)" and "distinct (map obj_key obs')" and "set obs = set obs'"
  shows "put_all obs' (put_all obs V) = put_all obs V"
  using put_all_set_eq [OF assms] put_all_put_all [OF assms(1)] by metis

section \<open>What the API server promises\<close>

definition strip_node :: "Node \<Rightarrow> Node" where
  "strip_node n = n\<lparr>node_meta := (node_meta n)\<lparr>ResourceVersion := []\<rparr>\<rparr>"

definition with_cfg_rv :: "string \<Rightarrow> FakeGPUConfig \<Rightarrow> FakeGPUConfig" where
  "with_cfg_rv rv cfg = cfg\<lparr>cfg_meta := (cfg_meta cfg)\<lparr>ResourceVersion := rv\<rparr>\<rparr>"

text \<open>What an update of a configuration, sent by the operator, makes of the stored one.\<close>

definition updated_cfg :: "string \<Rightarrow> FakeGPUConfig \<Rightarrow> FakeGPUConfig \<Rightarrow> FakeGPUConfig" where
  "updated_cfg rv old cfg =
     with_cfg_rv rv (cfg\<lparr>Spec := wire_spec (Spec cfg), Status := Status old\<rparr>)"

lemma updated_cfg_sel [simp]:
  "cfg_name (updated_cfg rv old cfg) = cfg_name cfg"
  "Spec (updated_cfg rv old cfg) = wire_spec (Spec cfg)"
  "Status (updated_cfg rv old cfg) = Status old"
  "Finalizers (cfg_meta (updated_cfg rv old cfg)) = Finalizers (cfg_meta cfg)"
  "DeletionTimestamp (cfg_meta (updated_cfg rv old cfg)) = DeletionTimestamp (cfg_meta cfg)"
  by (simp_all add: updated_cfg_def with_cfg_rv_def)

definition selects :: "kind \<Rightarrow> gomap \<Rightarrow> string option \<Rightarrow> obj \<Rightarrow> bool" where
  "selects kd sel nso ob \<longleftrightarrow>
     obj_kind ob = kd \<and> labels_match sel (Labels (obj_meta ob))
     \<and> (case nso of None \<Rightarrow> True | Some ns \<Rightarrow> GetNamespace ob = ns)"

text \<open>
  Objects. \<open>inv\<close> is the server's own invariant; \<open>objs\<close>, \<open>nodes\<close>, \<open>cfgs\<close> and \<open>scc\<close> read
  what it stores and whether it serves OpenShift's security context constraints.
\<close>

locale object_store =
  fixes c :: "('s, 'e) Client"
    and l :: "'e Library"
    and inv :: "'s \<Rightarrow> bool"
    and objs :: "'s \<Rightarrow> key \<Rightarrow> obj option"
    and nodes :: "'s \<Rightarrow> string \<Rightarrow> Node option"
    and cfgs :: "'s \<Rightarrow> string \<Rightarrow> FakeGPUConfig option"
    and scc :: "'s \<Rightarrow> bool"
  assumes objs_key: "inv s \<Longrightarrow> objs s k = Some ob \<Longrightarrow> obj_key ob = k \<and> plain ob"
    and get_some: "inv s \<Longrightarrow> objs s (kd, ns, n) = Some ob \<Longrightarrow> c_get c kd ns n s = (Inr (obj_meta ob), s)"
    and get_none: "inv s \<Longrightarrow> objs s (kd, ns, n) = None \<Longrightarrow>
      \<exists>e. c_get c kd ns n s = (Inl e, s) \<and> IsNotFound l e"
    and list_objs: "inv s \<Longrightarrow>
      \<exists>ms. c_list c kd sel nso s = (Inr ms, s)
           \<and> set ms = {obj_meta ob |ob k. objs s k = Some ob \<and> selects kd sel nso ob}"
    and create: "inv s \<Longrightarrow> plain ob \<Longrightarrow> objs s (obj_key ob) = None \<Longrightarrow>
      \<exists>s' ob'. c_create c ob s = (Inr (), s') \<and> inv s' \<and> strip ob' = strip ob
        \<and> objs s' = (objs s)(obj_key ob \<mapsto> ob')
        \<and> nodes s' = nodes s \<and> cfgs s' = cfgs s \<and> scc s' = scc s"
    and update: "inv s \<Longrightarrow> plain ob \<Longrightarrow> objs s (obj_key ob) = Some old \<Longrightarrow>
      ResourceVersion (obj_meta ob) = ResourceVersion (obj_meta old) \<Longrightarrow>
      \<exists>s' ob'. c_update c ob s = (Inr (), s') \<and> inv s' \<and> strip ob' = strip ob
        \<and> objs s' = (objs s)(obj_key ob \<mapsto> ob')
        \<and> nodes s' = nodes s \<and> cfgs s' = cfgs s \<and> scc s' = scc s"
    and delete: "inv s \<Longrightarrow> objs s (kd, ns, n) = Some ob \<Longrightarrow>
      \<exists>s'. c_delete c kd ns n s = (Inr (), s') \<and> inv s'
        \<and> objs s' = (objs s)((kd, ns, n) := None)
        \<and> nodes s' = nodes s \<and> cfgs s' = cfgs s \<and> scc s' = scc s"
    and delete_none: "inv s \<Longrightarrow> objs s (kd, ns, n) = None \<Longrightarrow>
      \<exists>e. c_delete c kd ns n s = (Inl e, s)"
    and resources_for: "inv s \<Longrightarrow>
      \<exists>res. c_resources_for c ''security.openshift.io'' ''v1'' ''securitycontextconstraints'' s
              = (res, s) \<and> isl res = (\<not> scc s)"

text \<open>Nodes.\<close>

locale node_store = object_store c l inv objs nodes cfgs scc
  for c :: "('s, 'e) Client" and l inv objs nodes cfgs scc +
  assumes nodes_name: "inv s \<Longrightarrow> nodes s x = Some n \<Longrightarrow> node_name n = x"
    and list_nodes: "inv s \<Longrightarrow>
      \<exists>ns. c_list_nodes c sel s = (Inr ns, s) \<and> distinct (map node_name ns)
           \<and> set ns = {n. \<exists>x. nodes s x = Some n \<and> labels_match sel (node_labels n)}"
    and update_node: "inv s \<Longrightarrow> nodes s (node_name n) = Some old \<Longrightarrow>
      ResourceVersion (node_meta n) = ResourceVersion (node_meta old) \<Longrightarrow>
      \<exists>s' n'. c_update_node c n s = (Inr (), s') \<and> inv s' \<and> strip_node n' = strip_node n
        \<and> nodes s' = (nodes s)(node_name n \<mapsto> n')
        \<and> objs s' = objs s \<and> cfgs s' = cfgs s \<and> scc s' = scc s"

text \<open>Configurations, and the helpers of apimachinery and controller-runtime.\<close>

locale api_server = node_store c l inv objs nodes cfgs scc
  for c :: "('s, 'e) Client" and l inv objs nodes cfgs scc +
  assumes cfgs_name: "inv s \<Longrightarrow> cfgs s x = Some cfg \<Longrightarrow> cfg_name cfg = x"
    and get_cfg_some: "inv s \<Longrightarrow> cfgs s n = Some cfg \<Longrightarrow> c_get_cfg c ns n s = (Inr cfg, s)"
    and get_cfg_none: "inv s \<Longrightarrow> cfgs s n = None \<Longrightarrow>
      \<exists>e. c_get_cfg c ns n s = (Inl e, s) \<and> IsNotFound l e"
    and update_cfg: "inv s \<Longrightarrow> cfgs s (cfg_name cfg) = Some old \<Longrightarrow>
      ResourceVersion (cfg_meta cfg) = ResourceVersion (cfg_meta old) \<Longrightarrow>
      DeletionTimestamp (cfg_meta cfg) = DeletionTimestamp (cfg_meta old) \<Longrightarrow>
      \<exists>s' rv. let cfg' = updated_cfg rv old cfg in
        c_update_cfg c cfg s = (Inr cfg', s') \<and> inv s'
        \<and> cfgs s' = (if \<not> IsZero (DeletionTimestamp (cfg_meta cfg)) \<and> Finalizers (cfg_meta cfg) = []
                     then (cfgs s)(cfg_name cfg := None) else (cfgs s)(cfg_name cfg \<mapsto> cfg'))
        \<and> objs s' = objs s \<and> nodes s' = nodes s \<and> scc s' = scc s"
    and update_status: "inv s \<Longrightarrow> cfgs s (cfg_name cfg) = Some old \<Longrightarrow>
      ResourceVersion (cfg_meta cfg) = ResourceVersion (cfg_meta old) \<Longrightarrow>
      \<exists>s' rv. c_update_status c cfg s = (Inr (), s') \<and> inv s'
        \<and> cfgs s' = (cfgs s)(cfg_name cfg \<mapsto> with_cfg_rv rv (old\<lparr>Status := Status cfg\<rparr>))
        \<and> objs s' = objs s \<and> nodes s' = nodes s \<and> scc s' = scc s"
    and contains_finalizer: "ContainsFinalizer l fs f \<longleftrightarrow> f \<in> set fs"
    and add_finalizer: "set (AddFinalizer l fs f) = insert f (set fs)"
    and remove_finalizer: "set (RemoveFinalizer l fs f) = set fs - {f}"
    and set_status_condition: "cnd \<in> set (SetStatusCondition l cs cnd)"

end
