(* ===== verification/Desired.thy ===== *)
theory Desired
  imports Controller Store
begin

text \<open>
  The abstract specification of a reconcile: the list of objects a configuration asks for, in
  the order in which the code writes them, to be put into a store (theory \<open>Store\<close>) one after the
  other. The controller is compared with this in
  \<open>Safety\<close> (it writes nothing else) and \<open>Convergence\<close> (on a server that keeps its promises it
  establishes exactly this).
\<close>

section \<open>The objects of a configuration\<close>

definition account_components :: "string list" where
  "account_components = [''device-plugin'', ''status-updater'', ''metrics-exporter'', ''topology-server'']"

definition account_objects :: "('s, 'e) Reconciler \<Rightarrow> FakeGPUConfig \<Rightarrow> obj list" where
  "account_objects r cfg =
     map (\<lambda>comp. OServiceAccount (ServiceAccount cfg comp (r_Namespace r))) account_components"

definition role_objects :: "('s, 'e) Reconciler \<Rightarrow> FakeGPUConfig \<Rightarrow> obj list" where
  "role_objects r cfg =
     [OClusterRole (DevicePluginClusterRole cfg),
      OClusterRoleBinding
        (ClusterRoleBinding cfg ''device-plugin'' (r_Namespace r) (DevicePluginClusterRole cfg)),
      OClusterRole (StatusUpdaterClusterRole cfg),
      OClusterRoleBinding
        (ClusterRoleBinding cfg ''status-updater'' (r_Namespace r) (StatusUpdaterClusterRole cfg)),
      OClusterRole (MetricsExporterClusterRole cfg),
      OClusterRoleBinding
        (ClusterRoleBinding cfg ''metrics-exporter'' (r_Namespace r) (MetricsExporterClusterRole cfg))]"

definition scc_objects :: "('s, 'e) Reconciler \<Rightarrow> FakeGPUConfig \<Rightarrow> obj list" where
  "scc_objects r cfg =
     [OClusterRole (SCCClusterRole cfg),
      OClusterRoleBinding (SCCClusterRoleBinding cfg (r_Namespace r))]"

definition config_objects :: "('s, 'e) Reconciler \<Rightarrow> FakeGPUConfig \<Rightarrow> GPUProfile \<Rightarrow> obj list" where
  "config_objects r cfg profile =
     [OConfigMap (TopologyConfigMap cfg profile (r_Namespace r)),
      OConfigMap (GPUProfileConfigMap (r_IsPrint r) cfg profile (r_Namespace r))]"

text \<open>The workloads and services, as the configuration's switches select them.\<close>

definition component_objects :: "('s, 'e) Reconciler \<Rightarrow> FakeGPUConfig \<Rightarrow> obj list" where
  "component_objects r cfg =
     (let env = r_Env r; ns = r_Namespace r in
      [ODaemonSet (DevicePluginDaemonSet env cfg ns)]
      @ (if on_by_default StatusUpdater cfg
         then [ODeployment (StatusUpdaterDeployment env cfg ns)] else [])
      @ (if on_by_default MetricsExporter cfg
         then [ODaemonSet (MetricsExporterDaemonSet env cfg ns)] else [])
      @ (if on_by_default TopologyServer cfg
         then [ODeployment (TopologyServerDeployment env cfg ns)] else [])
      @ [OService (MetricsExporterService cfg ns), OService (TopologyServerService cfg ns)]
      @ (if mig_enabled cfg then [ODaemonSet (MIGFakerDaemonSet env cfg ns)] else [])
      @ (if off_by_default DRA cfg then [ODaemonSet (DRAPluginDaemonSet env cfg ns)] else [])
      @ (if off_by_default ComputeDomainController cfg
         then [ODeployment (ComputeDomainControllerDeployment env cfg ns),
               ODaemonSet (ComputeDomainDRADaemonSet env cfg ns)] else [])
      @ [ORuntimeClass (NvidiaRuntimeClass cfg)])"

definition node_topology_object ::
  "('s, 'e) Reconciler \<Rightarrow> FakeGPUConfig \<Rightarrow> GPUProfile \<Rightarrow> string \<Rightarrow> obj" where
  "node_topology_object r cfg profile nodeName =
     OConfigMap (NodeTopologyConfigMap nodeName cfg profile (r_Namespace r))"

definition rbac_objects :: "('s, 'e) Reconciler \<Rightarrow> FakeGPUConfig \<Rightarrow> bool \<Rightarrow> obj list" where
  "rbac_objects r cfg openshift =
     account_objects r cfg @ role_objects r cfg @ (if openshift then scc_objects r cfg else [])"

definition desired_objects ::
  "('s, 'e) Reconciler \<Rightarrow> FakeGPUConfig \<Rightarrow> GPUProfile \<Rightarrow> bool \<Rightarrow> string list \<Rightarrow> obj list" where
  "desired_objects r cfg profile openshift nodeNames =
     rbac_objects r cfg openshift @ config_objects r cfg profile @ component_objects r cfg
     @ map (node_topology_object r cfg profile) nodeNames"

text \<open>Everything a reconcile of the configuration may ever write.\<close>

definition managed :: "('s, 'e) Reconciler \<Rightarrow> FakeGPUConfig \<Rightarrow> GPUProfile \<Rightarrow> obj \<Rightarrow> bool" where
  "managed r cfg profile ob \<longleftrightarrow>
     ob \<in> set (rbac_objects r cfg True) \<or> ob \<in> set (config_objects r cfg profile)
     \<or> ob \<in> set (component_objects r cfg)
     \<or> (\<exists>nodeName. ob = node_topology_object r cfg profile nodeName)"

lemmas desired_defs = account_components_def account_objects_def role_objects_def scc_objects_def config_objects_def
  component_objects_def node_topology_object_def rbac_objects_def desired_objects_def Let_def

lemma desired_managed:
  "ob \<in> set (desired_objects r cfg profile os nodeNames) \<Longrightarrow> managed r cfg profile ob"
  by (auto simp: desired_objects_def managed_def rbac_objects_def split: if_splits)

section \<open>The keys of the desired objects\<close>

text \<open>
  No two desired objects of one configuration share a key, so the order of the writes does
  not matter for the result.
\<close>

lemma config_map_keys [simp]:
  "obj_key (OConfigMap (TopologyConfigMap cfg profile ns)) = (KConfigMap, ns, ''topology'')"
  "obj_key (OConfigMap (GPUProfileConfigMap ip cfg profile ns)) =
     (KConfigMap, ns, ''gpu-profile-'' @ prof_Name profile)"
  "obj_key (OConfigMap (NodeTopologyConfigMap n cfg profile ns)) = (KConfigMap, ns, ''topology-'' @ n)"
  by (simp_all add: obj_key_def GetName_def GetNamespace_def builder_simps)

lemma runtime_class_key [simp]:
  "obj_key (ORuntimeClass (NvidiaRuntimeClass cfg)) = (KRuntimeClass, [], ''nvidia'')"
  by (simp add: obj_key_def GetName_def GetNamespace_def builder_simps)

lemma rbac_keys_distinct [simp]: "distinct (map obj_key (rbac_objects r cfg openshift))"
  by (cases openshift) (simp_all add: desired_defs)

lemma config_keys_distinct [simp]: "distinct (map obj_key (config_objects r cfg profile))"
  by (simp add: desired_defs)

lemma component_keys_distinct [simp]: "distinct (map obj_key (component_objects r cfg))"
  by (auto simp: desired_defs)

lemma rbac_kinds:
  "ob \<in> set (rbac_objects r cfg openshift) \<Longrightarrow>
   obj_kind ob \<in> {KServiceAccount, KClusterRole, KClusterRoleBinding}"
  by (auto simp: desired_defs split: if_splits)

lemma component_kinds:
  "ob \<in> set (component_objects r cfg) \<Longrightarrow>
   obj_kind ob \<in> {KDaemonSet, KDeployment, KService, KRuntimeClass}"
  by (auto simp: desired_defs split: if_splits)

lemma config_kinds: "ob \<in> set (config_objects r cfg profile) \<Longrightarrow> obj_kind ob = KConfigMap"
  by (auto simp: desired_defs)

lemma node_topology_kind [simp]: "obj_kind (node_topology_object r cfg profile n) = KConfigMap"
  by (simp add: desired_defs)

lemma node_topology_key:
  "obj_key (node_topology_object r cfg profile n) = (KConfigMap, r_Namespace r, ''topology-'' @ n)"
  by (simp add: desired_defs)

lemma config_node_keys:
  "ob \<in> set (config_objects r cfg profile) \<Longrightarrow>
   obj_key ob \<noteq> obj_key (node_topology_object r cfg profile n)"
  by (auto simp: desired_defs)

lemma keys_disjoint:
  "(\<And>a. a \<in> set A \<Longrightarrow> obj_kind a \<in> K) \<Longrightarrow> (\<And>b. b \<in> set B \<Longrightarrow> obj_kind b \<in> L) \<Longrightarrow> K \<inter> L = {} \<Longrightarrow>
   obj_key ` set A \<inter> obj_key ` set B = {}"
  by (fastforce simp: obj_key_def)

lemma desired_keys_distinct:
  assumes "distinct nodeNames"
  shows "distinct (map obj_key (desired_objects r cfg profile openshift nodeNames))"
proof -
  let ?A = "rbac_objects r cfg openshift" and ?B = "config_objects r cfg profile"
    and ?C = "component_objects r cfg" and ?D = "map (node_topology_object r cfg profile) nodeNames"
  have nodes: "distinct (map obj_key ?D)"
    using assms by (auto simp: distinct_map inj_on_def node_topology_key)
  have AR: "obj_key ` set ?A \<inter> obj_key ` set (?B @ ?C @ ?D) = {}"
    by (rule keys_disjoint [OF rbac_kinds, where L = "- {KServiceAccount, KClusterRole, KClusterRoleBinding}"])
      (auto dest: config_kinds component_kinds)
  have BC: "obj_key ` set ?B \<inter> obj_key ` set ?C = {}"
    by (rule keys_disjoint [where K = "{KConfigMap}", OF _ component_kinds]) (auto dest: config_kinds)
  have CD: "obj_key ` set ?C \<inter> obj_key ` set ?D = {}"
    by (rule keys_disjoint [OF component_kinds, where L = "{KConfigMap}"]) auto
  have BD: "obj_key ` set ?B \<inter> obj_key ` set ?D = {}"
    by (auto dest: config_node_keys [THEN not_sym])
  show ?thesis
    unfolding desired_objects_def map_append distinct_append set_append set_map image_Un
      Int_Un_distrib Un_empty
    using nodes AR [unfolded set_append image_Un Int_Un_distrib Un_empty set_map] BC CD BD
    by (simp only: set_map simp_thms rbac_keys_distinct config_keys_distinct component_keys_distinct)
qed

end
