(* ===== verification/Safety.thy ===== *)
theory Safety
  imports Desired
begin

text \<open>
  What the controller may do, whatever the API server answers: lemmas about the trace of calls
  that hold for every \<open>Client\<close>, failing ones included. \<open>calls_of\<close> bounds the calls of each
  method from above (\<open>emits\<close>), \<open>reports\<close> says that a step that returns no error had no failed
  write, and the last section gives the exact outcome of the early returns.
\<close>

section \<open>Kinds of calls\<close>

fun is_delete :: "call \<Rightarrow> bool" where
  "is_delete (DeleteObj _ _ _) = True"
| "is_delete _ = False"

text \<open>The objects a call asks the server to store.\<close>

fun stored_obj :: "call \<Rightarrow> obj option" where
  "stored_obj (CreateObj ob) = Some ob"
| "stored_obj (UpdateObj ob) = Some ob"
| "stored_obj _ = None"

fun is_write :: "call \<Rightarrow> bool" where
  "is_write (CreateObj _) = True"
| "is_write (UpdateObj _) = True"
| "is_write (UpdateNode _) = True"
| "is_write (UpdateCfg _) = True"
| "is_write _ = False"

fun is_workload :: "obj \<Rightarrow> bool" where
  "is_workload (ODaemonSet _) = True"
| "is_workload (ODeployment _) = True"
| "is_workload _ = False"

lemmas step_defs =
  reconcileTopologyConfigMap_def reconcileGPUProfileConfigMap_def reconcileDevicePlugin_def
  reconcileStatusUpdater_def reconcileMetricsExporter_def reconcileTopologyServer_def
  reconcileServices_def reconcileMIGFaker_def reconcileDRAPlugin_def
  reconcileComputeDomainController_def reconcileComputeDomainDRA_def reconcileRuntimeClass_def

section \<open>Call bounds by structure\<close>

lemma emits_get_state: "emits P (State (\<lambda>w. (f w, w)))"
  by (simp add: emits_def)

lemma emits_set_openshift: "emits P (State (\<lambda>w. ((), w\<lparr>isOpenShift := b\<rparr>)))"
  by (simp add: emits_def)

lemmas emit_intros = emit_rules emits_get_state emits_set_openshift

lemma emits_createOrUpdate:
  assumes "\<And>b. P (GetObj (obj_kind ob) (GetNamespace ob) (GetName ob), b)"
    and "\<And>b. P (CreateObj ob, b)" and "\<And>b rv. P (UpdateObj (SetResourceVersion rv ob), b)"
  shows "emits P (createOrUpdate r ob owner)"
  unfolding createOrUpdate_def api_defs using assms by (intro emit_intros) auto

lemma emits_createOrUpdateClusterScoped:
  assumes "\<And>b. P (GetObj (obj_kind ob) [] (GetName ob), b)"
    and "\<And>b. P (CreateObj ob, b)" and "\<And>b rv. P (UpdateObj (SetResourceVersion rv ob), b)"
  shows "emits P (createOrUpdateClusterScoped r ob)"
  unfolding createOrUpdateClusterScoped_def api_defs using assms by (intro emit_intros) auto

section \<open>What a reconcile of a live configuration may call\<close>

definition stays_managed :: "('s, 'e) Reconciler \<Rightarrow> FakeGPUConfig \<Rightarrow> GPUProfile \<Rightarrow> event \<Rightarrow> bool" where
  "stays_managed r cfg profile ev \<longleftrightarrow>
     \<not> is_delete (fst ev)
     \<and> (\<forall>ob. stored_obj (fst ev) = Some ob \<longrightarrow>
          (\<exists>ob'. managed r cfg profile ob' \<and> strip ob = strip ob'))"

lemma stays_createOrUpdate:
  "managed r cfg profile ob \<Longrightarrow> emits (stays_managed r cfg profile) (createOrUpdate r ob owner)"
  by (rule emits_createOrUpdate) (auto simp: stays_managed_def)

lemma stays_createOrUpdateClusterScoped:
  "managed r cfg profile ob \<Longrightarrow> emits (stays_managed r cfg profile) (createOrUpdateClusterScoped r ob)"
  by (rule emits_createOrUpdateClusterScoped) (auto simp: stays_managed_def)

lemma emits_detectOpenShift:
  "(\<And>g v s b. P (LookupResource g v s, b)) \<Longrightarrow> emits P (detectOpenShift r)"
  unfolding detectOpenShift_def api_defs Let_def by (intro emit_intros) auto

lemma emits_list [emit_rules]:
  "list_all (emits P) ms \<Longrightarrow> emits P (fail_fast ms)"
  by (auto intro: emits_fail_fast simp: list_all_iff)

lemma managed_facts [simp]:
  "managed r cfg profile (OServiceAccount (ServiceAccount cfg ''device-plugin'' (r_Namespace r)))"
  "managed r cfg profile (OServiceAccount (ServiceAccount cfg ''status-updater'' (r_Namespace r)))"
  "managed r cfg profile (OServiceAccount (ServiceAccount cfg ''metrics-exporter'' (r_Namespace r)))"
  "managed r cfg profile (OServiceAccount (ServiceAccount cfg ''topology-server'' (r_Namespace r)))"
  "managed r cfg profile (OClusterRole (DevicePluginClusterRole cfg))"
  "managed r cfg profile (OClusterRoleBinding (ClusterRoleBinding cfg ''device-plugin'' (r_Namespace r) (DevicePluginClusterRole cfg)))"
  "managed r cfg profile (OClusterRole (StatusUpdaterClusterRole cfg))"
  "managed r cfg profile (OClusterRoleBinding (ClusterRoleBinding cfg ''status-updater'' (r_Namespace r) (StatusUpdaterClusterRole cfg)))"
  "managed r cfg profile (OClusterRole (MetricsExporterClusterRole cfg))"
  "managed r cfg profile (OClusterRoleBinding (ClusterRoleBinding cfg ''metrics-exporter'' (r_Namespace r) (MetricsExporterClusterRole cfg)))"
  "managed r cfg profile (OClusterRole (SCCClusterRole cfg))"
  "managed r cfg profile (OClusterRoleBinding (SCCClusterRoleBinding cfg (r_Namespace r)))"
  "managed r cfg profile (OConfigMap (TopologyConfigMap cfg profile (r_Namespace r)))"
  "managed r cfg profile (OConfigMap (GPUProfileConfigMap (r_IsPrint r) cfg profile (r_Namespace r)))"
  "managed r cfg profile (OConfigMap (NodeTopologyConfigMap n cfg profile (r_Namespace r)))"
  "managed r cfg profile (ODaemonSet (DevicePluginDaemonSet (r_Env r) cfg (r_Namespace r)))"
  "on_by_default StatusUpdater cfg \<Longrightarrow> managed r cfg profile (ODeployment (StatusUpdaterDeployment (r_Env r) cfg (r_Namespace r)))"
  "on_by_default MetricsExporter cfg \<Longrightarrow> managed r cfg profile (ODaemonSet (MetricsExporterDaemonSet (r_Env r) cfg (r_Namespace r)))"
  "on_by_default TopologyServer cfg \<Longrightarrow> managed r cfg profile (ODeployment (TopologyServerDeployment (r_Env r) cfg (r_Namespace r)))"
  "managed r cfg profile (OService (MetricsExporterService cfg (r_Namespace r)))"
  "managed r cfg profile (OService (TopologyServerService cfg (r_Namespace r)))"
  "mig_enabled cfg \<Longrightarrow> managed r cfg profile (ODaemonSet (MIGFakerDaemonSet (r_Env r) cfg (r_Namespace r)))"
  "off_by_default DRA cfg \<Longrightarrow> managed r cfg profile (ODaemonSet (DRAPluginDaemonSet (r_Env r) cfg (r_Namespace r)))"
  "off_by_default ComputeDomainController cfg \<Longrightarrow> managed r cfg profile (ODeployment (ComputeDomainControllerDeployment (r_Env r) cfg (r_Namespace r)))"
  "off_by_default ComputeDomainController cfg \<Longrightarrow> managed r cfg profile (ODaemonSet (ComputeDomainDRADaemonSet (r_Env r) cfg (r_Namespace r)))"
  "managed r cfg profile (ORuntimeClass (NvidiaRuntimeClass cfg))"
  by (auto simp: managed_def desired_defs)

lemmas stays_intros = emits_list emits_for_err emits_bind emits_if emits_return emits_wrap_err
  emits_detectOpenShift stays_createOrUpdate stays_createOrUpdateClusterScoped

lemma stays_lookup [simp]: "stays_managed r cfg profile (LookupResource g v s, b)"
  by (simp add: stays_managed_def)

lemma stays_rbac: "emits (stays_managed r cfg profile) (reconcileRBAC r cfg)"
  unfolding reconcileRBAC_def by (auto intro!: stays_intros)

lemma stays_node_labels: "emits (stays_managed r cfg profile) (reconcileNodeLabels r cfg)"
  unfolding reconcileNodeLabels_def labelNode_def api_defs
  by (intro emit_rules) (auto simp: stays_managed_def)

lemma stays_node_topologies:
  "emits (stays_managed r cfg profile) (reconcileNodeTopologyConfigMaps r cfg profile)"
  unfolding reconcileNodeTopologyConfigMaps_def api_defs
  by (intro emit_rules stays_createOrUpdate) (auto simp: stays_managed_def)

lemma stays_steps: "list_all (emits (stays_managed r cfg profile)) (reconcileSteps r cfg profile)"
  unfolding reconcileSteps_def step_defs
  by (auto intro!: stays_intros stays_rbac stays_node_labels stays_node_topologies)


lemma emits_detectHelmConflict:
  "(\<And>sel b. P (ListObj KSecret sel None, b)) \<Longrightarrow> (\<And>sel b. P (ListObj KConfigMap sel None, b)) \<Longrightarrow>
   emits P (detectHelmConflict r)"
  unfolding detectHelmConflict_def api_defs by (intro emit_rules) (auto intro!: emit_rules split: list.splits)

lemma emits_updateStatus:
  "(\<And>sel b. P (ListNode sel, b)) \<Longrightarrow> (\<And>c b. P (UpdateStatus c, b)) \<Longrightarrow> emits P (updateStatus r cfg profile)"
  unfolding updateStatus_def api_defs by (intro emit_rules) auto

lemma emits_ensureFinalizer:
  "(\<And>c b. P (UpdateCfg c, b)) \<Longrightarrow> emits P (ensureFinalizer r cfg)"
  unfolding ensureFinalizer_def api_defs by (intro emit_rules) auto

lemma emits_reconcileLive:
  assumes "\<And>ev. is_write (fst ev) = False \<Longrightarrow> \<not> is_delete (fst ev) \<Longrightarrow> P ev"
    and "\<And>profile. resolveProfile cfg = Inr profile \<Longrightarrow> list_all (emits P) (reconcileSteps r cfg profile)"
  shows "emits P (reconcileLive r cfg)"
  unfolding reconcileLive_def api_update_status_def
  by (auto intro!: emit_rules emits_detectHelmConflict emits_updateStatus emits_list assms split: bool.splits)

lemma live_footprint:
  assumes "resolveProfile cfg = Inr profile"
  shows "emits (stays_managed r cfg profile) (reconcileLive r cfg)"
proof (rule emits_reconcileLive)
  fix ev :: event
  assume "is_write (fst ev) = False" "\<not> is_delete (fst ev)"
  then show "stays_managed r cfg profile ev"
    by (cases "fst ev") (simp_all add: stays_managed_def)
next
  fix p
  assume "resolveProfile cfg = Inr p"
  with assms show "list_all (emits (stays_managed r cfg profile)) (reconcileSteps r cfg p)"
    by (simp add: stays_steps)
qed

lemma live_no_delete: "emits (\<lambda>ev. \<not> is_delete (fst ev)) (reconcileLive r cfg)"
proof (rule emits_reconcileLive)
  fix p
  show "list_all (emits (\<lambda>ev. \<not> is_delete (fst ev))) (reconcileSteps r cfg p)"
    using stays_steps [of r cfg p]
    by (auto simp: list_all_iff stays_managed_def elim!: emits_mono)
qed

section \<open>Errors\<close>

definition writes_ok :: "event list \<Rightarrow> bool" where
  "writes_ok es \<longleftrightarrow> list_all (\<lambda>(c, ok). is_write c \<longrightarrow> ok) es"

definition reports :: "('a \<Rightarrow> 'b option) \<Rightarrow> ('s, 'a) prog \<Rightarrow> bool" where
  "reports err m \<longleftrightarrow> (\<forall>w. err (fst (run m w)) = None \<longrightarrow>
     (\<exists>es. trace (snd (run m w)) = trace w @ es \<and> writes_ok es))"

lemma reports_return: "reports err (State_Monad.return x)"
  by (simp add: reports_def writes_ok_def)

lemma reports_bind:
  assumes "emits (\<lambda>ev. \<not> is_write (fst ev)) m" and "\<And>x. reports err (f x)"
  shows "reports err (State_Monad.bind m f)"
proof (unfold reports_def, intro allI impI)
  fix w
  assume none: "err (fst (run (State_Monad.bind m f) w)) = None"
  obtain x w1 where m: "run m w = (x, w1)" by (cases "run m w")
  from emitsD [OF assms(1) m] obtain es where
    es: "trace w1 = trace w @ es" "list_all (\<lambda>ev. \<not> is_write (fst ev)) es" by blast
  from none m have "err (fst (run (f x) w1)) = None" by simp
  with assms(2) obtain fs where "trace (snd (run (f x) w1)) = trace w1 @ fs" "writes_ok fs"
    unfolding reports_def by blast
  with es m show "\<exists>es. trace (snd (run (State_Monad.bind m f) w)) = trace w @ es \<and> writes_ok es"
    by (intro exI [of _ "es @ fs"]) (auto simp: writes_ok_def list_all_iff)
qed

lemma reports_if: "reports err m \<Longrightarrow> reports err n \<Longrightarrow> reports err (if b then m else n)"
  by simp

lemma reports_sum:
  "(\<And>a. x = Inl a \<Longrightarrow> reports err (f a)) \<Longrightarrow> (\<And>b. x = Inr b \<Longrightarrow> reports err (g b)) \<Longrightarrow>
   reports err (case x of Inl a \<Rightarrow> f a | Inr b \<Rightarrow> g b)"
  by (cases x) simp_all

lemma reports_write:
  "reports (\<lambda>e. e) (do { res \<leftarrow> invoke c f; State_Monad.return (err_of res) })"
  by (auto simp: reports_def run_simps err_of_def writes_ok_def split: sum.splits)

lemma reports_write_wrapped:
  "reports (\<lambda>e. e) (do { res \<leftarrow> invoke c f; State_Monad.return (map_option g (err_of res)) })"
  by (auto simp: reports_def run_simps err_of_def writes_ok_def split: sum.splits)

lemma reports_fail_fast_Cons:
  assumes "reports (\<lambda>e. e) m" and "reports (\<lambda>e. e) (fail_fast ms)"
  shows "reports (\<lambda>e. e) (fail_fast (m # ms))"
proof (unfold reports_def, intro allI impI)
  fix w
  assume none: "(fst (run (fail_fast (m # ms)) w)) = None"
  obtain x w1 where m: "run m w = (x, w1)" by (cases "run m w")
  with none have x: "x = None" by (auto simp: run_simps split: option.splits)
  with assms(1) m obtain es where "trace w1 = trace w @ es" "writes_ok es"
    unfolding reports_def by (metis fst_conv snd_conv)
  moreover from none m x have "fst (run (fail_fast ms) w1) = None" by (simp add: run_simps)
  with assms(2) obtain fs where "trace (snd (run (fail_fast ms) w1)) = trace w1 @ fs" "writes_ok fs"
    unfolding reports_def by blast
  ultimately show "\<exists>es. trace (snd (run (fail_fast (m # ms)) w)) = trace w @ es \<and> writes_ok es"
    using m x by (intro exI [of _ "es @ fs"]) (auto simp: writes_ok_def run_simps)
qed

lemma reports_fail_fast: "list_all (reports (\<lambda>e. e)) ms \<Longrightarrow> reports (\<lambda>e. e) (fail_fast ms)"
proof (induction ms)
  case Nil
  show ?case by (simp add: reports_def run_simps writes_ok_def)
next
  case (Cons m ms)
  then show ?case by (simp add: reports_fail_fast_Cons)
qed

lemma reports_for_err: "(\<And>x. x \<in> set xs \<Longrightarrow> reports (\<lambda>e. e) (f x)) \<Longrightarrow> reports (\<lambda>e. e) (for_err f xs)"
  by (simp add: for_err_def reports_fail_fast list_all_iff)

lemma reports_wrap_err: "reports (\<lambda>e. e) m \<Longrightarrow> reports (\<lambda>e. e) (wrap_err p m)"
  by (simp add: reports_def run_simps split_beta)

lemmas reports_rules = reports_return reports_if reports_sum reports_write
  reports_write_wrapped reports_fail_fast reports_for_err reports_wrap_err

lemma reports_createOrUpdate: "reports (\<lambda>e. e) (createOrUpdate r ob owner)"
  unfolding createOrUpdate_def api_defs
  by (intro reports_bind [OF emits_invoke] reports_rules) simp_all

lemma reports_createOrUpdateClusterScoped: "reports (\<lambda>e. e) (createOrUpdateClusterScoped r ob)"
  unfolding createOrUpdateClusterScoped_def api_defs
  by (intro reports_bind [OF emits_invoke] reports_rules) simp_all

lemma reports_rbac: "reports (\<lambda>e. e) (reconcileRBAC r cfg)"
  unfolding reconcileRBAC_def
  by (auto intro!: reports_fail_fast reports_for_err reports_createOrUpdate reports_return
      reports_createOrUpdateClusterScoped reports_bind [OF emits_detectOpenShift])

lemma reports_node_labels: "reports (\<lambda>e. e) (reconcileNodeLabels r cfg)"
  unfolding reconcileNodeLabels_def labelNode_def api_defs
  by (intro reports_bind [OF emits_invoke] reports_rules)
    (auto split: option.splits prod.splits intro!: reports_rules)

lemma reports_node_topologies: "reports (\<lambda>e. e) (reconcileNodeTopologyConfigMaps r cfg profile)"
  unfolding reconcileNodeTopologyConfigMaps_def api_defs
  by (intro reports_bind [OF emits_invoke] reports_rules reports_createOrUpdate) simp_all

lemma reports_steps: "list_all (reports (\<lambda>e. e)) (reconcileSteps r cfg profile)"
  unfolding reconcileSteps_def step_defs
  by (auto intro!: reports_wrap_err reports_rbac reports_node_labels reports_node_topologies
      reports_fail_fast reports_createOrUpdate reports_createOrUpdateClusterScoped)


lemma reports_then:
  assumes "reports (\<lambda>e. e) m" and "reports snd n"
  shows "reports snd (do {
           err \<leftarrow> m;
           (case err of Some e \<Rightarrow> State_Monad.return (x, Some e) | None \<Rightarrow> n)
         })" (is "reports snd ?p")
proof (unfold reports_def, intro allI impI)
  fix w
  assume none: "snd (fst (run ?p w)) = None"
  obtain err w1 where m: "run m w = (err, w1)" by (cases "run m w")
  with none have err: "err = None" by (auto split: option.splits)
  with assms(1) m obtain es where "trace w1 = trace w @ es" "writes_ok es"
    unfolding reports_def by (metis fst_conv snd_conv)
  moreover from none m err have "snd (fst (run n w1)) = None" by simp
  with assms(2) obtain fs where "trace (snd (run n w1)) = trace w1 @ fs" "writes_ok fs"
    unfolding reports_def by blast
  ultimately show "\<exists>es. trace (snd (run ?p w)) = trace w @ es \<and> writes_ok es"
    using m err by (intro exI [of _ "es @ fs"]) (auto simp: writes_ok_def)
qed

lemma reports_emits: "emits (\<lambda>ev. \<not> is_write (fst ev)) m \<Longrightarrow> reports err m"
  by (fastforce simp: reports_def emits_def writes_ok_def list_all_iff)

lemma reports_updateStatus: "reports err (updateStatus r cfg profile)"
  by (rule reports_emits) (auto intro: emits_updateStatus)

lemma reports_live: "reports snd (reconcileLive r cfg)"
  unfolding reconcileLive_def api_update_status_def
  by (auto intro!: reports_bind emits_detectHelmConflict emits_invoke reports_return reports_then
      reports_fail_fast reports_steps reports_updateStatus reports_sum split: bool.splits)

lemma trace_ensureFinalizer:
  "\<exists>es. trace (snd (run (ensureFinalizer r cfg) w)) = trace w @ es
        \<and> (isl (fst (run (ensureFinalizer r cfg) w)) \<or> writes_ok es)"
  by (auto simp: ensureFinalizer_def api_defs run_simps writes_ok_def)

section \<open>Reconcile on a live configuration\<close>

lemma run_Reconcile_live:
  assumes "fst (c_get_cfg (r_Client r) ns n (server w)) = Inr cfg"
    and "IsZero (DeletionTimestamp (cfg_meta cfg))"
  shows "run (Reconcile r ns n) w =
    (let w1 = w\<lparr>server := snd (c_get_cfg (r_Client r) ns n (server w)),
                trace := trace w @ [(GetCfg ns n, True)]\<rparr>
     in case run (ensureFinalizer r cfg) w1 of
          (Inl e, w2) \<Rightarrow> ((ctrl_Result0, Some (ClientError e)), w2)
        | (Inr cfg', w2) \<Rightarrow> run (reconcileLive r cfg') w2)"
  using assms by (simp add: Reconcile_def api_get_cfg_def run_simps split: prod.splits sum.splits)

lemma live_emits:
  assumes "fst (c_get_cfg (r_Client r) ns n (server w)) = Inr cfg"
    and "IsZero (DeletionTimestamp (cfg_meta cfg))"
    and "\<And>b. P (GetCfg ns n, b)" and "\<And>c b. P (UpdateCfg c, b)"
    and "\<And>cfg'. emits P (reconcileLive r cfg')"
  shows "\<exists>es. trace (snd (run (Reconcile r ns n) w)) = trace w @ es \<and> list_all P es"
proof -
  let ?w1 = "w\<lparr>server := snd (c_get_cfg (r_Client r) ns n (server w)),
                trace := trace w @ [(GetCfg ns n, True)]\<rparr>"
  obtain x w2 where x: "run (ensureFinalizer r cfg) ?w1 = (x, w2)"
    by (cases "run (ensureFinalizer r cfg) ?w1")
  from emitsD [OF emits_ensureFinalizer [where P = P] x] assms(4) obtain es where
    es: "trace w2 = trace ?w1 @ es" "list_all P es" by blast
  show ?thesis
  proof (cases x)
    case (Inl e)
    with es x assms(3) show ?thesis
      by (simp add: run_Reconcile_live [OF assms(1,2)] Let_def)
  next
    case (Inr cfg')
    obtain y w3 where y: "run (reconcileLive r cfg') w2 = (y, w3)"
      by (cases "run (reconcileLive r cfg') w2")
    from emitsD [OF assms(5) y] obtain fs where "trace w3 = trace w2 @ fs" "list_all P fs" by blast
    with Inr es x y assms(3) show ?thesis
      by (simp add: run_Reconcile_live [OF assms(1,2)] Let_def)
  qed
qed

section \<open>Success means that everything was written\<close>

definition stored_ok :: "obj \<Rightarrow> event list \<Rightarrow> bool" where
  "stored_ok ob es \<longleftrightarrow>
     (\<exists>c ob'. (c, True) \<in> set es \<and> stored_obj c = Some ob' \<and> strip ob' = strip ob)"

definition stores :: "('s, 'e error option) prog \<Rightarrow> obj list \<Rightarrow> bool" where
  "stores m obs \<longleftrightarrow> (\<forall>w. fst (run m w) = None \<longrightarrow>
     (\<exists>es. trace (snd (run m w)) = trace w @ es \<and> (\<forall>ob \<in> set obs. stored_ok ob es)))"

lemma stored_ok_append [simp]: "stored_ok ob (es @ fs) \<longleftrightarrow> stored_ok ob es \<or> stored_ok ob fs"
  by (auto simp: stored_ok_def)

lemma stores_createOrUpdate: "stores (createOrUpdate r ob owner) [ob]"
  by (auto simp: stores_def createOrUpdate_def api_defs run_simps err_of_def stored_ok_def
      split: sum.splits if_splits)

lemma stores_createOrUpdateClusterScoped: "stores (createOrUpdateClusterScoped r ob) [ob]"
  by (auto simp: stores_def createOrUpdateClusterScoped_def api_defs run_simps err_of_def
      stored_ok_def split: sum.splits if_splits)

lemma stores_wrap_err: "stores m obs \<Longrightarrow> stores (wrap_err p m) obs"
  by (simp add: stores_def run_simps split_beta)

lemma stores_emits: "emits (\<lambda>_. True) m \<Longrightarrow> stores m []"
  by (auto simp: stores_def emits_def)

lemma stores_fail_fast_Nil: "stores (fail_fast []) []"
  by (simp add: stores_def run_simps)

lemma stores_fail_fast_Cons:
  assumes "stores m obs" and "stores (fail_fast ms) obs'"
  shows "stores (fail_fast (m # ms)) (obs @ obs')"
proof (unfold stores_def, intro allI impI)
  fix w
  assume none: "fst (run (fail_fast (m # ms)) w) = None"
  obtain x w1 where m: "run m w = (x, w1)" by (cases "run m w")
  with none have x: "x = None" by (auto simp: run_simps split: option.splits)
  with assms(1) m obtain es where "trace w1 = trace w @ es" "\<forall>ob \<in> set obs. stored_ok ob es"
    unfolding stores_def by (metis fst_conv snd_conv)
  moreover from none m x have "fst (run (fail_fast ms) w1) = None" by (simp add: run_simps)
  with assms(2) obtain fs where
    "trace (snd (run (fail_fast ms) w1)) = trace w1 @ fs" "\<forall>ob \<in> set obs'. stored_ok ob fs"
    unfolding stores_def by blast
  ultimately show "\<exists>es. trace (snd (run (fail_fast (m # ms)) w)) = trace w @ es
      \<and> (\<forall>ob \<in> set (obs @ obs'). stored_ok ob es)"
    using m x by (intro exI [of _ "es @ fs"]) (auto simp: run_simps)
qed

lemma stores_fail_fast:
  "list_all2 stores ms obss \<Longrightarrow> stores (fail_fast ms) (concat obss)"
  by (induction rule: list_all2_induct)
    (auto intro: stores_fail_fast_Nil stores_fail_fast_Cons)

lemma stores_subset: "stores m obs \<Longrightarrow> set obs' \<subseteq> set obs \<Longrightarrow> stores m obs'"
  unfolding stores_def by (meson subsetD)

lemma emits_True: "emits (\<lambda>_. True) (createOrUpdate r ob owner)"
  by (rule emits_createOrUpdate) simp_all

lemma stores_accounts:
  "stores (for_err (\<lambda>c. createOrUpdate r (OServiceAccount (ServiceAccount cfg c (r_Namespace r))) cfg)
     cs) (map (\<lambda>c. OServiceAccount (ServiceAccount cfg c (r_Namespace r))) cs)"
proof -
  let ?m = "\<lambda>c. createOrUpdate r (OServiceAccount (ServiceAccount cfg c (r_Namespace r))) cfg"
  let ?ob = "\<lambda>c. OServiceAccount (ServiceAccount cfg c (r_Namespace r))"
  have "list_all2 stores (map ?m cs) (map (\<lambda>c. [?ob c]) cs)"
    by (simp add: list_all2_conv_all_nth stores_createOrUpdate)
  from stores_fail_fast [OF this] show ?thesis
    unfolding for_err_def by (rule stores_subset) auto
qed

lemma stores_scc:
  "(\<And>b. emits (\<lambda>_. True) (m b)) \<Longrightarrow>
   stores (do { b \<leftarrow> detectOpenShift r; if b then m b else State_Monad.return None }) []"
  by (intro stores_emits emit_rules emits_detectOpenShift) simp_all

lemma stores_rbac: "stores (reconcileRBAC r cfg) (rbac_objects r cfg False)"
  unfolding reconcileRBAC_def
proof (rule stores_subset [OF stores_fail_fast
      [where obss = "account_objects r cfg # map (\<lambda>ob. [ob]) (role_objects r cfg) @ [[]]"]])
  show "set (rbac_objects r cfg False) \<subseteq>
      set (concat (account_objects r cfg # map (\<lambda>ob. [ob]) (role_objects r cfg) @ [[]]))"
    by (auto simp: rbac_objects_def)
qed (auto simp: role_objects_def account_objects_def account_components_def
    intro!: stores_accounts [where cs = "[''device-plugin'', ''status-updater'',
      ''metrics-exporter'', ''topology-server'']", simplified list.map]
      stores_createOrUpdateClusterScoped stores_scc emits_list emits_createOrUpdateClusterScoped)

lemma emits_any_createOrUpdate:
  "emits (\<lambda>_. True) (createOrUpdate r ob owner)"
  "emits (\<lambda>_. True) (createOrUpdateClusterScoped r ob)"
  by (simp_all add: emits_createOrUpdate emits_createOrUpdateClusterScoped)

lemma emits_any_nodes:
  "emits (\<lambda>_. True) (reconcileNodeLabels r cfg)"
  "emits (\<lambda>_. True) (reconcileNodeTopologyConfigMaps r cfg profile)"
  by (rule emits_mono [OF stays_node_labels] emits_mono [OF stays_node_topologies], simp)+

text \<open>Which objects each step of \<open>reconcileSteps\<close> writes.\<close>

definition step_objects :: "('s, 'e) Reconciler \<Rightarrow> FakeGPUConfig \<Rightarrow> GPUProfile \<Rightarrow> obj list list" where
  "step_objects r cfg profile =
     (let env = r_Env r; ns = r_Namespace r in
      [rbac_objects r cfg False,
       [OConfigMap (TopologyConfigMap cfg profile ns)],
       [OConfigMap (GPUProfileConfigMap (r_IsPrint r) cfg profile ns)],
       [ODaemonSet (DevicePluginDaemonSet env cfg ns)]]
      @ (if on_by_default StatusUpdater cfg
         then [[ODeployment (StatusUpdaterDeployment env cfg ns)]] else [])
      @ (if on_by_default MetricsExporter cfg
         then [[ODaemonSet (MetricsExporterDaemonSet env cfg ns)]] else [])
      @ (if on_by_default TopologyServer cfg
         then [[ODeployment (TopologyServerDeployment env cfg ns)]] else [])
      @ [[OService (MetricsExporterService cfg ns), OService (TopologyServerService cfg ns)]]
      @ (if mig_enabled cfg then [[ODaemonSet (MIGFakerDaemonSet env cfg ns)]] else [])
      @ (if off_by_default DRA cfg then [[ODaemonSet (DRAPluginDaemonSet env cfg ns)]] else [])
      @ (if off_by_default ComputeDomainController cfg
         then [[ODeployment (ComputeDomainControllerDeployment env cfg ns)],
               [ODaemonSet (ComputeDomainDRADaemonSet env cfg ns)]] else [])
      @ [[ORuntimeClass (NvidiaRuntimeClass cfg)], [], []])"

lemma concat_if: "concat (if b then xss else []) = (if b then concat xss else [])"
  by simp

lemma step_objects_desired:
  "concat (step_objects r cfg profile) = desired_objects r cfg profile False []"
  by (simp add: step_objects_def desired_objects_def config_objects_def component_objects_def Let_def
      concat_if cong: if_cong split del: if_split)

lemma stores_services: "stores (reconcileServices r cfg)
   [OService (MetricsExporterService cfg (r_Namespace r)), OService (TopologyServerService cfg (r_Namespace r))]"
  unfolding reconcileServices_def
  using stores_fail_fast_Cons [OF stores_createOrUpdate
      stores_fail_fast_Cons [OF stores_createOrUpdate stores_fail_fast_Nil]] by simp

lemma list_all2_if: "(b \<Longrightarrow> list_all2 P xs ys) \<Longrightarrow> list_all2 P (if b then xs else []) (if b then ys else [])"
  by simp

lemma stores_steps: "list_all2 stores (reconcileSteps r cfg profile) (step_objects r cfg profile)"
  unfolding reconcileSteps_def step_objects_def Let_def
  by (intro list_all2_appendI list_all2_if list.rel_intros stores_wrap_err stores_rbac stores_services
      stores_emits emits_any_nodes)
    (simp_all add: reconcileTopologyConfigMap_def reconcileGPUProfileConfigMap_def
      reconcileDevicePlugin_def reconcileStatusUpdater_def reconcileMetricsExporter_def
      reconcileTopologyServer_def reconcileMIGFaker_def reconcileDRAPlugin_def
      reconcileComputeDomainController_def reconcileComputeDomainDRA_def reconcileRuntimeClass_def
      stores_createOrUpdate stores_createOrUpdateClusterScoped)


section \<open>Ordering\<close>

text \<open>The account a workload runs under is one of the four that \<open>reconcileRBAC\<close> creates.\<close>

definition account_of :: "obj \<Rightarrow> string option" where
  "account_of ob = map_option (\<lambda>tpl. ServiceAccountName (tpl_Spec tpl)) (pod_template ob)"

lemma pod_template_SetResourceVersion [simp]: "pod_template (SetResourceVersion rv ob) = pod_template ob"
  by (cases ob) (simp_all add: SetResourceVersion_def)

lemma account_of_strip: "strip ob = strip ob' \<Longrightarrow> account_of ob = account_of ob'"
  by (metis account_of_def pod_template_SetResourceVersion strip_def)

definition call_account :: "event \<Rightarrow> string option" where
  "call_account ev = (case stored_obj (fst ev) of None \<Rightarrow> None | Some ob \<Rightarrow> account_of ob)"

definition stores_account :: "string \<Rightarrow> string \<Rightarrow> event \<Rightarrow> bool" where
  "stores_account ns a ev \<longleftrightarrow>
     snd ev \<and> (\<exists>sa. stored_obj (fst ev) = Some (OServiceAccount sa)
                    \<and> Name (sa_meta sa) = a \<and> Namespace (sa_meta sa) = ns)"

text \<open>Every write of a workload comes after a successful write of its account.\<close>

definition accounts_precede :: "string \<Rightarrow> event list \<Rightarrow> bool" where
  "accounts_precede ns es \<longleftrightarrow>
     (\<forall>i < length es. \<forall>a. call_account (es ! i) = Some a \<longrightarrow>
        (\<exists>j < i. stores_account ns a (es ! j)))"

lemma accounts_precedeI:
  assumes "list_all (\<lambda>ev. call_account ev = None) es"
    and "\<And>ev a. ev \<in> set fs \<Longrightarrow> call_account ev = Some a \<Longrightarrow> \<exists>ev \<in> set es. stores_account ns a ev"
  shows "accounts_precede ns (es @ fs)"
proof (unfold accounts_precede_def, intro allI impI)
  fix i a
  assume i: "i < length (es @ fs)" and a: "call_account ((es @ fs) ! i) = Some a"
  have ge: "length es \<le> i"
  proof (rule ccontr)
    assume "\<not> length es \<le> i"
    with a assms(1) show False by (auto simp: nth_append list_all_length)
  qed
  with i a have "fs ! (i - length es) \<in> set fs" "call_account (fs ! (i - length es)) = Some a"
    by (auto simp: nth_append)
  from assms(2) [OF this] obtain ev where "ev \<in> set es" "stores_account ns a ev" by blast
  then obtain j where "j < length es" "stores_account ns a (es ! j)" by (auto simp: in_set_conv_nth)
  with ge show "\<exists>j < i. stores_account ns a ((es @ fs) ! j)"
    by (intro exI [of _ j]) (auto simp: nth_append)
qed

lemma accounts_precede_none: "list_all (\<lambda>ev. call_account ev = None) es \<Longrightarrow> accounts_precede ns es"
  using accounts_precedeI [of es "[]"] by simp

lemma workload_accounts [simp]:
  "account_of (ODaemonSet (DevicePluginDaemonSet env cfg ns)) = Some (''device-plugin-'' @ cfg_name cfg)"
  "account_of (ODaemonSet (MetricsExporterDaemonSet env cfg ns)) = Some (''metrics-exporter-'' @ cfg_name cfg)"
  "account_of (ODaemonSet (MIGFakerDaemonSet env cfg ns)) = Some (''device-plugin-'' @ cfg_name cfg)"
  "account_of (ODaemonSet (DRAPluginDaemonSet env cfg ns)) = Some (''device-plugin-'' @ cfg_name cfg)"
  "account_of (ODaemonSet (ComputeDomainDRADaemonSet env cfg ns)) = Some (''device-plugin-'' @ cfg_name cfg)"
  "account_of (ODeployment (StatusUpdaterDeployment env cfg ns)) = Some (''status-updater-'' @ cfg_name cfg)"
  "account_of (ODeployment (ComputeDomainControllerDeployment env cfg ns)) = Some (''device-plugin-'' @ cfg_name cfg)"
  "account_of (ODeployment (TopologyServerDeployment env cfg ns)) = Some (''topology-server-'' @ cfg_name cfg)"
  by (simp_all add: account_of_def dp_ds.template_account [simplified] me_ds.template_account [simplified]
      mig_ds.template_account [simplified] dra_ds.template_account [simplified]
      cd_ds.template_account [simplified] su_dep.template_account [simplified]
      cd_dep.template_account [simplified] ts_dep.template_account [simplified])

lemma other_accounts [simp]:
  "account_of (OServiceAccount x1) = None" "account_of (OClusterRole x2) = None"
  "account_of (OClusterRoleBinding x3) = None" "account_of (OConfigMap x4) = None"
  "account_of (OService x5) = None" "account_of (ORuntimeClass x6) = None"
  by (simp_all add: account_of_def)

lemma managed_account:
  "managed r cfg profile ob \<Longrightarrow> account_of ob = Some a \<Longrightarrow>
   \<exists>c \<in> set account_components. a = c @ ''-'' @ cfg_name cfg"
  by (auto simp: managed_def desired_defs split: if_splits)

lemma stays_account:
  assumes "stays_managed r cfg profile ev" and "call_account ev = Some a"
  shows "\<exists>c \<in> set account_components. a = c @ ''-'' @ cfg_name cfg"
proof -
  from assms(2) obtain ob where ob: "stored_obj (fst ev) = Some ob" "account_of ob = Some a"
    by (auto simp: call_account_def split: option.splits)
  with assms(1) obtain ob' where "managed r cfg profile ob'" "strip ob = strip ob'"
    by (auto simp: stays_managed_def)
  with ob show ?thesis using managed_account account_of_strip by metis
qed

lemma no_account_createOrUpdate:
  "account_of ob = None \<Longrightarrow> emits (\<lambda>ev. call_account ev = None) (createOrUpdate r ob owner)"
  "account_of ob = None \<Longrightarrow> emits (\<lambda>ev. call_account ev = None) (createOrUpdateClusterScoped r ob)"
  by (simp_all add: emits_createOrUpdate emits_createOrUpdateClusterScoped call_account_def account_of_def)

lemma no_account_rbac: "emits (\<lambda>ev. call_account ev = None) (reconcileRBAC r cfg)"
  unfolding reconcileRBAC_def
  by (auto intro!: emits_list emits_for_err emits_bind emits_if emits_return emits_detectOpenShift
      no_account_createOrUpdate simp: call_account_def [of "(LookupResource _ _ _, _)"])

lemma stored_ok_account:
  assumes "stored_ok (OServiceAccount (ServiceAccount cfg c ns)) es"
  shows "\<exists>ev \<in> set es. stores_account ns (c @ ''-'' @ cfg_name cfg) ev"
proof -
  from assms obtain k ob where k: "(k, True) \<in> set es" "stored_obj k = Some ob"
      "strip ob = strip (OServiceAccount (ServiceAccount cfg c ns))"
    by (auto simp: stored_ok_def)
  then obtain sa where sa: "ob = OServiceAccount sa"
    by (cases ob) (auto simp: strip_def SetResourceVersion_def)
  with k(3) have "obj_key (OServiceAccount sa) = obj_key (OServiceAccount (ServiceAccount cfg c ns))"
    by (metis strip_key)
  then have "Name (sa_meta sa) = c @ ''-'' @ cfg_name cfg" "Namespace (sa_meta sa) = ns"
    by (simp_all add: account.build_key [simplified] obj_key_def GetName_def GetNamespace_def builder_simps)
  with k sa show ?thesis
    by (intro bexI [of _ "(k, True)"]) (auto simp: stores_account_def)
qed

end
