(* ===== verification/Node_Labels.thy ===== *)
theory Node_Labels
  imports Desired "HOL-Library.Multiset"
begin

text \<open>
  The labels of the cluster's nodes: what one pass of \<open>reconcileNodeLabels\<close> over a node does
  to its label map, whatever the order in which Go ranges over the wanted labels, what
  \<open>handleDeletion\<close> takes away again, and which configurations a change of a node triggers.
  \<open>Convergence\<close> lifts these facts to the whole set of nodes.
\<close>

section \<open>The wanted labels\<close>

lemma go_lookup_map_of: "go_lookup m = map_of (entries m)"
  by (simp add: go_lookup_def fun_eq_iff)

lemma wantedLabels_lookup:
  "go_lookup (wantedLabels cfg) k =
     (if k = nodePoolLabel then Some (cfg_name cfg)
      else if k = deployDPLabel \<or> k = deployDCGMLabel \<or> k = migLabel \<and> mig_enabled cfg
           \<or> k = draLabel \<and> off_by_default DRA cfg \<or> k = cdLabel \<and> off_by_default ComputeDomainController cfg
      then Some ''true'' else None)"
  by (auto simp: wantedLabels_def Let_def go_lookup_def)

lemma wantedLabels_wf: "wf_gomap (wantedLabels cfg)"
  by (simp add: wantedLabels_def Let_def wf_gomap_def)

lemma wantedLabels_nonempty:
  "cfg_name cfg \<noteq> [] \<Longrightarrow> (k, v) \<in> set (entries (wantedLabels cfg)) \<Longrightarrow> v \<noteq> []"
  by (simp flip: wf_gomap_lookup [OF wantedLabels_wf] add: wantedLabels_lookup split: if_splits) auto

text \<open>The keys the operator owns on a node.\<close>

definition node_keys :: "string set" where
  "node_keys = {nodePoolLabel, deployDPLabel, deployDCGMLabel, migLabel, draLabel, cdLabel}"

lemma wantedLabels_keys: "dom (go_lookup (wantedLabels cfg)) \<subseteq> node_keys"
  by (auto simp: wantedLabels_lookup node_keys_def split: if_splits)

section \<open>One pass over a node's labels\<close>

definition changes :: "gomap \<Rightarrow> (string \<times> string) list \<Rightarrow> bool" where
  "changes ls kvs \<longleftrightarrow> (\<exists>(k, v) \<in> set kvs. go_lookup ls k \<noteq> Some v)"

lemma go_index_neq_iff: "v \<noteq> [] \<Longrightarrow> go_index ls k \<noteq> v \<longleftrightarrow> go_lookup ls k \<noteq> Some v"
  by (auto simp: go_index_def split: option.splits)

lemma label_loop_spec:
  assumes "distinct (map fst kvs)" and "\<And>k v. (k, v) \<in> set kvs \<Longrightarrow> v \<noteq> []"
  shows "\<exists>ls'. label_loop ls u kvs = Some (ls', u \<or> changes ls kvs)
    \<and> go_lookup ls' = go_lookup ls ++ map_of kvs \<and> (\<not> changes ls kvs \<longrightarrow> ls' = ls)"
  using assms
proof (induction kvs arbitrary: ls u)
  case Nil
  show ?case by (simp add: changes_def)
next
  case (Cons kv kvs)
  obtain k v where kv: "kv = (k, v)" by (cases kv)
  have k: "k \<notin> fst ` set kvs" and v: "v \<noteq> []" using Cons.prems kv by force+
  then have map: "map_of kvs k = None" by (simp add: map_of_eq_None_iff)
  have IH: "\<exists>ls'. label_loop ls u kvs = Some (ls', u \<or> changes ls kvs)
    \<and> go_lookup ls' = go_lookup ls ++ map_of kvs \<and> (\<not> changes ls kvs \<longrightarrow> ls' = ls)" for ls u
    using Cons.prems by (intro Cons.IH) auto
  show ?case
  proof (cases "go_lookup ls k = Some v")
    case True
    with v kv have "label_loop ls u (kv # kvs) = label_loop ls u kvs"
      and "changes ls (kv # kvs) = changes ls kvs"
      by (auto simp: go_index_def changes_def)
    moreover have "go_lookup ls ++ map_of (kv # kvs) = go_lookup ls ++ map_of kvs"
      using True kv map by (auto simp: fun_eq_iff map_add_def split: option.splits)
    moreover obtain ls' where "label_loop ls u kvs = Some (ls', u \<or> changes ls kvs)"
        "go_lookup ls' = go_lookup ls ++ map_of kvs" "\<not> changes ls kvs \<longrightarrow> ls' = ls"
      using IH [of ls u] by blast
    ultimately show ?thesis by (simp del: map_of.simps)
  next
    case False
    define ls0 where "ls0 = (if ls = NilMap then GoMap [] else ls)"
    have ls0: "go_lookup ls0 = go_lookup ls" and "ls0 \<noteq> NilMap"
      by (simp_all add: ls0_def fun_eq_iff)
    then obtain ls1 where ls1: "go_assign ls0 k v = Some ls1" using go_assign_Some by blast
    from go_lookup_assign [OF this] have look: "go_lookup ls1 = (go_lookup ls)(k \<mapsto> v)"
      by (simp add: ls0)
    have "label_loop ls u (kv # kvs) = label_loop ls1 True kvs"
      using False v kv ls1 by (simp add: go_index_neq_iff ls0_def)
    moreover have "changes ls (kv # kvs)" using False kv by (auto simp: changes_def)
    moreover have "(go_lookup ls)(k \<mapsto> v) ++ map_of kvs = go_lookup ls ++ map_of (kv # kvs)"
      using kv map by (auto simp: fun_eq_iff map_add_def split: option.splits)
    moreover obtain ls' where "label_loop ls1 True kvs = Some (ls', True)"
        "go_lookup ls' = go_lookup ls1 ++ map_of kvs"
      using IH [of ls1 True] by auto
    ultimately show ?thesis by (simp add: look del: map_of.simps)
  qed
qed

lemma map_of_permuted:
  assumes "mset kvs = mset (entries m)" and "wf_gomap m"
  shows "map_of kvs = go_lookup m"
proof -
  from assms have "mset (map fst kvs) = mset (map fst (entries m))" by simp
  with assms(2) have "distinct (map fst kvs)"
    by (metis mset_eq_imp_distinct_iff wf_gomap_def)
  moreover from assms(1) have "set kvs = set (entries m)" by (metis set_mset_mset)
  ultimately show ?thesis
    using assms(2) by (simp add: go_lookup_map_of wf_gomap_def map_of_inject_set)
qed

lemma label_loop_wanted:
  assumes "mset kvs = mset (entries (wantedLabels cfg))" and "cfg_name cfg \<noteq> []"
  shows "\<exists>ls' u. label_loop ls False kvs = Some (ls', u)
    \<and> go_lookup ls' = go_lookup ls ++ go_lookup (wantedLabels cfg)
    \<and> (u \<longleftrightarrow> \<not> labels_match (wantedLabels cfg) ls) \<and> (\<not> u \<longrightarrow> ls' = ls)"
proof -
  let ?W = "wantedLabels cfg"
  from assms(1) have set: "set kvs = set (entries ?W)" by (metis set_mset_mset)
  from assms(1) have "mset (map fst kvs) = mset (map fst (entries ?W))" by simp
  then have "distinct (map fst kvs)"
    using wantedLabels_wf [of cfg] by (metis mset_eq_imp_distinct_iff wf_gomap_def)
  moreover have "v \<noteq> []" if "(k, v) \<in> set kvs" for k v
    using wantedLabels_nonempty [OF assms(2)] that set by metis
  ultimately obtain ls' where "label_loop ls False kvs = Some (ls', changes ls kvs)"
      "go_lookup ls' = go_lookup ls ++ map_of kvs" "\<not> changes ls kvs \<longrightarrow> ls' = ls"
    using label_loop_spec [of kvs ls False] by auto
  moreover have "changes ls kvs \<longleftrightarrow> \<not> labels_match ?W ls"
    by (auto simp: changes_def labels_match_def list_all_iff set)
  ultimately show ?thesis
    using map_of_permuted [OF assms(1) wantedLabels_wf] by auto
qed

section \<open>Taking the labels away\<close>

lemma strip_node_labels_lookup:
  "go_lookup (strip_node_labels ls) = (go_lookup ls) |` (- node_keys)"
  by (auto simp: strip_node_labels_def go_lookup_delete node_keys_def restrict_map_def fun_eq_iff)

lemma strip_after_labelling:
  assumes "go_lookup ls' = go_lookup ls ++ go_lookup (wantedLabels cfg)"
  shows "go_lookup (strip_node_labels ls') = go_lookup (strip_node_labels ls)"
  using wantedLabels_keys [of cfg] assms
  by (auto simp: strip_node_labels_lookup fun_eq_iff restrict_map_def map_add_def dom_def
      split: option.splits)

section \<open>Which configurations a node triggers\<close>

lemma selector_loop_iff:
  "selector_loop node kvs \<longleftrightarrow> list_all (\<lambda>(k, v). go_index (node_labels node) k = v) kvs"
  by (induction node kvs rule: selector_loop.induct) auto

lemma nodeMatchesCfg_iff:
  "nodeMatchesCfg node cfg \<longleftrightarrow>
     list_all (\<lambda>(k, v). go_index (node_labels node) k = v) (entries (nodeListOption cfg))"
  by (auto simp: nodeMatchesCfg_def nodeListOption_def selector_loop_iff)

lemma go_index_eq_iff: "v \<noteq> [] \<Longrightarrow> go_index ls k = v \<longleftrightarrow> go_lookup ls k = Some v"
  by (auto simp: go_index_def split: option.splits)

lemma labels_match_nodeMatches:
  "labels_match (nodeListOption cfg) (node_labels node) \<Longrightarrow> nodeMatchesCfg node cfg"
  by (auto simp: labels_match_def nodeMatchesCfg_iff list_all_iff go_index_def)

lemma nodeMatches_labels_match:
  assumes "\<And>k v. (k, v) \<in> set (entries (nodeListOption cfg)) \<Longrightarrow> v \<noteq> []" and "nodeMatchesCfg node cfg"
  shows "labels_match (nodeListOption cfg) (node_labels node)"
  unfolding labels_match_def list_all_iff
proof safe
  fix k v
  assume "(k, v) \<in> set (entries (nodeListOption cfg))"
  with assms show "go_lookup (node_labels node) k = Some v"
    by (auto simp: nodeMatchesCfg_iff list_all_iff simp flip: go_index_eq_iff)
qed

section \<open>Counting\<close>

lemma count_ready_eq:
  "count_ready n nodes =
     n + word_of_nat (length (filter (\<lambda>m. go_index (node_labels m) deployDPLabel = ''true'') nodes))"
  by (induction n nodes rule: count_ready.induct) (simp_all add: algebra_simps)

lemma ready_le_total:
  assumes "length nodes < 2 ^ 31"
  shows "0 \<le> sint (count_ready 0 nodes)"
    and "sint (count_ready 0 nodes) \<le> sint (word_of_int (int (length nodes)) :: int32)"
proof -
  let ?k = "length (filter (\<lambda>m. go_index (node_labels m) deployDPLabel = ''true'') nodes)"
  have small: "sint (word_of_nat k :: int32) = int k" if "k < 2 ^ 31" for k
    using that by (simp add: signed_of_nat signed_take_bit_int_eq_self)
  have le: "?k \<le> length nodes" by simp
  with assms have k: "?k < 2 ^ 31" by linarith
  show "0 \<le> sint (count_ready 0 nodes)"
    using small [OF k] by (simp add: count_ready_eq)
  show "sint (count_ready 0 nodes) \<le> sint (word_of_int (int (length nodes)) :: int32)"
    using small [OF k] small [OF assms] le by (simp add: count_ready_eq)
qed

section \<open>Scheduling\<close>

fun node_selector :: "obj \<Rightarrow> gomap" where
  "node_selector (ODaemonSet d) = pod_NodeSelector (tpl_Spec (ds_Template d))"
| "node_selector (ODeployment d) = pod_NodeSelector (tpl_Spec (dep_Template d))"
| "node_selector _ = NilMap"

lemma labels_match_Nil [simp]: "labels_match NilMap ls" "labels_match (GoMap []) ls"
  by (simp_all add: labels_match_def)

lemma component_selector:
  assumes "ob \<in> set (component_objects r cfg)"
  shows "labels_match (node_selector ob) (wantedLabels cfg)"
  using assms
  by (auto simp: component_objects_def Let_def builder_simps wantedLabels_lookup split: if_splits)

lemma component_daemonset_selector:
  assumes "ODaemonSet d \<in> set (component_objects r cfg)"
  shows "\<exists>k \<in> node_keys. node_selector (ODaemonSet d) = GoMap [(k, ''true'')]"
  using assms
  by (auto simp: component_objects_def Let_def builder_simps node_keys_def split: if_splits)

lemma labels_match_override:
  assumes "labels_match sel m" and "go_lookup ls = f ++ go_lookup m"
  shows "labels_match sel ls"
  using assms by (auto simp: labels_match_def list_all_iff)

end
