(* ===== verification/Mem_Server.thy ===== *)
theory Mem_Server
  imports Store Go_Strings
begin

text \<open>
  An API server in memory that keeps the promises of \<open>Store\<close>: association lists of objects,
  nodes and configurations, a counter that gives out resource versions, optimistic concurrency
  on every update, the status subresource, and removal of a configuration when its last
  finalizer goes. Its interpretation of the locales shows that they can be met; it is the
  concrete server of the witnesses, and models no code of the repository.
\<close>

datatype mem_error = NotFound | AlreadyExists | Conflict

record mem =
  m_objs :: "(key \<times> obj) list"
  m_nodes :: "(string \<times> Node) list"
  m_cfgs :: "(string \<times> FakeGPUConfig) list"
  m_rv :: nat
  m_scc :: bool

definition next_rv :: "mem \<Rightarrow> string" where
  "next_rv s = show_nat (m_rv s)"

definition store_obj :: "obj \<Rightarrow> mem \<Rightarrow> mem" where
  "store_obj ob s = s\<lparr>m_objs := AList.update (obj_key ob) (SetResourceVersion (next_rv s) ob) (m_objs s),
                      m_rv := m_rv s + 1\<rparr>"

definition mem_get :: "kind \<Rightarrow> string \<Rightarrow> string \<Rightarrow> mem \<Rightarrow> (mem_error + ObjectMeta) \<times> mem" where
  "mem_get kd ns n s =
     (case map_of (m_objs s) (kd, ns, n) of None \<Rightarrow> (Inl NotFound, s) | Some ob \<Rightarrow> (Inr (obj_meta ob), s))"

definition mem_list :: "kind \<Rightarrow> gomap \<Rightarrow> string option \<Rightarrow> mem \<Rightarrow> (mem_error + ObjectMeta list) \<times> mem" where
  "mem_list kd sel nso s =
     (Inr (map (\<lambda>(_, ob). obj_meta ob) (filter (\<lambda>(_, ob). selects kd sel nso ob) (m_objs s))), s)"

definition mem_create :: "obj \<Rightarrow> mem \<Rightarrow> (mem_error + unit) \<times> mem" where
  "mem_create ob s =
     (if \<not> plain ob then (Inl Conflict, s)
      else case map_of (m_objs s) (obj_key ob) of
        Some _ \<Rightarrow> (Inl AlreadyExists, s) | None \<Rightarrow> (Inr (), store_obj ob s))"

definition mem_update :: "obj \<Rightarrow> mem \<Rightarrow> (mem_error + unit) \<times> mem" where
  "mem_update ob s =
     (if \<not> plain ob then (Inl Conflict, s)
      else case map_of (m_objs s) (obj_key ob) of
        None \<Rightarrow> (Inl NotFound, s)
      | Some old \<Rightarrow>
          if ResourceVersion (obj_meta ob) \<noteq> ResourceVersion (obj_meta old) then (Inl Conflict, s)
          else (Inr (), store_obj ob s))"

definition mem_delete :: "kind \<Rightarrow> string \<Rightarrow> string \<Rightarrow> mem \<Rightarrow> (mem_error + unit) \<times> mem" where
  "mem_delete kd ns n s =
     (case map_of (m_objs s) (kd, ns, n) of
        None \<Rightarrow> (Inl NotFound, s)
      | Some _ \<Rightarrow> (Inr (), s\<lparr>m_objs := AList.delete (kd, ns, n) (m_objs s)\<rparr>))"

definition mem_list_nodes :: "gomap \<Rightarrow> mem \<Rightarrow> (mem_error + Node list) \<times> mem" where
  "mem_list_nodes sel s = (Inr (filter (\<lambda>n. labels_match sel (node_labels n)) (map snd (m_nodes s))), s)"

definition node_with_rv :: "string \<Rightarrow> Node \<Rightarrow> Node" where
  "node_with_rv rv n = n\<lparr>node_meta := (node_meta n)\<lparr>ResourceVersion := rv\<rparr>\<rparr>"

definition mem_update_node :: "Node \<Rightarrow> mem \<Rightarrow> (mem_error + unit) \<times> mem" where
  "mem_update_node n s =
     (case map_of (m_nodes s) (node_name n) of
        None \<Rightarrow> (Inl NotFound, s)
      | Some old \<Rightarrow>
          if ResourceVersion (node_meta n) \<noteq> ResourceVersion (node_meta old) then (Inl Conflict, s)
          else (Inr (), s\<lparr>m_nodes := AList.update (node_name n) (node_with_rv (next_rv s) n) (m_nodes s),
                          m_rv := m_rv s + 1\<rparr>))"

definition mem_get_cfg :: "string \<Rightarrow> string \<Rightarrow> mem \<Rightarrow> (mem_error + FakeGPUConfig) \<times> mem" where
  "mem_get_cfg ns n s =
     (case map_of (m_cfgs s) n of None \<Rightarrow> (Inl NotFound, s) | Some cfg \<Rightarrow> (Inr cfg, s))"

definition mem_list_cfgs :: "mem \<Rightarrow> (mem_error + FakeGPUConfig list) \<times> mem" where
  "mem_list_cfgs s = (Inr (map snd (m_cfgs s)), s)"

definition mem_update_cfg :: "FakeGPUConfig \<Rightarrow> mem \<Rightarrow> (mem_error + FakeGPUConfig) \<times> mem" where
  "mem_update_cfg cfg s =
     (case map_of (m_cfgs s) (cfg_name cfg) of
        None \<Rightarrow> (Inl NotFound, s)
      | Some old \<Rightarrow>
          if ResourceVersion (cfg_meta cfg) \<noteq> ResourceVersion (cfg_meta old) then (Inl Conflict, s)
          else let cfg' = updated_cfg (next_rv s) old cfg in
            (Inr cfg',
             s\<lparr>m_cfgs :=
                 if \<not> IsZero (DeletionTimestamp (cfg_meta cfg)) \<and> Finalizers (cfg_meta cfg) = []
                 then AList.delete (cfg_name cfg) (m_cfgs s)
                 else AList.update (cfg_name cfg) cfg' (m_cfgs s),
               m_rv := m_rv s + 1\<rparr>))"

definition mem_update_status :: "FakeGPUConfig \<Rightarrow> mem \<Rightarrow> (mem_error + unit) \<times> mem" where
  "mem_update_status cfg s =
     (case map_of (m_cfgs s) (cfg_name cfg) of
        None \<Rightarrow> (Inl NotFound, s)
      | Some old \<Rightarrow>
          if ResourceVersion (cfg_meta cfg) \<noteq> ResourceVersion (cfg_meta old) then (Inl Conflict, s)
          else (Inr (), s\<lparr>m_cfgs := AList.update (cfg_name cfg)
                  (with_cfg_rv (next_rv s) (old\<lparr>Status := Status cfg\<rparr>)) (m_cfgs s),
                m_rv := m_rv s + 1\<rparr>))"

definition mem_resources_for :: "string \<Rightarrow> string \<Rightarrow> string \<Rightarrow> mem \<Rightarrow> (mem_error + unit) \<times> mem" where
  "mem_resources_for g v res s =
     (if g = ''security.openshift.io'' \<and> m_scc s then Inr () else Inl NotFound, s)"

definition mem_client :: "(mem, mem_error) Client" where
  "mem_client =
     \<lparr>c_get_cfg = mem_get_cfg, c_get = mem_get, c_list = mem_list, c_list_nodes = mem_list_nodes,
      c_list_cfgs = mem_list_cfgs, c_create = mem_create, c_update = mem_update,
      c_update_node = mem_update_node, c_update_cfg = mem_update_cfg,
      c_update_status = mem_update_status, c_delete = mem_delete,
      c_resources_for = mem_resources_for\<rparr>"

definition mem_library :: "mem_error Library" where
  "mem_library =
     \<lparr>IsNotFound = (\<lambda>e. e = NotFound),
      SetStatusCondition = (\<lambda>cs cnd. cnd # filter (\<lambda>d. cond_Type d \<noteq> cond_Type cnd) cs),
      ContainsFinalizer = (\<lambda>fs f. f \<in> set fs),
      AddFinalizer = (\<lambda>fs f. if f \<in> set fs then fs else fs @ [f]),
      RemoveFinalizer = (\<lambda>fs f. filter (\<lambda>g. g \<noteq> f) fs)\<rparr>"

definition mem_inv :: "mem \<Rightarrow> bool" where
  "mem_inv s \<longleftrightarrow>
     distinct (map fst (m_objs s)) \<and> distinct (map fst (m_nodes s)) \<and> distinct (map fst (m_cfgs s))
     \<and> list_all (\<lambda>(k, ob). obj_key ob = k \<and> plain ob) (m_objs s)
     \<and> list_all (\<lambda>(x, n). node_name n = x) (m_nodes s)
     \<and> list_all (\<lambda>(x, cfg). cfg_name cfg = x) (m_cfgs s)"

lemmas mem_defs = mem_client_def mem_get_def mem_list_def mem_create_def mem_update_def
  mem_delete_def mem_list_nodes_def mem_update_node_def mem_get_cfg_def mem_list_cfgs_def
  mem_update_cfg_def mem_update_status_def mem_resources_for_def store_obj_def

lemma alist_update_all:
  "list_all P xs \<Longrightarrow> P (k, v) \<Longrightarrow> list_all P (AList.update k v xs)"
  by (induction xs) auto

lemma alist_delete_all: "list_all P xs \<Longrightarrow> list_all P (AList.delete k xs)"
  by (auto simp: list_all_iff AList.delete_eq)

lemma map_of_delete: "map_of (AList.delete k xs) = (map_of xs)(k := None)"
  by (simp add: delete_conv' fun_eq_iff)

lemma map_of_update: "map_of (AList.update k v xs) = (map_of xs)(k \<mapsto> v)"
  by (rule update_conv')

interpretation mem: api_server mem_client mem_library mem_inv
    "\<lambda>s. map_of (m_objs s)" "\<lambda>s. map_of (m_nodes s)" "\<lambda>s. map_of (m_cfgs s)" m_scc
proof (unfold_locales, goal_cases)
  case (1 s k ob)
  then show ?case by (auto simp: mem_inv_def list_all_iff dest: map_of_SomeD)
next
  case (4 s kd sel nso)
  then have "set (m_objs s) = {(k, ob). map_of (m_objs s) k = Some ob}"
    by (auto simp: mem_inv_def)
  then show ?case by (auto simp: mem_defs image_iff)
next
  case (5 s ob)
  then show ?case
    by (intro exI [of _ "store_obj ob s"] exI [of _ "SetResourceVersion (next_rv s) ob"])
      (auto simp: mem_defs mem_inv_def map_of_update distinct_update intro!: alist_update_all)
next
  case (6 s ob old)
  then show ?case
    by (intro exI [of _ "store_obj ob s"] exI [of _ "SetResourceVersion (next_rv s) ob"])
      (auto simp: mem_defs mem_inv_def map_of_update distinct_update intro!: alist_update_all)
next
  case (10 s x n)
  then show ?case by (auto simp: mem_inv_def list_all_iff dest: map_of_SomeD)
next
  case (11 s sel)
  then have m: "set (m_nodes s) = {(x, n). map_of (m_nodes s) x = Some n}"
    by (auto simp: mem_inv_def)
  have names: "map node_name (map snd (m_nodes s)) = map fst (m_nodes s)"
    using 11 by (auto simp: mem_inv_def list_all_iff)
  have "distinct (map node_name (map snd (m_nodes s)))"
    unfolding names using 11 by (simp add: mem_inv_def)
  then have "distinct (map node_name (filter (\<lambda>n. labels_match sel (node_labels n)) (map snd (m_nodes s))))"
    by (rule distinct_map_filter)
  then show ?case by (auto simp: mem_defs m image_iff)
next
  case (12 s n old)
  then show ?case
    by (intro exI [of _ "snd (mem_update_node n s)"] exI [of _ "node_with_rv (next_rv s) n"])
      (auto simp: mem_defs mem_inv_def map_of_update distinct_update node_with_rv_def strip_node_def
        intro!: alist_update_all)
next
  case (17 s cfg old)
  moreover from this have "cfg_name old = cfg_name cfg"
    by (auto simp: mem_inv_def list_all_iff dest: map_of_SomeD)
  ultimately show ?case
    by (auto simp: mem_defs mem_inv_def map_of_update distinct_update with_cfg_rv_def
        intro!: alist_update_all)
next
  case (13 s x cfg)
  then show ?case by (auto simp: mem_inv_def list_all_iff dest: map_of_SomeD)
qed (auto simp: mem_defs mem_library_def mem_inv_def map_of_update map_of_delete Let_def
    next_rv_def strip_node_def node_with_rv_def with_cfg_rv_def distinct_update distinct_delete
    intro!: alist_update_all alist_delete_all split: option.splits)

section \<open>A reconciler on this server\<close>

definition mem_reconciler :: "(mem, mem_error) Reconciler" where
  "mem_reconciler =
     \<lparr>r_Client = mem_client, r_Library = mem_library, r_Namespace = ''fake-gpu-operator'',
      r_Env = (\<lambda>_. []), r_IsPrint = (\<lambda>n. 32 \<le> n \<and> n < 127), r_Range = (\<lambda>_ m. entries m)\<rparr>"

definition demo_node :: Node where
  "demo_node = \<lparr>node_meta = object_meta ''worker-1'' [] (GoMap [(''zone'', ''a'')])\<rparr>"

definition demo_cfg :: "string \<Rightarrow> FakeGPUConfig" where
  "demo_cfg profile =
     \<lparr>cfg_meta = object_meta ''demo'' [] NilMap,
      Spec = \<lparr>spec_GPUProfile = profile, GPUCount = 2, Custom = None,
              NodeSelector = GoMap [(''zone'', ''a'')], MIG = None, Components = None, Images = None\<rparr>,
      Status = \<lparr>Conditions = [], ReadyNodes = 0, TotalNodes = 0, status_GPUProfile = [],
                GPUCountPerNode = 0\<rparr>\<rparr>"

definition demo_mem :: "FakeGPUConfig \<Rightarrow> (key \<times> obj) list \<Rightarrow> mem" where
  "demo_mem cfg obs =
     \<lparr>m_objs = obs, m_nodes = [(''worker-1'', demo_node)], m_cfgs = [(''demo'', cfg)], m_rv = 7,
      m_scc = True\<rparr>"

definition demo_world :: "FakeGPUConfig \<Rightarrow> (key \<times> obj) list \<Rightarrow> mem World" where
  "demo_world cfg obs = \<lparr>server = demo_mem cfg obs, isOpenShift = None, trace = []\<rparr>"

lemmas demo_defs = mem_reconciler_def demo_node_def demo_cfg_def demo_mem_def demo_world_def

end
