(* ===== verification/Outcomes.thy ===== *)
theory Outcomes
  imports Safety Node_Labels Mem_Server
begin

text \<open>
  The outcome and the calls of a whole \<open>Reconcile\<close>, whatever the server answers: the order of
  accounts and workloads, the exact results of the early returns,
  the cached detection of OpenShift, and the shape of a deletion.
\<close>

section \<open>Accounts before workloads\<close>

lemma accounts_precede_prefix:
  assumes "list_all (\<lambda>ev. call_account ev = None) es" and "accounts_precede ns fs"
  shows "accounts_precede ns (es @ fs)"
proof (unfold accounts_precede_def, intro allI impI)
  fix i a
  assume i: "i < length (es @ fs)" and a: "call_account ((es @ fs) ! i) = Some a"
  have ge: "length es \<le> i"
  proof (rule ccontr)
    assume "\<not> length es \<le> i"
    with a assms(1) show False by (auto simp: nth_append list_all_length)
  qed
  with i a have "i - length es < length fs" "call_account (fs ! (i - length es)) = Some a"
    by (auto simp: nth_append)
  with assms(2) obtain j where "j < i - length es" "stores_account ns a (fs ! j)"
    unfolding accounts_precede_def by blast
  with ge show "\<exists>j < i. stores_account ns a ((es @ fs) ! j)"
    by (intro exI [of _ "length es + j"]) auto
qed

lemma accounts_precede_suffix:
  assumes "accounts_precede ns es" and "list_all (\<lambda>ev. call_account ev = None) fs"
  shows "accounts_precede ns (es @ fs)"
proof (unfold accounts_precede_def, intro allI impI)
  fix i a
  assume i: "i < length (es @ fs)" and a: "call_account ((es @ fs) ! i) = Some a"
  have lt: "i < length es"
  proof (rule ccontr)
    assume "\<not> i < length es"
    with i a assms(2) show False by (auto simp: nth_append list_all_length)
  qed
  with a assms(1) obtain j where "j < i" "stores_account ns a (es ! j)"
    by (auto simp: accounts_precede_def nth_append)
  with lt show "\<exists>j < i. stores_account ns a ((es @ fs) ! j)"
    by (intro exI [of _ j]) (auto simp: nth_append)
qed

definition ordered :: "string \<Rightarrow> ('s, 'a) prog \<Rightarrow> bool" where
  "ordered ns m \<longleftrightarrow> (\<forall>w. \<exists>es. trace (snd (run m w)) = trace w @ es \<and> accounts_precede ns es)"

lemma ordered_emits: "emits (\<lambda>ev. call_account ev = None) m \<Longrightarrow> ordered ns m"
  unfolding ordered_def emits_def by (blast intro: accounts_precede_none)

lemma ordered_bind_left:
  assumes "emits (\<lambda>ev. call_account ev = None) m" and "\<And>x. ordered ns (f x)"
  shows "ordered ns (State_Monad.bind m f)"
proof (unfold ordered_def, intro allI)
  fix w
  obtain x w1 where m: "run m w = (x, w1)" by (cases "run m w")
  from emitsD [OF assms(1) m] obtain es where
    es: "trace w1 = trace w @ es" "list_all (\<lambda>ev. call_account ev = None) es" by blast
  from assms(2) obtain fs where "trace (snd (run (f x) w1)) = trace w1 @ fs" "accounts_precede ns fs"
    unfolding ordered_def by blast
  with es m show "\<exists>es. trace (snd (run (State_Monad.bind m f) w)) = trace w @ es \<and> accounts_precede ns es"
    by (intro exI [of _ "es @ fs"]) (auto intro: accounts_precede_prefix)
qed

lemma ordered_bind_right:
  assumes "ordered ns m" and "\<And>x. emits (\<lambda>ev. call_account ev = None) (f x)"
  shows "ordered ns (State_Monad.bind m f)"
proof (unfold ordered_def, intro allI)
  fix w
  obtain x w1 where m: "run m w = (x, w1)" by (cases "run m w")
  from assms(1) m obtain es where es: "trace w1 = trace w @ es" "accounts_precede ns es"
    unfolding ordered_def by (metis snd_conv)
  obtain y w2 where f: "run (f x) w1 = (y, w2)" by (cases "run (f x) w1")
  from emitsD [OF assms(2) f] obtain fs where
    "trace w2 = trace w1 @ fs" "list_all (\<lambda>ev. call_account ev = None) fs" by blast
  with es m f show "\<exists>es. trace (snd (run (State_Monad.bind m f) w)) = trace w @ es \<and> accounts_precede ns es"
    by (intro exI [of _ "es @ fs"]) (auto intro: accounts_precede_suffix)
qed

lemma ordered_steps: "ordered (r_Namespace r) (fail_fast (reconcileSteps r cfg profile))"
proof (unfold ordered_def, intro allI)
  fix w
  define rest where "rest = tl (reconcileSteps r cfg profile)"
  have steps: "reconcileSteps r cfg profile
      = wrap_err ''reconciling RBAC'' (reconcileRBAC r cfg) # rest"
    by (simp add: rest_def reconcileSteps_def)
  obtain err w1 where rb: "run (reconcileRBAC r cfg) w = (err, w1)"
    by (cases "run (reconcileRBAC r cfg) w")
  from emitsD [OF no_account_rbac rb] obtain es where
    es: "trace w1 = trace w @ es" "list_all (\<lambda>ev. call_account ev = None) es" by blast
  show "\<exists>es. trace (snd (run (fail_fast (reconcileSteps r cfg profile)) w)) = trace w @ es
        \<and> accounts_precede (r_Namespace r) es"
  proof (cases err)
    case (Some e)
    with rb es show ?thesis
      by (auto simp: steps run_simps intro: accounts_precede_none)
  next
    case None
    with stores_rbac [of r cfg] rb es have ok: "\<forall>ob \<in> set (rbac_objects r cfg False). stored_ok ob es"
      unfolding stores_def by (metis append_same_eq fst_conv same_append_eq snd_conv)
    obtain err2 w2 where rs: "run (fail_fast rest) w1 = (err2, w2)" by (cases "run (fail_fast rest) w1")
    have "emits (stays_managed r cfg profile) (fail_fast rest)"
      using stays_steps [of r cfg profile] unfolding steps by (intro emits_list) simp
    from emitsD [OF this rs] obtain fs where
      fs: "trace w2 = trace w1 @ fs" "list_all (stays_managed r cfg profile) fs" by blast
    have "accounts_precede (r_Namespace r) (es @ fs)"
    proof (rule accounts_precedeI [OF es(2)])
      fix ev a
      assume "ev \<in> set fs" and a: "call_account ev = Some a"
      with fs(2) have "stays_managed r cfg profile ev" by (simp add: list_all_iff)
      from stays_account [OF this a] obtain c where
        c: "c \<in> set account_components" and a': "a = c @ ''-'' @ cfg_name cfg" by blast
      then have "OServiceAccount (ServiceAccount cfg c (r_Namespace r)) \<in> set (rbac_objects r cfg False)"
        by (auto simp: rbac_objects_def account_objects_def)
      with ok have "stored_ok (OServiceAccount (ServiceAccount cfg c (r_Namespace r))) es" by blast
      then show "\<exists>ev \<in> set es. stores_account (r_Namespace r) a ev"
        unfolding a' by (rule stored_ok_account)
    qed
    with None rb rs es fs show ?thesis by (auto simp: steps run_simps)
  qed
qed

lemma call_account_other [simp]:
  "stored_obj c = None \<Longrightarrow> call_account (c, b) = None"
  by (simp add: call_account_def)

lemma ordered_return: "ordered ns (State_Monad.return x)"
  by (intro ordered_emits emits_return)

lemma no_account_updateStatus: "emits (\<lambda>ev. call_account ev = None) (updateStatus r cfg profile)"
  by (rule emits_updateStatus) simp_all

lemma ordered_continue:
  "ordered (r_Namespace r) (do {
     err \<leftarrow> fail_fast (reconcileSteps r cfg profile);
     (case err of Some e \<Rightarrow> State_Monad.return (ctrl_Result0, Some e)
      | None \<Rightarrow> updateStatus r cfg profile)
   })"
  by (rule ordered_bind_right [OF ordered_steps]) (intro emits_option no_account_updateStatus emits_return)

lemma ordered_status_update:
  "ordered ns (do { _ \<leftarrow> invoke (UpdateStatus c) f; State_Monad.return x })"
  by (intro ordered_emits emits_bind emits_invoke emits_return) simp_all

lemma ordered_live: "ordered (r_Namespace r) (reconcileLive r cfg)"
  unfolding reconcileLive_def api_update_status_def
  by (intro ordered_bind_left emits_detectHelmConflict)
    (auto split: bool.splits sum.splits intro: ordered_continue ordered_status_update)

lemma no_account_deleteListed: "emits (\<lambda>ev. call_account ev = None) (deleteListed r kd sel)"
  unfolding deleteListed_def api_defs by (intro emit_rules) simp_all

lemma no_account_deletion: "emits (\<lambda>ev. call_account ev = None) (handleDeletion r cfg)"
  unfolding handleDeletion_def Let_def api_update_cfg_def api_list_nodes_def unlabelNode_def
    api_delete_def api_update_node_def
  by (intro emit_rules no_account_deleteListed emits_detectOpenShift)
    (auto intro!: emit_rules)

lemma no_account_finalizer: "emits (\<lambda>ev. call_account ev = None) (ensureFinalizer r cfg)"
  by (rule emits_ensureFinalizer) simp

lemma ordered_Reconcile: "ordered (r_Namespace r) (Reconcile r ns n)"
  unfolding Reconcile_def api_get_cfg_def
  by (auto split: sum.splits
      intro!: ordered_bind_left emits_invoke no_account_finalizer ordered_return ordered_live
        ordered_emits [OF no_account_deletion])

section \<open>Early returns and failing steps\<close>

lemma Reconcile_get_error:
  assumes "fst (c_get_cfg (r_Client r) ns n (server w)) = Inl e"
  shows "run (Reconcile r ns n) w =
    ((ctrl_Result0, if IsNotFound (r_Library r) e then None else Some (ClientError e)),
     w\<lparr>server := snd (c_get_cfg (r_Client r) ns n (server w)), trace := trace w @ [(GetCfg ns n, False)]\<rparr>)"
  using assms by (simp add: Reconcile_def api_get_cfg_def run_simps split: prod.splits)

lemma live_helm_conflict:
  assumes "run (detectHelmConflict r) w = ((True, ns), w')"
  shows "run (reconcileLive r cfg) w =
    ((ctrl_Result0, None),
     snd (run (api_update_status r (set_condition r ''False'' ''HelmConflict'' (helm_message ns) cfg)) w'))"
  using assms by (simp add: reconcileLive_def split: prod.splits)

lemma live_invalid_profile:
  assumes "run (detectHelmConflict r) w = ((False, ns), w')" and "resolveProfile cfg = Inl msg"
  shows "run (reconcileLive r cfg) w =
    ((ctrl_Result0, Some (Errorf msg)),
     snd (run (api_update_status r (set_condition r ''False'' ''InvalidProfile'' msg cfg)) w'))"
  using assms by (simp add: reconcileLive_def split: prod.splits)

lemma live_valid:
  assumes "run (detectHelmConflict r) w = ((False, ns), w')" and "resolveProfile cfg = Inr profile"
  shows "run (reconcileLive r cfg) w =
    (case run (fail_fast (reconcileSteps r cfg profile)) w' of
       (Some e, w'') \<Rightarrow> ((ctrl_Result0, Some e), w'')
     | (None, w'') \<Rightarrow> run (updateStatus r cfg profile) w'')"
  using assms by (simp add: reconcileLive_def split: prod.splits option.splits)

text \<open>The invoked call and its answer, for a call whose answer is not used.\<close>

lemma trace_invoke: "trace (snd (run (invoke c f) w)) = trace w @ [(c, \<not> isl (fst (f (server w))))]"
  by (simp add: run_invoke)

text \<open>Detection only reads.\<close>

fun is_read :: "call \<Rightarrow> bool" where
  "is_read (GetCfg _ _) = True"
| "is_read (GetObj _ _ _) = True"
| "is_read (ListObj _ _ _) = True"
| "is_read (ListNode _) = True"
| "is_read ListCfg = True"
| "is_read (LookupResource _ _ _) = True"
| "is_read _ = False"

lemma reads_detectHelmConflict: "emits (\<lambda>ev. is_read (fst ev)) (detectHelmConflict r)"
  by (rule emits_detectHelmConflict) simp_all

lemma trace_live_rejected:
  assumes "fst (run (detectHelmConflict r) w) = (True, ns) \<or> isl (resolveProfile cfg)"
  shows "\<exists>es c ok. trace (snd (run (reconcileLive r cfg) w)) = trace w @ es @ [(UpdateStatus c, ok)]
    \<and> list_all (\<lambda>ev. is_read (fst ev)) es"
proof -
  obtain b x w' where h: "run (detectHelmConflict r) w = ((b, x), w')"
    by (metis prod.collapse)
  from emitsD [OF reads_detectHelmConflict h] obtain es where
    es: "trace w' = trace w @ es" "list_all (\<lambda>ev. is_read (fst ev)) es" by blast
  show ?thesis
  proof (cases b)
    case True
    with h have h': "run (detectHelmConflict r) w = ((True, x), w')" by simp
    show ?thesis
      unfolding live_helm_conflict [OF h'] api_update_status_def using es by (auto simp: run_invoke)
  next
    case False
    with h have h': "run (detectHelmConflict r) w = ((False, x), w')" by simp
    with assms obtain msg where "resolveProfile cfg = Inl msg" by (auto simp: isl_def)
    note l = live_invalid_profile [OF h' this]
    show ?thesis unfolding l api_update_status_def using es by (auto simp: run_invoke)
  qed
qed

section \<open>OpenShift detection\<close>

text \<open>Which programs leave the cached answer alone.\<close>

definition keeps_flag :: "('s, 'a) prog \<Rightarrow> bool" where
  "keeps_flag m \<longleftrightarrow> (\<forall>w. isOpenShift (snd (run m w)) = isOpenShift w)"

lemma keeps_flagD: "keeps_flag m \<Longrightarrow> run m w = (x, w') \<Longrightarrow> isOpenShift w' = isOpenShift w"
  unfolding keeps_flag_def by (metis snd_conv)

lemma keeps_flag_return [flag_rules]: "keeps_flag (State_Monad.return x)"
  by (simp add: keeps_flag_def)

lemma keeps_flag_bind [flag_rules]: "keeps_flag m \<Longrightarrow> (\<And>x. keeps_flag (f x)) \<Longrightarrow> keeps_flag (State_Monad.bind m f)"
  by (simp add: keeps_flag_def split_beta)

lemma keeps_flag_invoke [flag_rules]: "keeps_flag (invoke c f)"
  by (simp add: keeps_flag_def run_invoke)

lemma keeps_flag_cases [flag_rules]:
  "(b \<Longrightarrow> keeps_flag m) \<Longrightarrow> (\<not> b \<Longrightarrow> keeps_flag n) \<Longrightarrow> keeps_flag (if b then m else n)"
  "(\<And>e. keeps_flag (f e)) \<Longrightarrow> (\<And>y. keeps_flag (g y)) \<Longrightarrow> keeps_flag (case s of Inl e \<Rightarrow> f e | Inr y \<Rightarrow> g y)"
  "keeps_flag m \<Longrightarrow> (\<And>y. keeps_flag (g y)) \<Longrightarrow> keeps_flag (case z of None \<Rightarrow> m | Some y \<Rightarrow> g y)"
  "(\<And>x y. keeps_flag (h x y)) \<Longrightarrow> keeps_flag (case p of (x, y) \<Rightarrow> h x y)"
  by (auto split: sum.split option.split prod.split)

lemma keeps_flag_fail_fast [flag_rules]: "list_all keeps_flag ms \<Longrightarrow> keeps_flag (fail_fast ms)"
  by (induction ms) (auto simp: fail_fast.simps intro!: flag_rules)

lemma keeps_flag_for_err [flag_rules]: "(\<And>x. keeps_flag (f x)) \<Longrightarrow> keeps_flag (for_err f xs)"
  unfolding for_err_def by (rule keeps_flag_fail_fast) (simp add: list_all_iff)

lemma keeps_flag_for_each [flag_rules]: "(\<And>x. keeps_flag (f x)) \<Longrightarrow> keeps_flag (for_each f xs)"
  by (induction xs) (auto intro!: flag_rules)

lemma keeps_flag_writes [flag_rules]:
  "keeps_flag (createOrUpdate r ob owner)" "keeps_flag (createOrUpdateClusterScoped r ob)"
  "keeps_flag (deleteListed r kd sel)" "keeps_flag (unlabelNode r node)"
  unfolding createOrUpdate_def createOrUpdateClusterScoped_def deleteListed_def unlabelNode_def api_defs
  by (intro flag_rules)+

text \<open>
  What \<open>detectOpenShift\<close> answers: the cached answer, or whether the lookup among the calls \<open>es\<close>
  succeeded.
\<close>

definition detected :: "bool option \<Rightarrow> event list \<Rightarrow> bool \<Rightarrow> bool" where
  "detected before es os \<longleftrightarrow> (case before of
      Some b \<Rightarrow> os = b
    | None \<Rightarrow> (LookupResource ''security.openshift.io'' ''v1'' ''securitycontextconstraints'', os) \<in> set es)"

lemma detected_mono: "detected b es os \<Longrightarrow> set es \<subseteq> set fs \<Longrightarrow> detected b fs os"
  by (auto simp: detected_def split: option.splits)

lemma detectOpenShift_calls:
  "\<exists>es. trace (snd (run (detectOpenShift r) w)) = trace w @ es
    \<and> detected (isOpenShift w) es (fst (run (detectOpenShift r) w))
    \<and> list_all (\<lambda>ev. \<exists>g v x. fst ev = LookupResource g v x) es"
  by (auto simp: detectOpenShift_def detected_def api_defs run_simps Let_def split: option.splits)

lemma detectOpenShift_cached:
  "isOpenShift w = Some b \<Longrightarrow> run (detectOpenShift r) w = (b, w)"
  by (simp add: detectOpenShift_def)

lemma detectOpenShift_fills_cache:
  "isOpenShift (snd (run (detectOpenShift r) w)) = Some (fst (run (detectOpenShift r) w))"
  by (auto simp: detectOpenShift_def api_defs run_simps Let_def split: option.splits)

section \<open>Deletion\<close>

fun deletion_call :: "('s, 'e) Reconciler \<Rightarrow> FakeGPUConfig \<Rightarrow> call \<Rightarrow> bool" where
  "deletion_call r cfg (ListObj _ _ nso) = (nso = Some (r_Namespace r))"
| "deletion_call r cfg (ListNode sel) = (sel = GoMap [(nodePoolLabel, cfg_name cfg)])"
| "deletion_call r cfg (LookupResource _ _ _) = True"
| "deletion_call r cfg (DeleteObj kd ns n) =
     (kd \<in> {KDaemonSet, KDeployment, KService, KServiceAccount, KConfigMap}
      \<or> ns = [] \<and> (kd, n) \<in> set (clusterScopedResources cfg True))"
| "deletion_call r cfg (UpdateNode n) = (\<forall>k \<in> node_keys. go_lookup (node_labels n) k = None)"
| "deletion_call r cfg _ = False"

lemma node_labels_with_labels [simp]: "node_labels (with_labels ls n) = ls"
  by (simp add: with_labels_def)


text \<open>\<open>yields Q m\<close>: the value \<open>m\<close> returns and the calls it makes are related by \<open>Q\<close>.\<close>

definition yields :: "('a \<Rightarrow> event list \<Rightarrow> bool) \<Rightarrow> ('s, 'a) prog \<Rightarrow> bool" where
  "yields Q m \<longleftrightarrow> (\<forall>w. \<exists>es. trace (snd (run m w)) = trace w @ es \<and> Q (fst (run m w)) es)"

lemma yields_return: "Q x [] \<Longrightarrow> yields Q (State_Monad.return x)"
  by (simp add: yields_def)

lemma yields_bind:
  assumes "yields R m" and "\<And>x. yields (\<lambda>y fs. \<forall>es. R x es \<longrightarrow> Q y (es @ fs)) (f x)"
  shows "yields Q (State_Monad.bind m f)"
proof (unfold yields_def, intro allI)
  fix w
  obtain x w1 where m: "run m w = (x, w1)" by (cases "run m w")
  from assms(1) m obtain es where es: "trace w1 = trace w @ es" "R x es"
    unfolding yields_def by (metis fst_conv snd_conv)
  from assms(2) obtain fs where "trace (snd (run (f x) w1)) = trace w1 @ fs"
      "\<forall>es. R x es \<longrightarrow> Q (fst (run (f x) w1)) (es @ fs)"
    unfolding yields_def by blast
  with es m show "\<exists>es. trace (snd (run (State_Monad.bind m f) w)) = trace w @ es
      \<and> Q (fst (run (State_Monad.bind m f) w)) es"
    by (intro exI [of _ "es @ fs"]) simp
qed

lemma yields_emits: "emits P m \<Longrightarrow> yields (\<lambda>_. list_all P) m"
  by (simp add: yields_def emits_def)

lemma yields_skip:
  assumes "emits P m" and "\<And>x. yields Q (f x)"
    and "\<And>y es fs. list_all P es \<Longrightarrow> Q y fs \<Longrightarrow> Q y (es @ fs)"
  shows "yields Q (State_Monad.bind m f)"
  by (rule yields_bind [OF yields_emits [OF assms(1)]]) (use assms(2,3) in \<open>fastforce simp: yields_def\<close>)

lemma yields_invoke: "(\<And>res. Q res [(c, \<not> isl res)]) \<Longrightarrow> yields Q (invoke c f)"
  by (simp add: yields_def run_invoke)

lemma yields_mono: "yields Q m \<Longrightarrow> (\<And>x es. Q x es \<Longrightarrow> Q' x es) \<Longrightarrow> yields Q' m"
  unfolding yields_def by meson

lemma yields_call:
  "yields (\<lambda>_ es. map fst es = [c]) (do { _ \<leftarrow> invoke c f; State_Monad.return () })"
  by (simp add: yields_def run_invoke)

lemma deletes_each:
  "yields (\<lambda>_ es. map fst es = map (\<lambda>(kd, n). DeleteObj kd [] n) xs)
     (for_each (\<lambda>(kd, n). do { _ \<leftarrow> api_delete r kd [] n; State_Monad.return () }) xs)"
proof (induction xs)
  case Nil
  show ?case by (simp add: yields_return)
next
  case (Cons x xs)
  obtain kd n where x: "x = (kd, n)" by (cases x)
  show ?case
    unfolding for_each.simps x prod.case api_delete_def
    by (rule yields_bind [OF yields_call]) (auto intro: yields_mono [OF Cons.IH [unfolded api_delete_def]])
qed

text \<open>
  The shape of a deletion, \<open>before\<close> being the cached answer of the OpenShift lookup at its start:
  it ends after a failed listing of the nodes, or with the deletes of all cluster-scoped objects,
  those of OpenShift included exactly when it was detected, and the update of the finalizers.
\<close>

definition deletion_shape ::
  "('s, 'e) Reconciler \<Rightarrow> FakeGPUConfig \<Rightarrow> bool option \<Rightarrow> 'e outcome \<Rightarrow> event list \<Rightarrow> bool" where
  "deletion_shape r cfg before out es \<longleftrightarrow>
     (let good = list_all (\<lambda>ev. deletion_call r cfg (fst ev)) in
      (\<exists>es'. es = es' @ [(ListNode (GoMap [(nodePoolLabel, cfg_name cfg)]), False)]
          \<and> good es' \<and> snd out \<noteq> None)
      \<or> (\<exists>es' ds os ok. es = es' @ ds
           @ [(UpdateCfg (with_finalizers (RemoveFinalizer (r_Library r) (Finalizers (cfg_meta cfg))
                 finalizerName) cfg), ok)]
          \<and> good es' \<and> detected before es' os
          \<and> map fst ds = map (\<lambda>(kd, n). DeleteObj kd [] n) (clusterScopedResources cfg os)
          \<and> (snd out = None) = ok))"

definition shaped :: "('s, 'e) Reconciler \<Rightarrow> FakeGPUConfig \<Rightarrow> ('s, 'e outcome) prog \<Rightarrow> bool" where
  "shaped r cfg m \<longleftrightarrow> (\<forall>w. \<exists>es. trace (snd (run m w)) = trace w @ es
     \<and> deletion_shape r cfg (isOpenShift w) (fst (run m w)) es)"

lemma deletion_shape_prefix:
  assumes "list_all (\<lambda>ev. deletion_call r cfg (fst ev)) es" and "deletion_shape r cfg b out fs"
  shows "deletion_shape r cfg b out (es @ fs)"
  using assms(2) unfolding deletion_shape_def Let_def
proof (elim disjE exE conjE, goal_cases)
  case (1 es')
  with assms(1) show ?case by (intro disjI1 exI [of _ "es @ es'"]) simp
next
  case (2 es' ds os ok)
  with assms(1) detected_mono [OF 2(3), of "es @ es'"] show ?case
    by (intro disjI2 exI [of _ "es @ es'"] exI [of _ ds] exI [of _ os] exI [of _ ok]) simp
qed

lemma deletion_calls_listed:
  "kd \<in> {KDaemonSet, KDeployment, KService, KServiceAccount, KConfigMap} \<Longrightarrow>
   emits (\<lambda>ev. deletion_call r cfg (fst ev)) (deleteListed r kd sel)"
  unfolding deleteListed_def api_defs by (intro emit_rules) auto

lemma deletion_calls_unlabel:
  "emits (\<lambda>ev. deletion_call r cfg (fst ev)) (for_each (unlabelNode r) items)"
  unfolding unlabelNode_def api_update_node_def
  by (intro emit_rules) (auto simp: strip_node_labels_lookup)

lemma deletion_finish:
  "yields (\<lambda>out es. \<exists>ds ok. es = ds @ [(UpdateCfg (with_finalizers
          (RemoveFinalizer (r_Library r) (Finalizers (cfg_meta cfg)) finalizerName) cfg), ok)]
      \<and> map fst ds = map (\<lambda>(kd, n). DeleteObj kd [] n) (clusterScopedResources cfg os)
      \<and> (snd out = None) = ok)
   (do {
     _ \<leftarrow> for_each (\<lambda>(kd, n). do { _ \<leftarrow> api_delete r kd [] n; State_Monad.return () })
            (clusterScopedResources cfg os);
     upd \<leftarrow> api_update_cfg r (with_finalizers
              (RemoveFinalizer (r_Library r) (Finalizers (cfg_meta cfg)) finalizerName) cfg);
     State_Monad.return (ctrl_Result0, err_of upd) })"
  by (rule yields_bind [OF deletes_each])
    (auto simp: yields_def api_update_cfg_def run_invoke err_of_def split: sum.split)

lemma shaped_skip:
  assumes "emits (\<lambda>ev. deletion_call r cfg (fst ev)) m" and "keeps_flag m" and "\<And>x. shaped r cfg (f x)"
  shows "shaped r cfg (State_Monad.bind m f)"
proof (unfold shaped_def, intro allI)
  fix w
  obtain x w1 where m: "run m w = (x, w1)" by fastforce
  from emitsD [OF assms(1) m] obtain es where
    es: "trace w1 = trace w @ es" "list_all (\<lambda>ev. deletion_call r cfg (fst ev)) es" by blast
  from assms(3) keeps_flagD [OF assms(2) m] obtain fs where "trace (snd (run (f x) w1)) = trace w1 @ fs"
      "deletion_shape r cfg (isOpenShift w) (fst (run (f x) w1)) fs"
    unfolding shaped_def by metis
  with es m show "\<exists>es. trace (snd (run (State_Monad.bind m f) w)) = trace w @ es
      \<and> deletion_shape r cfg (isOpenShift w) (fst (run (State_Monad.bind m f) w)) es"
    by (intro exI [of _ "es @ fs"]) (simp add: deletion_shape_prefix)
qed

lemma shaped_detect:
  assumes "\<And>os. yields (\<lambda>out es. \<exists>ds ok. es = ds @ [(UpdateCfg (with_finalizers
          (RemoveFinalizer (r_Library r) (Finalizers (cfg_meta cfg)) finalizerName) cfg), ok)]
      \<and> map fst ds = map (\<lambda>(kd, n). DeleteObj kd [] n) (clusterScopedResources cfg os)
      \<and> (snd out = None) = ok) (f os)"
  shows "shaped r cfg (State_Monad.bind (detectOpenShift r) f)"
proof (unfold shaped_def, intro allI)
  fix w
  obtain os w1 where d: "run (detectOpenShift r) w = (os, w1)" by fastforce
  obtain es where es: "trace w1 = trace w @ es" "detected (isOpenShift w) es os"
      "list_all (\<lambda>ev. \<exists>g v x. fst ev = LookupResource g v x) es"
    using detectOpenShift_calls [of r w] d by auto
  from es(3) have good: "list_all (\<lambda>ev. deletion_call r cfg (fst ev)) es" by (auto simp: list_all_iff)
  obtain ds ok where fs: "trace (snd (run (f os) w1)) = trace w1 @ ds @ [(UpdateCfg (with_finalizers
          (RemoveFinalizer (r_Library r) (Finalizers (cfg_meta cfg)) finalizerName) cfg), ok)]"
      "map fst ds = map (\<lambda>(kd, n). DeleteObj kd [] n) (clusterScopedResources cfg os)"
      "(snd (fst (run (f os) w1)) = None) = ok"
    using assms [of os] unfolding yields_def by blast
  show "\<exists>es. trace (snd (run (State_Monad.bind (detectOpenShift r) f) w)) = trace w @ es
      \<and> deletion_shape r cfg (isOpenShift w) (fst (run (State_Monad.bind (detectOpenShift r) f) w)) es"
    unfolding deletion_shape_def Let_def
    by (rule exI, rule conjI [rotated], rule disjI2, rule exI [of _ es], rule exI [of _ ds],
        rule exI [of _ os], rule exI [of _ ok]) (use d es good fs in auto)
qed

lemma shaped_nodes:
  assumes "\<And>items. shaped r cfg (f items)"
  shows "shaped r cfg (do {
     res \<leftarrow> api_list_nodes r (GoMap [(nodePoolLabel, cfg_name cfg)]);
     (case res of
        Inl e \<Rightarrow> State_Monad.return (ctrl_Result0, Some (ClientError e))
      | Inr items \<Rightarrow> f items) })"
proof (unfold shaped_def, intro allI)
  fix w
  let ?c = "ListNode (GoMap [(nodePoolLabel, cfg_name cfg)])"
  obtain res w1 where l: "run (api_list_nodes r (GoMap [(nodePoolLabel, cfg_name cfg)])) w = (res, w1)" by fastforce
  then have w1: "trace w1 = trace w @ [(?c, \<not> isl res)]" "isOpenShift w1 = isOpenShift w"
    by (auto simp: api_list_nodes_def run_invoke)
  show "\<exists>es. trace (snd (run (do {
        res \<leftarrow> api_list_nodes r (GoMap [(nodePoolLabel, cfg_name cfg)]);
        (case res of Inl e \<Rightarrow> State_Monad.return (ctrl_Result0, Some (ClientError e)) | Inr items \<Rightarrow> f items) }) w))
        = trace w @ es
      \<and> deletion_shape r cfg (isOpenShift w) (fst (run (do {
        res \<leftarrow> api_list_nodes r (GoMap [(nodePoolLabel, cfg_name cfg)]);
        (case res of Inl e \<Rightarrow> State_Monad.return (ctrl_Result0, Some (ClientError e)) | Inr items \<Rightarrow> f items) }) w)) es"
  proof (cases res)
    case (Inl e)
    with l w1 show ?thesis by (simp add: deletion_shape_def)
  next
    case (Inr items)
    from assms w1 obtain fs where fs: "trace (snd (run (f items) w1)) = trace w1 @ fs"
        "deletion_shape r cfg (isOpenShift w) (fst (run (f items) w1)) fs"
      unfolding shaped_def by metis
    from deletion_shape_prefix [of r cfg "[(?c, True)]", OF _ fs(2)] Inr l w1 fs(1) show ?thesis by simp
  qed
qed

lemma shaped_handleDeletion: "shaped r cfg (handleDeletion r cfg)"
  unfolding handleDeletion_def Let_def
  by (intro shaped_skip [OF deletion_calls_listed] shaped_nodes shaped_skip [OF deletion_calls_unlabel]
      shaped_detect deletion_finish flag_rules) simp_all

end
