(* ===== verification/Convergence.thy ===== *)
theory Convergence
  imports Outcomes
begin

text \<open>
  A reconcile on a server that keeps the promises of \<open>Store\<close> and that nobody else writes to
  meanwhile. The store is compared up to resource versions, the nodes up to those and to the
  representation of their labels. \<open>converged\<close> is the specification: the desired objects of
  \<open>Desired\<close> are put into the store, the selected nodes are labelled, the status is reported.
  The locale \<open>healthy_run\<close> holds the proof that \<open>Reconcile\<close> meets it, step by step
  (\<open>realises\<close>).
\<close>

section \<open>Abstract nodes\<close>

text \<open>A node up to its resource version and the representation of its labels.\<close>

type_synonym node_view = "Node \<times> (string \<Rightarrow> string option)"

definition view_node :: "Node \<Rightarrow> node_view" where
  "view_node n = (with_labels NilMap (strip_node n), go_lookup (node_labels n))"

definition match_view :: "gomap \<Rightarrow> (string \<Rightarrow> string option) \<Rightarrow> bool" where
  "match_view sel f \<longleftrightarrow> list_all (\<lambda>(k, v). f k = Some v) (entries sel)"

lemma match_view_node: "match_view sel (snd (view_node n)) \<longleftrightarrow> labels_match sel (node_labels n)"
  by (simp add: match_view_def view_node_def labels_match_def)

text \<open>What a reconcile wants of the nodes: the selected ones get the wanted labels.\<close>

definition label_view :: "FakeGPUConfig \<Rightarrow> node_view \<Rightarrow> node_view" where
  "label_view cfg v = (fst v, snd v ++ go_lookup (wantedLabels cfg))"

definition label_selected :: "FakeGPUConfig \<Rightarrow> node_view \<Rightarrow> node_view" where
  "label_selected cfg v = (if match_view (nodeListOption cfg) (snd v) then label_view cfg v else v)"

text \<open>What a deletion wants of them.\<close>

definition unlabel_view :: "FakeGPUConfig \<Rightarrow> node_view \<Rightarrow> node_view" where
  "unlabel_view cfg v =
     (if snd v nodePoolLabel = Some (cfg_name cfg) then (fst v, snd v |` (- node_keys)) else v)"

lemma strip_node_labels_view [simp]: "strip_node (with_labels ls n) = with_labels ls (strip_node n)"
  by (simp add: strip_node_def with_labels_def)

lemma with_labels_twice [simp]: "with_labels a (with_labels b n) = with_labels a n"
  by (simp add: with_labels_def)

lemma view_with_labels: "view_node (with_labels ls n) = (fst (view_node n), go_lookup ls)"
  by (simp add: view_node_def)

lemma view_strip: "strip_node n = strip_node m \<Longrightarrow> view_node n = view_node m"
proof -
  assume eq: "strip_node n = strip_node m"
  have "node_labels n = node_labels m"
    using arg_cong [OF eq, of node_labels] by (simp add: strip_node_def)
  with eq show ?thesis by (simp add: view_node_def)
qed

lemma map_add_twice: "f ++ g ++ g = f ++ g"
  by (auto simp: map_add_def fun_eq_iff split: option.splits)

lemma label_selected_idem [simp]: "label_selected cfg (label_selected cfg v) = label_selected cfg v"
  by (simp add: label_selected_def label_view_def map_add_twice)

section \<open>The steps that write objects\<close>

lemma plain_facts [simp]:
  "plain (OServiceAccount (ServiceAccount cfg a ns))"
  "plain (OClusterRole (DevicePluginClusterRole cfg))"
  "plain (OClusterRole (StatusUpdaterClusterRole cfg))"
  "plain (OClusterRole (MetricsExporterClusterRole cfg))"
  "plain (OClusterRole (SCCClusterRole cfg))"
  "plain (OClusterRoleBinding (ClusterRoleBinding cfg a ns role))"
  "plain (OClusterRoleBinding (SCCClusterRoleBinding cfg ns))"
  "plain (OConfigMap (TopologyConfigMap cfg profile ns))"
  "plain (OConfigMap (GPUProfileConfigMap ip cfg profile ns))"
  "plain (OConfigMap (NodeTopologyConfigMap n cfg profile ns))"
  "plain (ODaemonSet (DevicePluginDaemonSet env cfg ns))"
  "plain (ODaemonSet (MetricsExporterDaemonSet env cfg ns))"
  "plain (ODaemonSet (MIGFakerDaemonSet env cfg ns))"
  "plain (ODaemonSet (DRAPluginDaemonSet env cfg ns))"
  "plain (ODaemonSet (ComputeDomainDRADaemonSet env cfg ns))"
  "plain (ODeployment (StatusUpdaterDeployment env cfg ns))"
  "plain (ODeployment (TopologyServerDeployment env cfg ns))"
  "plain (ODeployment (ComputeDomainControllerDeployment env cfg ns))"
  "plain (OService (MetricsExporterService cfg ns))"
  "plain (OService (TopologyServerService cfg ns))"
  "plain (ORuntimeClass (NvidiaRuntimeClass cfg))"
  by (simp_all add: plain_def builder_simps)

lemma cluster_scoped_facts [simp]:
  "GetNamespace (OClusterRole (DevicePluginClusterRole cfg)) = []"
  "GetNamespace (OClusterRole (StatusUpdaterClusterRole cfg)) = []"
  "GetNamespace (OClusterRole (MetricsExporterClusterRole cfg)) = []"
  "GetNamespace (OClusterRole (SCCClusterRole cfg)) = []"
  "GetNamespace (OClusterRoleBinding (ClusterRoleBinding cfg a ns role)) = []"
  "GetNamespace (OClusterRoleBinding (SCCClusterRoleBinding cfg ns)) = []"
  "GetNamespace (ORuntimeClass (NvidiaRuntimeClass cfg)) = []"
  by (simp_all add: GetNamespace_def builder_simps)

definition object_steps ::
  "('s, 'e) Reconciler \<Rightarrow> FakeGPUConfig \<Rightarrow> GPUProfile \<Rightarrow> ('s, 'e error option) prog list" where
  "object_steps r cfg profile = butlast (butlast (reconcileSteps r cfg profile))"

lemma reconcileSteps_split:
  "reconcileSteps r cfg profile = object_steps r cfg profile
     @ [wrap_err ''reconciling node labels'' (reconcileNodeLabels r cfg),
        wrap_err ''reconciling node topology ConfigMaps'' (reconcileNodeTopologyConfigMaps r cfg profile)]"
  by (simp add: object_steps_def reconcileSteps_def butlast_append split del: if_split)

text \<open>What each of them puts into the store, \<open>os\<close> telling whether the cluster is OpenShift.\<close>

definition object_step_objects ::
  "('s, 'e) Reconciler \<Rightarrow> FakeGPUConfig \<Rightarrow> GPUProfile \<Rightarrow> bool \<Rightarrow> obj list list" where
  "object_step_objects r cfg profile os =
     rbac_objects r cfg os # butlast (butlast (tl (step_objects r cfg profile)))"

lemma object_step_objects_concat:
  "concat (object_step_objects r cfg profile os)
   = rbac_objects r cfg os @ config_objects r cfg profile @ component_objects r cfg"
  by (simp add: object_step_objects_def step_objects_def config_objects_def component_objects_def
      Let_def butlast_append concat_if cong: if_cong split del: if_split)

section \<open>The conflict with a Helm installation\<close>

definition helm_object :: "obj \<Rightarrow> bool" where
  "helm_object ob \<longleftrightarrow>
     obj_kind ob = KSecret
       \<and> labels_match (GoMap [(''owner'', ''helm''), (''name'', ''gpu-operator'')]) (Labels (obj_meta ob))
     \<or> obj_kind ob = KConfigMap
       \<and> go_lookup (Labels (obj_meta ob)) keyManagedBy = Some ''Helm'' \<and> GetName ob = ''topology''"

definition helm_free :: "store \<Rightarrow> bool" where
  "helm_free V \<longleftrightarrow> (\<forall>k ob. V k = Some ob \<longrightarrow> \<not> helm_object ob)"

lemma helm_object_strip [simp]: "helm_object (strip ob) = helm_object ob"
  by (simp add: helm_object_def strip_def GetName_def)

lemma find_topology_None: "(\<And>m. m \<in> set ms \<Longrightarrow> Name m \<noteq> ''topology'') \<Longrightarrow> find_topology ms = (False, [])"
  by (induction ms rule: find_topology.induct) auto

lemma find_topology_Some:
  "m \<in> set ms \<Longrightarrow> Name m = ''topology'' \<Longrightarrow>
   \<exists>m' \<in> set ms. Name m' = ''topology'' \<and> find_topology ms = (True, Namespace m')"
  by (induction ms rule: find_topology.induct) auto

section \<open>Only the name and the specification of a configuration matter\<close>

definition same_spec :: "FakeGPUConfig \<Rightarrow> FakeGPUConfig \<Rightarrow> bool" where
  "same_spec a b \<longleftrightarrow> cfg_name a = cfg_name b \<and> Spec a = Spec b"

text \<open>
  The configuration a reconcile works with, once the finalizer is in place. When it had to be
  added, the specification has gone through the wire.
\<close>

definition adopted :: "FakeGPUConfig \<Rightarrow> FakeGPUConfig \<Rightarrow> bool" where
  "adopted cfg cfg' \<longleftrightarrow>
     cfg_name cfg' = cfg_name cfg \<and> Status cfg' = Status cfg
     \<and> Spec cfg' = (if finalizerName \<in> set (Finalizers (cfg_meta cfg)) then Spec cfg
                    else wire_spec (Spec cfg))
     \<and> finalizerName \<in> set (Finalizers (cfg_meta cfg'))"

lemma adopted_profile: "adopted cfg cfg' \<Longrightarrow> resolveProfile cfg' = resolveProfile cfg"
  by (auto simp: adopted_def resolveProfile_def cong: option.case_cong)

lemma adopted_again:
  "adopted cfg cfg' \<Longrightarrow> finalizerName \<in> set (Finalizers (cfg_meta cfg)) \<Longrightarrow> same_spec cfg' cfg"
  by (simp add: adopted_def same_spec_def)

lemma same_spec_questions:
  assumes "same_spec a b"
  shows "mig_enabled a = mig_enabled b" and "on_by_default X a = on_by_default X b"
    and "off_by_default X a = off_by_default X b" and "resolveProfile a = resolveProfile b"
    and "nodeListOption a = nodeListOption b" and "imageFor env a c = imageFor env b c"
    and "cfg_name a = cfg_name b" and "Spec a = Spec b"
    and "commonLabels a c = commonLabels b c" and "selectorLabels a c = selectorLabels b c"
  using assms
  by (simp_all add: same_spec_def mig_enabled_def on_by_default_def off_by_default_def
      resolveProfile_def nodeListOption_def imageFor_def commonLabels_def selectorLabels_def
      cong: option.case_cong)

lemma same_spec_labels: "same_spec a b \<Longrightarrow> wantedLabels a = wantedLabels b"
  by (simp add: wantedLabels_def same_spec_questions [of a b])

lemma same_spec_selected: "same_spec a b \<Longrightarrow> label_selected a = label_selected b"
  by (simp add: fun_eq_iff label_selected_def label_view_def same_spec_labels [of a b] same_spec_questions [of a b])

lemma same_spec_builders:
  assumes "same_spec a b"
  shows "DevicePluginDaemonSet env a ns = DevicePluginDaemonSet env b ns"
    and "MetricsExporterDaemonSet env a ns = MetricsExporterDaemonSet env b ns"
    and "MIGFakerDaemonSet env a ns = MIGFakerDaemonSet env b ns"
    and "DRAPluginDaemonSet env a ns = DRAPluginDaemonSet env b ns"
    and "ComputeDomainDRADaemonSet env a ns = ComputeDomainDRADaemonSet env b ns"
    and "StatusUpdaterDeployment env a ns = StatusUpdaterDeployment env b ns"
    and "ComputeDomainControllerDeployment env a ns = ComputeDomainControllerDeployment env b ns"
    and "TopologyServerDeployment env a ns = TopologyServerDeployment env b ns"
    and "MetricsExporterService a ns = MetricsExporterService b ns"
    and "TopologyServerService a ns = TopologyServerService b ns"
    and "ServiceAccount a c ns = ServiceAccount b c ns"
    and "DevicePluginClusterRole a = DevicePluginClusterRole b"
    and "StatusUpdaterClusterRole a = StatusUpdaterClusterRole b"
    and "MetricsExporterClusterRole a = MetricsExporterClusterRole b"
    and "SCCClusterRole a = SCCClusterRole b"
    and "ClusterRoleBinding a c ns role = ClusterRoleBinding b c ns role"
    and "SCCClusterRoleBinding a ns = SCCClusterRoleBinding b ns"
    and "NvidiaRuntimeClass a = NvidiaRuntimeClass b"
    and "TopologyConfigMap a profile ns = TopologyConfigMap b profile ns"
    and "GPUProfileConfigMap ip a profile ns = GPUProfileConfigMap ip b profile ns"
    and "NodeTopologyConfigMap n a profile ns = NodeTopologyConfigMap n b profile ns"
proof -
  note q = same_spec_questions [OF assms]
  show "DevicePluginDaemonSet env a ns = DevicePluginDaemonSet env b ns"
    "MetricsExporterDaemonSet env a ns = MetricsExporterDaemonSet env b ns"
    "MIGFakerDaemonSet env a ns = MIGFakerDaemonSet env b ns"
    "DRAPluginDaemonSet env a ns = DRAPluginDaemonSet env b ns"
    "ComputeDomainDRADaemonSet env a ns = ComputeDomainDRADaemonSet env b ns"
    "StatusUpdaterDeployment env a ns = StatusUpdaterDeployment env b ns"
    "ComputeDomainControllerDeployment env a ns = ComputeDomainControllerDeployment env b ns"
    "TopologyServerDeployment env a ns = TopologyServerDeployment env b ns"
    by (simp_all add: builder_simps q)
  show "MetricsExporterService a ns = MetricsExporterService b ns"
    "TopologyServerService a ns = TopologyServerService b ns"
    "ServiceAccount a c ns = ServiceAccount b c ns"
    "DevicePluginClusterRole a = DevicePluginClusterRole b"
    "StatusUpdaterClusterRole a = StatusUpdaterClusterRole b"
    "MetricsExporterClusterRole a = MetricsExporterClusterRole b"
    "SCCClusterRole a = SCCClusterRole b"
    "ClusterRoleBinding a c ns role = ClusterRoleBinding b c ns role"
    "SCCClusterRoleBinding a ns = SCCClusterRoleBinding b ns"
    "NvidiaRuntimeClass a = NvidiaRuntimeClass b"
    by (simp_all add: builder_simps q)
  show "TopologyConfigMap a profile ns = TopologyConfigMap b profile ns"
    "GPUProfileConfigMap ip a profile ns = GPUProfileConfigMap ip b profile ns"
    "NodeTopologyConfigMap n a profile ns = NodeTopologyConfigMap n b profile ns"
    by (simp_all add: builder_simps q topology_text_def node_topology_text_def gpuEntries_def
        gpuProduct_def gpuMemory_def migStrategy_def gpuProfileLabels_def)
qed

lemma same_spec_objects:
  assumes "same_spec a b"
  shows "desired_objects r a profile os names = desired_objects r b profile os names"
proof -
  note q = same_spec_questions [OF assms] same_spec_builders [OF assms]
  show ?thesis
    by (simp add: desired_objects_def rbac_objects_def account_objects_def role_objects_def scc_objects_def
        config_objects_def component_objects_def node_topology_object_def Let_def q
        cong: if_cong split del: if_split)
qed

section \<open>The specification of a reconcile\<close>

abbreviation store_view :: "('s \<Rightarrow> key \<Rightarrow> obj option) \<Rightarrow> 's \<Rightarrow> store" where
  "store_view objs s \<equiv> (\<lambda>k. map_option strip (objs s k))"

abbreviation nodes_view :: "('s \<Rightarrow> string \<Rightarrow> Node option) \<Rightarrow> 's \<Rightarrow> string \<Rightarrow> node_view option" where
  "nodes_view nodes s \<equiv> (\<lambda>x. map_option view_node (nodes s x))"

text \<open>The names of the nodes a label selector selects.\<close>

definition selected :: "gomap \<Rightarrow> (string \<Rightarrow> node_view option) \<Rightarrow> string set" where
  "selected sel N = {x. \<exists>v. N x = Some v \<and> match_view sel (snd v)}"

definition pool_selector :: "FakeGPUConfig \<Rightarrow> gomap" where
  "pool_selector cfg = GoMap [(nodePoolLabel, cfg_name cfg)]"

text \<open>
  A reconcile of \<open>cfg\<close> leads from the store \<open>V\<close> and the nodes \<open>N\<close> to \<open>V'\<close> and \<open>N'\<close> and
  reports the status \<open>st'\<close>: every desired object is put into the store, one topology
  ConfigMap for each node of the pool included, the selected nodes get the wanted labels and
  nothing else changes, and the status is the one computed from the nodes selected then.
\<close>

definition converged :: "('s, 'e) Reconciler \<Rightarrow> FakeGPUConfig \<Rightarrow> GPUProfile \<Rightarrow> bool
    \<Rightarrow> store \<Rightarrow> (string \<Rightarrow> node_view option)
    \<Rightarrow> store \<Rightarrow> (string \<Rightarrow> node_view option) \<Rightarrow> FakeGPUConfigStatus \<Rightarrow> bool" where
  "converged r cfg profile openshift V N V' N' st' \<longleftrightarrow>
     N' = (\<lambda>x. map_option (label_selected cfg) (N x))
     \<and> (\<exists>names. distinct names \<and> set names = selected (pool_selector cfg) N'
          \<and> V' = put_all (desired_objects r cfg profile openshift names) V)
     \<and> (\<exists>items. distinct (map node_name items)
          \<and> node_name ` set items = selected (nodeListOption cfg) N'
          \<and> (\<forall>n \<in> set items. N' (node_name n) = Some (view_node n))
          \<and> st' = Status (status_for r cfg profile items))"

lemma status_for_cong:
  "same_spec a b \<Longrightarrow> Status a = Status b \<Longrightarrow>
   Status (status_for r a profile items) = Status (status_for r b profile items)"
  by (simp add: status_for_def set_condition_def Let_def same_spec_questions [of a b])

lemma converged_cong:
  assumes "same_spec a b" and "Status a = Status b"
  shows "converged r a profile os V N V' N' st' = converged r b profile os V N V' N' st'"
  by (simp add: converged_def pool_selector_def same_spec_selected [OF assms(1)]
      same_spec_questions [OF assms(1)] same_spec_objects [OF assms(1)] status_for_cong [OF assms])

text \<open>What a reconcile always puts into the store is there afterwards.\<close>

lemma converged_stored:
  assumes "converged r cfg profile os V N V' N' st'"
    and "ob \<in> set (rbac_objects r cfg os @ config_objects r cfg profile @ component_objects r cfg)"
  shows "V' (obj_key ob) = Some (strip ob)"
proof -
  from assms(1) obtain names where names: "distinct names"
      "V' = put_all (desired_objects r cfg profile os names) V" unfolding converged_def by blast
  from assms(2) have "ob \<in> set (desired_objects r cfg profile os names)"
    by (auto simp: desired_objects_def)
  from put_all_in [OF desired_keys_distinct [OF names(1)] this, of V] names(2) show ?thesis by simp
qed

section \<open>What is observed of a world\<close>

text \<open>
  The server keeps its invariant, its objects are \<open>V\<close> up to resource versions, its nodes
  \<open>N\<close>, its configurations \<open>C\<close>, it serves OpenShift's constraints or not (\<open>b\<close>), and the
  reconciler's cache does not contradict that.
\<close>

locale healthy_run = api_server "r_Client r" "r_Library r" inv objs nodes cfgs scc
  for r :: "('s, 'e) Reconciler" and inv objs nodes cfgs scc +
  assumes range_permutes: "mset (r_Range r node m) = mset (entries m)"
begin

definition st :: "store \<Rightarrow> (string \<Rightarrow> node_view option) \<Rightarrow> (string \<Rightarrow> FakeGPUConfig option) \<Rightarrow> bool
    \<Rightarrow> 's World \<Rightarrow> bool" where
  "st V N C b w \<longleftrightarrow> inv (server w) \<and> (\<lambda>k. map_option strip (objs (server w) k)) = V
     \<and> (\<lambda>x. map_option view_node (nodes (server w) x)) = N \<and> cfgs (server w) = C
     \<and> scc (server w) = b \<and> (isOpenShift w = None \<or> isOpenShift w = Some b)"

definition realises :: "bool \<Rightarrow> ('s, 'e error option) prog \<Rightarrow> obj list \<Rightarrow> bool" where
  "realises b m obs \<longleftrightarrow>
     (\<forall>V N C. hoare (st V N C b) m (\<lambda>err w. err = None \<and> st (put_all obs V) N C b w))"

lemma st_write:
  assumes "st V N C b w" and "inv s'" and "strip ob' = strip ob"
    and "objs s' = (objs (server w))(obj_key ob \<mapsto> ob')"
    and "nodes s' = nodes (server w)" and "cfgs s' = cfgs (server w)" and "scc s' = scc (server w)"
  shows "st (put ob V) N C b (w\<lparr>server := s', trace := t\<rparr>)"
  using assms by (auto simp: st_def put_def fun_eq_iff)

text \<open>Every world of a healthy server is observed in some way.\<close>

lemma st_world:
  assumes "inv (server w)" and "isOpenShift w = None \<or> isOpenShift w = Some (scc (server w))"
  shows "st (store_view objs (server w)) (nodes_view nodes (server w)) (cfgs (server w)) (scc (server w)) w"
  using assms by (simp add: st_def)

lemma strip_objs_None: "st V N C b w \<Longrightarrow> objs (server w) k = None \<longleftrightarrow> V k = None"
  by (auto simp: st_def)

lemma createOrUpdate_put:
  assumes "plain ob"
  shows "realises b (createOrUpdate r ob owner) [ob]"
  unfolding realises_def
proof (intro allI hoareI, goal_cases)
  case (1 V N C w x w')
  let ?k = "(obj_kind ob, GetNamespace ob, GetName ob)"
  have k: "?k = obj_key ob" by (simp add: obj_key_def)
  from 1 have inv: "inv (server w)" by (simp add: st_def)
  show ?case
  proof (cases "objs (server w) (obj_key ob)")
    case None
    from get_none [OF inv None [folded k]] obtain e where
      g: "c_get (r_Client r) (obj_kind ob) (GetNamespace ob) (GetName ob) (server w) = (Inl e, server w)"
        "IsNotFound (r_Library r) e" by blast
    from create [OF inv assms None] obtain s' ob' where
      s': "c_create (r_Client r) ob (server w) = (Inr (), s')" "inv s'" "strip ob' = strip ob"
        "objs s' = (objs (server w))(obj_key ob \<mapsto> ob')" "nodes s' = nodes (server w)"
        "cfgs s' = cfgs (server w)" "scc s' = scc (server w)" by blast
    from 1(2) g s'(1) show ?thesis
      by (auto simp: createOrUpdate_def api_defs run_simps intro!: st_write [OF 1(1) s'(2-)])
  next
    case (Some old)
    from get_some [OF inv Some [folded k]] have
      g: "c_get (r_Client r) (obj_kind ob) (GetNamespace ob) (GetName ob) (server w)
          = (Inr (obj_meta old), server w)" .
    let ?ob = "SetResourceVersion (ResourceVersion (obj_meta old)) ob"
    from update [OF inv, of ?ob old] assms Some obtain s' ob' where
      s': "c_update (r_Client r) ?ob (server w) = (Inr (), s')" "inv s'" "strip ob' = strip ob"
        "objs s' = (objs (server w))(obj_key ob \<mapsto> ob')" "nodes s' = nodes (server w)"
        "cfgs s' = cfgs (server w)" "scc s' = scc (server w)" by auto
    from 1(2) g s'(1) show ?thesis
      by (auto simp: createOrUpdate_def api_defs run_simps intro!: st_write [OF 1(1) s'(2-)])
  qed
qed

lemma createOrUpdateClusterScoped_put:
  assumes "plain ob" and "GetNamespace ob = []"
  shows "realises b (createOrUpdateClusterScoped r ob) [ob]"
proof -
  have "createOrUpdateClusterScoped r ob = createOrUpdate r ob owner" for owner
    by (simp add: createOrUpdateClusterScoped_def createOrUpdate_def assms(2))
  then show ?thesis using createOrUpdate_put [OF assms(1)] by simp
qed

lemma realises_wrap: "realises b m obs \<Longrightarrow> realises b (wrap_err p m) obs"
  unfolding realises_def by (blast intro: hoare_wrap_err)

lemma realises_Nil: "realises b (State_Monad.return None) []"
  by (simp add: realises_def hoare_return)

lemma realises_fail_fast_Nil: "realises b (fail_fast []) []"
  by (simp add: fail_fast.simps realises_Nil)

lemma realises_fail_fast_Cons:
  "realises b m obs \<Longrightarrow> realises b (fail_fast ms) obs' \<Longrightarrow> realises b (fail_fast (m # ms)) (obs @ obs')"
  unfolding realises_def put_all_append
  by (intro allI hoare_fail_fast_Cons [where R = "st (put_all obs V) N C b" for V N C]) blast+

lemma realises_fail_fast: "list_all2 (realises b) ms obss \<Longrightarrow> realises b (fail_fast ms) (concat obss)"
  by (induction rule: list_all2_induct) (auto intro: realises_fail_fast_Nil realises_fail_fast_Cons)

lemma detectOpenShift_ok:
  "hoare (st V N C b) (detectOpenShift r) (\<lambda>x w. x = b \<and> st V N C b w)"
proof (rule hoareI)
  fix w x w'
  assume w: "st V N C b w" and run: "run (detectOpenShift r) w = (x, w')"
  from w have inv: "inv (server w)" by (simp add: st_def)
  from resources_for [OF inv] obtain res where
    "c_resources_for (r_Client r) ''security.openshift.io'' ''v1'' ''securitycontextconstraints'' (server w)
      = (res, server w)" "isl res = (\<not> scc (server w))" by blast
  with w run show "x = b \<and> st V N C b w'"
    by (auto simp: detectOpenShift_def api_defs run_simps st_def Let_def split: option.splits)
qed


lemma realises_for_err:
  "(\<And>x. x \<in> set xs \<Longrightarrow> realises b (f x) [g x]) \<Longrightarrow> realises b (for_err f xs) (map g xs)"
proof -
  assume "\<And>x. x \<in> set xs \<Longrightarrow> realises b (f x) [g x]"
  then have "list_all2 (realises b) (map f xs) (map (\<lambda>x. [g x]) xs)"
    by (simp add: list_all2_conv_all_nth)
  from realises_fail_fast [OF this] show ?thesis
    by (simp add: for_err_def concat_map_singleton)
qed

lemma realises_scc: "realises b (do {
    openshift \<leftarrow> detectOpenShift r;
    (if openshift
     then fail_fast
       [createOrUpdateClusterScoped r (OClusterRole (SCCClusterRole cfg)),
        createOrUpdateClusterScoped r (OClusterRoleBinding (SCCClusterRoleBinding cfg (r_Namespace r)))]
     else State_Monad.return None) }) (if b then scc_objects r cfg else [])" (is "realises b ?m ?obs")
proof -
  have two: "realises b (fail_fast
       [createOrUpdateClusterScoped r (OClusterRole (SCCClusterRole cfg)),
        createOrUpdateClusterScoped r (OClusterRoleBinding (SCCClusterRoleBinding cfg (r_Namespace r)))])
       (scc_objects r cfg)"
    using realises_fail_fast_Cons [OF createOrUpdateClusterScoped_put
        realises_fail_fast_Cons [OF createOrUpdateClusterScoped_put realises_fail_fast_Nil]]
    by (simp add: scc_objects_def scc_role.build_plain scc_binding.build_plain
        scc_role.build_namespace scc_binding.build_namespace)
  show ?thesis
    unfolding realises_def
    by (intro allI hoare_bind [OF detectOpenShift_ok])
      (use two in \<open>cases b; simp add: realises_def hoare_def\<close>)
qed


lemma realises_rbac: "realises b (reconcileRBAC r cfg) (rbac_objects r cfg b)"
proof -
  have cs: "realises b (createOrUpdateClusterScoped r ob) [ob]" if "plain ob" "GetNamespace ob = []" for ob
    using that by (rule createOrUpdateClusterScoped_put)
  have accounts: "realises b (for_err (\<lambda>comp. createOrUpdate r
        (OServiceAccount (ServiceAccount cfg comp (r_Namespace r))) cfg) account_components)
      (account_objects r cfg)"
    unfolding account_objects_def by (rule realises_for_err) (simp add: createOrUpdate_put)
  have "list_all2 (realises b)
     [for_err (\<lambda>comp. createOrUpdate r
        (OServiceAccount (ServiceAccount cfg comp (r_Namespace r))) cfg) account_components,
      createOrUpdateClusterScoped r (OClusterRole (DevicePluginClusterRole cfg)),
      createOrUpdateClusterScoped r (OClusterRoleBinding
        (ClusterRoleBinding cfg ''device-plugin'' (r_Namespace r) (DevicePluginClusterRole cfg))),
      createOrUpdateClusterScoped r (OClusterRole (StatusUpdaterClusterRole cfg)),
      createOrUpdateClusterScoped r (OClusterRoleBinding
        (ClusterRoleBinding cfg ''status-updater'' (r_Namespace r) (StatusUpdaterClusterRole cfg))),
      createOrUpdateClusterScoped r (OClusterRole (MetricsExporterClusterRole cfg)),
      createOrUpdateClusterScoped r (OClusterRoleBinding
        (ClusterRoleBinding cfg ''metrics-exporter'' (r_Namespace r) (MetricsExporterClusterRole cfg))),
      do {
        openshift \<leftarrow> detectOpenShift r;
        (if openshift
         then fail_fast
           [createOrUpdateClusterScoped r (OClusterRole (SCCClusterRole cfg)),
            createOrUpdateClusterScoped r (OClusterRoleBinding (SCCClusterRoleBinding cfg (r_Namespace r)))]
         else State_Monad.return None) }]
     (account_objects r cfg # map (\<lambda>ob. [ob]) (role_objects r cfg) @ [if b then scc_objects r cfg else []])"
    by (simp add: role_objects_def accounts cs realises_scc)
  from realises_fail_fast [OF this] show ?thesis
    by (simp add: reconcileRBAC_def rbac_objects_def account_components_def concat_map_singleton)
qed

lemma realises_services: "realises b (reconcileServices r cfg)
   [OService (MetricsExporterService cfg (r_Namespace r)), OService (TopologyServerService cfg (r_Namespace r))]"
  unfolding reconcileServices_def
  using realises_fail_fast_Cons [OF createOrUpdate_put
      realises_fail_fast_Cons [OF createOrUpdate_put realises_fail_fast_Nil]] by simp

lemma realises_object_steps:
  "realises b (fail_fast (object_steps r cfg profile))
     (rbac_objects r cfg b @ config_objects r cfg profile @ component_objects r cfg)"
proof -
  have "list_all2 (realises b) (object_steps r cfg profile) (object_step_objects r cfg profile b)"
    unfolding object_steps_def object_step_objects_def reconcileSteps_def step_objects_def Let_def
    by (simp add: butlast_append split del: if_split,
        intro conjI list_all2_appendI list_all2_if list.rel_intros realises_wrap realises_rbac realises_services)
      (simp_all add: step_defs createOrUpdate_put createOrUpdateClusterScoped_put)
  from realises_fail_fast [OF this] show ?thesis by (simp add: object_step_objects_concat)
qed


lemma st_inv: "st V N C b w \<Longrightarrow> inv (server w)"
  by (simp add: st_def)

lemma st_objs: "st V N C b w \<Longrightarrow> V k = map_option strip (objs (server w) k)"
  by (auto simp: st_def)

lemma st_nodes: "st V N C b w \<Longrightarrow> N x = map_option view_node (nodes (server w) x)"
  by (auto simp: st_def)

lemma st_cfgs: "st V N C b w \<Longrightarrow> cfgs (server w) = C"
  by (simp add: st_def)

lemma st_trace: "st V N C b w \<Longrightarrow> st V N C b (w\<lparr>server := server w, trace := t\<rparr>)"
  by (simp add: st_def)

section \<open>Labelling the nodes\<close>

lemma labelNode_ok:
  assumes "cfg_name cfg \<noteq> []" and "node_name n \<notin> node_name ` set rest"
  shows "hoare (\<lambda>w. st V N C b w \<and> (\<forall>m \<in> set (n # rest). nodes (server w) (node_name m) = Some m))
    (labelNode r cfg n)
    (\<lambda>err w. err = None \<and> st V (N(node_name n := map_option (label_view cfg) (N (node_name n)))) C b w
       \<and> (\<forall>m \<in> set rest. nodes (server w) (node_name m) = Some m))"
proof (rule hoareI, goal_cases)
  case (1 w x w')
  then have st: "st V N C b w" and n: "nodes (server w) (node_name n) = Some n"
    and rest: "\<forall>m \<in> set rest. nodes (server w) (node_name m) = Some m"
    and run: "run (labelNode r cfg n) w = (x, w')" by simp_all
  from st n have N: "N (node_name n) = Some (view_node n)" by (simp add: st_nodes)
  obtain ls' u where l: "label_loop (node_labels n) False (r_Range r n (wantedLabels cfg)) = Some (ls', u)"
      and look: "go_lookup ls' = go_lookup (node_labels n) ++ go_lookup (wantedLabels cfg)"
      and same: "\<not> u \<longrightarrow> ls' = node_labels n"
    using label_loop_wanted [OF range_permutes assms(1)] by blast
  have view: "view_node (with_labels ls' n) = label_view cfg (view_node n)"
    by (simp add: view_with_labels label_view_def look) (simp add: view_node_def)
  show ?case
  proof (cases u)
    case False
    with same have "with_labels ls' n = n" by (simp add: with_labels_def)
    with view have "label_view cfg (view_node n) = view_node n" by simp
    with N have "N(node_name n := map_option (label_view cfg) (N (node_name n))) = N" by auto
    with False l run st rest show ?thesis by (auto simp: labelNode_def)
  next
    case True
    have "node_name (with_labels ls' n) = node_name n"
      "ResourceVersion (node_meta (with_labels ls' n)) = ResourceVersion (node_meta n)"
      by (simp_all add: with_labels_def)
    with update_node [OF st_inv [OF st], of "with_labels ls' n"] n obtain s' n' where
      s': "c_update_node (r_Client r) (with_labels ls' n) (server w) = (Inr (), s')" "inv s'"
        "strip_node n' = strip_node (with_labels ls' n)" "nodes s' = (nodes (server w))(node_name n \<mapsto> n')"
        "objs s' = objs (server w)" "cfgs s' = cfgs (server w)" "scc s' = scc (server w)" by auto
    from view_strip [OF s'(3)] view have "view_node n' = label_view cfg (view_node n)" by simp
    moreover from True l run s'(1) have "x = None"
      "w' = w\<lparr>server := s', trace := trace w @ [(UpdateNode (with_labels ls' n), True)]\<rparr>"
      by (auto simp: labelNode_def api_defs run_simps)
    moreover from assms(2) have "node_name m \<noteq> node_name n" if "m \<in> set rest" for m
      using that by (metis imageI)
    ultimately show ?thesis
      using st s' N rest by (auto simp: st_def fun_eq_iff)
  qed
qed

lemma labelNodes_ok:
  assumes "cfg_name cfg \<noteq> []" and "distinct (map node_name items)"
  shows "hoare (\<lambda>w. st V N C b w \<and> (\<forall>m \<in> set items. nodes (server w) (node_name m) = Some m))
    (for_err (labelNode r cfg) items)
    (\<lambda>err w. err = None \<and>
       st V (\<lambda>x. if x \<in> node_name ` set items then map_option (label_view cfg) (N x) else N x) C b w)"
  using assms(2)
proof (induction items arbitrary: N)
  case Nil
  show ?case by (simp add: for_err_def fail_fast.simps hoare_return)
next
  case (Cons n rest)
  let ?N = "N(node_name n := map_option (label_view cfg) (N (node_name n)))"
  from Cons.prems have new: "node_name n \<notin> node_name ` set rest" by simp
  have eq: "(\<lambda>x. if x \<in> node_name ` set rest then map_option (label_view cfg) (?N x) else ?N x)
      = (\<lambda>x. if x \<in> node_name ` set (n # rest) then map_option (label_view cfg) (N x) else N x)"
    using new by (auto simp: fun_eq_iff)
  note first = labelNode_ok [OF assms(1) new, of V N C b]
  have IH: "hoare (\<lambda>w. st V ?N C b w \<and> (\<forall>m \<in> set rest. nodes (server w) (node_name m) = Some m))
    (for_err (labelNode r cfg) rest)
    (\<lambda>err w. err = None \<and>
       st V (\<lambda>x. if x \<in> node_name ` set rest then map_option (label_view cfg) (?N x) else ?N x) C b w)"
    using Cons.prems by (intro Cons.IH) simp
  have "hoare (\<lambda>w. st V ?N C b w \<and> (\<forall>m \<in> set rest. nodes (server w) (node_name m) = Some m))
    (for_err (labelNode r cfg) rest)
    (\<lambda>err w. err = None \<and>
       st V (\<lambda>x. if x \<in> node_name ` set (n # rest) then map_option (label_view cfg) (N x) else N x) C b w)"
    using IH unfolding eq .
  with first show ?case
    unfolding for_err_def list.map by (rule hoare_fail_fast_Cons)
qed

lemma reconcileNodeLabels_ok:
  assumes "cfg_name cfg \<noteq> []"
  shows "hoare (st V N C b) (reconcileNodeLabels r cfg)
    (\<lambda>err w. err = None \<and> st V (\<lambda>x. map_option (label_selected cfg) (N x)) C b w)"
proof (rule hoareI, goal_cases)
  case (1 w x w')
  from list_nodes [OF st_inv [OF 1(1)]] obtain items where
    l: "c_list_nodes (r_Client r) (nodeListOption cfg) (server w) = (Inr items, server w)"
      "distinct (map node_name items)"
      "set items = {n. \<exists>x. nodes (server w) x = Some n \<and> labels_match (nodeListOption cfg) (node_labels n)}"
    by blast
  have stored: "\<forall>m \<in> set items. nodes (server w) (node_name m) = Some m"
    using l(3) nodes_name [OF st_inv [OF 1(1)]] by auto
  have eq: "(if x \<in> node_name ` set items then map_option (label_view cfg) (N x) else N x)
      = map_option (label_selected cfg) (N x)" for x
  proof (cases "nodes (server w) x")
    case None
    then show ?thesis using stored by (auto simp: st_nodes [OF 1(1)])
  next
    case (Some n)
    with nodes_name [OF st_inv [OF 1(1)]] have x: "node_name n = x" by blast
    have "x \<in> node_name ` set items \<longleftrightarrow> n \<in> set items"
    proof
      assume "x \<in> node_name ` set items"
      then obtain m where "m \<in> set items" "x = node_name m" by blast
      with stored Some show "n \<in> set items" by (metis option.inject)
    qed (use x in blast)
    also have "\<dots> \<longleftrightarrow> labels_match (nodeListOption cfg) (node_labels n)"
      using Some unfolding l(3) by blast
    finally have "x \<in> node_name ` set items \<longleftrightarrow> labels_match (nodeListOption cfg) (node_labels n)" .
    with Some show ?thesis
      by (simp add: st_nodes [OF 1(1)] label_selected_def match_view_node)
  qed
  let ?w = "w\<lparr>server := server w, trace := trace w @ [(ListNode (nodeListOption cfg), True)]\<rparr>"
  from 1(2) l(1) have "run (for_err (labelNode r cfg) items) ?w = (x, w')"
    by (simp add: reconcileNodeLabels_def api_defs run_simps)
  moreover have "st V N C b ?w \<and> (\<forall>m \<in> set items. nodes (server ?w) (node_name m) = Some m)"
    using stored st_trace [OF 1(1)] by simp
  ultimately show ?case
    using hoareD [OF labelNodes_ok [OF assms l(2), of V N C b]] unfolding eq by blast
qed

lemma node_topologies_ok:
  "hoare (st V N C b) (reconcileNodeTopologyConfigMaps r cfg profile)
    (\<lambda>err w. err = None \<and> (\<exists>names. distinct names
       \<and> set names = {x. \<exists>v. N x = Some v \<and> snd v nodePoolLabel = Some (cfg_name cfg)}
       \<and> st (put_all (map (node_topology_object r cfg profile) names) V) N C b w))"
proof (rule hoareI, goal_cases)
  case (1 w x w')
  let ?sel = "GoMap [(nodePoolLabel, cfg_name cfg)]"
  from list_nodes [OF st_inv [OF 1(1)]] obtain items where
    l: "c_list_nodes (r_Client r) ?sel (server w) = (Inr items, server w)"
      "distinct (map node_name items)"
      "set items = {n. \<exists>x. nodes (server w) x = Some n \<and> labels_match ?sel (node_labels n)}"
    by blast
  have names: "set (map node_name items)
      = {x. \<exists>v. N x = Some v \<and> snd v nodePoolLabel = Some (cfg_name cfg)}"
    using l(3) nodes_name [OF st_inv [OF 1(1)]]
    by (auto simp: st_nodes [OF 1(1)] view_node_def image_iff)
  let ?w = "w\<lparr>server := server w, trace := trace w @ [(ListNode ?sel, True)]\<rparr>"
  let ?f = "\<lambda>node. createOrUpdate r
      (OConfigMap (NodeTopologyConfigMap (node_name node) cfg profile (r_Namespace r))) cfg"
  from 1(2) l(1) have run: "run (for_err ?f items) ?w = (x, w')"
    by (simp add: reconcileNodeTopologyConfigMaps_def api_defs run_simps)
  have "realises b (for_err ?f items) (map (\<lambda>n. node_topology_object r cfg profile (node_name n)) items)"
    by (rule realises_for_err) (simp add: node_topology_object_def createOrUpdate_put)
  then have "hoare (st V N C b) (for_err ?f items)
      (\<lambda>err w. err = None \<and> st (put_all (map (\<lambda>n. node_topology_object r cfg profile (node_name n)) items) V) N C b w)"
    by (simp add: realises_def)
  from hoareD [OF this st_trace [OF 1(1)] run] l(2) names show ?case
    by (intro conjI exI [of _ "map node_name items"]) (simp_all add: comp_def)
qed


section \<open>Detection and status\<close>

lemma list_objs_st:
  assumes "st V N C b w"
  obtains ms where "c_list (r_Client r) kd sel nso (server w) = (Inr ms, server w)"
    and "set ms = {obj_meta ob |ob k. objs (server w) k = Some ob \<and> selects kd sel nso ob}"
  using list_objs [OF st_inv [OF assms]] that by blast

lemma no_helm_conflict:
  assumes "helm_free V"
  shows "hoare (st V N C b) (detectHelmConflict r) (\<lambda>x w. fst x = False \<and> st V N C b w)"
proof (rule hoareI, goal_cases)
  case (1 w x w')
  have no: "\<not> helm_object ob" if "objs (server w) k = Some ob" for k ob
    proof -
    from that have "V k = Some (strip ob)" by (simp add: st_objs [OF 1(1)])
    with assms have "\<not> helm_object (strip ob)" unfolding helm_free_def by blast
    then show ?thesis by simp
  qed
  let ?sel = "GoMap [(''owner'', ''helm''), (''name'', ''gpu-operator'')]"
  obtain ms where ms: "c_list (r_Client r) KSecret ?sel None (server w) = (Inr ms, server w)"
      "set ms = {obj_meta ob |ob k. objs (server w) k = Some ob \<and> selects KSecret ?sel None ob}"
    by (rule list_objs_st [OF 1(1)])
  have "ms = []"
  proof (rule ccontr)
    assume "ms \<noteq> []"
    then obtain m where "m \<in> set ms" by (cases ms) auto
    then obtain ob k where "objs (server w) k = Some ob" "selects KSecret ?sel None ob"
      unfolding ms(2) by blast
    then show False using no [of k ob] by (simp add: helm_object_def selects_def)
  qed
  let ?sel' = "GoMap [(keyManagedBy, ''Helm'')]"
  obtain cms where cms: "c_list (r_Client r) KConfigMap ?sel' None (server w) = (Inr cms, server w)"
      "set cms = {obj_meta ob |ob k. objs (server w) k = Some ob \<and> selects KConfigMap ?sel' None ob}"
    by (rule list_objs_st [OF 1(1)])
  have "find_topology cms = (False, [])"
  proof (rule find_topology_None)
    fix m
    assume "m \<in> set cms"
    then obtain ob k where "objs (server w) k = Some ob" "selects KConfigMap ?sel' None ob" "m = obj_meta ob"
      unfolding cms(2) by blast
    then show "Name m \<noteq> ''topology''" using no [of k ob] by (simp add: helm_object_def selects_def GetName_def)
  qed
  then have "fst (find_topology cms) = False" by simp
  with 1 ms(1) cms(1) \<open>ms = []\<close> show ?case
    by (auto simp: detectHelmConflict_def api_defs run_simps st_def)
qed

lemma helm_conflict:
  assumes "st V N C b w" and "V k = Some ob" and "helm_object ob"
  shows "\<exists>k' ob'. V k' = Some ob' \<and> helm_object ob'
    \<and> fst (run (detectHelmConflict r) w) = (True, GetNamespace ob')"
proof -
  let ?sel = "GoMap [(''owner'', ''helm''), (''name'', ''gpu-operator'')]"
  obtain ms where ms: "c_list (r_Client r) KSecret ?sel None (server w) = (Inr ms, server w)"
      "set ms = {obj_meta ob |ob k. objs (server w) k = Some ob \<and> selects KSecret ?sel None ob}"
    by (rule list_objs_st [OF assms(1)])
  let ?sel' = "GoMap [(keyManagedBy, ''Helm'')]"
  obtain cms where cms: "c_list (r_Client r) KConfigMap ?sel' None (server w) = (Inr cms, server w)"
      "set cms = {obj_meta ob |ob k. objs (server w) k = Some ob \<and> selects KConfigMap ?sel' None ob}"
    by (rule list_objs_st [OF assms(1)])
  have found: "\<exists>k' ob'. V k' = Some ob' \<and> helm_object ob' \<and> GetNamespace oc = GetNamespace ob'"
    if "objs (server w) k = Some oc" "helm_object oc" for k oc
  proof (intro exI [of _ k] exI [of _ "strip oc"] conjI)
    show "V k = Some (strip oc)" using that st_objs [OF assms(1), of k] by simp
    show "helm_object (strip oc)" using that by simp
    show "GetNamespace oc = GetNamespace (strip oc)" by (simp add: strip_def GetNamespace_def)
  qed
  show ?thesis
  proof (cases ms)
    case (Cons m rest)
    then have "m \<in> set ms" by simp
    then obtain k oc where oc: "objs (server w) k = Some oc" "selects KSecret ?sel None oc" "m = obj_meta oc"
      unfolding ms(2) by blast
    then have "helm_object oc" by (simp add: helm_object_def selects_def)
    from found [OF oc(1) this] Cons ms(1) oc(3) show ?thesis
      by (simp add: detectHelmConflict_def api_defs run_simps GetNamespace_def)
  next
    case Nil
    from assms(2) obtain oc where oc: "objs (server w) k = Some oc" "ob = strip oc"
      by (auto simp: st_objs [OF assms(1)])
    with assms(3) have h: "helm_object oc" by simp
    have "\<not> selects KSecret ?sel None oc"
    proof
      assume "selects KSecret ?sel None oc"
      with oc(1) have "obj_meta oc \<in> set ms" unfolding ms(2) by blast
      with Nil show False by simp
    qed
    with h have sel: "selects KConfigMap ?sel' None oc" and nm: "GetName oc = ''topology''"
      by (auto simp: helm_object_def selects_def)
    with oc(1) have "obj_meta oc \<in> set cms" unfolding cms(2) by blast
    from find_topology_Some [OF this] nm obtain m' where
      m': "m' \<in> set cms" "Name m' = ''topology''" "find_topology cms = (True, Namespace m')"
      by (auto simp: GetName_def)
    then obtain k' od where od: "objs (server w) k' = Some od" "selects KConfigMap ?sel' None od" "m' = obj_meta od"
      unfolding cms(2) by blast
    with m' have "helm_object od" by (simp add: helm_object_def selects_def GetName_def)
    from found [OF od(1) this] Nil ms(1) cms(1) m'(3) od(3) show ?thesis
      by (simp add: detectHelmConflict_def api_defs run_simps GetNamespace_def)
  qed
qed

lemma listed_names:
  assumes "st V N C b w"
    and "set items = {n. \<exists>x. nodes (server w) x = Some n \<and> labels_match sel (node_labels n)}"
  shows "node_name ` set items = {x. \<exists>v. N x = Some v \<and> match_view sel (snd v)}"
proof (intro set_eqI iffI)
  fix x
  assume "x \<in> node_name ` set items"
  then obtain n where "nodes (server w) x = Some n" "labels_match sel (node_labels n)"
    using assms(2) nodes_name [OF st_inv [OF assms(1)]] by blast
  then show "x \<in> {x. \<exists>v. N x = Some v \<and> match_view sel (snd v)}"
    by (simp add: st_nodes [OF assms(1)] match_view_node del: split_paired_Ex)
next
  fix x
  assume "x \<in> {x. \<exists>v. N x = Some v \<and> match_view sel (snd v)}"
  then obtain v where "N x = Some v" "match_view sel (snd v)" by blast
  then obtain n where n: "nodes (server w) x = Some n" "labels_match sel (node_labels n)"
    by (auto simp: st_nodes [OF assms(1)] match_view_node)
  with nodes_name [OF st_inv [OF assms(1)]] assms(2) show "x \<in> node_name ` set items" by blast
qed

lemma updateStatus_ok:
  assumes "C (cfg_name cfg) = Some old" and "ResourceVersion (cfg_meta cfg) = ResourceVersion (cfg_meta old)"
  shows "hoare (st V N C b) (updateStatus r cfg profile)
    (\<lambda>out w. out = (ctrl_Result0, None) \<and> (\<exists>items rv. distinct (map node_name items)
      \<and> node_name ` set items = {x. \<exists>v. N x = Some v \<and> match_view (nodeListOption cfg) (snd v)}
      \<and> (\<forall>n \<in> set items. N (node_name n) = Some (view_node n))
      \<and> st V N (C(cfg_name cfg \<mapsto>
          with_cfg_rv rv (old\<lparr>Status := Status (status_for r cfg profile items)\<rparr>))) b w))"
proof (rule hoareI, goal_cases)
  case (1 w x w')
  from list_nodes [OF st_inv [OF 1(1)]] obtain items where
    l: "c_list_nodes (r_Client r) (nodeListOption cfg) (server w) = (Inr items, server w)"
      "distinct (map node_name items)"
      "set items = {n. \<exists>x. nodes (server w) x = Some n \<and> labels_match (nodeListOption cfg) (node_labels n)}"
    by blast
  have stored: "\<forall>m \<in> set items. nodes (server w) (node_name m) = Some m"
    using l(3) nodes_name [OF st_inv [OF 1(1)]] by auto
  then have views: "\<forall>n \<in> set items. N (node_name n) = Some (view_node n)"
    by (simp add: st_nodes [OF 1(1)])
  note names = listed_names [OF 1(1) l(3)]
  let ?st = "status_for r cfg profile items"
  have same: "cfg_name ?st = cfg_name cfg" "ResourceVersion (cfg_meta ?st) = ResourceVersion (cfg_meta cfg)"
    by (simp_all add: status_for_def set_condition_def Let_def)
  from update_status [OF st_inv [OF 1(1)], of ?st old] assms 1(1) same obtain s' rv where
    s': "c_update_status (r_Client r) ?st (server w) = (Inr (), s')" "inv s'"
      "cfgs s' = (cfgs (server w))(cfg_name cfg \<mapsto> with_cfg_rv rv (old\<lparr>Status := Status ?st\<rparr>))"
      "objs s' = objs (server w)" "nodes s' = nodes (server w)" "scc s' = scc (server w)"
    by (auto simp: st_cfgs)
  from 1(2) l(1) s'(1) have "x = (ctrl_Result0, None)" and "server w' = s'" "isOpenShift w' = isOpenShift w"
    by (auto simp: updateStatus_def api_defs run_simps)
  moreover from calculation s' 1(1)
  have "st V N (C(cfg_name cfg \<mapsto> with_cfg_rv rv (old\<lparr>Status := Status ?st\<rparr>))) b w'"
    by (simp add: st_def)
  ultimately show ?case using l(2) names views by blast
qed


section \<open>A reconcile on a healthy server\<close>

lemma steps_ok:
  assumes "cfg_name cfg \<noteq> []"
  shows "hoare (st V N C b) (fail_fast (reconcileSteps r cfg profile))
    (\<lambda>err w. err = None \<and> (let N' = \<lambda>x. map_option (label_selected cfg) (N x) in
       \<exists>names. distinct names \<and> set names = selected (pool_selector cfg) N'
       \<and> st (put_all (desired_objects r cfg profile b names) V) N' C b w))"
proof -
  let ?N' = "\<lambda>x. map_option (label_selected cfg) (N x)"
  let ?obs = "rbac_objects r cfg b @ config_objects r cfg profile @ component_objects r cfg"
  let ?Q = "\<lambda>w. \<exists>names. distinct names \<and> set names = selected (pool_selector cfg) ?N'
       \<and> st (put_all (desired_objects r cfg profile b names) V) ?N' C b w"
  let ?labels = "wrap_err ''reconciling node labels'' (reconcileNodeLabels r cfg)"
  let ?topos = "wrap_err ''reconciling node topology ConfigMaps'' (reconcileNodeTopologyConfigMaps r cfg profile)"
  have 1: "hoare (st V N C b) (fail_fast (object_steps r cfg profile))
      (\<lambda>err w. err = None \<and> st (put_all ?obs V) N C b w)"
    using realises_object_steps by (simp only: realises_def)
  have 2: "hoare (st (put_all ?obs V) N C b) ?labels (\<lambda>err w. err = None \<and> st (put_all ?obs V) ?N' C b w)"
    by (rule hoare_wrap_err [OF reconcileNodeLabels_ok [OF assms]])
  have 3: "hoare (st (put_all ?obs V) ?N' C b) ?topos (\<lambda>err w. err = None \<and> ?Q w)"
    by (rule hoare_weaken [OF hoare_wrap_err [OF node_topologies_ok]])
      (auto simp: selected_def pool_selector_def match_view_def desired_objects_def)
  have 4: "hoare (st (put_all ?obs V) N C b) (fail_fast [?labels, ?topos]) (\<lambda>err w. err = None \<and> ?Q w)"
    by (rule hoare_fail_fast_Cons [OF 2], rule hoare_fail_fast_Cons [OF 3],
        rule hoare_weaken [OF hoare_fail_fast_Nil]) auto
  show ?thesis
    unfolding reconcileSteps_split Let_def
  proof (rule hoareI)
    fix w x w'
    assume w: "st V N C b w"
      and run: "run (fail_fast (object_steps r cfg profile @ [?labels, ?topos])) w = (x, w')"
    obtain e w1 where r1: "run (fail_fast (object_steps r cfg profile)) w = (e, w1)"
      by (cases "run (fail_fast (object_steps r cfg profile)) w")
    from hoareD [OF 1 w r1] have e: "e = None" and w1: "st (put_all ?obs V) N C b w1" by simp_all
    from run r1 e have "run (fail_fast [?labels, ?topos]) w1 = (x, w')"
      by (simp add: fail_fast_append)
    from hoareD [OF 4 w1 this] show "x = None \<and> ?Q w'" .
  qed
qed

lemma reconcileLive_ok:
  assumes "cfg_name cfg \<noteq> []" and "helm_free V"
    and "resolveProfile cfg = Inr profile"
    and "C (cfg_name cfg) = Some old" and "ResourceVersion (cfg_meta cfg) = ResourceVersion (cfg_meta old)"
  shows "hoare (st V N C b) (reconcileLive r cfg)
    (\<lambda>out w. out = (ctrl_Result0, None) \<and> (\<exists>V' N' st' rv. converged r cfg profile b V N V' N' st'
       \<and> st V' N' (C(cfg_name cfg \<mapsto> with_cfg_rv rv (old\<lparr>Status := st'\<rparr>))) b w))"
proof (rule hoareI)
  fix w out w'
  assume w: "st V N C b w" and run: "run (reconcileLive r cfg) w = (out, w')"
  obtain h w1 where d: "run (detectHelmConflict r) w = (h, w1)" by (cases "run (detectHelmConflict r) w")
  from hoareD [OF no_helm_conflict [OF assms(2)] w d] have h: "h = (False, snd h)" and w1: "st V N C b w1"
    by (auto simp: prod_eq_iff)
  with d have d': "run (detectHelmConflict r) w = ((False, snd h), w1)" by simp
  obtain e w2 where s: "run (fail_fast (reconcileSteps r cfg profile)) w1 = (e, w2)"
    by (cases "run (fail_fast (reconcileSteps r cfg profile)) w1")
  let ?N' = "\<lambda>x. map_option (label_selected cfg) (N x)"
  from hoareD [OF steps_ok [OF assms(1)] w1 s] obtain names where e: "e = None"
    and names: "distinct names" "set names = selected (pool_selector cfg) ?N'"
    and w2: "st (put_all (desired_objects r cfg profile b names) V) ?N' C b w2"
    by (auto simp: Let_def)
  let ?V' = "put_all (desired_objects r cfg profile b names) V"
  from run d' s e have u: "run (updateStatus r cfg profile) w2 = (out, w')"
    by (simp add: live_valid [OF d' assms(3)])
  from hoareD [OF updateStatus_ok [where C = C, OF assms(4,5)] w2 u] obtain items rv where out: "out = (ctrl_Result0, None)"
    and items: "distinct (map node_name items)" "node_name ` set items = selected (nodeListOption cfg) ?N'"
      "\<forall>n \<in> set items. ?N' (node_name n) = Some (view_node n)"
    and w': "st ?V' ?N' (C(cfg_name cfg \<mapsto>
        with_cfg_rv rv (old\<lparr>Status := Status (status_for r cfg profile items)\<rparr>))) b w'"
    unfolding selected_def by blast
  have "converged r cfg profile b V N ?V' ?N' (Status (status_for r cfg profile items))"
    unfolding converged_def using names items by blast
  with out w' show "out = (ctrl_Result0, None) \<and> (\<exists>V' N' st' rv. converged r cfg profile b V N V' N' st'
       \<and> st V' N' (C(cfg_name cfg \<mapsto> with_cfg_rv rv (old\<lparr>Status := st'\<rparr>))) b w')"
    by blast
qed

lemma ensureFinalizer_ok:
  assumes "C (cfg_name cfg) = Some cfg" and "IsZero (DeletionTimestamp (cfg_meta cfg))"
  shows "hoare (st V N C b) (ensureFinalizer r cfg)
    (\<lambda>res w. \<exists>cfg'. res = Inr cfg' \<and> adopted cfg cfg'
       \<and> DeletionTimestamp (cfg_meta cfg') = DeletionTimestamp (cfg_meta cfg)
       \<and> st V N (C(cfg_name cfg \<mapsto> cfg')) b w)"
proof (rule hoareI, goal_cases)
  case (1 w x w')
  show ?case
  proof (cases "finalizerName \<in> set (Finalizers (cfg_meta cfg))")
    case True
    then have "C(cfg_name cfg \<mapsto> cfg) = C" using assms(1) by auto
    moreover have "x = Inr cfg" "w' = w"
      using 1(2) True by (auto simp: ensureFinalizer_def contains_finalizer)
    ultimately show ?thesis
      using True 1(1) by (intro exI [of _ cfg]) (simp add: adopted_def)
  next
    case False
    let ?fs = "AddFinalizer (r_Library r) (Finalizers (cfg_meta cfg)) finalizerName"
    let ?cfg = "with_finalizers ?fs cfg"
    have same: "cfg_name ?cfg = cfg_name cfg" "ResourceVersion (cfg_meta ?cfg) = ResourceVersion (cfg_meta cfg)"
        "DeletionTimestamp (cfg_meta ?cfg) = DeletionTimestamp (cfg_meta cfg)"
        "Spec ?cfg = Spec cfg" "Finalizers (cfg_meta ?cfg) = ?fs"
      by (simp_all add: with_finalizers_def)
    from update_cfg [OF st_inv [OF 1(1)], of ?cfg cfg] same assms st_cfgs [OF 1(1)] obtain s' rv where
      s': "c_update_cfg (r_Client r) ?cfg (server w) = (Inr (updated_cfg rv cfg ?cfg), s')" "inv s'"
        "cfgs s' = C(cfg_name cfg \<mapsto> updated_cfg rv cfg ?cfg)"
        "objs s' = objs (server w)" "nodes s' = nodes (server w)" "scc s' = scc (server w)"
      by (auto simp: Let_def)
    from 1(2) False s'(1) have "x = Inr (updated_cfg rv cfg ?cfg)" and "server w' = s'" "isOpenShift w' = isOpenShift w"
      by (auto simp: ensureFinalizer_def contains_finalizer api_defs run_simps)
    moreover from calculation s' 1(1) have "st V N (C(cfg_name cfg \<mapsto> updated_cfg rv cfg ?cfg)) b w'"
      by (simp add: st_def)
    moreover have "adopted cfg (updated_cfg rv cfg ?cfg)"
      using False same by (simp add: adopted_def add_finalizer)
    ultimately show ?thesis
      using same by (intro exI [of _ "updated_cfg rv cfg ?cfg"]) simp
  qed
qed

text \<open>The start of a reconcile of a live configuration, up to \<open>reconcileLive\<close>.\<close>

lemma Reconcile_start:
  assumes "st V N C b w" and "C n = Some cfg" and "IsZero (DeletionTimestamp (cfg_meta cfg))"
  obtains cfg' w1 where "run (Reconcile r ns n) w = run (reconcileLive r cfg') w1"
    and "adopted cfg cfg'" and "cfg_name cfg' = n"
    and "IsZero (DeletionTimestamp (cfg_meta cfg'))" and "st V N (C(n \<mapsto> cfg')) b w1"
proof -
  note inv = st_inv [OF assms(1)]
  from assms(2) cfgs_name [OF inv] st_cfgs [OF assms(1)] have name: "cfg_name cfg = n" by blast
  from get_cfg_some [OF inv, of n cfg] assms(2) st_cfgs [OF assms(1)]
  have get: "c_get_cfg (r_Client r) ns n (server w) = (Inr cfg, server w)" by simp
  let ?w = "w\<lparr>server := server w, trace := trace w @ [(GetCfg ns n, True)]\<rparr>"
  obtain res w1 where f: "run (ensureFinalizer r cfg) ?w = (res, w1)"
    by (cases "run (ensureFinalizer r cfg) ?w")
  from assms(2) name have C: "C (cfg_name cfg) = Some cfg" by simp
  obtain cfg' where res: "res = Inr cfg'" and ad: "adopted cfg cfg'"
    and del: "DeletionTimestamp (cfg_meta cfg') = DeletionTimestamp (cfg_meta cfg)"
    and w1: "st V N (C(cfg_name cfg \<mapsto> cfg')) b w1"
    using hoareD [OF ensureFinalizer_ok [where C = C, OF C assms(3)] st_trace [OF assms(1)] f] by blast
  have "run (Reconcile r ns n) w = run (reconcileLive r cfg') w1"
    using run_Reconcile_live [of r ns n w cfg] get assms(3) f res by (simp add: Let_def)
  moreover have "cfg_name cfg' = n" using ad name by (simp add: adopted_def)
  ultimately show thesis using that ad del assms(3) w1 name by simp
qed

lemma Reconcile_ok:
  assumes "st V N C b w" and "C n = Some cfg" and "IsZero (DeletionTimestamp (cfg_meta cfg))"
    and "n \<noteq> []" and "helm_free V" and "resolveProfile cfg = Inr profile"
  shows "\<exists>w' V' N' cfg1 cfg'. run (Reconcile r ns n) w = ((ctrl_Result0, None), w')
    \<and> adopted cfg cfg1 \<and> converged r cfg1 profile b V N V' N' (Status cfg')
    \<and> same_spec cfg' cfg1 \<and> finalizerName \<in> set (Finalizers (cfg_meta cfg'))
    \<and> IsZero (DeletionTimestamp (cfg_meta cfg'))
    \<and> st V' N' (C(n \<mapsto> cfg')) b w'"
proof -
  obtain cfg1 w1 where r1: "run (Reconcile r ns n) w = run (reconcileLive r cfg1) w1"
    and ad: "adopted cfg cfg1" and name: "cfg_name cfg1 = n"
    and live: "IsZero (DeletionTimestamp (cfg_meta cfg1))" and w1: "st V N (C(n \<mapsto> cfg1)) b w1"
    by (rule Reconcile_start [OF assms(1-3)])
  let ?C = "C(n \<mapsto> cfg1)"
  obtain out w' where l: "run (reconcileLive r cfg1) w1 = (out, w')"
    by (cases "run (reconcileLive r cfg1) w1")
  have "cfg_name cfg1 \<noteq> []" "resolveProfile cfg1 = Inr profile" "?C (cfg_name cfg1) = Some cfg1"
    using assms(4,6) name by (simp_all add: adopted_profile [OF ad])
  from hoareD [OF reconcileLive_ok [where C = ?C, OF this(1) assms(5) this(2,3) refl] w1 l] obtain V' N' st' rv' where
    out: "out = (ctrl_Result0, None)" and conv: "converged r cfg1 profile b V N V' N' st'"
    and w': "st V' N' (?C(cfg_name cfg1 \<mapsto> with_cfg_rv rv' (cfg1\<lparr>Status := st'\<rparr>))) b w'" by auto
  let ?cfg' = "with_cfg_rv rv' (cfg1\<lparr>Status := st'\<rparr>)"
  have "same_spec ?cfg' cfg1" "finalizerName \<in> set (Finalizers (cfg_meta ?cfg'))"
    "IsZero (DeletionTimestamp (cfg_meta ?cfg'))" "Status ?cfg' = st'"
    using ad live by (simp_all add: same_spec_def adopted_def with_cfg_rv_def)
  moreover have "st V' N' (C(n \<mapsto> ?cfg')) b w'" using w' name by simp
  moreover have "run (Reconcile r ns n) w = ((ctrl_Result0, None), w')" using r1 l out by simp
  ultimately show ?thesis using ad conv by metis
qed

end

section \<open>A second reconcile changes nothing\<close>

lemma desired_objects_set:
  "set (desired_objects r cfg profile os names) =
     set (rbac_objects r cfg os) \<union> set (config_objects r cfg profile) \<union> set (component_objects r cfg)
     \<union> node_topology_object r cfg profile ` set names"
  by (auto simp: desired_objects_def)

lemma converged_spec_cong:
  "same_spec a b \<Longrightarrow> converged r a profile os V N V' N' st1 \<Longrightarrow>
   \<exists>st2. converged r b profile os V N V' N' st2"
  by (auto simp: converged_def pool_selector_def same_spec_selected [of a b]
      same_spec_questions [of a b] same_spec_objects [of a b])

lemma converged_again:
  assumes "converged r cfg profile os V N V1 N1 st1" and "converged r cfg profile os V1 N1 V2 N2 st2"
  shows "V2 = V1 \<and> N2 = N1"
proof -
  from assms obtain names1 names2 where
    n1: "distinct names1" "set names1 = selected (pool_selector cfg) N1"
      "V1 = put_all (desired_objects r cfg profile os names1) V" and
    n2: "distinct names2" "set names2 = selected (pool_selector cfg) N2"
      "V2 = put_all (desired_objects r cfg profile os names2) V1"
    unfolding converged_def by blast
  from assms have "N1 = (\<lambda>x. map_option (label_selected cfg) (N x))"
      "N2 = (\<lambda>x. map_option (label_selected cfg) (N1 x))" unfolding converged_def by blast+
  then have N: "N2 = N1" by (simp add: option.map_comp comp_def)
  have "V2 = V1"
    unfolding n2(3) n1(3)
    by (rule put_all_again [OF desired_keys_distinct [OF n1(1)] desired_keys_distinct [OF n2(1)]])
      (simp add: desired_objects_set n1(2) n2(2) N)
  with N show ?thesis by blast
qed

section \<open>The operator is never its own Helm conflict\<close>

lemma managed_not_helm:
  assumes "managed r cfg profile ob"
  shows "\<not> helm_object ob"
proof -
  have "obj_kind ob \<noteq> KSecret" and "obj_kind ob = KConfigMap \<Longrightarrow>
      go_lookup (Labels (obj_meta ob)) keyManagedBy \<noteq> Some ''Helm'' \<or> GetName ob \<noteq> ''topology''"
    using assms
    by (auto simp: managed_def desired_defs builder_simps GetName_def go_lookup_Cons split: if_splits)
  then show ?thesis by (auto simp: helm_object_def)
qed

lemma helm_free_put_all:
  assumes "helm_free V" and "\<And>ob. ob \<in> set obs \<Longrightarrow> \<not> helm_object ob"
  shows "helm_free (put_all obs V)"
  using assms
proof (induction obs arbitrary: V)
  case (Cons ob obs)
  have "helm_free (put ob V)"
    using Cons.prems unfolding helm_free_def put_def by (auto split: if_splits)
  with Cons.IH Cons.prems(2) show ?case by simp
qed simp

lemma helm_free_converged:
  "helm_free V \<Longrightarrow> converged r cfg profile os V N V' N' st' \<Longrightarrow> helm_free V'"
  unfolding converged_def
  by (auto intro!: helm_free_put_all managed_not_helm desired_managed)

section \<open>The status of a converged cluster\<close>

lemma converged_all_ready:
  assumes "converged r cfg profile os V N V' N' st'"
  shows "ReadyNodes st' = TotalNodes st'"
    and "TotalNodes st' = word_of_nat (card (selected (nodeListOption cfg) N'))"
proof -
  from assms obtain items where items: "distinct (map node_name items)"
      "node_name ` set items = selected (nodeListOption cfg) N'"
      "\<forall>n \<in> set items. N' (node_name n) = Some (view_node n)"
      "st' = Status (status_for r cfg profile items)" unfolding converged_def by blast
  from assms have N': "N' = (\<lambda>x. map_option (label_selected cfg) (N x))" unfolding converged_def by blast
  have "go_index (node_labels n) deployDPLabel = ''true''" if "n \<in> set items" for n
  proof -
    from that items(2) have "node_name n \<in> selected (nodeListOption cfg) N'" by blast
    with that items(3) have m: "match_view (nodeListOption cfg) (snd (view_node n))"
      by (auto simp: selected_def)
    from that items(3) N' have "map_option (label_selected cfg) (N (node_name n)) = Some (view_node n)"
      by metis
    then obtain v where "label_selected cfg v = view_node n"
      by (cases "N (node_name n)") simp_all
    with m have "view_node n = label_view cfg v" by (simp add: label_selected_def split: if_splits)
    then have "snd (view_node n) deployDPLabel = Some ''true''"
      by (simp add: label_view_def map_add_def wantedLabels_lookup)
    then show ?thesis by (simp add: view_node_def go_index_def)
  qed
  then have all: "filter (\<lambda>m. go_index (node_labels m) deployDPLabel = ''true'') items = items"
    by (simp add: filter_id_conv)
  have "ReadyNodes st' = word_of_nat (length items)" "TotalNodes st' = word_of_nat (length items)"
    by (simp_all add: items(4) status_for_def set_condition_def Let_def count_ready_eq all)
  moreover have "card (selected (nodeListOption cfg) N') = length items"
    using items(1) unfolding items(2) [symmetric] by (metis distinct_card length_map list.set_map)
  ultimately show "ReadyNodes st' = TotalNodes st'"
    and "TotalNodes st' = word_of_nat (card (selected (nodeListOption cfg) N'))" by simp_all
qed

section \<open>The server in memory is healthy\<close>

interpretation mem_run: healthy_run mem_reconciler mem_inv
    "\<lambda>s. map_of (m_objs s)" "\<lambda>s. map_of (m_nodes s)" "\<lambda>s. map_of (m_cfgs s)" m_scc
proof -
  have "r_Client mem_reconciler = mem_client" "r_Library mem_reconciler = mem_library"
    by (simp_all add: mem_reconciler_def)
  then have "api_server (r_Client mem_reconciler) (r_Library mem_reconciler) mem_inv
      (\<lambda>s. map_of (m_objs s)) (\<lambda>s. map_of (m_nodes s)) (\<lambda>s. map_of (m_cfgs s)) m_scc"
    using mem.api_server_axioms by simp
  then show "healthy_run mem_reconciler mem_inv
      (\<lambda>s. map_of (m_objs s)) (\<lambda>s. map_of (m_nodes s)) (\<lambda>s. map_of (m_cfgs s)) m_scc"
    by (intro healthy_run.intro) (simp_all add: healthy_run_axioms_def mem_reconciler_def)
qed

end
