(* ===== verification/Deletion.thy ===== *)
theory Deletion
  imports Convergence
begin

text \<open>
  The deletion of a configuration on a server that keeps its promises: which objects go
  (\<open>swept\<close>), that nothing else does, that every object a reconcile puts into the store is
  among them, and what the sweep takes from other configurations.
\<close>

section \<open>Removing objects from an abstract store\<close>

definition remove :: "(obj \<Rightarrow> bool) \<Rightarrow> store \<Rightarrow> store" where
  "remove P V k = (case V k of None \<Rightarrow> None | Some ob \<Rightarrow> if P ob then None else Some ob)"

lemma remove_remove: "remove P (remove Q V) = remove (\<lambda>ob. Q ob \<or> P ob) V"
  by (auto simp: remove_def fun_eq_iff split: option.splits)

lemma remove_none: "remove (\<lambda>_. False) V = V"
  by (auto simp: remove_def fun_eq_iff split: option.splits)

lemma remove_cong: "(\<And>k ob. V k = Some ob \<Longrightarrow> P ob = Q ob) \<Longrightarrow> remove P V = remove Q V"
  by (auto simp: remove_def fun_eq_iff split: option.splits)

lemma remove_Some: "remove P V k = Some ob \<longleftrightarrow> V k = Some ob \<and> \<not> P ob"
  by (auto simp: remove_def split: option.splits)

text \<open>The objects that the deletion of \<open>cfg\<close> removes.\<close>

definition swept_kinds :: "kind list" where
  "swept_kinds = [KDaemonSet, KDeployment, KService, KServiceAccount, KConfigMap]"

definition swept :: "('s, 'e) Reconciler \<Rightarrow> FakeGPUConfig \<Rightarrow> bool \<Rightarrow> obj \<Rightarrow> bool" where
  "swept r cfg openshift ob \<longleftrightarrow>
     GetNamespace ob = r_Namespace r \<and> obj_kind ob \<in> set swept_kinds
       \<and> go_lookup (Labels (obj_meta ob)) keyInstance = Some (cfg_name cfg)
     \<or> GetNamespace ob = r_Namespace r \<and> obj_kind ob = KConfigMap
       \<and> go_lookup (Labels (obj_meta ob)) keyNodeTopology = Some ''true''
     \<or> (\<exists>kd n. obj_key ob = (kd, [], n) \<and> (kd, n) \<in> set (clusterScopedResources cfg openshift))"

lemma strip_meta [simp]:
  "Labels (obj_meta (strip ob)) = Labels (obj_meta ob)" "obj_kind (strip ob) = obj_kind ob"
  "GetNamespace (strip ob) = GetNamespace ob" "GetName (strip ob) = GetName ob"
  "Namespace (obj_meta (strip ob)) = Namespace (obj_meta ob)" "Name (obj_meta (strip ob)) = Name (obj_meta ob)"
  by (simp_all add: strip_def GetNamespace_def GetName_def)

lemma swept_strip [simp]: "swept r cfg os (strip ob) = swept r cfg os ob"
  by (simp add: swept_def)

lemma selects_strip [simp]: "selects kd sel nso (strip ob) = selects kd sel nso ob"
  by (simp add: selects_def split: option.split)

context healthy_run
begin

section \<open>Deleting objects\<close>

lemma st_key: "st V N C b w \<Longrightarrow> V k = Some ob \<Longrightarrow> obj_key ob = k"
  using objs_key [of "server w" k] by (auto simp: st_def)

lemma delete_ok:
  "hoare (st V N C b) (do { _ \<leftarrow> api_delete r kd ns n; State_Monad.return () })
     (\<lambda>_ w. st (remove (\<lambda>ob. obj_key ob = (kd, ns, n)) V) N C b w)"
proof (rule hoareI, goal_cases)
  case (1 w x w')
  note inv = st_inv [OF 1(1)]
  have V': "remove (\<lambda>ob. obj_key ob = (kd, ns, n)) V = V((kd, ns, n) := None)"
    using st_key [OF 1(1)] by (fastforce simp: remove_def fun_eq_iff split: option.splits)
  show ?case
  proof (cases "objs (server w) (kd, ns, n)")
    case None
    from delete_none [OF inv None] obtain e where
      "c_delete (r_Client r) kd ns n (server w) = (Inl e, server w)" by blast
    with 1(2) have "server w' = server w" "isOpenShift w' = isOpenShift w"
      by (auto simp: api_defs run_simps)
    moreover have "V((kd, ns, n) := None) = V" using None by (auto simp: st_objs [OF 1(1)])
    ultimately show ?thesis using 1(1) unfolding V' by (simp add: st_def)
  next
    case (Some ob)
    from delete [OF inv Some] obtain s' where
      s': "c_delete (r_Client r) kd ns n (server w) = (Inr (), s')" "inv s'"
        "objs s' = (objs (server w))((kd, ns, n) := None)"
        "nodes s' = nodes (server w)" "cfgs s' = cfgs (server w)" "scc s' = scc (server w)" by blast
    with 1(2) have "server w' = s'" "isOpenShift w' = isOpenShift w"
      by (auto simp: api_defs run_simps)
    with 1(1) s' show ?thesis unfolding V' by (auto simp: st_def fun_eq_iff)
  qed
qed

lemma delete_each_ok:
  "hoare (st V N C b)
     (for_each (\<lambda>x. do { _ \<leftarrow> api_delete r (kd x) (ns x) (n x); State_Monad.return () }) xs)
     (\<lambda>_ w. st (remove (\<lambda>ob. obj_key ob \<in> (\<lambda>x. (kd x, ns x, n x)) ` set xs) V) N C b w)"
proof (induction xs arbitrary: V)
  case Nil
  show ?case by (simp add: hoare_return remove_none)
next
  case (Cons x xs)
  let ?V = "remove (\<lambda>ob. obj_key ob = (kd x, ns x, n x)) V"
  have eq: "remove (\<lambda>ob. obj_key ob \<in> (\<lambda>x. (kd x, ns x, n x)) ` set xs) ?V
      = remove (\<lambda>ob. obj_key ob \<in> (\<lambda>x. (kd x, ns x, n x)) ` set (x # xs)) V"
    by (simp add: remove_remove)
  show ?case
    unfolding for_each.simps using hoare_bind [OF delete_ok Cons.IH [of ?V, unfolded eq]] by simp
qed

lemma deleteListed_ok:
  "hoare (st V N C b) (deleteListed r kd sel)
     (\<lambda>_ w. st (remove (selects kd sel (Some (r_Namespace r))) V) N C b w)"
proof (rule hoareI, goal_cases)
  case (1 w x w')
  let ?ns = "Some (r_Namespace r)"
  obtain ms where ms: "c_list (r_Client r) kd sel ?ns (server w) = (Inr ms, server w)"
      "set ms = {obj_meta ob |ob k. objs (server w) k = Some ob \<and> selects kd sel ?ns ob}"
    by (rule list_objs_st [OF 1(1)])
  let ?w = "w\<lparr>server := server w, trace := trace w @ [(ListObj kd sel ?ns, True)]\<rparr>"
  let ?del = "for_each (\<lambda>m. do { _ \<leftarrow> api_delete r kd (Namespace m) (Name m); State_Monad.return () }) ms"
  from 1(2) ms(1) have run: "run ?del ?w = (x, w')"
    by (simp add: deleteListed_def api_list_def run_simps)
  have "remove (\<lambda>ob. obj_key ob \<in> (\<lambda>m. (kd, Namespace m, Name m)) ` set ms) V
      = remove (selects kd sel ?ns) V"
  proof (rule remove_cong)
    fix k ob
    assume V: "V k = Some ob"
    from st_key [OF 1(1) V] have k: "obj_key ob = k" .
    from V obtain oc where oc: "objs (server w) k = Some oc" "ob = strip oc"
      by (auto simp: st_objs [OF 1(1)])
    show "obj_key ob \<in> (\<lambda>m. (kd, Namespace m, Name m)) ` set ms \<longleftrightarrow> selects kd sel ?ns ob"
    proof
      assume "obj_key ob \<in> (\<lambda>m. (kd, Namespace m, Name m)) ` set ms"
      then obtain od l where od: "objs (server w) l = Some od" "selects kd sel ?ns od"
          "k = (kd, Namespace (obj_meta od), Name (obj_meta od))"
        unfolding ms(2) k by blast
      from objs_key [OF st_inv [OF 1(1)] od(1)] have "l = obj_key od" by simp
      also have "\<dots> = k" using od by (simp add: obj_key_def selects_def GetNamespace_def GetName_def)
      finally have "od = oc" using od(1) oc(1) by simp
      with od(2) oc(2) show "selects kd sel ?ns ob" by simp
    next
      assume "selects kd sel ?ns ob"
      with oc have sel: "selects kd sel ?ns oc" by simp
      with oc(1) have "obj_meta oc \<in> set ms" unfolding ms(2) by blast
      moreover have "obj_key ob = (kd, Namespace (obj_meta oc), Name (obj_meta oc))"
        using sel oc(2) by (simp add: obj_key_def selects_def GetNamespace_def GetName_def)
      ultimately show "obj_key ob \<in> (\<lambda>m. (kd, Namespace m, Name m)) ` set ms" by blast
    qed
  qed
  with hoareD [OF delete_each_ok [where kd = "\<lambda>_. kd" and ns = Namespace and n = Name] st_trace [OF 1(1)] run]
  show ?case by simp
qed

lemma cluster_scoped_ok:
  "hoare (st V N C b)
     (for_each (\<lambda>(kd, n). do { _ \<leftarrow> api_delete r kd [] n; State_Monad.return () }) xs)
     (\<lambda>_ w. st (remove (\<lambda>ob. \<exists>kd n. obj_key ob = (kd, [], n) \<and> (kd, n) \<in> set xs) V) N C b w)"
proof -
  have "(\<lambda>ob. \<exists>kd n. obj_key ob = (kd, [], n) \<and> (kd, n) \<in> set xs)
      = (\<lambda>ob. obj_key ob \<in> (\<lambda>x. (fst x, [], snd x)) ` set xs)"
    by (force simp: fun_eq_iff image_iff)
  with delete_each_ok [where kd = fst and ns = "\<lambda>_. []" and n = snd] show ?thesis
    by (simp add: case_prod_unfold)
qed

section \<open>Taking the labels from the nodes\<close>

lemma unlabelNode_ok:
  assumes "node_name n \<notin> node_name ` set rest" and "node_labels n \<noteq> NilMap"
    and "go_lookup (node_labels n) nodePoolLabel = Some (cfg_name cfg)"
  shows "hoare (\<lambda>w. st V N C b w \<and> (\<forall>m \<in> set (n # rest). nodes (server w) (node_name m) = Some m))
    (unlabelNode r n)
    (\<lambda>_ w. st V (N(node_name n := map_option (unlabel_view cfg) (N (node_name n)))) C b w
       \<and> (\<forall>m \<in> set rest. nodes (server w) (node_name m) = Some m))"
proof (rule hoareI, goal_cases)
  case (1 w x w')
  then have st: "st V N C b w" and n: "nodes (server w) (node_name n) = Some n"
    and rest: "\<forall>m \<in> set rest. nodes (server w) (node_name m) = Some m"
    and run: "run (unlabelNode r n) w = (x, w')" by simp_all
  from st n have N: "N (node_name n) = Some (view_node n)" by (simp add: st_nodes)
  let ?n = "with_labels (strip_node_labels (node_labels n)) n"
  have view: "view_node ?n = unlabel_view cfg (view_node n)"
    using assms(3)
    by (simp add: view_with_labels unlabel_view_def strip_node_labels_lookup) (simp add: view_node_def)
  have "node_name ?n = node_name n" "ResourceVersion (node_meta ?n) = ResourceVersion (node_meta n)"
    by (simp_all add: with_labels_def)
  with update_node [OF st_inv [OF st], of ?n] n obtain s' n' where
    s': "c_update_node (r_Client r) ?n (server w) = (Inr (), s')" "inv s'"
      "strip_node n' = strip_node ?n" "nodes s' = (nodes (server w))(node_name n \<mapsto> n')"
      "objs s' = objs (server w)" "cfgs s' = cfgs (server w)" "scc s' = scc (server w)" by auto
  from view_strip [OF s'(3)] view have "view_node n' = unlabel_view cfg (view_node n)" by simp
  moreover from run s'(1) have "w' = w\<lparr>server := s', trace := trace w @ [(UpdateNode ?n, True)]\<rparr>"
    by (auto simp: unlabelNode_def api_defs run_simps)
  moreover from assms(1) have "node_name m \<noteq> node_name n" if "m \<in> set rest" for m
    using that by (metis imageI)
  ultimately show ?case using st s' N rest by (auto simp: st_def fun_eq_iff)
qed


lemma unlabelNodes_ok:
  assumes "distinct (map node_name items)"
    and "\<And>n. n \<in> set items \<Longrightarrow> go_lookup (node_labels n) nodePoolLabel = Some (cfg_name cfg)"
  shows "hoare (\<lambda>w. st V N C b w \<and> (\<forall>m \<in> set items. nodes (server w) (node_name m) = Some m))
    (for_each (unlabelNode r) items)
    (\<lambda>_ w. st V (\<lambda>x. if x \<in> node_name ` set items then map_option (unlabel_view cfg) (N x) else N x) C b w)"
  using assms
proof (induction items arbitrary: N)
  case Nil
  show ?case by (simp add: hoare_return)
next
  case (Cons n rest)
  let ?N = "N(node_name n := map_option (unlabel_view cfg) (N (node_name n)))"
  from Cons.prems have new: "node_name n \<notin> node_name ` set rest" by simp
  from Cons.prems(2) have pool: "go_lookup (node_labels n) nodePoolLabel = Some (cfg_name cfg)" by simp
  then have "node_labels n \<noteq> NilMap" by auto
  have eq: "(\<lambda>x. if x \<in> node_name ` set rest then map_option (unlabel_view cfg) (?N x) else ?N x)
      = (\<lambda>x. if x \<in> node_name ` set (n # rest) then map_option (unlabel_view cfg) (N x) else N x)"
    using new by (auto simp: fun_eq_iff)
  have IH: "hoare (\<lambda>w. st V ?N C b w \<and> (\<forall>m \<in> set rest. nodes (server w) (node_name m) = Some m))
    (for_each (unlabelNode r) rest)
    (\<lambda>_ w. st V (\<lambda>x. if x \<in> node_name ` set rest then map_option (unlabel_view cfg) (?N x) else ?N x) C b w)"
    using Cons.prems by (intro Cons.IH) auto
  show ?case
    unfolding for_each.simps
    by (rule hoare_bind [OF unlabelNode_ok [OF new \<open>node_labels n \<noteq> NilMap\<close> pool]])
      (use IH in \<open>simp only: eq\<close>)
qed

lemma pool_nodes_ok:
  assumes "st V N C b w"
    and "set items = {n. \<exists>x. nodes (server w) x = Some n \<and> labels_match (GoMap [(nodePoolLabel, cfg_name cfg)]) (node_labels n)}"
  shows "(\<lambda>x. if x \<in> node_name ` set items then map_option (unlabel_view cfg) (N x) else N x)
    = (\<lambda>x. map_option (unlabel_view cfg) (N x))"
proof
  fix x
  have "x \<in> node_name ` set items \<longleftrightarrow> (\<exists>v. N x = Some v \<and> snd v nodePoolLabel = Some (cfg_name cfg))"
    unfolding listed_names [OF assms] by (simp add: match_view_def)
  then show "(if x \<in> node_name ` set items then map_option (unlabel_view cfg) (N x) else N x)
      = map_option (unlabel_view cfg) (N x)"
    by (cases "N x") (auto simp: unlabel_view_def)
qed

section \<open>The whole deletion\<close>

lemma sweep_view:
  fixes ls
  defines "L \<equiv> \<lambda>kd sel. selects kd sel (Some (r_Namespace r))"
  shows "remove (L KConfigMap (GoMap [(keyNodeTopology, ''true'')]))
     (remove (L KConfigMap ls) (remove (L KServiceAccount ls) (remove (L KService ls)
       (remove (L KDeployment ls) (remove (L KDaemonSet ls) V)))))
    = remove (\<lambda>ob. GetNamespace ob = r_Namespace r
         \<and> (obj_kind ob \<in> set swept_kinds \<and> labels_match ls (Labels (obj_meta ob))
            \<or> obj_kind ob = KConfigMap \<and> go_lookup (Labels (obj_meta ob)) keyNodeTopology = Some ''true'')) V"
  unfolding remove_remove by (rule remove_cong) (auto simp: selects_def swept_kinds_def L_def)

lemma finish_ok:
  assumes "C n = Some cfg" and "cfg_name cfg = n" and "\<not> IsZero (DeletionTimestamp (cfg_meta cfg))"
  shows "hoare (st V N C b) (do {
      upd \<leftarrow> api_update_cfg r (with_finalizers
               (RemoveFinalizer (r_Library r) (Finalizers (cfg_meta cfg)) finalizerName) cfg);
      State_Monad.return (ctrl_Result0, err_of upd) })
    (\<lambda>out w. out = (ctrl_Result0, None)
       \<and> (\<exists>C'. st V N C' b w \<and> (\<forall>x. x \<noteq> n \<longrightarrow> C' x = C x)
            \<and> (case C' n of None \<Rightarrow> set (Finalizers (cfg_meta cfg)) \<subseteq> {finalizerName}
               | Some cfg' \<Rightarrow> cfg_name cfg' = n \<and> Spec cfg' = wire_spec (Spec cfg)
                   \<and> set (Finalizers (cfg_meta cfg')) = set (Finalizers (cfg_meta cfg)) - {finalizerName}
                   \<and> Finalizers (cfg_meta cfg') \<noteq> [])))"
proof (rule hoareI, goal_cases)
  case (1 w x w')
  let ?fs = "RemoveFinalizer (r_Library r) (Finalizers (cfg_meta cfg)) finalizerName"
  let ?cfg = "with_finalizers ?fs cfg"
  have same: "cfg_name ?cfg = n" "ResourceVersion (cfg_meta ?cfg) = ResourceVersion (cfg_meta cfg)"
      "DeletionTimestamp (cfg_meta ?cfg) = DeletionTimestamp (cfg_meta cfg)"
      "Finalizers (cfg_meta ?cfg) = ?fs" "Spec ?cfg = Spec cfg"
    by (simp_all add: with_finalizers_def assms(2))
  from update_cfg [OF st_inv [OF 1(1)], of ?cfg cfg] same assms st_cfgs [OF 1(1)] obtain s' rv where
    s': "c_update_cfg (r_Client r) ?cfg (server w) = (Inr (updated_cfg rv cfg ?cfg), s')" "inv s'"
      "cfgs s' = (if ?fs = [] then C(n := None) else C(n \<mapsto> updated_cfg rv cfg ?cfg))"
      "objs s' = objs (server w)" "nodes s' = nodes (server w)" "scc s' = scc (server w)"
    by (auto simp: Let_def)
  from 1(2) s'(1) have out: "x = (ctrl_Result0, None)" and w': "server w' = s'" "isOpenShift w' = isOpenShift w"
    by (auto simp: api_defs run_simps)
  have "st V N (cfgs s') b w'" using w' s' 1(1) by (simp add: st_def)
  moreover have "\<forall>x. x \<noteq> n \<longrightarrow> cfgs s' x = C x" by (simp add: s'(3))
  moreover have "set (Finalizers (cfg_meta cfg)) \<subseteq> {finalizerName}" if "?fs = []"
    using remove_finalizer [of "Finalizers (cfg_meta cfg)" finalizerName] that by auto
  ultimately show ?case
    using out same by (intro conjI exI [of _ "cfgs s'"]) (auto simp: s'(3) remove_finalizer)
qed

lemma handleDeletion_ok:
  assumes "C n = Some cfg" and "cfg_name cfg = n" and "\<not> IsZero (DeletionTimestamp (cfg_meta cfg))"
  shows "hoare (st V N C b) (handleDeletion r cfg)
    (\<lambda>out w. out = (ctrl_Result0, None)
       \<and> (\<exists>C'. st (remove (swept r cfg b) V) (\<lambda>x. map_option (unlabel_view cfg) (N x)) C' b w
            \<and> (\<forall>x. x \<noteq> n \<longrightarrow> C' x = C x)
            \<and> (case C' n of None \<Rightarrow> set (Finalizers (cfg_meta cfg)) \<subseteq> {finalizerName}
               | Some cfg' \<Rightarrow> cfg_name cfg' = n \<and> Spec cfg' = wire_spec (Spec cfg)
                   \<and> set (Finalizers (cfg_meta cfg')) = set (Finalizers (cfg_meta cfg)) - {finalizerName}
                   \<and> Finalizers (cfg_meta cfg') \<noteq> [])))"
    (is "hoare _ _ ?Q")
proof -
  let ?ls = "GoMap [(keyInstance, cfg_name cfg)]"
  let ?V1 = "remove (\<lambda>ob. GetNamespace ob = r_Namespace r
         \<and> (obj_kind ob \<in> set swept_kinds \<and> labels_match ?ls (Labels (obj_meta ob))
            \<or> obj_kind ob = KConfigMap \<and> go_lookup (Labels (obj_meta ob)) keyNodeTopology = Some ''true'')) V"
  let ?N' = "\<lambda>x. map_option (unlabel_view cfg) (N x)"
  let ?del = "\<lambda>os. for_each (\<lambda>(kd, n). do { _ \<leftarrow> api_delete r kd [] n; State_Monad.return () })
                (clusterScopedResources cfg os)"
  have V2: "remove (\<lambda>ob. \<exists>kd n. obj_key ob = (kd, [], n) \<and> (kd, n) \<in> set (clusterScopedResources cfg b)) ?V1
      = remove (swept r cfg b) V"
    unfolding remove_remove by (rule remove_cong) (auto simp: swept_def)
  have rest: "hoare (st ?V1 ?N' C b) (do {
        openshift \<leftarrow> detectOpenShift r;
        _ \<leftarrow> ?del openshift;
        upd \<leftarrow> api_update_cfg r (with_finalizers
                 (RemoveFinalizer (r_Library r) (Finalizers (cfg_meta cfg)) finalizerName) cfg);
        State_Monad.return (ctrl_Result0, err_of upd) }) ?Q"
  proof (rule hoare_bind [OF detectOpenShift_ok], goal_cases)
    case (1 os)
    show ?case
    proof (cases "os = b")
      case True
      show ?thesis
        using hoare_bind [OF cluster_scoped_ok finish_ok [where C = C, OF assms], of ?V1 ?N' b "clusterScopedResources cfg b"]
        unfolding V2 by (simp add: True)
    qed (simp add: hoare_def)
  qed
  have tail: "hoare (st ?V1 N C b) (do {
      res \<leftarrow> api_list_nodes r (GoMap [(nodePoolLabel, cfg_name cfg)]);
      (case res of
         Inl e \<Rightarrow> State_Monad.return (ctrl_Result0, Some (ClientError e))
       | Inr items \<Rightarrow>
           do {
             _ \<leftarrow> for_each (unlabelNode r) items;
             openshift \<leftarrow> detectOpenShift r;
             _ \<leftarrow> ?del openshift;
             upd \<leftarrow> api_update_cfg r (with_finalizers
                      (RemoveFinalizer (r_Library r) (Finalizers (cfg_meta cfg)) finalizerName) cfg);
             State_Monad.return (ctrl_Result0, err_of upd)
           }) }) ?Q"
  proof (rule hoareI, goal_cases)
    case (1 w x w')
    let ?sel = "GoMap [(nodePoolLabel, cfg_name cfg)]"
    from list_nodes [OF st_inv [OF 1(1)]] obtain items where
      l: "c_list_nodes (r_Client r) ?sel (server w) = (Inr items, server w)"
        "distinct (map node_name items)"
        "set items = {n. \<exists>x. nodes (server w) x = Some n \<and> labels_match ?sel (node_labels n)}"
      by blast
    have stored: "\<forall>m \<in> set items. nodes (server w) (node_name m) = Some m"
      using l(3) nodes_name [OF st_inv [OF 1(1)]] by auto
    have pool: "go_lookup (node_labels m) nodePoolLabel = Some (cfg_name cfg)" if "m \<in> set items" for m
      using that l(3) by auto
    let ?w = "w\<lparr>server := server w, trace := trace w @ [(ListNode ?sel, True)]\<rparr>"
    note un = unlabelNodes_ok [OF l(2) pool, of ?V1 N C b]
    from 1(2) l(1) have run: "run (do {
             _ \<leftarrow> for_each (unlabelNode r) items;
             openshift \<leftarrow> detectOpenShift r;
             _ \<leftarrow> ?del openshift;
             upd \<leftarrow> api_update_cfg r (with_finalizers
                      (RemoveFinalizer (r_Library r) (Finalizers (cfg_meta cfg)) finalizerName) cfg);
             State_Monad.return (ctrl_Result0, err_of upd) }) ?w = (x, w')"
      by (simp add: api_list_nodes_def run_simps)
    show ?case
      using hoareD [OF hoare_bind [OF un [unfolded pool_nodes_ok [OF 1(1) l(3)]] rest] _ run]
        stored st_trace [OF 1(1)] by simp
  qed
  show ?thesis
    unfolding handleDeletion_def Let_def
    by (rule hoare_bind [OF deleteListed_ok])+ (use tail in \<open>unfold sweep_view\<close>)
qed

lemma Reconcile_deleted:
  assumes "st V N C b w" and "C n = Some cfg" and "\<not> IsZero (DeletionTimestamp (cfg_meta cfg))"
  shows "\<exists>w' C'. run (Reconcile r ns n) w = ((ctrl_Result0, None), w')
    \<and> st (remove (swept r cfg b) V) (\<lambda>x. map_option (unlabel_view cfg) (N x)) C' b w'
    \<and> (\<forall>x. x \<noteq> n \<longrightarrow> C' x = C x)
    \<and> (case C' n of None \<Rightarrow> set (Finalizers (cfg_meta cfg)) \<subseteq> {finalizerName}
       | Some cfg' \<Rightarrow> cfg_name cfg' = n \<and> Spec cfg' = wire_spec (Spec cfg)
           \<and> set (Finalizers (cfg_meta cfg')) = set (Finalizers (cfg_meta cfg)) - {finalizerName}
           \<and> Finalizers (cfg_meta cfg') \<noteq> [])"
proof -
  note inv = st_inv [OF assms(1)]
  from assms(2) cfgs_name [OF inv] st_cfgs [OF assms(1)] have name: "cfg_name cfg = n" by blast
  from get_cfg_some [OF inv, of n cfg] assms(2) st_cfgs [OF assms(1)]
  have get: "c_get_cfg (r_Client r) ns n (server w) = (Inr cfg, server w)" by simp
  let ?w = "w\<lparr>server := server w, trace := trace w @ [(GetCfg ns n, True)]\<rparr>"
  obtain out w' where d: "run (handleDeletion r cfg) ?w = (out, w')" by (cases "run (handleDeletion r cfg) ?w")
  have "run (Reconcile r ns n) w = (out, w')"
    using get assms(3) d by (simp add: Reconcile_def api_get_cfg_def run_simps)
  with hoareD [OF handleDeletion_ok [where C = C, OF assms(2) name assms(3)] st_trace [OF assms(1)] d]
  show ?thesis by auto
qed

end

section \<open>What a deletion reaches\<close>

lemma swept_namespaced:
  "GetNamespace ob = r_Namespace r \<Longrightarrow> obj_kind ob \<in> set swept_kinds \<Longrightarrow>
   go_lookup (Labels (obj_meta ob)) keyInstance = Some (cfg_name cfg) \<Longrightarrow> swept r cfg os ob"
  by (simp add: swept_def)

lemma swept_cluster_scoped:
  "obj_key ob = (kd, [], n) \<Longrightarrow> (kd, n) \<in> set (clusterScopedResources cfg os) \<Longrightarrow> swept r cfg os ob"
  unfolding swept_def by blast

lemma swept_facts:
  "swept r cfg os (OServiceAccount (ServiceAccount cfg a (r_Namespace r)))"
  "swept r cfg os (ODaemonSet (DevicePluginDaemonSet env cfg (r_Namespace r)))"
  "swept r cfg os (ODaemonSet (MetricsExporterDaemonSet env cfg (r_Namespace r)))"
  "swept r cfg os (ODaemonSet (MIGFakerDaemonSet env cfg (r_Namespace r)))"
  "swept r cfg os (ODaemonSet (DRAPluginDaemonSet env cfg (r_Namespace r)))"
  "swept r cfg os (ODaemonSet (ComputeDomainDRADaemonSet env cfg (r_Namespace r)))"
  "swept r cfg os (ODeployment (StatusUpdaterDeployment env cfg (r_Namespace r)))"
  "swept r cfg os (ODeployment (TopologyServerDeployment env cfg (r_Namespace r)))"
  "swept r cfg os (ODeployment (ComputeDomainControllerDeployment env cfg (r_Namespace r)))"
  "swept r cfg os (OService (MetricsExporterService cfg (r_Namespace r)))"
  "swept r cfg os (OService (TopologyServerService cfg (r_Namespace r)))"
  "swept r cfg os (OConfigMap (TopologyConfigMap cfg profile (r_Namespace r)))"
  "swept r cfg os (OConfigMap (GPUProfileConfigMap ip cfg profile (r_Namespace r)))"
  by (rule swept_namespaced; simp add: swept_kinds_def builder_simps GetNamespace_def go_lookup_Cons gpuProfileLabels_lookup)+

lemma swept_cluster_facts:
  "swept r cfg os (OClusterRole (DevicePluginClusterRole cfg))"
  "swept r cfg os (OClusterRole (StatusUpdaterClusterRole cfg))"
  "swept r cfg os (OClusterRole (MetricsExporterClusterRole cfg))"
  "swept r cfg os (OClusterRoleBinding (ClusterRoleBinding cfg ''device-plugin'' ns (DevicePluginClusterRole cfg)))"
  "swept r cfg os (OClusterRoleBinding (ClusterRoleBinding cfg ''status-updater'' ns (StatusUpdaterClusterRole cfg)))"
  "swept r cfg os (OClusterRoleBinding (ClusterRoleBinding cfg ''metrics-exporter'' ns (MetricsExporterClusterRole cfg)))"
  "swept r cfg True (OClusterRole (SCCClusterRole cfg))"
  "swept r cfg True (OClusterRoleBinding (SCCClusterRoleBinding cfg ns))"
  "swept r cfg os (ORuntimeClass (NvidiaRuntimeClass cfg'))"
  by (rule swept_cluster_scoped, simp, simp add: clusterScopedResources_def)+

lemma node_topology_swept: "swept r cfg os (node_topology_object r cfg' profile x)"
  by (simp add: swept_def node_topology_object_def builder_simps GetNamespace_def go_lookup_Cons)

lemma desired_swept:
  assumes "ob \<in> set (desired_objects r cfg profile os names)"
  shows "swept r cfg os ob"
  using assms
  by (auto simp: desired_objects_def rbac_objects_def account_objects_def role_objects_def scc_objects_def
      config_objects_def component_objects_def Let_def swept_facts swept_cluster_facts node_topology_swept
      split: if_splits)

text \<open>The objects of another configuration, its ConfigMaps and the runtime class apart, are safe.\<close>

lemma not_swept_namespaced:
  "GetNamespace ob \<noteq> [] \<Longrightarrow> obj_kind ob \<noteq> KConfigMap \<Longrightarrow>
   go_lookup (Labels (obj_meta ob)) keyInstance \<noteq> Some (cfg_name cfg) \<Longrightarrow> \<not> swept r cfg os ob"
  by (auto simp: swept_def obj_key_def)

lemma not_swept_cluster_scoped:
  "obj_key ob = (kd, [], n) \<Longrightarrow> kd \<notin> set swept_kinds \<Longrightarrow>
   (kd, n) \<notin> set (clusterScopedResources cfg True) \<Longrightarrow> \<not> swept r cfg os ob"
  by (auto simp: swept_def swept_kinds_def obj_key_def clusterScopedResources_def split: if_splits)

lemma not_swept_facts:
  assumes "cfg_name cfg' \<noteq> cfg_name cfg" and "ns \<noteq> []"
  shows "\<not> swept r cfg os (OServiceAccount (ServiceAccount cfg' a ns))"
  "\<not> swept r cfg os (ODaemonSet (DevicePluginDaemonSet env cfg' ns))"
  "\<not> swept r cfg os (ODaemonSet (MetricsExporterDaemonSet env cfg' ns))"
  "\<not> swept r cfg os (ODaemonSet (MIGFakerDaemonSet env cfg' ns))"
  "\<not> swept r cfg os (ODaemonSet (DRAPluginDaemonSet env cfg' ns))"
  "\<not> swept r cfg os (ODaemonSet (ComputeDomainDRADaemonSet env cfg' ns))"
  "\<not> swept r cfg os (ODeployment (StatusUpdaterDeployment env cfg' ns))"
  "\<not> swept r cfg os (ODeployment (TopologyServerDeployment env cfg' ns))"
  "\<not> swept r cfg os (ODeployment (ComputeDomainControllerDeployment env cfg' ns))"
  "\<not> swept r cfg os (OService (MetricsExporterService cfg' ns))"
  "\<not> swept r cfg os (OService (TopologyServerService cfg' ns))"
  by (rule not_swept_namespaced; use assms in \<open>simp add: builder_simps GetNamespace_def go_lookup_Cons\<close>)+

lemma not_swept_cluster_facts:
  assumes "cfg_name cfg' \<noteq> cfg_name cfg"
  shows "\<not> swept r cfg os (OClusterRole (DevicePluginClusterRole cfg'))"
  "\<not> swept r cfg os (OClusterRole (StatusUpdaterClusterRole cfg'))"
  "\<not> swept r cfg os (OClusterRole (MetricsExporterClusterRole cfg'))"
  "\<not> swept r cfg os (OClusterRoleBinding (ClusterRoleBinding cfg' ''device-plugin'' ns (DevicePluginClusterRole cfg')))"
  "\<not> swept r cfg os (OClusterRoleBinding (ClusterRoleBinding cfg' ''status-updater'' ns (StatusUpdaterClusterRole cfg')))"
  "\<not> swept r cfg os (OClusterRoleBinding (ClusterRoleBinding cfg' ''metrics-exporter'' ns (MetricsExporterClusterRole cfg')))"
  "\<not> swept r cfg os (OClusterRole (SCCClusterRole cfg'))"
  "\<not> swept r cfg os (OClusterRoleBinding (SCCClusterRoleBinding cfg' ns))"
  by (rule not_swept_cluster_scoped, simp, simp add: swept_kinds_def,
      use assms in \<open>simp add: clusterScopedResources_def\<close>)+

lemma other_not_swept:
  assumes "ob \<in> set (rbac_objects r cfg' os' @ component_objects r cfg')"
    and "obj_kind ob \<noteq> KRuntimeClass" and "cfg_name cfg' \<noteq> cfg_name cfg" and "r_Namespace r \<noteq> []"
  shows "\<not> swept r cfg os ob"
  using assms(1,2)
  by (auto simp: rbac_objects_def account_objects_def role_objects_def scc_objects_def
      component_objects_def Let_def not_swept_facts [OF assms(3,4)] not_swept_cluster_facts [OF assms(3)]
      split: if_splits)

end
