(* ===== verification/Refusal.thy ===== *)
theory Refusal
  imports Convergence
begin

text \<open>
  The two cases in which a reconcile of a live configuration is refused, on a server that keeps
  its promises: a Helm installation of the same operator, and a configuration without a known
  profile. Objects and nodes stay as they are; the reason is in the status.
\<close>

context healthy_run
begin

section \<open>A reconcile that is refused\<close>

lemma detectHelmConflict_st: "hoare (st V N C b) (detectHelmConflict r) (\<lambda>_. st V N C b)"
proof (rule hoareI, goal_cases)
  case (1 w x w')
  let ?sel = "GoMap [(''owner'', ''helm''), (''name'', ''gpu-operator'')]"
    and ?sel' = "GoMap [(keyManagedBy, ''Helm'')]"
  obtain ms where ms: "c_list (r_Client r) KSecret ?sel None (server w) = (Inr ms, server w)"
    by (rule list_objs_st [OF 1(1)])
  obtain cms where cms: "c_list (r_Client r) KConfigMap ?sel' None (server w) = (Inr cms, server w)"
    by (rule list_objs_st [OF 1(1)])
  from 1(2) ms cms have "server w' = server w \<and> isOpenShift w' = isOpenShift w"
    by (auto simp: detectHelmConflict_def api_defs run_simps split: list.splits)
  with 1(1) show ?case by (simp add: st_def)
qed

lemma status_update_ok:
  assumes "C (cfg_name cfg) = Some old" and "ResourceVersion (cfg_meta cfg) = ResourceVersion (cfg_meta old)"
  shows "hoare (st V N C b) (api_update_status r (set_condition r a re msg cfg))
    (\<lambda>_ w. \<exists>rv. st V N (C(cfg_name cfg \<mapsto>
       with_cfg_rv rv (old\<lparr>Status := Status (set_condition r a re msg cfg)\<rparr>))) b w)"
proof (rule hoareI, goal_cases)
  case (1 w x w')
  let ?st = "set_condition r a re msg cfg"
  have same: "cfg_name ?st = cfg_name cfg" "ResourceVersion (cfg_meta ?st) = ResourceVersion (cfg_meta cfg)"
    by (simp_all add: set_condition_def)
  from update_status [OF st_inv [OF 1(1)], of ?st old] assms 1(1) same obtain s' rv where
    s': "c_update_status (r_Client r) ?st (server w) = (Inr (), s')" "inv s'"
      "cfgs s' = (cfgs (server w))(cfg_name cfg \<mapsto> with_cfg_rv rv (old\<lparr>Status := Status ?st\<rparr>))"
      "objs s' = objs (server w)" "nodes s' = nodes (server w)" "scc s' = scc (server w)"
    by (auto simp: st_cfgs)
  from 1(2) s'(1) have "server w' = s'" "isOpenShift w' = isOpenShift w"
    by (auto simp: api_defs run_simps)
  with s' 1(1) show ?case by (auto simp: st_def)
qed

lemma condition_set:
  "\<lparr>cond_Type = ''Available'', cond_Status = a, cond_Reason = re, cond_Message = msg\<rparr>
     \<in> set (Conditions (Status (set_condition r a re msg cfg)))"
  by (simp add: set_condition_def set_status_condition)

lemma Reconcile_helm:
  assumes "st V N C b w" and "C n = Some cfg" and "IsZero (DeletionTimestamp (cfg_meta cfg))"
    and "\<not> helm_free V"
  shows "\<exists>w' cfg' ns'. run (Reconcile r ns n) w = ((ctrl_Result0, None), w')
    \<and> st V N (C(n \<mapsto> cfg')) b w' \<and> Spec cfg' = (if finalizerName \<in> set (Finalizers (cfg_meta cfg)) then Spec cfg else wire_spec (Spec cfg))
    \<and> (\<exists>k ob. V k = Some ob \<and> helm_object ob \<and> GetNamespace ob = ns')
    \<and> \<lparr>cond_Type = ''Available'', cond_Status = ''False'', cond_Reason = ''HelmConflict'',
        cond_Message = helm_message ns'\<rparr> \<in> set (Conditions (Status cfg'))"
proof -
  obtain cfg1 w1 where r1: "run (Reconcile r ns n) w = run (reconcileLive r cfg1) w1"
    and ad: "adopted cfg cfg1" and same: "cfg_name cfg1 = n" and w1: "st V N (C(n \<mapsto> cfg1)) b w1"
    by (rule Reconcile_start [OF assms(1-3)])
  from assms(4) obtain k ob where "V k = Some ob" "helm_object ob" by (auto simp: helm_free_def)
  from helm_conflict [OF w1 this] obtain k' ob' where ob': "V k' = Some ob'" "helm_object ob'"
      "fst (run (detectHelmConflict r) w1) = (True, GetNamespace ob')" by blast
  then obtain w2 where d: "run (detectHelmConflict r) w1 = ((True, GetNamespace ob'), w2)"
    by (metis prod.collapse)
  from hoareD [OF detectHelmConflict_st w1 d] have w2: "st V N (C(n \<mapsto> cfg1)) b w2" .
  let ?C = "C(n \<mapsto> cfg1)" and ?m = "helm_message (GetNamespace ob')"
  obtain x w3 where u: "run (api_update_status r (set_condition r ''False'' ''HelmConflict'' ?m cfg1)) w2 = (x, w3)"
    by (cases "run (api_update_status r (set_condition r ''False'' ''HelmConflict'' ?m cfg1)) w2")
  have "?C (cfg_name cfg1) = Some cfg1" using same by simp
  from hoareD [OF status_update_ok [where C = ?C, OF this refl] w2 u] obtain rv where
    w3: "st V N (?C(cfg_name cfg1 \<mapsto> with_cfg_rv rv
       (cfg1\<lparr>Status := Status (set_condition r ''False'' ''HelmConflict'' ?m cfg1)\<rparr>))) b w3" by blast
  let ?cfg' = "with_cfg_rv rv (cfg1\<lparr>Status := Status (set_condition r ''False'' ''HelmConflict'' ?m cfg1)\<rparr>)"
  have "run (Reconcile r ns n) w = ((ctrl_Result0, None), w3)"
    by (simp add: r1 live_helm_conflict [OF d] u)
  moreover have "Spec ?cfg' = (if finalizerName \<in> set (Finalizers (cfg_meta cfg)) then Spec cfg else wire_spec (Spec cfg))"
    using ad by (simp add: adopted_def with_cfg_rv_def)
  moreover have "st V N (C(n \<mapsto> ?cfg')) b w3" using w3 same by simp
  moreover have "\<lparr>cond_Type = ''Available'', cond_Status = ''False'', cond_Reason = ''HelmConflict'',
        cond_Message = ?m\<rparr> \<in> set (Conditions (Status ?cfg'))"
    using condition_set by (simp add: with_cfg_rv_def)
  ultimately show ?thesis using ob' by blast
qed

lemma Reconcile_invalid:
  assumes "st V N C b w" and "C n = Some cfg" and "IsZero (DeletionTimestamp (cfg_meta cfg))"
    and "helm_free V" and "resolveProfile cfg = Inl msg"
  shows "\<exists>w' cfg'. run (Reconcile r ns n) w = ((ctrl_Result0, Some (Errorf msg)), w')
    \<and> st V N (C(n \<mapsto> cfg')) b w' \<and> Spec cfg' = (if finalizerName \<in> set (Finalizers (cfg_meta cfg)) then Spec cfg else wire_spec (Spec cfg))
    \<and> \<lparr>cond_Type = ''Available'', cond_Status = ''False'', cond_Reason = ''InvalidProfile'',
        cond_Message = msg\<rparr> \<in> set (Conditions (Status cfg'))"
proof -
  obtain cfg1 w1 where r1: "run (Reconcile r ns n) w = run (reconcileLive r cfg1) w1"
    and ad: "adopted cfg cfg1" and same: "cfg_name cfg1 = n" and w1: "st V N (C(n \<mapsto> cfg1)) b w1"
    by (rule Reconcile_start [OF assms(1-3)])
  obtain h w2 where d: "run (detectHelmConflict r) w1 = (h, w2)" by (cases "run (detectHelmConflict r) w1")
  from hoareD [OF no_helm_conflict [OF assms(4)] w1 d] have h: "h = (False, snd h)"
    and w2: "st V N (C(n \<mapsto> cfg1)) b w2" by (simp_all add: prod_eq_iff del: fun_upd_apply)
  with d have d': "run (detectHelmConflict r) w1 = ((False, snd h), w2)" by simp
  from assms(5) have inval: "resolveProfile cfg1 = Inl msg" by (simp add: adopted_profile [OF ad])
  let ?C = "C(n \<mapsto> cfg1)"
  obtain x w3 where u: "run (api_update_status r (set_condition r ''False'' ''InvalidProfile'' msg cfg1)) w2 = (x, w3)"
    by (cases "run (api_update_status r (set_condition r ''False'' ''InvalidProfile'' msg cfg1)) w2")
  have "?C (cfg_name cfg1) = Some cfg1" using same by simp
  from hoareD [OF status_update_ok [where C = ?C, OF this refl] w2 u] obtain rv where
    w3: "st V N (?C(cfg_name cfg1 \<mapsto> with_cfg_rv rv
       (cfg1\<lparr>Status := Status (set_condition r ''False'' ''InvalidProfile'' msg cfg1)\<rparr>))) b w3" by blast
  let ?cfg' = "with_cfg_rv rv (cfg1\<lparr>Status := Status (set_condition r ''False'' ''InvalidProfile'' msg cfg1)\<rparr>)"
  have "run (Reconcile r ns n) w = ((ctrl_Result0, Some (Errorf msg)), w3)"
    by (simp add: r1 live_invalid_profile [OF d' inval] u)
  moreover have "Spec ?cfg' = (if finalizerName \<in> set (Finalizers (cfg_meta cfg)) then Spec cfg else wire_spec (Spec cfg))"
    using ad by (simp add: adopted_def with_cfg_rv_def)
  moreover have "st V N (C(n \<mapsto> ?cfg')) b w3" using w3 same by simp
  moreover have "\<lparr>cond_Type = ''Available'', cond_Status = ''False'', cond_Reason = ''InvalidProfile'',
        cond_Message = msg\<rparr> \<in> set (Conditions (Status ?cfg'))"
    using condition_set by (simp add: with_cfg_rv_def)
  ultimately show ?thesis by blast
qed

end

end
