(* ===== verification/Isolation.thy ===== *)
theory Isolation
  imports Deletion Refusal
begin

text \<open>
  Configurations of different names do not get into each other's way: the names of the objects
  of one are never those of another, so neither a reconcile nor a deletion of the one changes
  what the other has in the store.
\<close>

section \<open>The names of objects\<close>

text \<open>
  A configuration's workloads, services, accounts and roles are named by a stem and its name. No
  stem is a prefix of another one of the same kind, so that the name can be read off.
\<close>

definition name_stems :: "(kind \<times> string) list" where
  "name_stems =
     [(KServiceAccount, ''device-plugin-''), (KServiceAccount, ''status-updater-''),
      (KServiceAccount, ''metrics-exporter-''), (KServiceAccount, ''topology-server-''),
      (KClusterRole, ''fake-gpu-device-plugin-''), (KClusterRole, ''fake-gpu-status-updater-''),
      (KClusterRole, ''fake-gpu-metrics-exporter-''), (KClusterRole, ''fake-gpu-scc-''),
      (KClusterRoleBinding, ''fake-gpu-device-plugin-''), (KClusterRoleBinding, ''fake-gpu-status-updater-''),
      (KClusterRoleBinding, ''fake-gpu-metrics-exporter-''), (KClusterRoleBinding, ''fake-gpu-scc-''),
      (KDaemonSet, ''device-plugin-''), (KDaemonSet, ''nvidia-dcgm-exporter-''), (KDaemonSet, ''mig-faker-''),
      (KDaemonSet, ''dra-plugin-''), (KDaemonSet, ''compute-domain-dra-''),
      (KDeployment, ''status-updater-''), (KDeployment, ''topology-server-''),
      (KDeployment, ''compute-domain-controller-''),
      (KService, ''nvidia-dcgm-exporter-''), (KService, ''topology-server-'')]"

definition owned :: "FakeGPUConfig \<Rightarrow> obj \<Rightarrow> bool" where
  "owned cfg ob \<longleftrightarrow> (\<exists>stem. (obj_kind ob, stem) \<in> set name_stems \<and> GetName ob = stem @ cfg_name cfg)"

lemma stems_prefix_free:
  "list_all (\<lambda>(kd, s). list_all (\<lambda>(kd', s'). kd = kd' \<longrightarrow> s \<noteq> s' \<longrightarrow> take (length s) s' \<noteq> s) name_stems) name_stems"
  by (simp add: name_stems_def)

lemma same_name:
  assumes "(kd, s) \<in> set name_stems" and "(kd, s') \<in> set name_stems" and "s @ a = s' @ b"
  shows "a = b"
proof -
  have one: "k = k' \<longrightarrow> t \<noteq> t' \<longrightarrow> take (length t) t' \<noteq> t"
    if "(k, t) \<in> set name_stems" "(k', t') \<in> set name_stems" for k t k' t'
    using bspec [OF bspec [OF stems_prefix_free [unfolded list_all_iff] that(1), unfolded prod.case] that(2)]
    by (simp only: prod.case)
  have free: "s = s' \<or> take (length s) s' \<noteq> s \<and> take (length s') s \<noteq> s'"
    using one [OF assms(1,2)] one [OF assms(2,1)] by blast
  from assms(3) have "take (length s) s' = s \<or> take (length s') s = s'"
    by (auto simp: append_eq_append_conv2)
  with free assms(3) show ?thesis by auto
qed

lemma ownedI: "obj_key ob = (kd, ns, stem @ cfg_name cfg) \<Longrightarrow> (kd, stem) \<in> set name_stems \<Longrightarrow> owned cfg ob"
  by (auto simp: owned_def obj_key_def)

lemma owned_facts:
  "owned cfg (ODaemonSet (DevicePluginDaemonSet env cfg ns))"
  "owned cfg (ODaemonSet (MetricsExporterDaemonSet env cfg ns))"
  "owned cfg (ODaemonSet (MIGFakerDaemonSet env cfg ns))"
  "owned cfg (ODaemonSet (DRAPluginDaemonSet env cfg ns))"
  "owned cfg (ODaemonSet (ComputeDomainDRADaemonSet env cfg ns))"
  "owned cfg (ODeployment (StatusUpdaterDeployment env cfg ns))"
  "owned cfg (ODeployment (ComputeDomainControllerDeployment env cfg ns))"
  "owned cfg (ODeployment (TopologyServerDeployment env cfg ns))"
  "owned cfg (OService (MetricsExporterService cfg ns))"
  "owned cfg (OService (TopologyServerService cfg ns))"
  "owned cfg (OClusterRole (DevicePluginClusterRole cfg))"
  "owned cfg (OClusterRole (StatusUpdaterClusterRole cfg))"
  "owned cfg (OClusterRole (MetricsExporterClusterRole cfg))"
  "owned cfg (OClusterRole (SCCClusterRole cfg))"
  "owned cfg (OClusterRoleBinding (ClusterRoleBinding cfg ''device-plugin'' ns (DevicePluginClusterRole cfg)))"
  "owned cfg (OClusterRoleBinding (ClusterRoleBinding cfg ''status-updater'' ns (StatusUpdaterClusterRole cfg)))"
  "owned cfg (OClusterRoleBinding (ClusterRoleBinding cfg ''metrics-exporter'' ns (MetricsExporterClusterRole cfg)))"
  "owned cfg (OClusterRoleBinding (SCCClusterRoleBinding cfg ns))"
  by (rule ownedI, rule dp_ds.build_key me_ds.build_key mig_ds.build_key dra_ds.build_key cd_ds.build_key
      su_dep.build_key cd_dep.build_key ts_dep.build_key me_svc.build_key ts_svc.build_key
      dp_role.build_key su_role.build_key me_role.build_key scc_role.build_key
      dp_binding.build_key su_binding.build_key me_binding.build_key scc_binding.build_key,
      simp add: name_stems_def)+

lemma account_owned:
  "a \<in> set account_components \<Longrightarrow> owned cfg (OServiceAccount (ServiceAccount cfg a ns))"
  by (rule ownedI [OF account.build_key]) (auto simp: account_components_def name_stems_def)

lemma objects_owned:
  assumes "ob \<in> set (rbac_objects r cfg os @ component_objects r cfg)" and "obj_kind ob \<noteq> KRuntimeClass"
  shows "owned cfg ob"
  using assms
  by (auto simp: rbac_objects_def account_objects_def role_objects_def scc_objects_def
      component_objects_def Let_def owned_facts account_owned split: if_splits)

lemma owned_kind: "owned cfg ob \<Longrightarrow> obj_kind ob \<noteq> KConfigMap \<and> obj_kind ob \<noteq> KRuntimeClass"
  by (auto simp: owned_def name_stems_def)

text \<open>A desired object of one configuration never has the key of an owned object of another.\<close>

lemma foreign_key:
  assumes "owned cfg' ob" and "cfg_name cfg' \<noteq> cfg_name cfg"
  shows "obj_key ob \<notin> obj_key ` set (desired_objects r cfg profile os names)"
proof
  assume "obj_key ob \<in> obj_key ` set (desired_objects r cfg profile os names)"
  then obtain ob' where ob': "ob' \<in> set (desired_objects r cfg profile os names)" "obj_key ob' = obj_key ob"
    by auto
  then have kind: "obj_kind ob' = obj_kind ob" and name: "GetName ob' = GetName ob" by (simp_all add: obj_key_def)
  from owned_kind [OF assms(1)] kind have k: "obj_kind ob' \<noteq> KConfigMap" "obj_kind ob' \<noteq> KRuntimeClass" by simp_all
  have "ob' \<notin> set (config_objects r cfg profile)" using config_kinds [of ob' r cfg profile] k(1) by blast
  moreover have "ob' \<notin> node_topology_object r cfg profile ` set names" using k(1) by (metis imageE node_topology_kind)
  ultimately have "ob' \<in> set (rbac_objects r cfg os @ component_objects r cfg)"
    using ob'(1) by (simp only: desired_objects_def set_append set_map Un_iff) blast
  from objects_owned [OF this k(2)] assms kind name show False
    unfolding owned_def by (metis same_name)
qed

section \<open>What a reconcile of another configuration does\<close>

lemma converged_spares_others:
  assumes "converged r cfg profile os V N V' N' st'" and "owned cfg' ob" and "cfg_name cfg' \<noteq> cfg_name cfg"
  shows "V' (obj_key ob) = V (obj_key ob)"
proof -
  from assms(1) obtain names where "V' = put_all (desired_objects r cfg profile os names) V"
    unfolding converged_def by blast
  with put_all_other [OF foreign_key [OF assms(2,3)]] show ?thesis by simp
qed

context healthy_run
begin

text \<open>Every \<open>Reconcile\<close> of \<open>n\<close>, whatever its outcome, leaves the objects of another name alone.\<close>

lemma Reconcile_spares_others:
  assumes "st V N C b w" and "C n = Some cfg" and "n \<noteq> []" and "r_Namespace r \<noteq> []"
    and "ob \<in> set (rbac_objects r cfg' os' @ component_objects r cfg')" and "obj_kind ob \<noteq> KRuntimeClass"
    and "cfg_name cfg' \<noteq> n" and "V (obj_key ob) = Some (strip ob)"
    and "run (Reconcile r ns n) w = (out, w')"
  shows "store_view objs (server w') (obj_key ob) = Some (strip ob)"
proof -
  note own = objects_owned [OF assms(5,6)]
  have name: "cfg_name cfg = n"
    using assms(1,2) cfgs_name [OF st_inv [OF assms(1)]] st_cfgs [OF assms(1)] by blast
  have seen: ?thesis if "st V' N' C' b w'" "V' (obj_key ob) = Some (strip ob)" for V' N' C'
    using that by (auto simp: st_def)
  consider (deleted) "\<not> IsZero (DeletionTimestamp (cfg_meta cfg))"
    | (helm) "IsZero (DeletionTimestamp (cfg_meta cfg))" "\<not> helm_free V"
    | (invalid) msg where "IsZero (DeletionTimestamp (cfg_meta cfg))" "helm_free V" "resolveProfile cfg = Inl msg"
    | (ok) profile where "IsZero (DeletionTimestamp (cfg_meta cfg))" "helm_free V" "resolveProfile cfg = Inr profile"
    by (cases "resolveProfile cfg") auto
  then show ?thesis
  proof cases
    case deleted
    have "\<not> swept r cfg b ob" by (rule other_not_swept [OF assms(5,6)]) (use assms(4,7) name in simp_all)
    then have "remove (swept r cfg b) V (obj_key ob) = Some (strip ob)"
      using assms(8) by (simp add: remove_Some)
    moreover obtain N' C' where "st (remove (swept r cfg b) V) N' C' b w'"
      using Reconcile_deleted [OF assms(1,2) deleted, of ns] assms(9) by auto
    ultimately show ?thesis by (rule seen [rotated])
  next
    case helm
    obtain C' where "st V N C' b w'" using Reconcile_helm [OF assms(1,2) helm, of ns] assms(9) by auto
    from seen [OF this assms(8)] show ?thesis .
  next
    case invalid
    obtain C' where "st V N C' b w'" using Reconcile_invalid [OF assms(1,2) invalid, of ns] assms(9) by auto
    from seen [OF this assms(8)] show ?thesis .
  next
    case ok
    from Reconcile_ok [OF assms(1,2) ok(1) assms(3) ok(2,3), of ns] assms(9)
    obtain V' N' cfg1 st' C' where c: "adopted cfg cfg1" "converged r cfg1 profile b V N V' N' st'"
      and st: "st V' N' C' b w'" by auto
    have "cfg_name cfg' \<noteq> cfg_name cfg1" using c(1) name assms(7) by (simp add: adopted_def)
    from converged_spares_others [OF c(2) own this] assms(8) seen [OF st] show ?thesis by metis
  qed
qed

text \<open>The exceptions: objects that do not carry the name of their configuration.\<close>

lemma Reconcile_takes_shared:
  assumes "st V N C b w" and "C n = Some cfg" and "\<not> IsZero (DeletionTimestamp (cfg_meta cfg))"
    and "ob = node_topology_object r cfg' profile x \<or> ob = ORuntimeClass (NvidiaRuntimeClass cfg')"
    and "V (obj_key ob) = Some (strip ob)" and "run (Reconcile r ns n) w = (out, w')"
  shows "objs (server w') (obj_key ob) = None"
proof -
  obtain N' C' where st: "st (remove (swept r cfg b) V) N' C' b w'"
    using Reconcile_deleted [OF assms(1-3), of ns] assms(6) by auto
  have "swept r cfg b (strip ob)"
    using assms(4) by (auto simp: node_topology_swept swept_cluster_facts)
  then have "remove (swept r cfg b) V (obj_key ob) = None" by (simp add: remove_def assms(5))
  then show ?thesis by (simp add: strip_objs_None [OF st])
qed

end

end
