(* ===== verification/Histories.thy ===== *)
theory Histories
  imports Isolation
begin

text \<open>
  More than one run on a healthy server: a reconcile that is followed by the deletion of the same
  configuration, and the reconciles of two configurations, one after the other. The status that
  a run reports is here, too.
\<close>

section \<open>Creating and deleting\<close>

lemma swept_cong: "cfg_name a = cfg_name b \<Longrightarrow> swept r a os = swept r b os"
  by (simp add: fun_eq_iff swept_def clusterScopedResources_def)

text \<open>What a reconcile put into the store is in the reach of the deletion.\<close>

lemma converged_undone:
  assumes "converged r cfg profile os V N V' N' st'"
  shows "remove (swept r cfg os) V' k = (if V' k = V k then remove (swept r cfg os) V k else None)"
proof -
  from assms obtain names where names: "distinct names"
      "V' = put_all (desired_objects r cfg profile os names) V" unfolding converged_def by blast
  let ?obs = "desired_objects r cfg profile os names"
  show ?thesis
  proof (cases "k \<in> obj_key ` set ?obs")
    case True
    then obtain ob where ob: "ob \<in> set ?obs" "k = obj_key ob" by blast
    then have "V' k = Some (strip ob)"
      by (simp add: names(2) put_all_in [OF desired_keys_distinct [OF names(1)]])
    with desired_swept [OF ob(1)] show ?thesis
      by (cases "V' k = V k") (simp_all add: remove_def eq_commute [of _ "V k"])
  next
    case False
    then show ?thesis by (simp add: remove_def names(2) put_all_other)
  qed
qed

text \<open>A node without labels of the operator looks as before after it was labelled and released.\<close>

lemma unlabel_label:
  assumes "cfg_name a = cfg_name b" and "\<forall>k \<in> node_keys. snd v k = None"
  shows "unlabel_view b (label_selected a v) = v"
proof -
  have keys: "nodePoolLabel \<in> node_keys" by (simp add: node_keys_def)
  with assms(2) have none: "snd v nodePoolLabel \<noteq> Some x" for x by simp
  have "(snd v ++ go_lookup (wantedLabels a)) |` (- node_keys) = snd v"
    using assms(2) wantedLabels_keys [of a]
    by (auto simp: fun_eq_iff restrict_map_def map_add_def dom_def split: option.splits)
  moreover have "(snd v ++ go_lookup (wantedLabels a)) nodePoolLabel = Some (cfg_name a)"
    by (simp add: map_add_def wantedLabels_lookup)
  ultimately show ?thesis
    using none by (simp add: label_selected_def label_view_def unlabel_view_def assms(1) prod_eq_iff)
qed

context healthy_run
begin

lemma cfgs_named: "inv s \<Longrightarrow> cfgs s x = Some cfg \<Longrightarrow> cfg_name cfg = x"
  by (rule cfgs_name)

lemma Reconcile_undone:
  assumes "st V N C b w" and "C n = Some cfg" and "IsZero (DeletionTimestamp (cfg_meta cfg))"
    and "n \<noteq> []" and "helm_free V" and "resolveProfile cfg = Inr profile"
    and "run (Reconcile r ns n) w = (out1, w1)"
    and "inv s" and "store_view objs s = store_view objs (server w1)"
    and "nodes_view nodes s = nodes_view nodes (server w1)" and "scc s = scc (server w1)"
    and "cfgs s n = Some gone" and "\<not> IsZero (DeletionTimestamp (cfg_meta gone))"
    and "run (Reconcile r ns n) (w1\<lparr>server := s\<rparr>) = (out2, w2)"
  shows "out1 = (ctrl_Result0, None)" and "out2 = (ctrl_Result0, None)"
    and "store_view objs (server w2) k =
      (if store_view objs (server w1) k = V k then remove (swept r gone b) V k else None)"
    and "\<forall>k \<in> node_keys. \<forall>v. N x = Some v \<longrightarrow> snd v k = None \<Longrightarrow> nodes_view nodes (server w2) x = N x"
proof -
  obtain V1 N1 cfg1 cfg' where out: "out1 = (ctrl_Result0, None)" and ad: "adopted cfg cfg1"
    and c: "converged r cfg1 profile b V N V1 N1 (Status cfg')"
    and s1: "st V1 N1 (C(n \<mapsto> cfg')) b w1"
    using Reconcile_ok [OF assms(1-6), of ns] assms(7) by auto
  show "out1 = (ctrl_Result0, None)" by (rule out)
  from s1 have views: "V1 = store_view objs (server w1)" "N1 = nodes_view nodes (server w1)"
    "scc (server w1) = b" "isOpenShift w1 = None \<or> isOpenShift w1 = Some b" by (auto simp: st_def)
  have s2: "st V1 N1 (cfgs s) b (w1\<lparr>server := s\<rparr>)"
    using assms(8-11) views unfolding st_def by simp
  have names: "cfg_name gone = n" "cfg_name cfg1 = n"
    using cfgs_name [OF assms(8)] assms(12) cfgs_name [OF st_inv [OF assms(1)]] assms(1,2) ad
    by (auto simp: st_def adopted_def)
  obtain C' where out2: "out2 = (ctrl_Result0, None)"
    and s3: "st (remove (swept r gone b) V1) (\<lambda>x. map_option (unlabel_view gone) (N1 x)) C' b w2"
    using Reconcile_deleted [OF s2 assms(12,13), of ns] assms(14) by auto
  show "out2 = (ctrl_Result0, None)" by (rule out2)
  have sw: "swept r gone b = swept r cfg1 b" by (rule swept_cong) (simp add: names)
  from s3 have "store_view objs (server w2) = remove (swept r gone b) V1" by (simp add: st_def)
  from fun_cong [OF this, of k] converged_undone [OF c, of k] fun_cong [OF views(1), of k]
  show "store_view objs (server w2) k =
      (if store_view objs (server w1) k = V k then remove (swept r gone b) V k else None)"
    unfolding sw by presburger
  assume clean: "\<forall>k \<in> node_keys. \<forall>v. N x = Some v \<longrightarrow> snd v k = None"
  from s3 have "nodes_view nodes (server w2) x = map_option (unlabel_view gone) (N1 x)"
    by (simp add: st_def fun_eq_iff)
  also have "N1 x = map_option (label_selected cfg1) (N x)" using c by (simp add: converged_def)
  also have "map_option (unlabel_view gone) (map_option (label_selected cfg1) (N x)) = N x"
    using clean names by (cases "N x") (simp_all add: unlabel_label)
  finally show "nodes_view nodes (server w2) x = N x" .
qed

end

section \<open>Two configurations\<close>

lemma topology_of:
  assumes "converged r cfg profile os V N V' N' st'"
  shows "V' (KConfigMap, r_Namespace r, ''topology'') = Some (strip (OConfigMap (TopologyConfigMap cfg profile (r_Namespace r))))"
  using converged_stored [OF assms, of "OConfigMap (TopologyConfigMap cfg profile (r_Namespace r))"]
  by (simp add: config_objects_def)

lemma topologies_differ:
  assumes "cfg_name a \<noteq> cfg_name b"
  shows "strip (OConfigMap (TopologyConfigMap a p ns)) \<noteq> strip (OConfigMap (TopologyConfigMap b q ns))"
proof
  assume "strip (OConfigMap (TopologyConfigMap a p ns)) = strip (OConfigMap (TopologyConfigMap b q ns))"
  then have "Labels (obj_meta (strip (OConfigMap (TopologyConfigMap a p ns))))
    = Labels (obj_meta (strip (OConfigMap (TopologyConfigMap b q ns))))" by simp
  then have "go_lookup (commonLabels a ''topology'') keyInstance = go_lookup (commonLabels b ''topology'') keyInstance"
    by (simp add: builder_simps)
  with assms show False by (simp add: go_lookup_Cons commonLabels_def)
qed

section \<open>The status\<close>

lemma adopted_nodeListOption: "adopted cfg cfg1 \<Longrightarrow> nodeListOption cfg1 = nodeListOption cfg"
  by (auto simp: adopted_def nodeListOption_def wire_spec_def wire_map_def go_len_def)

lemma selected_nodes:
  "selected sel (nodes_view nodes s) = {x. \<exists>node. nodes s x = Some node \<and> labels_match sel (node_labels node)}"
proof (rule set_eqI)
  fix x
  show "x \<in> selected sel (nodes_view nodes s)
      \<longleftrightarrow> x \<in> {x. \<exists>node. nodes s x = Some node \<and> labels_match sel (node_labels node)}"
    by (cases "nodes s x") (simp_all add: selected_def flip: match_view_node del: split_paired_Ex)
qed

lemma count_ready_length:
  "count_ready n items = n + word_of_nat (length (filter (\<lambda>node. go_lookup (node_labels node) deployDPLabel = Some ''true'') items))"
  by (induction items arbitrary: n) (auto simp: go_index_def split: option.split)

lemma converged_profile:
  "converged r cfg profile os V N V' N' st' \<Longrightarrow> status_GPUProfile st' = prof_Name profile"
  unfolding converged_def by (auto simp: status_for_def set_condition_def Let_def)

text \<open>What \<open>updateStatus\<close> reports for the nodes it is answered, on any server.\<close>

lemma updateStatus_reports:
  assumes "c_list_nodes (r_Client r) (nodeListOption cfg) (server w) = (Inr items, s)"
  shows "\<exists>c ok. trace (snd (run (updateStatus r cfg profile) w))
        = trace w @ [(ListNode (nodeListOption cfg), True), (UpdateStatus c, ok)]
    \<and> TotalNodes (Status c) = word_of_nat (length items)
    \<and> ReadyNodes (Status c) = word_of_nat (length (filter
        (\<lambda>node. go_lookup (node_labels node) deployDPLabel = Some ''true'') items))"
  using assms by (simp add: updateStatus_def api_defs run_simps status_for_def set_condition_def Let_def count_ready_length)

end
