(* ===== verification/Demo.thy ===== *)
theory Demo
  imports Convergence
begin

text \<open>
  Concrete runs on the server in memory for the witnesses of the properties: one node, one
  configuration (\<open>demo_cfg\<close>), on OpenShift, with nothing deployed yet. This models no code of
  the repository.
\<close>

section \<open>The demonstration world\<close>

lemma demo_inv [simp]: "mem_inv (demo_mem (demo_cfg p) [])"
  by (simp add: demo_mem_def mem_inv_def demo_cfg_def demo_node_def)

lemma demo_cfg_facts [simp]:
  "cfg_name (demo_cfg p) = ''demo''" "DeletionTimestamp (cfg_meta (demo_cfg p)) = None"
  "Custom (Spec (demo_cfg p)) = None" "spec_GPUProfile (Spec (demo_cfg p)) = p"
  by (simp_all add: demo_cfg_def)

lemma demo_world_facts [simp]:
  "server (demo_world cfg obs) = demo_mem cfg obs" "isOpenShift (demo_world cfg obs) = None"
  "m_objs (demo_mem cfg obs) = obs" "m_cfgs (demo_mem cfg obs) = [(''demo'', cfg)]"
  "m_scc (demo_mem cfg obs) = True"
  by (simp_all add: demo_world_def demo_mem_def)

lemma demo_helm_free [simp]: "helm_free (\<lambda>_. None)"
  by (simp add: helm_free_def)

lemma demo_zero [simp]: "IsZero None" "\<not> IsZero (Some (Suc t))"
  by (simp_all add: IsZero_def)

lemma demo_profile [simp]: "\<exists>p. resolveProfile (demo_cfg ''a100'') = Inr p"
  by (simp add: resolveProfile_def profiles_Get_def ProfileTable_def)

lemma demo_client [simp]:
  "r_Client mem_reconciler = mem_client" "r_Library mem_reconciler = mem_library"
  "r_Namespace mem_reconciler = ''fake-gpu-operator''"
  by (simp_all add: mem_reconciler_def)

lemma demo_get [simp]:
  "c_get_cfg mem_client ns ''demo'' (demo_mem cfg obs) = (Inr cfg, demo_mem cfg obs)"
  by (simp add: mem_client_def mem_get_cfg_def)

lemma demo_run:
  obtains w' where "run (Reconcile mem_reconciler [] ''demo'') (demo_world (demo_cfg ''a100'') [])
    = ((ctrl_Result0, None), w')"
proof -
  obtain p where p: "resolveProfile (demo_cfg ''a100'') = Inr p" using demo_profile by blast
  show thesis
    using mem_run.Reconcile_ok [OF mem_run.st_world [of "demo_world (demo_cfg ''a100'') []"] _ _ _ _ p,
        of "''demo''" "[]"] that by auto
qed

lemma demo_converged:
  obtains cfg p N V' N' st' where "converged mem_reconciler cfg p True (\<lambda>_. None) N V' N' st'"
    and "same_spec cfg (demo_cfg ''a100'')"
proof -
  obtain p where p: "resolveProfile (demo_cfg ''a100'') = Inr p" using demo_profile by blast
  let ?w = "demo_world (demo_cfg ''a100'') []"
  have "mem_run.st (store_view (\<lambda>s. map_of (m_objs s)) (server ?w))
      (nodes_view (\<lambda>s. map_of (m_nodes s)) (server ?w)) (map_of (m_cfgs (server ?w))) (m_scc (server ?w)) ?w"
    by (rule mem_run.st_world) simp_all
  then have st: "mem_run.st (\<lambda>_. None) (nodes_view (\<lambda>s. map_of (m_nodes s)) (server ?w))
      [''demo'' \<mapsto> demo_cfg ''a100''] True ?w" by simp
  have "[''demo'' \<mapsto> demo_cfg ''a100''] ''demo'' = Some (demo_cfg ''a100'')"
    and "IsZero (DeletionTimestamp (cfg_meta (demo_cfg ''a100'')))" and "''demo'' \<noteq> []" by simp_all
  from mem_run.Reconcile_ok [OF st this demo_helm_free p, of "[]"]
  obtain V' N' cfg1 st' where ad: "adopted (demo_cfg ''a100'') cfg1"
    and c: "converged mem_reconciler cfg1 p True (\<lambda>_. None)
      (nodes_view (\<lambda>s. map_of (m_nodes s)) (server ?w)) V' N' st'"
    by (elim exE conjE) (rule that)
  from ad have "same_spec cfg1 (demo_cfg ''a100'')"
    by (auto simp: adopted_def same_spec_def demo_cfg_def wire_spec_def wire_int32_def wire_map_def go_len_def)
  with c that show thesis by blast
qed

lemma demo_no_helm:
  obtains w' where "run (detectHelmConflict mem_reconciler) (demo_world cfg []) = ((False, []), w')"
  by (simp add: detectHelmConflict_def api_defs run_simps mem_client_def mem_list_def)

lemma demo_live:
  obtains w' where "run (reconcileLive mem_reconciler (demo_cfg ''a100'')) (demo_world (demo_cfg ''a100'') [])
    = ((ctrl_Result0, None), w')"
proof -
  let ?w = "demo_world (demo_cfg ''a100'') []" and ?cfg = "demo_cfg ''a100''"
  obtain p where p: "resolveProfile ?cfg = Inr p" using demo_profile by blast
  obtain out w' where r: "run (reconcileLive mem_reconciler ?cfg) ?w = (out, w')"
    by (cases "run (reconcileLive mem_reconciler ?cfg) ?w")
  have "mem_run.st (\<lambda>_. None) (nodes_view (\<lambda>s. map_of (m_nodes s)) (server ?w)) [''demo'' \<mapsto> ?cfg] True ?w"
    using mem_run.st_world [of ?w] by simp
  from hoareD [OF mem_run.reconcileLive_ok [where C = "[''demo'' \<mapsto> ?cfg]" and cfg = ?cfg and old = ?cfg,
        OF _ demo_helm_free p _ refl] this r] that r show thesis by auto
qed

end
