(* ===== verification/Success.thy ===== *)
theory Success
  imports Outcomes
begin

text \<open>
  What a reconcile that returns a nil error has done: every object the configuration asks for was
  accepted by the server, those for OpenShift included when it was detected, and the topology of
  every node of the pool. The steps are followed one after the other (\<open>steps_success\<close>).
\<close>

section \<open>Lines without an error\<close>

lemma stored_ok_Cons: "stored_ok ob es \<Longrightarrow> stored_ok ob (e # es)"
  by (auto simp: stored_ok_def)

lemma storesD:
  assumes "stores m obs" and "run m w = (None, w')"
  obtains es where "trace w' = trace w @ es" and "\<forall>ob \<in> set obs. stored_ok ob es"
  using assms unfolding stores_def by (metis fst_conv snd_conv)

lemma fail_fast_appendD:
  assumes "run (fail_fast (ms @ ns)) w = (None, w')"
  obtains w1 where "run (fail_fast ms) w = (None, w1)" and "run (fail_fast ns) w1 = (None, w')"
  using assms unfolding fail_fast_append by (auto split: prod.splits option.splits)

lemma fail_fast_ConsD:
  assumes "run (fail_fast (m # ns)) w = (None, w')"
  obtains w1 where "run m w = (None, w1)" and "run (fail_fast ns) w1 = (None, w')"
  using assms by (auto simp: run_simps split: prod.splits option.splits)

lemma fail_fast_one: "run (fail_fast [m]) w = (None, w') \<Longrightarrow> run m w = (None, w')"
  by (auto simp: run_simps split: prod.splits option.splits)

lemma wrap_errD: "run (wrap_err p m) w = (None, w') \<Longrightarrow> run m w = (None, w')"
  by (auto simp: run_simps split: prod.splits)

section \<open>The steps\<close>

text \<open>The accounts and roles, those for OpenShift included when it was detected.\<close>

definition plain_rbac :: "('s, 'e) Reconciler \<Rightarrow> FakeGPUConfig \<Rightarrow> ('s, 'e error option) prog list" where
  "plain_rbac r cfg =
     for_err (\<lambda>comp. createOrUpdate r (OServiceAccount (ServiceAccount cfg comp (r_Namespace r))) cfg) account_components
     # map (createOrUpdateClusterScoped r) (role_objects r cfg)"

definition scc_step :: "('s, 'e) Reconciler \<Rightarrow> FakeGPUConfig \<Rightarrow> ('s, 'e error option) prog" where
  "scc_step r cfg = do {
     openshift \<leftarrow> detectOpenShift r;
     (if openshift then fail_fast (map (createOrUpdateClusterScoped r) (scc_objects r cfg))
      else State_Monad.return None) }"

lemma reconcileRBAC_split: "reconcileRBAC r cfg = fail_fast (plain_rbac r cfg @ [scc_step r cfg])"
  by (simp add: reconcileRBAC_def plain_rbac_def scc_step_def account_components_def role_objects_def scc_objects_def
      cong: if_cong)

lemma stores_each: "stores (fail_fast (map (createOrUpdateClusterScoped r) obs)) obs"
proof -
  have "list_all2 stores (map (createOrUpdateClusterScoped r) obs) (map (\<lambda>ob. [ob]) obs)"
    by (simp add: list_all2_conv_all_nth stores_createOrUpdateClusterScoped)
  from stores_fail_fast [OF this] show ?thesis by (rule stores_subset) auto
qed

lemma stores_plain_rbac: "stores (fail_fast (plain_rbac r cfg)) (rbac_objects r cfg False)"
  unfolding plain_rbac_def
  by (rule stores_subset [OF stores_fail_fast_Cons [OF stores_accounts stores_each]])
    (simp add: rbac_objects_def account_objects_def)

lemma flag_plain_rbac: "keeps_flag (fail_fast (plain_rbac r cfg))"
  unfolding plain_rbac_def by (auto intro!: flag_rules simp: list_all_iff)

lemma rbac_success:
  assumes "run (reconcileRBAC r cfg) w = (None, w')"
  obtains es os where "trace w' = trace w @ es" and "detected (isOpenShift w) es os"
    and "\<forall>ob \<in> set (rbac_objects r cfg os). stored_ok ob es"
proof -
  from assms obtain w1 where plain: "run (fail_fast (plain_rbac r cfg)) w = (None, w1)"
    and scc: "run (fail_fast [scc_step r cfg]) w1 = (None, w')"
    unfolding reconcileRBAC_split by (rule fail_fast_appendD)
  note scc = fail_fast_one [OF scc]
  from storesD [OF stores_plain_rbac plain] obtain es where
    es: "trace w1 = trace w @ es" "\<forall>ob \<in> set (rbac_objects r cfg False). stored_ok ob es" .
  obtain os w2 where d: "run (detectOpenShift r) w1 = (os, w2)" by fastforce
  obtain fs where fs: "trace w2 = trace w1 @ fs" "detected (isOpenShift w1) fs os"
    using detectOpenShift_calls [of r w1] d by auto
  then have det: "detected (isOpenShift w) (es @ fs @ gs) os" for gs
    unfolding keeps_flagD [OF flag_plain_rbac plain] by (rule_tac detected_mono) auto
  show thesis
  proof (cases os)
    case False
    with scc d have "w' = w2" by (simp add: scc_step_def)
    with False es fs det [of "[]"] show thesis by (intro that [of "es @ fs" False]) auto
  next
    case True
    with scc d have "run (fail_fast (map (createOrUpdateClusterScoped r) (scc_objects r cfg))) w2 = (None, w')"
      by (simp add: scc_step_def)
    from storesD [OF stores_each this] obtain gs where
      gs: "trace w' = trace w2 @ gs" "\<forall>ob \<in> set (scc_objects r cfg). stored_ok ob gs" .
    with True es fs det [of gs] show thesis
      by (intro that [of "es @ fs @ gs" True]) (auto simp: rbac_objects_def)
  qed
qed

text \<open>The topology of every node that the listing of the pool answered.\<close>

lemma node_topologies_success:
  assumes "run (reconcileNodeTopologyConfigMaps r cfg profile) w = (None, w')"
  obtains es items where "trace w' = trace w @ es"
    and "fst (c_list_nodes (r_Client r) (GoMap [(nodePoolLabel, cfg_name cfg)]) (server w)) = Inr items"
    and "\<forall>node \<in> set items. stored_ok (node_topology_object r cfg profile (node_name node)) es"
proof -
  let ?sel = "GoMap [(nodePoolLabel, cfg_name cfg)]"
  let ?f = "\<lambda>node. createOrUpdate r (OConfigMap (NodeTopologyConfigMap (node_name node) cfg profile (r_Namespace r))) cfg"
  from assms obtain items where items: "fst (c_list_nodes (r_Client r) ?sel (server w)) = Inr items"
    by (cases "fst (c_list_nodes (r_Client r) ?sel (server w))")
      (simp_all add: reconcileNodeTopologyConfigMaps_def api_defs run_simps)
  let ?w1 = "w\<lparr>server := snd (c_list_nodes (r_Client r) ?sel (server w)), trace := trace w @ [(ListNode ?sel, True)]\<rparr>"
  from assms items have run: "run (for_err ?f items) ?w1 = (None, w')"
    by (simp add: reconcileNodeTopologyConfigMaps_def api_defs run_simps)
  have "list_all2 stores (map ?f items) (map (\<lambda>node. [node_topology_object r cfg profile (node_name node)]) items)"
    by (simp add: list_all2_conv_all_nth stores_createOrUpdate node_topology_object_def)
  from storesD [OF stores_fail_fast [OF this] run [unfolded for_err_def]] obtain es where
    "trace w' = trace ?w1 @ es"
    "\<forall>ob \<in> set (concat (map (\<lambda>node. [node_topology_object r cfg profile (node_name node)]) items)). stored_ok ob es" .
  with items show thesis
    by (intro that [of "(ListNode ?sel, True) # es" items]) (auto intro: stored_ok_Cons)
qed

lemma steps_success:
  assumes "run (fail_fast (reconcileSteps r cfg profile)) w = (None, w')"
  obtains es os w2 items where "trace w' = trace w @ es" and "detected (isOpenShift w) es os"
    and "run (fail_fast (butlast (reconcileSteps r cfg profile))) w = (None, w2)"
    and "fst (c_list_nodes (r_Client r) (GoMap [(nodePoolLabel, cfg_name cfg)]) (server w2)) = Inr items"
    and "\<forall>ob \<in> set (desired_objects r cfg profile os (map node_name items)). stored_ok ob es"
proof -
  let ?steps = "reconcileSteps r cfg profile"
  define middle where "middle = butlast (tl ?steps)"
  let ?rbac = "wrap_err ''reconciling RBAC'' (reconcileRBAC r cfg)"
  let ?topos = "wrap_err ''reconciling node topology ConfigMaps'' (reconcileNodeTopologyConfigMaps r cfg profile)"
  have steps: "?steps = ?rbac # middle @ [?topos]" and init: "butlast ?steps = ?rbac # middle"
    by (simp_all add: middle_def reconcileSteps_def butlast_append split del: if_split)
  let ?M = "butlast (tl (step_objects r cfg profile))"
  have "step_objects r cfg profile = rbac_objects r cfg False # ?M @ [[]]"
    by (simp add: step_objects_def Let_def butlast_append split del: if_split)
  then have all: "list_all2 stores (?rbac # middle @ [?topos]) (rbac_objects r cfg False # ?M @ [[]])"
    using stores_steps [of r cfg profile] by (simp only: steps)
  from list_all2_lengthD [OF this] have "length middle = length ?M" by simp
  with all have mid: "list_all2 stores middle ?M" by (simp add: list_all2_append)
  have concat: "set (concat (butlast (tl (step_objects r cfg profile)))) = set (config_objects r cfg profile @ component_objects r cfg)"
    by (simp add: step_objects_def config_objects_def component_objects_def Let_def butlast_append concat_if
        cong: if_cong split del: if_split)
  from assms obtain w1 where rbac: "run (reconcileRBAC r cfg) w = (None, w1)"
      and more: "run (fail_fast (middle @ [?topos])) w1 = (None, w')"
    unfolding steps by (auto elim!: fail_fast_ConsD dest: wrap_errD)
  from more obtain w2 where m: "run (fail_fast middle) w1 = (None, w2)"
      and t: "run (fail_fast [?topos]) w2 = (None, w')"
    by (rule fail_fast_appendD)
  from rbac_success [OF rbac] obtain es os where
    es: "trace w1 = trace w @ es" "detected (isOpenShift w) es os" "\<forall>ob \<in> set (rbac_objects r cfg os). stored_ok ob es" .
  from storesD [OF stores_fail_fast [OF mid] m] obtain fs where
    fs: "trace w2 = trace w1 @ fs" "\<forall>ob \<in> set (concat (butlast (tl (step_objects r cfg profile)))). stored_ok ob fs" .
  from node_topologies_success [OF wrap_errD [OF fail_fast_one [OF t]]] obtain gs items where
    gs: "trace w' = trace w2 @ gs"
      "fst (c_list_nodes (r_Client r) (GoMap [(nodePoolLabel, cfg_name cfg)]) (server w2)) = Inr items"
      "\<forall>node \<in> set items. stored_ok (node_topology_object r cfg profile (node_name node)) gs" .
  have init_run: "run (fail_fast (butlast ?steps)) w = (None, w2)"
    using rbac m by (simp add: init run_simps)
  have "detected (isOpenShift w) (es @ fs @ gs) os" using es(2) by (rule detected_mono) auto
  moreover have "\<forall>ob \<in> set (desired_objects r cfg profile os (map node_name items)). stored_ok ob (es @ fs @ gs)"
    using es(3) fs(2) gs(3) unfolding concat by (auto simp: desired_objects_def)
  ultimately show thesis using es(1) fs(1) gs(1,2) init_run by (intro that) auto
qed

lemma flag_detectHelmConflict: "keeps_flag (detectHelmConflict r)"
  unfolding detectHelmConflict_def api_defs
  by (intro flag_rules) (auto intro!: flag_rules split: list.split)

section \<open>A whole reconcile\<close>

lemma live_success:
  assumes "run (detectHelmConflict r) w = ((False, ns), w1)" and "resolveProfile cfg = Inr profile"
    and "run (reconcileLive r cfg) w = ((res, None), w')"
  shows "\<exists>es os w2 items. trace w' = trace w @ es \<and> detected (isOpenShift w) es os
    \<and> run (fail_fast (butlast (reconcileSteps r cfg profile))) w1 = (None, w2)
    \<and> fst (c_list_nodes (r_Client r) (GoMap [(nodePoolLabel, cfg_name cfg)]) (server w2)) = Inr items
    \<and> (\<forall>ob \<in> set (desired_objects r cfg profile os (map node_name items)). stored_ok ob es)"
proof -
  from emitsD [OF reads_detectHelmConflict assms(1)] obtain es where es: "trace w1 = trace w @ es"
    by blast
  obtain err w3 where steps: "run (fail_fast (reconcileSteps r cfg profile)) w1 = (err, w3)" by fastforce
  note lv = live_valid [OF assms(1,2)]
  from steps assms(3) have err: "err = None" by (auto simp: lv split: option.splits)
  from steps_success [OF steps [unfolded err]] obtain fs os w2 items where
    fs: "trace w3 = trace w1 @ fs" "detected (isOpenShift w1) fs os"
      "run (fail_fast (butlast (reconcileSteps r cfg profile))) w1 = (None, w2)"
      "fst (c_list_nodes (r_Client r) (GoMap [(nodePoolLabel, cfg_name cfg)]) (server w2)) = Inr items"
      "\<forall>ob \<in> set (desired_objects r cfg profile os (map node_name items)). stored_ok ob fs" .
  have us: "run (updateStatus r cfg profile) w3 = ((res, None), w')"
    using assms(3) steps err by (simp add: lv)
  from emitsD [OF no_account_updateStatus us] obtain gs where gs: "trace w' = trace w3 @ gs" by blast
  have "detected (isOpenShift w) (es @ fs @ gs) os"
    using fs(2) unfolding keeps_flagD [OF flag_detectHelmConflict assms(1)] by (rule detected_mono) auto
  moreover have "trace w' = trace w @ es @ fs @ gs" using es fs(1) gs by simp
  ultimately show ?thesis using fs(3-5) by (metis stored_ok_append)
qed

end
