(* ===== verification/Fail_Stop.thy ===== *)
theory Fail_Stop
  imports Outcomes
begin

text \<open>
  The first write that the server refuses ends a reconcile: no call is made after it, and its
  error is the cause of the one returned. \<open>halts r err m\<close> says so of the program \<open>m\<close>, \<open>err\<close>
  being the error in its result; the lemmas follow the code.
\<close>

section \<open>Refused writes\<close>

text \<open>The error of the client at the bottom of an error.\<close>

fun cause :: "'e error \<Rightarrow> 'e option" where
  "cause (ClientError e) = Some e"
| "cause (Wrapped prefix err) = cause err"
| "cause _ = None"

text \<open>\<open>refused r c e s s'\<close>: on the server in state \<open>s\<close> the write \<open>c\<close> fails with \<open>e\<close> and leaves \<open>s'\<close>.\<close>

fun refused :: "('s, 'e) Reconciler \<Rightarrow> call \<Rightarrow> 'e \<Rightarrow> 's \<Rightarrow> 's \<Rightarrow> bool" where
  "refused r (CreateObj ob) e s s' \<longleftrightarrow> c_create (r_Client r) ob s = (Inl e, s')"
| "refused r (UpdateObj ob) e s s' \<longleftrightarrow> c_update (r_Client r) ob s = (Inl e, s')"
| "refused r (UpdateNode node) e s s' \<longleftrightarrow> c_update_node (r_Client r) node s = (Inl e, s')"
| "refused r (UpdateCfg cfg) e s s' \<longleftrightarrow> c_update_cfg (r_Client r) cfg s = (Inl e, s')"
| "refused r _ e s s' \<longleftrightarrow> False"

text \<open>
  A run that made the calls \<open>es\<close>, ended in the server state \<open>s'\<close> and returned \<open>err\<close> stopped at the
  first refused write: no write was refused, or only the last call, whose error is the cause of
  the returned one.
\<close>

definition stopped :: "('s, 'e) Reconciler \<Rightarrow> event list \<Rightarrow> 's \<Rightarrow> 'e error option \<Rightarrow> bool" where
  "stopped r es s' err \<longleftrightarrow> writes_ok es
     \<or> (\<exists>es' c e s E. es = es' @ [(c, False)] \<and> writes_ok es' \<and> refused r c e s s' \<and> err = Some E \<and> cause E = Some e)"

definition halts :: "('s, 'e) Reconciler \<Rightarrow> ('a \<Rightarrow> 'e error option) \<Rightarrow> ('s, 'a) prog \<Rightarrow> bool" where
  "halts r err m \<longleftrightarrow> (\<forall>w. \<exists>es. trace (snd (run m w)) = trace w @ es
     \<and> stopped r es (server (snd (run m w))) (err (fst (run m w))))"

lemma haltsD:
  assumes "halts r err m" and "run m w = (x, w')"
  obtains es where "trace w' = trace w @ es" and "stopped r es (server w') (err x)"
  using assms unfolding halts_def by (metis fst_conv snd_conv)

lemma haltsI:
  "(\<And>w x w'. run m w = (x, w') \<Longrightarrow> \<exists>es. trace w' = trace w @ es \<and> stopped r es (server w') (err x)) \<Longrightarrow> halts r err m"
  unfolding halts_def by (metis prod.collapse)

lemma stopped_prefix:
  assumes "writes_ok es" and "stopped r fs s err"
  shows "stopped r (es @ fs) s err"
  using assms(2) unfolding stopped_def
proof (elim disjE exE conjE, goal_cases)
  case 1
  with assms(1) show ?case by (simp add: writes_ok_def)
next
  case (2 fs' c e s0 E)
  with assms(1) show ?case
    by (intro disjI2 exI [of _ "es @ fs'"] exI [of _ c] exI [of _ e] exI [of _ s0] exI [of _ E])
      (simp add: writes_ok_def)
qed

lemma stopped_first:
  assumes "stopped r es s' err"
  shows "\<forall>i c. i < length es \<and> es ! i = (c, False) \<and> is_write c \<longrightarrow>
    Suc i = length es \<and> (\<exists>e s E. refused r c e s s' \<and> err = Some E \<and> cause E = Some e)"
proof (intro allI impI)
  fix i c
  assume i: "i < length es \<and> es ! i = (c, False) \<and> is_write c"
  then have bad: "\<not> writes_ok xs" if "es = xs @ ys" "i < length xs" for xs ys
    using that by (force simp: writes_ok_def list_all_length nth_append)
  from bad [of es "[]"] i assms obtain es' c' e s E where
    es: "es = es' @ [(c', False)]" "writes_ok es'" "refused r c' e s s'" "err = Some E" "cause E = Some e"
    unfolding stopped_def by auto
  from bad [OF es(1)] es(2) have "\<not> i < length es'" by blast
  with i es show "Suc i = length es \<and> (\<exists>e s E. refused r c e s s' \<and> err = Some E \<and> cause E = Some e)"
    by (auto simp: less_Suc_eq)
qed

lemma stopped_None: "stopped r es s None \<Longrightarrow> writes_ok es"
  by (auto simp: stopped_def)

lemma halts_silent: "emits (\<lambda>ev. \<not> is_write (fst ev)) m \<Longrightarrow> halts r err m"
  by (rule haltsI, drule (1) emitsD) (fastforce simp: stopped_def writes_ok_def list_all_iff)

lemma halts_return: "halts r err (State_Monad.return x)"
  by (rule halts_silent) (rule emits_return)

lemma halts_bind:
  assumes "emits (\<lambda>ev. \<not> is_write (fst ev)) m" and "\<And>x. halts r err (f x)"
  shows "halts r err (State_Monad.bind m f)"
proof (rule haltsI)
  fix w y w2
  assume r: "run (State_Monad.bind m f) w = (y, w2)"
  obtain x w1 where m: "run m w = (x, w1)" by fastforce
  with r have f: "run (f x) w1 = (y, w2)" by simp
  from emitsD [OF assms(1) m] obtain es where
    es: "trace w1 = trace w @ es" "list_all (\<lambda>ev. \<not> is_write (fst ev)) es" by blast
  from es(2) have "writes_ok es" by (auto simp: writes_ok_def list_all_iff)
  moreover obtain fs where "trace w2 = trace w1 @ fs" "stopped r fs (server w2) (err y)"
    by (rule haltsD [OF assms(2) f])
  ultimately show "\<exists>es. trace w2 = trace w @ es \<and> stopped r es (server w2) (err y)"
    using es(1) by (intro exI [of _ "es @ fs"]) (simp add: stopped_prefix)
qed

lemma halts_cases:
  "halts r err m \<Longrightarrow> halts r err n \<Longrightarrow> halts r err (if b then m else n)"
  "(\<And>e. halts r err (f e)) \<Longrightarrow> (\<And>y. halts r err (g y)) \<Longrightarrow> halts r err (case s of Inl e \<Rightarrow> f e | Inr y \<Rightarrow> g y)"
  by (auto split: sum.split)

text \<open>
  A step and what follows it: \<open>k\<close> is left out when the step returns an error, which is then the
  error of the whole.
\<close>

lemma halts_then:
  assumes "halts r (\<lambda>e. e) m" and "halts r err k" and "\<And>e. err (h e) = Some e"
  shows "halts r err (do { res \<leftarrow> m; (case res of Some e \<Rightarrow> State_Monad.return (h e) | None \<Rightarrow> k) })"
proof (rule haltsI)
  fix w y w2
  assume run: "run (do { res \<leftarrow> m; (case res of Some e \<Rightarrow> State_Monad.return (h e) | None \<Rightarrow> k) }) w = (y, w2)"
  obtain x w1 where m: "run m w = (x, w1)" by (cases "run m w")
  obtain es where es: "trace w1 = trace w @ es" "stopped r es (server w1) x"
    by (rule haltsD [OF assms(1) m])
  show "\<exists>es. trace w2 = trace w @ es \<and> stopped r es (server w2) (err y)"
  proof (cases x)
    case (Some e)
    with run m have "y = h e" "w2 = w1" by simp_all
    with es Some assms(3) [of e] show ?thesis by (intro exI [of _ es]) simp
  next
    case None
    with run m have f: "run k w1 = (y, w2)" by simp
    obtain fs where fs: "trace w2 = trace w1 @ fs" "stopped r fs (server w2) (err y)"
      by (rule haltsD [OF assms(2) f])
    have "writes_ok es" using es(2) None by (simp add: stopped_None)
    with es fs show ?thesis
      by (intro exI [of _ "es @ fs"]) (simp add: stopped_prefix)
  qed
qed

lemma halts_fail_fast: "list_all (halts r (\<lambda>e. e)) ms \<Longrightarrow> halts r (\<lambda>e. e) (fail_fast ms)"
proof (induction ms)
  case Nil
  show ?case unfolding fail_fast.simps by (rule halts_return)
next
  case (Cons m ms)
  then show ?case unfolding fail_fast.simps by (intro halts_then) simp_all
qed

lemma halts_for_err: "(\<And>x. halts r (\<lambda>e. e) (f x)) \<Longrightarrow> halts r (\<lambda>e. e) (for_err f xs)"
  unfolding for_err_def by (rule halts_fail_fast) (simp add: list_all_iff)

lemma halts_wrap_err:
  assumes "halts r (\<lambda>e. e) m"
  shows "halts r (\<lambda>e. e) (wrap_err p m)"
proof (rule haltsI)
  fix w y w2
  assume r: "run (wrap_err p m) w = (y, w2)"
  obtain x where m: "run m w = (x, w2)" and y: "y = map_option (Wrapped p) x"
    using r by (auto simp: run_simps split: prod.splits)
  obtain es where "trace w2 = trace w @ es" "stopped r es (server w2) x"
    by (rule haltsD [OF assms m])
  then show "\<exists>es. trace w2 = trace w @ es \<and> stopped r es (server w2) y"
    by (intro exI [of _ es]) (auto simp: y stopped_def)
qed

text \<open>The writes.\<close>

lemma stopped_write:
  "(\<And>e. res = Inl e \<Longrightarrow> \<exists>s E. refused r c e s s' \<and> err = Some E \<and> cause E = Some e) \<Longrightarrow>
   stopped r [(c, \<not> isl res)] s' err"
  by (cases res) (auto simp: stopped_def writes_ok_def)

lemma halts_invoke:
  assumes "\<And>e s s'. f s = (Inl e, s') \<Longrightarrow> refused r c e s s'"
    and "\<And>e. \<exists>E. err (g (Inl e)) = Some E \<and> cause E = Some e"
  shows "halts r err (do { res \<leftarrow> invoke c f; State_Monad.return (g res) })"
proof (rule haltsI)
  fix w y w2
  assume r: "run (do { res \<leftarrow> invoke c f; State_Monad.return (g res) }) w = (y, w2)"
  obtain res s' where f: "f (server w) = (res, s')" by fastforce
  with r have eq: "y = g res" "server w2 = s'" "trace w2 = trace w @ [(c, \<not> isl res)]"
    by (auto simp: run_invoke)
  have "stopped r [(c, \<not> isl res)] s' (err (g res))"
    using assms f by (intro stopped_write) blast
  with eq show "\<exists>es. trace w2 = trace w @ es \<and> stopped r es (server w2) (err y)" by simp
qed

lemma halts_writes:
  "halts r (\<lambda>e. e) (do { res \<leftarrow> api_create r ob; State_Monad.return (err_of res) })"
  "halts r (\<lambda>e. e) (do { res \<leftarrow> api_update r ob; State_Monad.return (err_of res) })"
  "halts r (\<lambda>e. e) (do { res \<leftarrow> api_update_node r node; State_Monad.return (map_option (Wrapped p) (err_of res)) })"
  unfolding api_defs by (rule halts_invoke; simp add: err_of_def)+

section \<open>The steps\<close>

lemmas halts_rules = halts_return halts_cases halts_writes

lemma halts_createOrUpdate: "halts r (\<lambda>e. e) (createOrUpdate r ob owner)"
  unfolding createOrUpdate_def
  by (rule halts_bind) (simp_all add: api_get_def emits_invoke halts_rules)

lemma halts_createOrUpdateClusterScoped: "halts r (\<lambda>e. e) (createOrUpdateClusterScoped r ob)"
  unfolding createOrUpdateClusterScoped_def
  by (rule halts_bind) (simp_all add: api_get_def emits_invoke halts_rules)

lemma halts_rbac: "halts r (\<lambda>e. e) (reconcileRBAC r cfg)"
  unfolding reconcileRBAC_def
  by (auto intro!: halts_fail_fast halts_for_err halts_createOrUpdate halts_createOrUpdateClusterScoped
      halts_bind [OF emits_detectOpenShift] halts_cases halts_return)

lemma halts_labelNode: "halts r (\<lambda>e. e) (labelNode r cfg node)"
  unfolding labelNode_def by (simp add: halts_rules split: option.split prod.split)

lemma halts_node_steps:
  "halts r (\<lambda>e. e) (reconcileNodeLabels r cfg)"
  "halts r (\<lambda>e. e) (reconcileNodeTopologyConfigMaps r cfg profile)"
  unfolding reconcileNodeLabels_def reconcileNodeTopologyConfigMaps_def api_list_nodes_def
  by (auto intro!: halts_bind [OF emits_invoke] halts_cases halts_return halts_for_err halts_labelNode halts_createOrUpdate)

lemma halts_steps: "list_all (halts r (\<lambda>e. e)) (reconcileSteps r cfg profile)"
  unfolding reconcileSteps_def step_defs
  by (auto intro!: halts_wrap_err halts_rbac halts_node_steps halts_fail_fast halts_createOrUpdate
      halts_createOrUpdateClusterScoped)

section \<open>A whole reconcile\<close>

lemma halts_live: "halts r snd (reconcileLive r cfg)"
proof -
  have "halts r snd (updateStatus r cfg profile)" for profile
    by (rule halts_silent) (rule emits_updateStatus; simp)
  then have steps: "halts r snd (do {
      err \<leftarrow> fail_fast (reconcileSteps r cfg profile);
      (case err of Some e \<Rightarrow> State_Monad.return (ctrl_Result0, Some e) | None \<Rightarrow> updateStatus r cfg profile) })" for profile
    by (intro halts_then halts_fail_fast halts_steps) simp_all
  have refuse: "halts r snd (do { _ \<leftarrow> api_update_status r c; State_Monad.return y })" for c y
    unfolding api_update_status_def by (rule halts_bind [OF emits_invoke halts_return]) simp_all
  show ?thesis
    unfolding reconcileLive_def
    by (rule halts_bind [OF emits_detectHelmConflict])
      (auto intro!: refuse steps split: bool.split sum.split)
qed

lemma halts_adopt:
  "halts r snd (do {
     upd \<leftarrow> ensureFinalizer r cfg;
     (case upd of Inl e \<Rightarrow> State_Monad.return (ctrl_Result0, Some (ClientError e)) | Inr cfg' \<Rightarrow> reconcileLive r cfg') })"
  (is "halts r snd ?p")
proof (rule haltsI)
  fix w y w2
  assume run: "run ?p w = (y, w2)"
  obtain res w1 where e: "run (ensureFinalizer r cfg) w = (res, w1)" by (cases "run (ensureFinalizer r cfg) w")
  let ?c = "UpdateCfg (with_finalizers (AddFinalizer (r_Library r) (Finalizers (cfg_meta cfg)) finalizerName) cfg)"
  show "\<exists>es. trace w2 = trace w @ es \<and> stopped r es (server w2) (snd y)"
  proof (cases res)
    case (Inl err)
    with run e have y: "y = (ctrl_Result0, Some (ClientError err))" "w2 = w1" by simp_all
    from e Inl have "trace w1 = trace w @ [(?c, False)]"
      and "refused r ?c err (server w) (server w1)"
      by (auto simp: ensureFinalizer_def api_update_cfg_def run_invoke prod_eq_iff split: if_splits)
    with y show ?thesis
      unfolding stopped_def by (intro exI [of _ "[(?c, False)]"] conjI disjI2 exI [of _ "[]"]) (auto simp: writes_ok_def)
  next
    case (Inr cfg')
    with run e have live: "run (reconcileLive r cfg') w1 = (y, w2)" by simp
    obtain fs where fs: "trace w2 = trace w1 @ fs" "stopped r fs (server w2) (snd y)"
      by (rule haltsD [OF halts_live live])
    from e Inr obtain es where "trace w1 = trace w @ es" "writes_ok es"
      using trace_ensureFinalizer [of r cfg w] by auto
    with fs show ?thesis by (intro exI [of _ "es @ fs"]) (simp add: stopped_prefix)
  qed
qed

lemma halts_Reconcile:
  assumes "fst (c_get_cfg (r_Client r) ns n (server w)) = Inr cfg" and "IsZero (DeletionTimestamp (cfg_meta cfg))"
    and "run (Reconcile r ns n) w = (out, w')"
  shows "\<exists>es. trace w' = trace w @ es \<and> stopped r es (server w') (snd out)"
proof -
  let ?w1 = "w\<lparr>server := snd (c_get_cfg (r_Client r) ns n (server w)), trace := trace w @ [(GetCfg ns n, True)]\<rparr>"
  have "run (do { upd \<leftarrow> ensureFinalizer r cfg;
      (case upd of Inl e \<Rightarrow> State_Monad.return (ctrl_Result0, Some (ClientError e)) | Inr cfg' \<Rightarrow> reconcileLive r cfg') })
    ?w1 = (out, w')"
    using assms unfolding Reconcile_def api_get_cfg_def by (simp add: run_simps split: prod.splits)
  then obtain es where "trace w' = trace ?w1 @ es" "stopped r es (server w') (snd out)"
    by (rule haltsD [OF halts_adopt])
  moreover have "writes_ok [(GetCfg ns n, True)]" by (simp add: writes_ok_def)
  ultimately show ?thesis
    using stopped_prefix by (intro exI [of _ "[(GetCfg ns n, True)] @ es"]) force
qed

end
