(* ===== verification/Guarantees.thy ===== *)
theory Guarantees
  imports Demo Success Fail_Stop
begin

text \<open>
  The properties of the controller that hold for every API server: one that fails, answers
  inconsistently, or is changed by others between two calls. They bound the calls a reconcile
  makes and relate its result to their success.
\<close>

text \<open>
  C11: no workload is written before its service account is. In every call of \<open>Reconcile\<close>, each
  request to create or update a DaemonSet or a Deployment comes after a successful write of the
  service account its pods run under, in the operator's namespace.
\<close>

theorem accounts_before_workloads:
  "\<exists>es. trace (snd (run (Reconcile r ns n) w)) = trace w @ es \<and> accounts_precede (r_Namespace r) es"
  using ordered_Reconcile [of r ns n] by (simp add: ordered_def)

text \<open>
  C12: a reconcile of a configuration that is not being deleted never deletes anything, whatever
  the server answers.
\<close>

theorem live_never_deletes:
  assumes "fst (c_get_cfg (r_Client r) ns n (server w)) = Inr cfg"
    and "IsZero (DeletionTimestamp (cfg_meta cfg))"
  shows "\<exists>es. trace (snd (run (Reconcile r ns n) w)) = trace w @ es
    \<and> list_all (\<lambda>ev. \<not> is_delete (fst ev)) es"
  by (rule live_emits [OF assms]) (simp_all add: live_no_delete)

theorem live_never_deletes_witness:
  "\<exists>es. trace (snd (run (Reconcile mem_reconciler [] ''demo'') (demo_world (demo_cfg ''a100'') []))) = es
    \<and> list_all (\<lambda>ev. \<not> is_delete (fst ev)) es"
  using live_never_deletes [of mem_reconciler "[]" "''demo''" "demo_world (demo_cfg ''a100'') []" "demo_cfg ''a100''"]
  by (simp add: demo_world_def)

text \<open>
  C13: the footprint of a reconcile. Whatever the server answers, the objects a reconcile asks it
  to create or update are those of its configuration (\<open>managed\<close>) up to the resource version,
  and it deletes nothing.
\<close>

theorem live_writes_only_managed:
  assumes "resolveProfile cfg = Inr profile"
  shows "\<exists>es. trace (snd (run (reconcileLive r cfg) w)) = trace w @ es
    \<and> list_all (stays_managed r cfg profile) es"
  using live_footprint [OF assms, of r] by (simp add: emits_def)

theorem live_writes_only_managed_witness:
  "\<exists>p. list_all (stays_managed mem_reconciler (demo_cfg ''a100'') p)
     (trace (snd (run (reconcileLive mem_reconciler (demo_cfg ''a100'')) (demo_world (demo_cfg ''a100'') []))))"
proof -
  obtain p where "resolveProfile (demo_cfg ''a100'') = Inr p" using demo_profile by blast
  from live_writes_only_managed [OF this, of mem_reconciler "demo_world (demo_cfg ''a100'') []"]
  show ?thesis by (auto simp: demo_world_def)
qed

text \<open>
  C14: no failed write is lost. When a reconcile of a live configuration returns a nil error,
  every object, node and finalizer update it sent was accepted by the server.
\<close>

theorem nil_error_means_no_failed_write:
  assumes "fst (c_get_cfg (r_Client r) ns n (server w)) = Inr cfg"
    and "IsZero (DeletionTimestamp (cfg_meta cfg))"
    and "run (Reconcile r ns n) w = ((res, None), w')"
  shows "\<exists>es. trace w' = trace w @ es \<and> writes_ok es"
proof -
  let ?w1 = "w\<lparr>server := snd (c_get_cfg (r_Client r) ns n (server w)), trace := trace w @ [(GetCfg ns n, True)]\<rparr>"
  obtain x w2 where e: "run (ensureFinalizer r cfg) ?w1 = (x, w2)" by (cases "run (ensureFinalizer r cfg) ?w1")
  note rec = run_Reconcile_live [OF assms(1,2)]
  from assms(3) e obtain cfg' where x: "x = Inr cfg'" by (cases x) (auto simp: rec Let_def)
  with e trace_ensureFinalizer [of r cfg ?w1] obtain es where
    es: "trace w2 = trace ?w1 @ es" "writes_ok es" by auto
  from assms(3) e x have "run (reconcileLive r cfg') w2 = ((res, None), w')" by (simp add: rec Let_def)
  with reports_live [of r cfg'] obtain fs where "trace w' = trace w2 @ fs" "writes_ok fs"
    unfolding reports_def by (metis fst_conv snd_conv)
  with es show ?thesis
    by (intro exI [of _ "(GetCfg ns n, True) # es @ fs"]) (simp add: writes_ok_def)
qed

theorem nil_error_means_no_failed_write_witness:
  "\<exists>w'. run (Reconcile mem_reconciler [] ''demo'') (demo_world (demo_cfg ''a100'') [])
      = ((ctrl_Result0, None), w') \<and> writes_ok (trace w')"
proof -
  obtain w' where r: "run (Reconcile mem_reconciler [] ''demo'') (demo_world (demo_cfg ''a100'') [])
    = ((ctrl_Result0, None), w')" by (rule demo_run)
  from nil_error_means_no_failed_write [OF _ _ r, of "demo_cfg ''a100''"] r show ?thesis
    by (auto simp: demo_world_def)
qed

text \<open>
  C15: a nil error is a promise kept. When no Helm conflict was found, the profile is known and
  the reconcile returns a nil error, the server has accepted a write of every object the
  configuration asks for: accounts and roles, those of the security context constraints exactly
  when OpenShift was detected, ConfigMaps, the workloads that the switches select, services,
  the runtime class, and one topology ConfigMap for each node that the listing of the pool
  answered after the other steps had run.
\<close>

theorem nil_error_means_all_stored:
  assumes "run (detectHelmConflict r) w = ((False, ns), w1)" and "resolveProfile cfg = Inr profile"
    and "run (reconcileLive r cfg) w = ((res, None), w')"
  shows "\<exists>es os w2 items. trace w' = trace w @ es \<and> detected (isOpenShift w) es os
    \<and> run (fail_fast (butlast (reconcileSteps r cfg profile))) w1 = (None, w2)
    \<and> fst (c_list_nodes (r_Client r) (GoMap [(nodePoolLabel, cfg_name cfg)]) (server w2)) = Inr items
    \<and> (\<forall>ob \<in> set (desired_objects r cfg profile os (map node_name items)). stored_ok ob es)"
  by (rule live_success [OF assms])

theorem nil_error_means_all_stored_witness:
  "\<exists>w'. run (reconcileLive mem_reconciler (demo_cfg ''a100'')) (demo_world (demo_cfg ''a100'') [])
      = ((ctrl_Result0, None), w')
    \<and> stored_ok (ODaemonSet (DevicePluginDaemonSet (r_Env mem_reconciler) (demo_cfg ''a100'') ''fake-gpu-operator''))
        (trace w')"
proof -
  let ?cfg = "demo_cfg ''a100''"
  obtain w' where r: "run (reconcileLive mem_reconciler ?cfg) (demo_world ?cfg []) = ((ctrl_Result0, None), w')"
    by (rule demo_live)
  obtain p where p: "resolveProfile ?cfg = Inr p" using demo_profile by blast
  obtain w1 where "run (detectHelmConflict mem_reconciler) (demo_world ?cfg []) = ((False, []), w1)"
    by (rule demo_no_helm)
  from nil_error_means_all_stored [OF this p r] r show ?thesis
    by (auto simp: demo_world_def desired_objects_def component_objects_def Let_def)
qed

text \<open>
  C17: a reconcile is fail-stop. When the server refuses a write of an object, of a node or of the
  finalizers, that write is the last call of the reconcile of a live configuration, and the error
  it was refused with is returned (wrapped, so that the request is retried): no later step runs,
  and the status is not touched. No step swallows such an error.
\<close>

theorem refused_write_ends_reconcile:
  assumes "fst (c_get_cfg (r_Client r) ns n (server w)) = Inr cfg"
    and "IsZero (DeletionTimestamp (cfg_meta cfg))"
    and "run (Reconcile r ns n) w = ((res, err), w')"
  shows "\<exists>es. trace w' = trace w @ es
    \<and> (\<forall>i c. i < length es \<and> es ! i = (c, False) \<and> is_write c \<longrightarrow>
         Suc i = length es \<and> (\<exists>e s E. refused r c e s (server w') \<and> err = Some E \<and> cause E = Some e))"
proof -
  from halts_Reconcile [OF assms] obtain es where es: "trace w' = trace w @ es" "stopped r es (server w') err"
    by auto
  from stopped_first [OF es(2)] es(1) show ?thesis by blast
qed

definition refusing_reconciler :: "(mem, mem_error) Reconciler" where
  "refusing_reconciler = mem_reconciler\<lparr>r_Client := mem_client\<lparr>c_create := \<lambda>ob s. (Inl Conflict, s)\<rparr>\<rparr>"

theorem refused_write_ends_reconcile_witness:
  "\<exists>res err w' es. run (Reconcile refusing_reconciler [] ''demo'') (demo_world (demo_cfg ''a100'') []) = ((res, err), w')
     \<and> trace w' = es
     \<and> (\<forall>i ob. i < length es \<and> es ! i = (CreateObj ob, False) \<longrightarrow>
          Suc i = length es \<and> (\<exists>E. err = Some E \<and> cause E = Some Conflict))"
proof -
  let ?w = "demo_world (demo_cfg ''a100'') []"
  obtain res err w' where r: "run (Reconcile refusing_reconciler [] ''demo'') ?w = ((res, err), w')"
    by (metis prod.collapse)
  have "fst (c_get_cfg (r_Client refusing_reconciler) [] ''demo'' (server ?w)) = Inr (demo_cfg ''a100'')"
    by (simp add: refusing_reconciler_def mem_client_def mem_get_cfg_def)
  from refused_write_ends_reconcile [OF this _ r] obtain es where es: "trace w' = es"
    and last: "\<forall>i c. i < length es \<and> es ! i = (c, False) \<and> is_write c \<longrightarrow> Suc i = length es
      \<and> (\<exists>e s E. refused refusing_reconciler c e s (server w') \<and> err = Some E \<and> cause E = Some e)"
    by (auto simp: demo_world_def)
  have only: "Suc i = length es \<and> (\<exists>E. err = Some E \<and> cause E = Some Conflict)"
    if "i < length es" "es ! i = (CreateObj ob, False)" for i ob
    using last [rule_format, of i "CreateObj ob"] that by (auto simp: refusing_reconciler_def)
  show ?thesis
    by (intro exI [of _ res] exI [of _ err] exI [of _ w'] exI [of _ es] conjI allI impI)
      (use r es only in auto)
qed

text \<open>
  C18: the finalizer comes first. A reconcile of a live configuration that does not have the
  finalizer yet sends the update that adds it before anything else but the read; when the server
  refuses that update, it is the last call and exactly its error is returned, so nothing is ever
  deployed that no deletion would find.
\<close>

theorem finalizer_before_everything:
  assumes "fst (c_get_cfg (r_Client r) ns n (server w)) = Inr cfg"
    and "IsZero (DeletionTimestamp (cfg_meta cfg))"
    and "\<not> ContainsFinalizer (r_Library r) (Finalizers (cfg_meta cfg)) finalizerName"
    and "c_update_cfg (r_Client r)
        (with_finalizers (AddFinalizer (r_Library r) (Finalizers (cfg_meta cfg)) finalizerName) cfg)
        (snd (c_get_cfg (r_Client r) ns n (server w))) = (answer, s1)"
  shows "\<exists>es. trace (snd (run (Reconcile r ns n) w)) = trace w @
      [(GetCfg ns n, True),
       (UpdateCfg (with_finalizers (AddFinalizer (r_Library r) (Finalizers (cfg_meta cfg)) finalizerName) cfg),
        \<not> isl answer)]
      @ es
    \<and> (\<forall>e. answer = Inl e \<longrightarrow> es = [] \<and> fst (run (Reconcile r ns n) w) = (ctrl_Result0, Some (ClientError e)))"
proof -
  let ?w1 = "w\<lparr>server := snd (c_get_cfg (r_Client r) ns n (server w)), trace := trace w @ [(GetCfg ns n, True)]\<rparr>"
  let ?c = "UpdateCfg (with_finalizers (AddFinalizer (r_Library r) (Finalizers (cfg_meta cfg)) finalizerName) cfg)"
  obtain w2 where e: "run (ensureFinalizer r cfg) ?w1 = (answer, w2)"
    and w2: "trace w2 = trace w @ [(GetCfg ns n, True), (?c, \<not> isl answer)]"
    using assms(3,4) by (auto simp: ensureFinalizer_def api_update_cfg_def run_simps)
  show ?thesis
  proof (cases answer)
    case (Inl err)
    with e w2 show ?thesis
      by (intro exI [of _ "[]"]) (simp add: run_Reconcile_live [OF assms(1,2)] Let_def)
  next
    case (Inr cfg')
    obtain y w3 where y: "run (reconcileLive r cfg') w2 = (y, w3)" by (cases "run (reconcileLive r cfg') w2")
    from emitsD [OF live_no_delete y] obtain es where "trace w3 = trace w2 @ es" by blast
    with Inr e w2 y show ?thesis by (auto simp: run_Reconcile_live [OF assms(1,2)] Let_def)
  qed
qed

definition readonly_reconciler :: "(mem, mem_error) Reconciler" where
  "readonly_reconciler = mem_reconciler\<lparr>r_Client := mem_client\<lparr>c_update_cfg := \<lambda>cfg s. (Inl Conflict, s)\<rparr>\<rparr>"

theorem finalizer_before_everything_witness:
  "trace (snd (run (Reconcile readonly_reconciler [] ''demo'') (demo_world (demo_cfg ''a100'') [])))
      = [(GetCfg [] ''demo'', True), (UpdateCfg (with_finalizers [finalizerName] (demo_cfg ''a100'')), False)]
   \<and> fst (run (Reconcile readonly_reconciler [] ''demo'') (demo_world (demo_cfg ''a100'') []))
      = (ctrl_Result0, Some (ClientError Conflict))"
  using finalizer_before_everything [of readonly_reconciler "[]" "''demo''" "demo_world (demo_cfg ''a100'') []"
      "demo_cfg ''a100''" "Inl Conflict"]
  by (auto simp: readonly_reconciler_def mem_client_def mem_get_cfg_def mem_library_def mem_reconciler_def
      demo_world_def demo_mem_def demo_cfg_def)

text \<open>
  C19: the shape of a deletion. It lists, unlabels and deletes only what belongs to the sweep,
  and never creates or updates an object. Unless the listing of the nodes failed, it tries to
  delete every cluster-scoped object of the configuration, the role and the binding for
  OpenShift's constraints included exactly when OpenShift was detected (by the cached answer, or
  else by the lookup it makes), and ends with the update that takes the finalizer away. A returned
  error is one of these two, so that the finalizer is only kept for them.
\<close>

theorem deletion_ends_with_finalizer:
  "\<exists>es. trace (snd (run (handleDeletion r cfg) w)) = trace w @ es
    \<and> deletion_shape r cfg (isOpenShift w) (fst (run (handleDeletion r cfg) w)) es"
  using shaped_handleDeletion [of r cfg] by (simp add: shaped_def)

text \<open>
  C20: one failed lookup turns the security context roles off for good. When the first lookup
  fails, for any reason (a network error included), the cluster counts as not OpenShift in every
  later detection of the process, even on a server that would now answer.
\<close>

theorem failed_detection_is_remembered:
  assumes "isOpenShift w = None"
    and "fst (c_resources_for (r_Client r) ''security.openshift.io'' ''v1'' ''securitycontextconstraints''
      (server w)) = Inl e"
  shows "run (detectOpenShift r') ((snd (run (detectOpenShift r) w))\<lparr>server := s\<rparr>)
    = (False, (snd (run (detectOpenShift r) w))\<lparr>server := s\<rparr>)"
proof -
  have "isOpenShift (snd (run (detectOpenShift r) w)) = Some False"
    using assms by (simp add: detectOpenShift_def api_defs run_simps Let_def)
  then show ?thesis by (simp add: detectOpenShift_def)
qed

definition unreachable_reconciler :: "(mem, mem_error) Reconciler" where
  "unreachable_reconciler =
     mem_reconciler\<lparr>r_Client := mem_client\<lparr>c_resources_for := \<lambda>g v res s. (Inl Conflict, s)\<rparr>\<rparr>"

theorem failed_detection_is_remembered_witness:
  "\<exists>w1. m_scc (server w1) \<and> fst (run (detectOpenShift mem_reconciler) w1) = False"
proof -
  let ?w1 = "snd (run (detectOpenShift unreachable_reconciler) (demo_world (demo_cfg ''a100'') []))"
  have "fst (run (detectOpenShift mem_reconciler) (?w1\<lparr>server := demo_mem (demo_cfg ''a100'') []\<rparr>)) = False"
    by (subst failed_detection_is_remembered [where e = Conflict]) (simp_all add: unreachable_reconciler_def)
  then show ?thesis
    by (intro exI [of _ "?w1\<lparr>server := demo_mem (demo_cfg ''a100'') []\<rparr>"]) simp
qed

end
