(* ===== verification/Effort.thy ===== *)
theory Effort
  imports Outcomes Demo
begin

text \<open>
  How many API calls a \<open>Reconcile\<close> makes: it has no loop but those over fixed lists and over the
  lists the server answers with, and no retry, so their number is bounded by the lengths of these.
  \<open>takes n P m\<close> says that \<open>m\<close> makes at most \<open>n\<close> calls and that its result satisfies \<open>P\<close>, in every
  world; the lemmas follow the code, and \<open>calls_bounded\<close> sums them up.
\<close>

definition takes :: "nat \<Rightarrow> ('a \<Rightarrow> bool) \<Rightarrow> ('s, 'a) prog \<Rightarrow> bool" where
  "takes n P m \<longleftrightarrow> yields (\<lambda>x es. length es \<le> n \<and> P x) m"

abbreviation any :: "'a \<Rightarrow> bool" where
  "any \<equiv> \<lambda>_. True"

section \<open>Counting calls\<close>

lemma takes_return: "P x \<Longrightarrow> takes 0 P (State_Monad.return x)"
  by (simp add: takes_def yields_return)

lemma takes_mono: "takes a P m \<Longrightarrow> a \<le> b \<Longrightarrow> (\<And>x. P x \<Longrightarrow> Q x) \<Longrightarrow> takes b Q m"
  unfolding takes_def by (erule yields_mono) auto

lemma takes_bind:
  assumes "takes a P m" and "\<And>x. P x \<Longrightarrow> takes b Q (f x)"
  shows "takes (a + b) Q (State_Monad.bind m f)"
proof (unfold takes_def yields_def, intro allI)
  fix w
  obtain x w1 where m: "run m w = (x, w1)" by fastforce
  obtain y w2 where f: "run (f x) w1 = (y, w2)" by fastforce
  from assms(1) m obtain es where es: "trace w1 = trace w @ es" "length es \<le> a" "P x"
    unfolding takes_def yields_def by (metis fst_conv snd_conv)
  from assms(2) [OF es(3)] f obtain fs where fs: "trace w2 = trace w1 @ fs" "length fs \<le> b" "Q y"
    unfolding takes_def yields_def by (metis fst_conv snd_conv)
  show "\<exists>es. trace (snd (run (State_Monad.bind m f) w)) = trace w @ es
      \<and> length es \<le> a + b \<and> Q (fst (run (State_Monad.bind m f) w))"
    using es fs m f by (intro exI [of _ "es @ fs"]) simp
qed

lemma takes_invoke: "(\<And>s. P (fst (f s))) \<Longrightarrow> takes (Suc 0) P (invoke c f)"
  by (simp add: takes_def yields_def run_invoke)

lemma takes_sum:
  "(\<And>e. x = Inl e \<Longrightarrow> takes n P (f e)) \<Longrightarrow> (\<And>y. x = Inr y \<Longrightarrow> takes n P (g y)) \<Longrightarrow>
   takes n P (case x of Inl e \<Rightarrow> f e | Inr y \<Rightarrow> g y)"
  by (cases x) simp_all

lemma takes_if: "(b \<Longrightarrow> takes n P m) \<Longrightarrow> (\<not> b \<Longrightarrow> takes n P m') \<Longrightarrow> takes n P (if b then m else m')"
  by simp

lemma takes_free: "P x \<Longrightarrow> takes n P (State_Monad.return x)"
  by (rule takes_mono [OF takes_return]) simp_all

lemma takes_last: "takes n any m \<Longrightarrow> takes n any (do { x \<leftarrow> m; State_Monad.return (f x) })"
  using takes_bind [of n any m 0 any "\<lambda>x. State_Monad.return (f x)"] by (simp add: takes_return)

lemma takes_wrap_err: "takes n any m \<Longrightarrow> takes n any (wrap_err p m)"
  using takes_last [of n m "map_option (Wrapped p)"] by (simp add: wrap_err_def)

lemma takes_fail_fast_Nil: "takes 0 any (fail_fast [])"
  by (simp add: fail_fast.simps takes_return)

lemma takes_fail_fast_Cons:
  "takes a any m \<Longrightarrow> takes b any (fail_fast ms) \<Longrightarrow> takes (a + b) any (fail_fast (m # ms))"
  unfolding fail_fast.simps by (erule takes_bind) (auto intro: takes_free split: option.split)

lemma takes_fail_fast_append:
  assumes "takes a any (fail_fast ms)" and "takes b any (fail_fast ms')"
  shows "takes (a + b) any (fail_fast (ms @ ms'))"
proof (unfold takes_def yields_def, intro allI)
  fix w
  obtain x w1 where m: "run (fail_fast ms) w = (x, w1)" by fastforce
  obtain y w2 where f: "run (fail_fast ms') w1 = (y, w2)" by fastforce
  from assms(1) m obtain es where es: "trace w1 = trace w @ es" "length es \<le> a"
    unfolding takes_def yields_def by (metis snd_conv)
  from assms(2) f obtain fs where fs: "trace w2 = trace w1 @ fs" "length fs \<le> b"
    unfolding takes_def yields_def by (metis snd_conv)
  show "\<exists>es. trace (snd (run (fail_fast (ms @ ms')) w)) = trace w @ es \<and> length es \<le> a + b \<and> True"
    using es fs m f by (cases x) (auto simp: fail_fast_append)
qed

lemma takes_for_err: "(\<And>x. takes n any (f x)) \<Longrightarrow> takes (length xs * n) any (for_err f xs)"
  by (induction xs) (simp_all add: for_err_def takes_fail_fast_Nil takes_fail_fast_Cons)

lemma takes_for_each: "(\<And>x. takes n any (f x)) \<Longrightarrow> takes (length xs * n) any (for_each f xs)"
  by (induction xs) (auto intro: takes_return takes_bind)

lemma takes_when: "takes n any (fail_fast ms) \<Longrightarrow> takes n any (fail_fast (if b then ms else []))"
  by (simp add: takes_mono [OF takes_fail_fast_Nil])

section \<open>The steps of a reconcile\<close>

lemma takes_api:
  "takes (Suc 0) any (api_get r kd ns n)" "takes (Suc 0) any (api_create r ob)" "takes (Suc 0) any (api_update r ob)"
  "takes (Suc 0) any (api_update_node r node)" "takes (Suc 0) any (api_update_cfg r cfg)" "takes (Suc 0) any (api_update_status r cfg)"
  "takes (Suc 0) any (api_delete r kd ns n)" "takes (Suc 0) any (api_get_cfg r ns n)" "takes (Suc 0) any (api_resources_for r g v x)"
  "takes (Suc 0) any (api_list r kd sel nso)"
  unfolding api_defs by (rule takes_invoke, rule TrueI)+

lemma takes_createOrUpdate: "takes 2 any (createOrUpdate r ob owner)"
proof -
  have "takes (Suc 0 + Suc 0) any (createOrUpdate r ob owner)"
    unfolding createOrUpdate_def
    by (rule takes_bind [OF takes_api(1)]) (auto intro!: takes_sum takes_if takes_last takes_free takes_api)
  then show ?thesis by (simp add: numeral_2_eq_2)
qed

lemma takes_createOrUpdateClusterScoped: "takes 2 any (createOrUpdateClusterScoped r ob)"
proof -
  have "takes (Suc 0 + Suc 0) any (createOrUpdateClusterScoped r ob)"
    unfolding createOrUpdateClusterScoped_def
    by (rule takes_bind [OF takes_api(1)]) (auto intro!: takes_sum takes_if takes_last takes_free takes_api)
  then show ?thesis by (simp add: numeral_2_eq_2)
qed

lemma takes_detectOpenShift: "takes (Suc 0) any (detectOpenShift r)"
  by (auto simp: takes_def yields_def detectOpenShift_def api_defs run_simps Let_def split: option.split)

lemma takes_detectHelmConflict: "takes 2 any (detectHelmConflict r)"
proof -
  have "takes (Suc 0 + Suc 0) any (detectHelmConflict r)"
    unfolding detectHelmConflict_def
    by (rule takes_bind [OF takes_api(10)])
      (auto intro!: takes_sum takes_last takes_free takes_api split: list.split)
  then show ?thesis by (simp add: numeral_2_eq_2)
qed

lemmas takes_parts = takes_createOrUpdate takes_createOrUpdateClusterScoped takes_fail_fast_Cons
  takes_fail_fast_Nil

lemma takes_reconcileRBAC: "takes 25 any (reconcileRBAC r cfg)"
proof -
  let ?scc = "do { openshift \<leftarrow> detectOpenShift r;
      (if openshift then fail_fast [createOrUpdateClusterScoped r (OClusterRole (SCCClusterRole cfg)),
         createOrUpdateClusterScoped r (OClusterRoleBinding (SCCClusterRoleBinding cfg (r_Namespace r)))]
       else State_Monad.return None) }"
  have scc: "takes (Suc 0 + (2 + (2 + 0))) any ?scc"
    by (rule takes_bind [OF takes_detectOpenShift], rule takes_if)
      (auto intro!: takes_parts takes_free simp only: )
  have accounts: "takes (4 * 2) any (for_err (\<lambda>comp. createOrUpdate r (OServiceAccount (ServiceAccount cfg comp (r_Namespace r))) cfg)
      [''device-plugin'', ''status-updater'', ''metrics-exporter'', ''topology-server''])"
    using takes_for_err [of 2 "\<lambda>comp. createOrUpdate r (OServiceAccount (ServiceAccount cfg comp (r_Namespace r))) cfg"
        "[''device-plugin'', ''status-updater'', ''metrics-exporter'', ''topology-server'']"]
    by (simp add: takes_createOrUpdate)
  have "takes (4 * 2 + (2 + (2 + (2 + (2 + (2 + (2 + (Suc 0 + (2 + (2 + 0)) + 0)))))))) any (reconcileRBAC r cfg)"
    unfolding reconcileRBAC_def
    by (intro takes_fail_fast_Cons takes_fail_fast_Nil accounts scc takes_createOrUpdateClusterScoped)
  then show ?thesis by simp
qed

text \<open>A server whose lists have at most \<open>k\<close> nodes and \<open>m\<close> objects of a kind.\<close>

definition short_lists :: "('s, 'e) Reconciler \<Rightarrow> nat \<Rightarrow> nat \<Rightarrow> bool" where
  "short_lists r k m \<longleftrightarrow>
     (\<forall>sel s ns. fst (c_list_nodes (r_Client r) sel s) = Inr ns \<longrightarrow> length ns \<le> k)
     \<and> (\<forall>kd sel nso s ms. fst (c_list (r_Client r) kd sel nso s) = Inr ms \<longrightarrow> length ms \<le> m)"

lemma takes_list_nodes:
  "short_lists r k m \<Longrightarrow> takes (Suc 0) (\<lambda>res. \<forall>ns. res = Inr ns \<longrightarrow> length ns \<le> k) (api_list_nodes r sel)"
  unfolding api_defs by (rule takes_invoke) (simp add: short_lists_def)

lemma takes_list:
  "short_lists r k m \<Longrightarrow> takes (Suc 0) (\<lambda>res. \<forall>ms. res = Inr ms \<longrightarrow> length ms \<le> m) (api_list r kd sel nso)"
  unfolding api_defs by (rule takes_invoke) (simp add: short_lists_def)

lemma takes_labelNode: "takes (Suc 0) any (labelNode r cfg node)"
proof -
  have "takes (Suc 0) any (labelNode r cfg node)"
    unfolding labelNode_def
    by (auto intro!: takes_free takes_if takes_last takes_api split: option.split)
  then show ?thesis by simp
qed

lemma takes_reconcileNodeLabels: "short_lists r k m \<Longrightarrow> takes (Suc 0 + k) any (reconcileNodeLabels r cfg)"
  unfolding reconcileNodeLabels_def
  by (erule takes_bind [OF takes_list_nodes], rule takes_sum, rule takes_free, simp,
      rule takes_mono [OF takes_for_err [OF takes_labelNode]]) simp_all

lemma takes_reconcileNodeTopologyConfigMaps:
  "short_lists r k m \<Longrightarrow> takes (Suc 0 + k * 2) any (reconcileNodeTopologyConfigMaps r cfg profile)"
  unfolding reconcileNodeTopologyConfigMaps_def
  by (erule takes_bind [OF takes_list_nodes], rule takes_sum, rule takes_free, simp,
      rule takes_mono [OF takes_for_err [OF takes_createOrUpdate]]) simp_all

lemma takes_steps:
  assumes "short_lists r k m"
  shows "takes (53 + 3 * k) any (fail_fast (reconcileSteps r cfg profile))"
proof -
  note wraps = takes_wrap_err [OF takes_createOrUpdate] takes_wrap_err [OF takes_createOrUpdateClusterScoped]
  have services: "takes (2 + (2 + 0)) any (reconcileServices r cfg)"
    unfolding reconcileServices_def by (intro takes_fail_fast_Cons takes_fail_fast_Nil takes_createOrUpdate)
  have "takes ((25 + (2 + (2 + (2 + 0)))) + ((2 + 0) + ((2 + 0) + ((2 + 0) + ((2 + (2 + 0) + 0) + ((2 + 0) + ((2 + 0)
      + ((2 + (2 + 0)) + (2 + ((Suc 0 + k) + ((Suc 0 + k * 2) + 0)))))))))))
    any (fail_fast (reconcileSteps r cfg profile))"
    unfolding reconcileSteps_def reconcileTopologyConfigMap_def reconcileGPUProfileConfigMap_def
      reconcileDevicePlugin_def reconcileStatusUpdater_def reconcileMetricsExporter_def reconcileTopologyServer_def
      reconcileMIGFaker_def reconcileDRAPlugin_def reconcileComputeDomainController_def reconcileComputeDomainDRA_def
      reconcileRuntimeClass_def
    by (intro takes_fail_fast_append takes_when takes_fail_fast_Cons takes_fail_fast_Nil takes_wrap_err
        takes_reconcileRBAC takes_createOrUpdate takes_createOrUpdateClusterScoped services
        takes_reconcileNodeLabels [OF assms] takes_reconcileNodeTopologyConfigMaps [OF assms])
  then show ?thesis by (rule takes_mono) simp_all
qed

lemma takes_updateStatus: "takes 2 any (updateStatus r cfg profile)"
proof -
  have "takes (Suc 0 + Suc 0) any (updateStatus r cfg profile)"
    unfolding updateStatus_def
    by (rule takes_bind [where P = any]) (auto intro!: takes_invoke takes_sum takes_free takes_last takes_api simp: api_list_nodes_def)
  then show ?thesis by (simp add: numeral_2_eq_2)
qed


lemma takes_reconcileLive:
  assumes "short_lists r k m"
  shows "takes (57 + 3 * k) any (reconcileLive r cfg)"
proof -
  have "takes (2 + (55 + 3 * k)) any (reconcileLive r cfg)"
    unfolding reconcileLive_def
  proof (rule takes_bind [OF takes_detectHelmConflict], goal_cases)
    case (1 helm)
    have refuse: "takes (55 + 3 * k) any (do { _ \<leftarrow> api_update_status r c; State_Monad.return (x, y) })" for c x y
      by (rule takes_mono [OF takes_last [OF takes_api(6)]]) simp_all
    have steps: "takes (55 + 3 * k) any
      (do { err \<leftarrow> fail_fast (reconcileSteps r cfg profile);
            (case err of Some e \<Rightarrow> State_Monad.return (ctrl_Result0, Some e) | None \<Rightarrow> updateStatus r cfg profile) })" for profile
      by (rule takes_mono [OF takes_bind [OF takes_steps [OF assms], where b = 2 and Q = any]])
        (auto intro: takes_free takes_updateStatus split: option.split)
    show ?case
      by (cases helm) (auto intro: refuse steps split: bool.split sum.split)
  qed
  then show ?thesis by (rule takes_mono) simp_all
qed

lemma takes_deleteListed: "short_lists r k m \<Longrightarrow> takes (Suc 0 + m) any (deleteListed r kd sel)"
  unfolding deleteListed_def
  by (erule takes_bind [OF takes_list], rule takes_sum, rule takes_free, simp,
      rule takes_mono [OF takes_for_each [OF takes_last [OF takes_api(7)]]]) simp_all

lemma takes_unlabelNode: "takes (Suc 0) any (unlabelNode r node)"
  unfolding unlabelNode_def by (rule takes_last [OF takes_api(4)])

lemma takes_sweep:
  "takes 9 any (for_each (\<lambda>(kd, n). do { _ \<leftarrow> api_delete r kd [] n; State_Monad.return () }) (clusterScopedResources cfg openshift))"
proof (rule takes_mono [OF takes_for_each])
  show "takes (Suc 0) any (case x of (kd, n) \<Rightarrow> do { _ \<leftarrow> api_delete r kd [] n; State_Monad.return () })" for x
    by (cases x) (simp add: takes_last [OF takes_api(7)])
qed (simp_all add: clusterScopedResources_def)

lemma takes_handleDeletion:
  assumes "short_lists r k m"
  shows "takes (18 + k + 6 * m) any (handleDeletion r cfg)"
proof -
  let ?sweep = "\<lambda>items. do {
      _ \<leftarrow> for_each (unlabelNode r) items;
      openshift \<leftarrow> detectOpenShift r;
      _ \<leftarrow> for_each (\<lambda>(kd, n). do { _ \<leftarrow> api_delete r kd [] n; State_Monad.return () }) (clusterScopedResources cfg openshift);
      upd \<leftarrow> api_update_cfg r (with_finalizers (RemoveFinalizer (r_Library r) (Finalizers (cfg_meta cfg)) finalizerName) cfg);
      State_Monad.return (ctrl_Result0, err_of upd) }"
  have sweep: "takes (k + (Suc 0 + (9 + Suc 0))) any (?sweep items)" if "length items \<le> k" for items
    by (rule takes_bind [OF takes_mono [OF takes_for_each [OF takes_unlabelNode]]],
        simp add: that, simp, rule takes_bind [OF takes_detectOpenShift], rule takes_bind [OF takes_sweep],
        rule takes_last [OF takes_api(5)])
  note del = takes_bind [OF takes_deleteListed [OF assms]]
  have "takes ((Suc 0 + m) + ((Suc 0 + m) + ((Suc 0 + m) + ((Suc 0 + m) + ((Suc 0 + m) + ((Suc 0 + m)
      + (Suc 0 + (k + (Suc 0 + (9 + Suc 0)))))))))) any (handleDeletion r cfg)"
    unfolding handleDeletion_def Let_def
    by (rule del, rule del, rule del, rule del, rule del, rule del, rule takes_bind [OF takes_list_nodes [OF assms]],
        rule takes_sum, rule takes_free, simp, rule sweep) simp
  then show ?thesis by (rule takes_mono) simp_all
qed

lemma takes_ensureFinalizer: "takes (Suc 0) any (ensureFinalizer r cfg)"
  by (simp add: ensureFinalizer_def takes_api takes_free)

lemma takes_adopt:
  assumes "short_lists r k m"
  shows "takes (58 + 3 * k) any (do {
      upd \<leftarrow> ensureFinalizer r cfg;
      (case upd of Inl e \<Rightarrow> State_Monad.return (ctrl_Result0, Some (ClientError e)) | Inr cfg' \<Rightarrow> reconcileLive r cfg') })"
proof -
  have "takes (Suc 0 + (57 + 3 * k)) any (do {
      upd \<leftarrow> ensureFinalizer r cfg;
      (case upd of Inl e \<Rightarrow> State_Monad.return (ctrl_Result0, Some (ClientError e)) | Inr cfg' \<Rightarrow> reconcileLive r cfg') })"
    by (rule takes_bind [OF takes_ensureFinalizer]) (auto intro: takes_free takes_reconcileLive [OF assms] split: sum.split)
  then show ?thesis by simp
qed

lemma takesD:
  assumes "takes n P m" and "run m w = (x, w')"
  obtains es where "trace w' = trace w @ es" and "length es \<le> n" and "P x"
  using assms unfolding takes_def yields_def by (metis fst_conv snd_conv)

section \<open>The bound\<close>

text \<open>
  C21: whatever the server answers, errors included, one \<open>Reconcile\<close> makes a bounded number of
  API calls. With lists of at most \<open>k\<close> nodes and \<open>m\<close> objects it makes one call when the
  configuration cannot be read, at most \<open>59 + 3k\<close> when the configuration it reads lives, and
  at most \<open>19 + k + 6m\<close> when it is being deleted. It never retries.
\<close>

theorem calls_bounded:
  assumes "short_lists r k m" and "run (Reconcile r ns n) w = (out, w')"
  shows "\<exists>es. trace w' = trace w @ es \<and> length es \<le>
    (case fst (c_get_cfg (r_Client r) ns n (server w)) of
       Inl _ \<Rightarrow> 1
     | Inr cfg \<Rightarrow> if IsZero (DeletionTimestamp (cfg_meta cfg)) then 59 + 3 * k else 19 + k + 6 * m)"
proof (cases "fst (c_get_cfg (r_Client r) ns n (server w))")
  case (Inl e)
  then show ?thesis using assms(2) Reconcile_get_error [OF Inl] by auto
next
  case (Inr cfg)
  let ?w1 = "w\<lparr>server := snd (c_get_cfg (r_Client r) ns n (server w)), trace := trace w @ [(GetCfg ns n, True)]\<rparr>"
  let ?rest = "if \<not> IsZero (DeletionTimestamp (cfg_meta cfg)) then handleDeletion r cfg
    else do { upd \<leftarrow> ensureFinalizer r cfg;
      (case upd of Inl e \<Rightarrow> State_Monad.return (ctrl_Result0, Some (ClientError e)) | Inr cfg' \<Rightarrow> reconcileLive r cfg') }"
  have run: "run ?rest ?w1 = (out, w')"
    using assms(2) Inr unfolding Reconcile_def api_get_cfg_def by (simp add: run_simps split: prod.splits)
  have "takes (if IsZero (DeletionTimestamp (cfg_meta cfg)) then 58 + 3 * k else 18 + k + 6 * m) any ?rest"
    using takes_handleDeletion [OF assms(1), of cfg] takes_adopt [OF assms(1), of cfg] by simp
  from takesD [OF this run] obtain es where "trace w' = trace ?w1 @ es"
      "length es \<le> (if IsZero (DeletionTimestamp (cfg_meta cfg)) then 58 + 3 * k else 18 + k + 6 * m)" by blast
  then show ?thesis using Inr by (intro exI [of _ "(GetCfg ns n, True) # es"]) (simp split: if_splits)
qed

text \<open>A server that answers with at most two nodes and five objects, as one that pages does.\<close>

definition paged_reconciler :: "(mem, mem_error) Reconciler" where
  "paged_reconciler = mem_reconciler\<lparr>r_Client := mem_client
     \<lparr>c_list_nodes := \<lambda>sel s. map_prod (map_sum id (take 2)) id (c_list_nodes mem_client sel s),
      c_list := \<lambda>kd sel nso s. map_prod (map_sum id (take 5)) id (c_list mem_client kd sel nso s)\<rparr>\<rparr>"

lemma paged_short: "short_lists paged_reconciler 2 5"
  by (auto simp: short_lists_def paged_reconciler_def map_sum_def split: sum.splits)

theorem calls_bounded_witness:
  "\<exists>out w'. run (Reconcile paged_reconciler [] ''demo'') (demo_world (demo_cfg ''a100'') []) = (out, w')
     \<and> length (trace w') \<le> 65"
proof -
  obtain out w' where r: "run (Reconcile paged_reconciler [] ''demo'') (demo_world (demo_cfg ''a100'') []) = (out, w')"
    by fastforce
  from calls_bounded [OF paged_short r] have "length (trace w') \<le> 65"
    by (simp add: demo_world_def paged_reconciler_def)
  with r show ?thesis by blast
qed

end
