(* ===== verification/Concurrency.thy ===== *)
theory Concurrency
  imports Node_Labels Safety Demo
begin

text \<open>
  Other writers between the calls of a \<open>Reconcile\<close>. The controller holds no lock: it relies on the
  server's optimistic concurrency, by which an update is accepted only for the version that is
  stored. That protects the writes of others only if each update is made from a version the run
  has read. \<open>observing r\<close> is \<open>r\<close> with a client that notes down what it answered and what it was
  sent; \<open>conditional\<close> says of such a log that each update is based on an earlier answer. The
  relation \<open>tracks\<close> carries both facts through the code: the observed program does what the
  original does, and its log is conditional.
\<close>

section \<open>The observed client\<close>

datatype logged =
    SawObj key string
  | SawNode Node
  | SawCfg FakeGPUConfig
  | SentObj key string
  | SentNode Node
  | SentCfg FakeGPUConfig
  | SentStatus FakeGPUConfig

definition noting ::
  "('e + 'a \<Rightarrow> logged list) \<Rightarrow> ('s \<Rightarrow> ('e + 'a) \<times> 's) \<Rightarrow> 's \<times> logged list \<Rightarrow> ('e + 'a) \<times> 's \<times> logged list" where
  "noting h f s = (case f (fst s) of (res, s') \<Rightarrow> (res, s', snd s @ h res))"

definition if_ok :: "('a \<Rightarrow> logged list) \<Rightarrow> 'e + 'a \<Rightarrow> logged list" where
  "if_ok h res = (case res of Inl _ \<Rightarrow> [] | Inr x \<Rightarrow> h x)"

definition observed_client :: "('s, 'e) Client \<Rightarrow> ('s \<times> logged list, 'e) Client" where
  "observed_client c =
     \<lparr>c_get_cfg = \<lambda>ns n. noting (if_ok (\<lambda>cfg. [SawCfg cfg])) (c_get_cfg c ns n),
      c_get = \<lambda>kd ns n. noting (if_ok (\<lambda>m. [SawObj (kd, ns, n) (ResourceVersion m)])) (c_get c kd ns n),
      c_list = \<lambda>kd sel ns. noting (\<lambda>_. []) (c_list c kd sel ns),
      c_list_nodes = \<lambda>sel. noting (if_ok (map SawNode)) (c_list_nodes c sel),
      c_list_cfgs = noting (if_ok (map SawCfg)) (c_list_cfgs c),
      c_create = \<lambda>ob. noting (\<lambda>_. []) (c_create c ob),
      c_update = \<lambda>ob. noting (\<lambda>_. [SentObj (obj_key ob) (ResourceVersion (obj_meta ob))]) (c_update c ob),
      c_update_node = \<lambda>node. noting (\<lambda>_. [SentNode node]) (c_update_node c node),
      c_update_cfg = \<lambda>cfg. noting (\<lambda>res. SentCfg cfg # if_ok (\<lambda>cfg'. [SawCfg cfg']) res) (c_update_cfg c cfg),
      c_update_status = \<lambda>cfg. noting (\<lambda>_. [SentStatus cfg]) (c_update_status c cfg),
      c_delete = \<lambda>kd ns n. noting (\<lambda>_. []) (c_delete c kd ns n),
      c_resources_for = \<lambda>g v x. noting (\<lambda>_. []) (c_resources_for c g v x)\<rparr>"

definition observing :: "('s, 'e) Reconciler \<Rightarrow> ('s \<times> logged list, 'e) Reconciler" where
  "observing r =
     \<lparr>r_Client = observed_client (r_Client r), r_Library = r_Library r, r_Namespace = r_Namespace r,
      r_Env = r_Env r, r_IsPrint = r_IsPrint r, r_Range = r_Range r\<rparr>"

lemma observing_sel [simp]:
  "r_Client (observing r) = observed_client (r_Client r)" "r_Library (observing r) = r_Library r"
  "r_Namespace (observing r) = r_Namespace r" "r_Env (observing r) = r_Env r"
  "r_IsPrint (observing r) = r_IsPrint r" "r_Range (observing r) = r_Range r"
  by (simp_all add: observing_def)

text \<open>A world with a log, and the world without it.\<close>

definition watched :: "'s World \<Rightarrow> logged list \<Rightarrow> ('s \<times> logged list) World" where
  "watched w log = \<lparr>server = (server w, log), isOpenShift = isOpenShift w, trace = trace w\<rparr>"

lemma watched_sel [simp]:
  "server (watched w log) = (server w, log)" "isOpenShift (watched w log) = isOpenShift w"
  "trace (watched w log) = trace w"
  by (simp_all add: watched_def)

section \<open>Conditional logs\<close>

text \<open>
  What an update must be based on: the version of the object as the server answered it; for a node
  the whole node, of which only labels the operator owns differ; for a configuration the whole
  configuration, of which only the finalizers or only the status differ.
\<close>

fun based_on :: "logged set \<Rightarrow> logged \<Rightarrow> bool" where
  "based_on V (SentObj k rv) \<longleftrightarrow> SawObj k rv \<in> V"
| "based_on V (SentNode n) \<longleftrightarrow>
     (\<exists>m. SawNode m \<in> V \<and> n = with_labels (node_labels n) m
        \<and> (\<forall>k. k \<notin> node_keys \<longrightarrow> go_lookup (node_labels n) k = go_lookup (node_labels m) k))"
| "based_on V (SentCfg c) \<longleftrightarrow> (\<exists>d. SawCfg d \<in> V \<and> c = with_finalizers (Finalizers (cfg_meta c)) d)"
| "based_on V (SentStatus c) \<longleftrightarrow> (\<exists>d. SawCfg d \<in> V \<and> c = d\<lparr>Status := Status c\<rparr>)"
| "based_on V _ \<longleftrightarrow> True"

fun conditional :: "logged set \<Rightarrow> logged list \<Rightarrow> bool" where
  "conditional V [] \<longleftrightarrow> True"
| "conditional V (x # xs) \<longleftrightarrow> based_on V x \<and> conditional (insert x V) xs"

text \<open>The notes of what was sent, and those that a trace of calls asks for.\<close>

fun is_sent :: "logged \<Rightarrow> bool" where
  "is_sent (SawObj _ _) = False"
| "is_sent (SawNode _) = False"
| "is_sent (SawCfg _) = False"
| "is_sent _ = True"

fun sent_by :: "call \<Rightarrow> logged list" where
  "sent_by (UpdateObj ob) = [SentObj (obj_key ob) (ResourceVersion (obj_meta ob))]"
| "sent_by (UpdateNode node) = [SentNode node]"
| "sent_by (UpdateCfg cfg) = [SentCfg cfg]"
| "sent_by (UpdateStatus cfg) = [SentStatus cfg]"
| "sent_by _ = []"

definition logs_updates :: "event list \<Rightarrow> logged list \<Rightarrow> bool" where
  "logs_updates es log \<longleftrightarrow> filter is_sent log = concat (map (\<lambda>e. sent_by (fst e)) es)"

lemma logs_updates_Nil [simp]: "logs_updates [] []"
  by (simp add: logs_updates_def)

lemma logs_updates_append: "logs_updates es xs \<Longrightarrow> logs_updates fs ys \<Longrightarrow> logs_updates (es @ fs) (xs @ ys)"
  by (simp add: logs_updates_def)

lemma no_sent_nodes [simp]: "filter is_sent (map SawNode ns) = []"
  by (induction ns) simp_all

lemma based_on_mono: "based_on V x \<Longrightarrow> V \<subseteq> W \<Longrightarrow> based_on W x"
  by (cases x) auto

lemma conditional_mono: "conditional V xs \<Longrightarrow> V \<subseteq> W \<Longrightarrow> conditional W xs"
  by (induction xs arbitrary: V W) (auto elim: based_on_mono, metis insert_mono)

lemma conditional_append: "conditional V (xs @ ys) \<longleftrightarrow> conditional V xs \<and> conditional (V \<union> set xs) ys"
  by (induction xs arbitrary: V) auto

lemma conditional_nodes: "conditional V (map SawNode ns)"
  by (induction ns arbitrary: V) auto

section \<open>Programs and their observed counterparts\<close>

definition tracks ::
  "logged set \<Rightarrow> ('s, 'a) prog \<Rightarrow> ('s \<times> logged list, 'a) prog \<Rightarrow> ('a \<Rightarrow> logged set) \<Rightarrow> bool" where
  "tracks A m' m G \<longleftrightarrow> (\<forall>w log x w1. A \<subseteq> set log \<longrightarrow> conditional {} log \<longrightarrow> run m' w = (x, w1) \<longrightarrow>
     (\<exists>ts es. run m (watched w log) = (x, watched w1 (log @ es)) \<and> conditional {} (log @ es)
        \<and> trace w1 = trace w @ ts \<and> logs_updates ts es \<and> G x \<subseteq> set (log @ es)))"

abbreviation none :: "'a \<Rightarrow> logged set" where
  "none \<equiv> \<lambda>_. {}"

lemma tracksD:
  assumes "tracks A m' m G" and "A \<subseteq> set log" and "conditional {} log" and "run m' w = (x, w1)"
  obtains ts es where "run m (watched w log) = (x, watched w1 (log @ es))" and "conditional {} (log @ es)"
    and "trace w1 = trace w @ ts" and "logs_updates ts es" and "G x \<subseteq> set (log @ es)"
  using assms unfolding tracks_def by meson

lemma tracks_return: "G x \<subseteq> A \<Longrightarrow> tracks A (State_Monad.return x) (State_Monad.return x) G"
  unfolding tracks_def by (auto intro!: exI [of _ "[]"])

lemma tracks_bind:
  assumes "tracks A m' m G" and "\<And>x. tracks (A \<union> G x) (f' x) (f x) H"
  shows "tracks A (State_Monad.bind m' f') (State_Monad.bind m f) H"
proof (unfold tracks_def, intro allI impI)
  fix w log y w2
  assume A: "A \<subseteq> set log" "conditional {} log" and r: "run (State_Monad.bind m' f') w = (y, w2)"
  obtain x w1 where m': "run m' w = (x, w1)" by fastforce
  with r have f': "run (f' x) w1 = (y, w2)" by simp
  from tracksD [OF assms(1) A m'] obtain ts es where
      es: "run m (watched w log) = (x, watched w1 (log @ es))" "conditional {} (log @ es)"
        "trace w1 = trace w @ ts" "logs_updates ts es" "G x \<subseteq> set (log @ es)" by metis
  have "A \<union> G x \<subseteq> set (log @ es)" using A es(5) by auto
  from tracksD [OF assms(2) this es(2) f'] obtain us fs where
      fs: "run (f x) (watched w1 (log @ es)) = (y, watched w2 ((log @ es) @ fs))" "conditional {} ((log @ es) @ fs)"
        "trace w2 = trace w1 @ us" "logs_updates us fs" "H y \<subseteq> set ((log @ es) @ fs)" by metis
  show "\<exists>ts es. run (State_Monad.bind m f) (watched w log) = (y, watched w2 (log @ es)) \<and> conditional {} (log @ es)
      \<and> trace w2 = trace w @ ts \<and> logs_updates ts es \<and> H y \<subseteq> set (log @ es)"
    using es(1,3) fs logs_updates_append [OF es(4) fs(4)]
    by (intro exI [of _ "ts @ us"] exI [of _ "es @ fs"]) simp
qed

lemma tracks_weaken: "tracks A m' m G \<Longrightarrow> A \<subseteq> B \<Longrightarrow> (\<And>x. H x \<subseteq> G x) \<Longrightarrow> tracks B m' m H"
  unfolding tracks_def by (meson subset_trans)

lemma tracks_invoke:
  assumes "\<And>res. conditional A (h res)" and "\<And>res. filter is_sent (h res) = sent_by c"
    and "\<And>res. G res \<subseteq> A \<union> set (h res)"
  shows "tracks A (invoke c f) (invoke c (noting h f)) G"
proof (unfold tracks_def, intro allI impI)
  fix w log x w1
  assume A: "A \<subseteq> set log" "conditional {} log" and r: "run (invoke c f) w = (x, w1)"
  have "conditional {} (log @ h x)"
    using A conditional_mono [OF assms(1)] by (simp add: conditional_append)
  moreover have "G x \<subseteq> set (log @ h x)" using assms(3) [of x] A(1) by auto
  moreover have "run (invoke c (noting h f)) (watched w log) = (x, watched w1 (log @ h x))"
    using r by (auto simp: run_invoke noting_def watched_def split: prod.split)
  moreover have "trace w1 = trace w @ [(c, \<not> isl x)]" using r by (auto simp: run_invoke)
  moreover have "logs_updates [(c, \<not> isl x)] (h x)" by (simp add: logs_updates_def assms(2))
  ultimately show "\<exists>ts es. run (invoke c (noting h f)) (watched w log) = (x, watched w1 (log @ es))
      \<and> conditional {} (log @ es) \<and> trace w1 = trace w @ ts \<and> logs_updates ts es \<and> G x \<subseteq> set (log @ es)" by blast
qed

lemma tracks_bind_sum:
  assumes "tracks A m' m (case_sum none G)"
    and "\<And>e. tracks A (f' e) (f e) H" and "\<And>x. tracks (A \<union> G x) (g' x) (g x) H"
  shows "tracks A (do { res \<leftarrow> m'; (case res of Inl e \<Rightarrow> f' e | Inr x \<Rightarrow> g' x) })
    (do { res \<leftarrow> m; (case res of Inl e \<Rightarrow> f e | Inr x \<Rightarrow> g x) }) H"
proof (rule tracks_bind [OF assms(1)])
  show "tracks (A \<union> (case res of Inl _ \<Rightarrow> {} | Inr x \<Rightarrow> G x))
    (case res of Inl e \<Rightarrow> f' e | Inr x \<Rightarrow> g' x) (case res of Inl e \<Rightarrow> f e | Inr x \<Rightarrow> g x) H" for res
    using assms(2,3) by (cases res) simp_all
qed

lemma tracks_then: "tracks A m' m none \<Longrightarrow> (\<And>x. tracks A (f' x) (f x) H) \<Longrightarrow>
    tracks A (State_Monad.bind m' f') (State_Monad.bind m f) H"
  by (rule tracks_bind [where G = none]) simp_all

lemma tracks_if: "(b \<Longrightarrow> tracks A m' m G) \<Longrightarrow> (\<not> b \<Longrightarrow> tracks A n' n G) \<Longrightarrow>
    tracks A (if b then m' else n') (if b then m else n) G"
  by simp

lemma tracks_fail_fast:
  "list_all2 (\<lambda>m' m. tracks A m' m none) ms' ms \<Longrightarrow> tracks A (fail_fast ms') (fail_fast ms) none"
  by (induction rule: list_all2_induct)
    (auto simp: fail_fast.simps intro!: tracks_return tracks_then split: option.split)

lemma tracks_for_err:
  "(\<And>x. x \<in> set xs \<Longrightarrow> tracks A (f' x) (f x) none) \<Longrightarrow> tracks A (for_err f' xs) (for_err f xs) none"
  unfolding for_err_def by (rule tracks_fail_fast) (auto simp: list_all2_map1 list_all2_map2 intro: list_all2_refl list.rel_refl_strong)

lemma tracks_for_each:
  "(\<And>x. x \<in> set xs \<Longrightarrow> tracks A (f' x) (f x) none) \<Longrightarrow> tracks A (for_each f' xs) (for_each f xs) none"
  by (induction xs) (auto intro: tracks_return tracks_then)

lemma tracks_wrap_err: "tracks A m' m none \<Longrightarrow> tracks A (wrap_err p m') (wrap_err p m) none"
  unfolding wrap_err_def by (rule tracks_then) (simp_all add: tracks_return)

section \<open>The calls\<close>

lemma tracks_api:
  "tracks A (api_get_cfg r ns n) (api_get_cfg (observing r) ns n) (case_sum none (\<lambda>c. {SawCfg c}))"
  "tracks A (api_get r kd ns n) (api_get (observing r) kd ns n)
     (case_sum none (\<lambda>m. {SawObj (kd, ns, n) (ResourceVersion m)}))"
  "tracks A (api_list r kd sel nso) (api_list (observing r) kd sel nso) none"
  "tracks A (api_list_nodes r sel) (api_list_nodes (observing r) sel) (case_sum none (\<lambda>ns. SawNode ` set ns))"
  "tracks A (api_create r ob) (api_create (observing r) ob) none"
  "tracks A (api_delete r kd ns n) (api_delete (observing r) kd ns n) none"
  "tracks A (api_resources_for r g v x) (api_resources_for (observing r) g v x) none"
  unfolding api_defs observing_sel observed_client_def Client.simps
  by (rule tracks_invoke; auto simp: if_ok_def conditional_nodes split: sum.split)+

lemma tracks_updates:
  "based_on A (SentObj (obj_key ob) (ResourceVersion (obj_meta ob))) \<Longrightarrow>
   tracks A (api_update r ob) (api_update (observing r) ob) none"
  "based_on A (SentNode node) \<Longrightarrow> tracks A (api_update_node r node) (api_update_node (observing r) node) none"
  "based_on A (SentCfg cfg) \<Longrightarrow> tracks A (api_update_cfg r cfg) (api_update_cfg (observing r) cfg)
     (case_sum none (\<lambda>c. {SawCfg c}))"
  "based_on A (SentStatus cfg) \<Longrightarrow> tracks A (api_update_status r cfg) (api_update_status (observing r) cfg) none"
  unfolding api_defs observing_sel observed_client_def Client.simps
  by (rule tracks_invoke; simp add: if_ok_def split: sum.split)+

lemma tracks_last:
  "tracks A m' m none \<Longrightarrow>
   tracks A (do { x \<leftarrow> m'; State_Monad.return (f x) }) (do { x \<leftarrow> m; State_Monad.return (f x) }) none"
  by (rule tracks_then) (simp_all add: tracks_return)

lemmas tracks_rules = tracks_if tracks_last tracks_return tracks_api

section \<open>The steps\<close>

lemma tracks_createOrUpdate: "tracks A (createOrUpdate r ob owner) (createOrUpdate (observing r) ob owner) none"
  unfolding createOrUpdate_def
  by (rule tracks_bind_sum [OF tracks_api(2)])
    (auto intro!: tracks_rules tracks_updates simp: obj_key_def [of ob])

lemma tracks_createOrUpdateClusterScoped:
  "GetNamespace ob = [] \<Longrightarrow>
   tracks A (createOrUpdateClusterScoped r ob) (createOrUpdateClusterScoped (observing r) ob) none"
  unfolding createOrUpdateClusterScoped_def
  by (rule tracks_bind_sum [OF tracks_api(2)])
    (auto intro!: tracks_rules tracks_updates simp: obj_key_def [of ob])

lemma tracks_detectOpenShift: "tracks A (detectOpenShift r) (detectOpenShift (observing r)) none"
proof -
  have get: "tracks A (State (\<lambda>w. (isOpenShift w, w))) (State (\<lambda>w. (isOpenShift w, w))) none"
    unfolding tracks_def by (auto intro!: exI [of _ "[]"])
  have set: "tracks A (State (\<lambda>w. ((), w\<lparr>isOpenShift := b\<rparr>))) (State (\<lambda>w. ((), w\<lparr>isOpenShift := b\<rparr>))) none" for b
    unfolding tracks_def by (auto simp: watched_def intro!: exI [of _ "[]"])
  show ?thesis
    unfolding detectOpenShift_def Let_def
    by (rule tracks_then [OF get]) (auto intro!: tracks_return tracks_then [OF tracks_api(7)] tracks_then [OF set] split: option.split)
qed

lemma tracks_detectHelmConflict: "tracks A (detectHelmConflict r) (detectHelmConflict (observing r)) none"
  unfolding detectHelmConflict_def
  by (rule tracks_then [OF tracks_api(3)]) (auto intro!: tracks_rules split: sum.split list.split)

lemma tracks_reconcileRBAC: "tracks A (reconcileRBAC r cfg) (reconcileRBAC (observing r) cfg) none"
  unfolding reconcileRBAC_def observing_sel
  by (rule tracks_fail_fast, intro list_all2_Cons [THEN iffD2] conjI tracks_for_err tracks_createOrUpdate
      tracks_createOrUpdateClusterScoped tracks_then [OF tracks_detectOpenShift] tracks_if tracks_fail_fast
      tracks_return list_all2_Nil [THEN iffD2] TrueI) (simp_all add: GetNamespace_def builder_simps)

lemma label_loop_keeps:
  "label_loop ls u kvs = Some (ls', u') \<Longrightarrow> k \<notin> fst ` set kvs \<Longrightarrow> go_lookup ls' k = go_lookup ls k"
  by (induction ls u kvs rule: label_loop.induct)
    (auto simp: go_lookup_assign go_lookup_def split: if_splits option.splits)

lemma tracks_labelNode:
  assumes "mset (r_Range r node (wantedLabels cfg)) = mset (entries (wantedLabels cfg))" and "SawNode node \<in> A"
  shows "tracks A (labelNode r cfg node) (labelNode (observing r) cfg node) none"
proof -
  have "based_on A (SentNode (with_labels ls node))"
    if "label_loop (node_labels node) False (r_Range r node (wantedLabels cfg)) = Some (ls, u)" for ls u
  proof -
    have "fst ` set (r_Range r node (wantedLabels cfg)) \<subseteq> node_keys"
      using wantedLabels_keys [of cfg] assms(1)
      by (metis dom_map_of_conv_image_fst go_lookup_map_of set_mset_mset)
    with label_loop_keeps [OF that] assms(2) show ?thesis
      by (auto simp: with_labels_def intro!: exI [of _ node])
  qed
  then show ?thesis
    unfolding labelNode_def observing_sel
    by (auto intro!: tracks_return tracks_last tracks_updates(2) simp del: based_on.simps split: option.split)
qed

lemma tracks_reconcileNodeLabels:
  assumes "\<And>node m. mset (r_Range r node m) = mset (entries m)"
  shows "tracks A (reconcileNodeLabels r cfg) (reconcileNodeLabels (observing r) cfg) none"
  unfolding reconcileNodeLabels_def
  by (rule tracks_bind_sum [OF tracks_api(4)])
    (auto intro!: tracks_return tracks_for_err tracks_labelNode simp: assms)

lemma tracks_reconcileNodeTopologyConfigMaps:
  "tracks A (reconcileNodeTopologyConfigMaps r cfg profile) (reconcileNodeTopologyConfigMaps (observing r) cfg profile) none"
  unfolding reconcileNodeTopologyConfigMaps_def observing_sel
  by (rule tracks_bind_sum [OF tracks_api(4)]) (auto intro!: tracks_return tracks_for_err tracks_createOrUpdate)

lemma tracks_unlabelNode: "SawNode node \<in> A \<Longrightarrow> tracks A (unlabelNode r node) (unlabelNode (observing r) node) none"
  unfolding unlabelNode_def
  by (rule tracks_last [OF tracks_updates(2)])
    (auto simp: with_labels_def strip_node_labels_lookup intro!: exI [of _ node])

lemma tracks_updateStatus:
  "SawCfg cfg \<in> A \<Longrightarrow> tracks A (updateStatus r cfg profile) (updateStatus (observing r) cfg profile) none"
  unfolding updateStatus_def
  by (rule tracks_bind_sum [OF tracks_api(4)])
    (auto intro!: tracks_rules tracks_updates simp: status_for_def set_condition_def Let_def)

section \<open>A whole reconcile\<close>

lemma tracks_when:
  "list_all2 P xs ys \<Longrightarrow> list_all2 P (if b then xs else []) (if b then ys else [])"
  by simp

lemma tracks_steps:
  assumes "\<And>node m. mset (r_Range r node m) = mset (entries m)"
  shows "list_all2 (\<lambda>m' m. tracks A m' m none) (reconcileSteps r cfg profile) (reconcileSteps (observing r) cfg profile)"
  unfolding reconcileSteps_def step_defs observing_sel
  by (intro list_all2_appendI tracks_when list_all2_Cons [THEN iffD2] list_all2_Nil [THEN iffD2] conjI TrueI
      tracks_wrap_err tracks_reconcileRBAC tracks_createOrUpdate tracks_createOrUpdateClusterScoped
      tracks_fail_fast tracks_reconcileNodeLabels [OF assms] tracks_reconcileNodeTopologyConfigMaps)
    (simp_all add: GetNamespace_def builder_simps)

lemma tracks_reconcileLive:
  assumes "\<And>node m. mset (r_Range r node m) = mset (entries m)" and "SawCfg cfg \<in> A"
  shows "tracks A (reconcileLive r cfg) (reconcileLive (observing r) cfg) none"
proof -
  have refuse: "tracks A (do { _ \<leftarrow> api_update_status r (set_condition r st why msg cfg); State_Monad.return y })
      (do { _ \<leftarrow> api_update_status (observing r) (set_condition (observing r) st why msg cfg); State_Monad.return y }) none"
    for st why msg y
  proof -
    have "set_condition (observing r) st why msg cfg = set_condition r st why msg cfg"
      by (simp add: set_condition_def)
    moreover have "based_on A (SentStatus (set_condition r st why msg cfg))"
      using assms(2) by (auto simp: set_condition_def)
    ultimately show ?thesis by (auto intro!: tracks_last tracks_updates simp del: based_on.simps)
  qed
  have go: "tracks A
      (do { err \<leftarrow> fail_fast (reconcileSteps r cfg profile);
            (case err of Some e \<Rightarrow> State_Monad.return (ctrl_Result0, Some e) | None \<Rightarrow> updateStatus r cfg profile) })
      (do { err \<leftarrow> fail_fast (reconcileSteps (observing r) cfg profile);
            (case err of Some e \<Rightarrow> State_Monad.return (ctrl_Result0, Some e) | None \<Rightarrow> updateStatus (observing r) cfg profile) })
      none" for profile
    by (rule tracks_then [OF tracks_fail_fast [OF tracks_steps [OF assms(1)]]])
      (auto intro: tracks_return tracks_updateStatus assms(2) split: option.split)
  show ?thesis
    unfolding reconcileLive_def
    by (rule tracks_then [OF tracks_detectHelmConflict])
      (auto intro: refuse go split: prod.split bool.split sum.split)
qed

lemma tracks_deleteListed: "tracks A (deleteListed r kd sel) (deleteListed (observing r) kd sel) none"
  unfolding deleteListed_def observing_sel
  by (rule tracks_then [OF tracks_api(3)])
    (auto intro!: tracks_return tracks_for_each tracks_last tracks_api split: sum.split)

lemma tracks_finalizers:
  "SawCfg cfg \<in> A \<Longrightarrow> tracks A (api_update_cfg r (with_finalizers fs cfg)) (api_update_cfg (observing r) (with_finalizers fs cfg))
     (case_sum none (\<lambda>c. {SawCfg c}))"
  by (rule tracks_updates(3)) (auto simp: with_finalizers_def intro!: exI [of _ cfg])

lemma tracks_handleDeletion:
  assumes "SawCfg cfg \<in> A"
  shows "tracks A (handleDeletion r cfg) (handleDeletion (observing r) cfg) none"
proof -
  have last: "tracks (A \<union> B) (api_update_cfg r (with_finalizers fs cfg)) (api_update_cfg (observing r) (with_finalizers fs cfg)) none"
    for B fs
    by (rule tracks_weaken [OF tracks_finalizers [OF assms]]) simp_all
  show ?thesis
    unfolding handleDeletion_def Let_def observing_sel
    by (intro tracks_then [OF tracks_deleteListed], rule tracks_bind_sum [OF tracks_api(4)])
      (auto intro!: tracks_return tracks_then [OF tracks_for_each] tracks_unlabelNode
        tracks_then [OF tracks_detectOpenShift] tracks_last tracks_api last)
qed

lemma tracks_ensureFinalizer:
  "SawCfg cfg \<in> A \<Longrightarrow> tracks A (ensureFinalizer r cfg) (ensureFinalizer (observing r) cfg) (case_sum none (\<lambda>c. {SawCfg c}))"
  by (simp add: ensureFinalizer_def tracks_finalizers tracks_return)

lemma tracks_Reconcile:
  assumes "\<And>node m. mset (r_Range r node m) = mset (entries m)"
  shows "tracks A (Reconcile r ns n) (Reconcile (observing r) ns n) none"
  unfolding Reconcile_def
  by (rule tracks_bind_sum [OF tracks_api(1)])
    (auto intro!: tracks_return tracks_handleDeletion tracks_bind_sum [OF tracks_ensureFinalizer] tracks_reconcileLive assms)

section \<open>No blind update\<close>

text \<open>
  C16: whatever the server answers and whoever else writes to it, a \<open>Reconcile\<close> makes no blind
  update. Each update of an object carries the version that the server answered for this very
  object in the same run; each node it sends is one it was answered, with other values at most for
  the labels the operator owns; each configuration it sends is one it was answered, with only the
  finalizers or only the status changed. On a server that accepts an update only for the stored
  version no write of others is lost. Observing does not change the run.
\<close>

theorem updates_are_conditional:
  assumes "\<And>node m. mset (r_Range r node m) = mset (entries m)"
    and "run (Reconcile r ns n) w = (out, w')"
  shows "\<exists>ts log. trace w' = trace w @ ts \<and> logs_updates ts log
     \<and> run (Reconcile (observing r) ns n) (watched w []) = (out, watched w' log) \<and> conditional {} log"
  using tracksD [OF tracks_Reconcile [OF assms(1), where A = "{}"] _ _ assms(2), of "[]"] by fastforce

theorem updates_are_conditional_witness:
  "\<exists>out w' ts log. trace w' = ts \<and> logs_updates ts log
     \<and> run (Reconcile (observing mem_reconciler) [] ''demo'') (watched (demo_world (demo_cfg ''a100'') []) []) = (out, watched w' log)
     \<and> conditional {} log"
proof -
  obtain out w' where r: "run (Reconcile mem_reconciler [] ''demo'') (demo_world (demo_cfg ''a100'') []) = (out, w')"
    by fastforce
  have "mset (r_Range mem_reconciler node m) = mset (entries m)" for node m by (simp add: mem_reconciler_def)
  moreover have "trace (demo_world (demo_cfg ''a100'') []) = []" by (simp add: demo_world_def)
  ultimately show ?thesis using updates_are_conditional [OF _ r] by (metis append_Nil)
qed

end
