(* ===== verification/Resource_Facts.thy ===== *)
theory Resource_Facts
  imports Demo
begin

text \<open>
  The properties of the data the operator builds: node labels, workloads, services, roles,
  images, ConfigMaps and profiles. They do not mention the API server.
\<close>

section \<open>Node labels\<close>

lemma not_in_dom: "dom f \<inter> K = {} \<Longrightarrow> k \<in> K \<Longrightarrow> f k = None"
  by (metis disjoint_iff domIff)

lemma demo_no_keys: "dom (go_lookup (node_labels demo_node)) \<inter> node_keys = {}"
  by (auto simp: demo_node_def node_keys_def go_simps node_key_defs dom_def split: if_splits)

text \<open>
  C22: labelling a node does not depend on the order in which Go ranges over the map. For every
  order of the wanted labels the loop ends without the panic of a nil map; the node's labels are
  overridden with the wanted ones and otherwise kept, and an update is sent exactly when some
  wanted label is missing or different.
\<close>

theorem labelling_any_order:
  assumes "mset order = mset (entries (wantedLabels cfg))" and "cfg_name cfg \<noteq> []"
  shows "\<exists>ls' needsUpdate. label_loop ls False order = Some (ls', needsUpdate)
    \<and> go_lookup ls' = go_lookup ls ++ go_lookup (wantedLabels cfg)
    \<and> (needsUpdate \<longleftrightarrow> \<not> labels_match (wantedLabels cfg) ls) \<and> (needsUpdate \<or> ls' = ls)"
  using label_loop_wanted [OF assms, of ls] by blast

theorem labelling_any_order_witness:
  "\<exists>ls' u. label_loop NilMap False (rev (entries (wantedLabels (demo_cfg ''t4'')))) = Some (ls', u)
    \<and> go_lookup ls' nodePoolLabel = Some ''demo''"
proof -
  let ?W = "wantedLabels (demo_cfg ''t4'')"
  obtain ls' u where l: "label_loop NilMap False (rev (entries ?W)) = Some (ls', u)"
      and look: "go_lookup ls' = go_lookup NilMap ++ go_lookup ?W"
    using labelling_any_order [of "rev (entries ?W)" "demo_cfg ''t4''" NilMap] by auto
  have "go_lookup ls' nodePoolLabel = Some ''demo''"
    unfolding look by (simp add: map_add_def wantedLabels_lookup)
  with l show ?thesis by blast
qed

text \<open>
  C23: deletion undoes labelling. On a node that had none of the operator's labels, taking them
  away after a labelling pass gives back the labels the node had, whatever was switched on.
\<close>

theorem unlabel_after_label:
  assumes "mset order = mset (entries (wantedLabels cfg))" and "cfg_name cfg \<noteq> []"
    and "label_loop ls False order = Some (ls', u)" and "dom (go_lookup ls) \<inter> node_keys = {}"
  shows "go_lookup (strip_node_labels ls') = go_lookup ls"
proof -
  from label_loop_wanted [OF assms(1,2), of ls] assms(3)
  have "go_lookup ls' = go_lookup ls ++ go_lookup (wantedLabels cfg)" by auto
  from strip_after_labelling [OF this] have "go_lookup (strip_node_labels ls') = go_lookup (strip_node_labels ls)" .
  also have "\<dots> = go_lookup ls"
    using not_in_dom [OF assms(4)] by (simp add: strip_node_labels_lookup restrict_map_def fun_eq_iff)
  finally show ?thesis .
qed

theorem unlabel_after_label_witness:
  "\<exists>ls' u. label_loop (node_labels demo_node) False (entries (wantedLabels (demo_cfg ''t4''))) = Some (ls', u)
    \<and> go_lookup (strip_node_labels ls') = go_lookup (node_labels demo_node)"
proof -
  obtain ls' u where l: "label_loop (node_labels demo_node) False (entries (wantedLabels (demo_cfg ''t4'')))
      = Some (ls', u)"
    using label_loop_wanted [OF refl, of "demo_cfg ''t4''" "node_labels demo_node"] by auto
  from unlabel_after_label [OF refl _ l demo_no_keys] l show ?thesis by auto
qed

text \<open>
  C27: the DaemonSets of a configuration land on its nodes. Each of them selects by one label of
  the operator; a node that carries the wanted labels satisfies it, and a node without any of
  the operator's labels satisfies none.
\<close>

theorem daemonsets_follow_labels:
  assumes "ODaemonSet d \<in> set (component_objects r cfg)"
  shows "(go_lookup ls' = f ++ go_lookup (wantedLabels cfg) \<longrightarrow>
      labels_match (pod_NodeSelector (tpl_Spec (ds_Template d))) ls')
    \<and> (dom (go_lookup ls) \<inter> node_keys = {} \<longrightarrow>
      \<not> labels_match (pod_NodeSelector (tpl_Spec (ds_Template d))) ls)"
proof -
  from component_selector [OF assms]
  have 1: "labels_match (pod_NodeSelector (tpl_Spec (ds_Template d))) (wantedLabels cfg)" by simp
  from component_daemonset_selector [OF assms] obtain k where
    "k \<in> node_keys" "pod_NodeSelector (tpl_Spec (ds_Template d)) = GoMap [(k, ''true'')]" by auto
  then have "\<not> labels_match (pod_NodeSelector (tpl_Spec (ds_Template d))) ls"
    if "dom (go_lookup ls) \<inter> node_keys = {}" using that by auto
  with labels_match_override [OF 1] show ?thesis by blast
qed

theorem daemonsets_follow_labels_witness:
  "\<not> labels_match (pod_NodeSelector (tpl_Spec (ds_Template
     (DevicePluginDaemonSet (r_Env mem_reconciler) (demo_cfg ''t4'') ''fake-gpu-operator'')))) (node_labels demo_node)"
proof -
  have "ODaemonSet (DevicePluginDaemonSet (r_Env mem_reconciler) (demo_cfg ''t4'') ''fake-gpu-operator'')
      \<in> set (component_objects mem_reconciler (demo_cfg ''t4''))"
    by (simp add: component_objects_def Let_def)
  from daemonsets_follow_labels [OF this, of _ Map.empty "node_labels demo_node"] demo_no_keys show ?thesis by blast
qed

text \<open>
  The counters of the status are within bounds for every answer of the server: the number of
  ready nodes is not negative and does not exceed the total, for up to 2^31 - 1 nodes.
\<close>

lemma ready_nodes_bounded:
  assumes "length nodes < 2 ^ 31"
  shows "0 \<le> sint (ReadyNodes (Status (status_for r cfg profile nodes)))
    \<and> sint (ReadyNodes (Status (status_for r cfg profile nodes)))
        \<le> sint (TotalNodes (Status (status_for r cfg profile nodes)))
    \<and> sint (TotalNodes (Status (status_for r cfg profile nodes))) = int (length nodes)"
proof -
  have "sint (word_of_int (int (length nodes)) :: int32) = int (length nodes)"
    using assms by (simp add: signed_of_nat signed_take_bit_int_eq_self)
  with ready_le_total [OF assms] show ?thesis
    by (simp add: status_for_def set_condition_def Let_def)
qed

section \<open>Workloads and services\<close>

lemma component_workload:
  assumes "ob \<in> set (component_objects r cfg)" and "pod_template ob = Some tpl"
  obtains component account where "match_labels ob = Some (selectorLabels cfg component)"
    and "tpl_Labels tpl = selectorLabels cfg component"
    and "ServiceAccountName (tpl_Spec tpl) = account @ ''-'' @ cfg_name cfg"
    and "account \<in> set account_components" and "mounts_have_volumes (tpl_Spec tpl)"
    and "go_lookup (Labels (obj_meta ob)) keyComponent = Some component"
  using assms
  by (auto simp: component_objects_def Let_def account_components_def builder_simps
      mounts_have_volumes_def split: if_splits)

text \<open>
  C28: every workload the operator deploys is one Kubernetes accepts and can run: its selector
  matches its own pod template, every volume mount of its containers names a volume of the pod,
  and the pods run under one of the four accounts the operator creates.
\<close>

theorem workloads_well_formed:
  assumes "ob \<in> set (component_objects r cfg)" and "pod_template ob = Some tpl"
    and "match_labels ob = Some sel"
  shows "labels_match sel (tpl_Labels tpl) \<and> mounts_have_volumes (tpl_Spec tpl)
    \<and> (\<exists>sa. OServiceAccount sa \<in> set (rbac_objects r cfg False)
         \<and> Name (sa_meta sa) = ServiceAccountName (tpl_Spec tpl)
         \<and> Namespace (sa_meta sa) = GetNamespace ob)"
proof -
  obtain component account where c: "match_labels ob = Some (selectorLabels cfg component)"
      "tpl_Labels tpl = selectorLabels cfg component"
      "ServiceAccountName (tpl_Spec tpl) = account @ ''-'' @ cfg_name cfg"
      "account \<in> set account_components" "mounts_have_volumes (tpl_Spec tpl)"
    by (rule component_workload [OF assms(1,2)])
  have ns: "GetNamespace ob = r_Namespace r"
    using assms(1,2) by (auto simp: component_objects_def Let_def GetNamespace_def builder_simps split: if_splits)
  from c(4) have "OServiceAccount (ServiceAccount cfg account (r_Namespace r)) \<in> set (rbac_objects r cfg False)"
    by (simp add: rbac_objects_def account_objects_def)
  moreover have "Name (sa_meta (ServiceAccount cfg account (r_Namespace r))) = ServiceAccountName (tpl_Spec tpl)"
    "Namespace (sa_meta (ServiceAccount cfg account (r_Namespace r))) = GetNamespace ob"
    by (simp_all add: ServiceAccount_def c(3) ns)
  ultimately have "\<exists>sa. OServiceAccount sa \<in> set (rbac_objects r cfg False)
         \<and> Name (sa_meta sa) = ServiceAccountName (tpl_Spec tpl) \<and> Namespace (sa_meta sa) = GetNamespace ob"
    by blast
  with c assms(3) show ?thesis by (simp add: selectorLabels_match)
qed

theorem workloads_well_formed_witness:
  "mounts_have_volumes (tpl_Spec (ds_Template
     (DevicePluginDaemonSet (r_Env mem_reconciler) (demo_cfg ''t4'') ''fake-gpu-operator'')))"
proof -
  let ?d = "DevicePluginDaemonSet (r_Env mem_reconciler) (demo_cfg ''t4'') ''fake-gpu-operator''"
  have "ODaemonSet ?d \<in> set (component_objects mem_reconciler (demo_cfg ''t4''))"
    by (simp add: component_objects_def Let_def)
  from workloads_well_formed [OF this pod_template.simps(1) match_labels.simps(1)] show ?thesis by blast
qed

text \<open>The kind and the stem of the name of the workload of a component.\<close>

definition workload_stems :: "(string \<times> kind \<times> string) list" where
  "workload_stems =
     [(''device-plugin'', KDaemonSet, ''device-plugin-''),
      (''metrics-exporter'', KDaemonSet, ''nvidia-dcgm-exporter-''),
      (''mig-faker'', KDaemonSet, ''mig-faker-''),
      (''dra-plugin'', KDaemonSet, ''dra-plugin-''),
      (''compute-domain-dra'', KDaemonSet, ''compute-domain-dra-''),
      (''status-updater'', KDeployment, ''status-updater-''),
      (''compute-domain-controller'', KDeployment, ''compute-domain-controller-''),
      (''topology-server'', KDeployment, ''topology-server-'')]"

definition keyed :: "FakeGPUConfig \<Rightarrow> string \<Rightarrow> obj \<Rightarrow> bool" where
  "keyed cfg ns ob \<longleftrightarrow>
     (\<exists>c kd stem. go_lookup (Labels (obj_meta ob)) keyComponent = Some c
        \<and> map_of workload_stems c = Some (kd, stem) \<and> obj_key ob = (kd, ns, stem @ cfg_name cfg))"

lemma keyedI:
  "Labels (obj_meta ob) = commonLabels cfg c \<Longrightarrow> obj_key ob = (kd, ns, stem @ cfg_name cfg) \<Longrightarrow>
   map_of workload_stems c = Some (kd, stem) \<Longrightarrow> keyed cfg ns ob"
  unfolding keyed_def by (intro exI conjI) simp_all

lemma keyed_facts:
  "keyed cfg ns (ODaemonSet (DevicePluginDaemonSet env cfg ns))"
  "keyed cfg ns (ODaemonSet (MetricsExporterDaemonSet env cfg ns))"
  "keyed cfg ns (ODaemonSet (MIGFakerDaemonSet env cfg ns))"
  "keyed cfg ns (ODaemonSet (DRAPluginDaemonSet env cfg ns))"
  "keyed cfg ns (ODaemonSet (ComputeDomainDRADaemonSet env cfg ns))"
  "keyed cfg ns (ODeployment (StatusUpdaterDeployment env cfg ns))"
  "keyed cfg ns (ODeployment (ComputeDomainControllerDeployment env cfg ns))"
  "keyed cfg ns (ODeployment (TopologyServerDeployment env cfg ns))"
  by (rule keyedI [OF dp_ds.build_labels dp_ds.build_key], simp add: workload_stems_def,
      rule keyedI [OF me_ds.build_labels me_ds.build_key], simp add: workload_stems_def,
      rule keyedI [OF mig_ds.build_labels mig_ds.build_key], simp add: workload_stems_def,
      rule keyedI [OF dra_ds.build_labels dra_ds.build_key], simp add: workload_stems_def,
      rule keyedI [OF cd_ds.build_labels cd_ds.build_key], simp add: workload_stems_def,
      rule keyedI [OF su_dep.build_labels su_dep.build_key], simp add: workload_stems_def,
      rule keyedI [OF cd_dep.build_labels cd_dep.build_key], simp add: workload_stems_def,
      rule keyedI [OF ts_dep.build_labels ts_dep.build_key], simp add: workload_stems_def)

lemma component_keyed:
  "ob \<in> set (component_objects r cfg) \<Longrightarrow> pod_template ob = Some tpl \<Longrightarrow> keyed cfg (r_Namespace r) ob"
  by (auto simp: component_objects_def Let_def keyed_facts split: if_splits)

text \<open>
  C29: workloads do not adopt each other's pods. If the selector of a workload of one
  configuration matches the pod template of a workload of another (or the same), both are the
  same workload of a configuration of the same name.
\<close>

theorem selectors_exclusive:
  assumes "ob \<in> set (component_objects r cfg)" and "match_labels ob = Some sel"
    and "ob' \<in> set (component_objects r cfg')" and "pod_template ob' = Some tpl'"
    and "labels_match sel (tpl_Labels tpl')"
  shows "cfg_name cfg = cfg_name cfg' \<and> obj_key ob = obj_key ob'"
proof -
  obtain tpl where tpl: "pod_template ob = Some tpl" using assms(2) by (cases ob) auto
  obtain c where c: "match_labels ob = Some (selectorLabels cfg c)"
      "go_lookup (Labels (obj_meta ob)) keyComponent = Some c"
    by (rule component_workload [OF assms(1) tpl])
  obtain c' where c': "tpl_Labels tpl' = selectorLabels cfg' c'"
      "go_lookup (Labels (obj_meta ob')) keyComponent = Some c'"
    by (rule component_workload [OF assms(3,4)])
  from assms(2,5) c(1) c'(1) have name: "cfg_name cfg = cfg_name cfg'" and comp: "c = c'"
    by (auto simp: selectorLabels_match)
  obtain kd stem where k: "map_of workload_stems c = Some (kd, stem)"
      "obj_key ob = (kd, r_Namespace r, stem @ cfg_name cfg)"
    using component_keyed [OF assms(1) tpl] c(2) unfolding keyed_def by auto
  obtain kd' stem' where k': "map_of workload_stems c' = Some (kd', stem')"
      "obj_key ob' = (kd', r_Namespace r, stem' @ cfg_name cfg')"
    using component_keyed [OF assms(3,4)] c'(2) unfolding keyed_def by auto
  from k k' name comp show ?thesis by simp
qed

theorem selectors_exclusive_witness:
  "\<not> labels_match (selectorLabels (demo_cfg ''t4'') ''device-plugin'')
     (tpl_Labels (ds_Template (MetricsExporterDaemonSet (r_Env mem_reconciler) (demo_cfg ''t4'') ''fake-gpu-operator'')))"
proof
  let ?cfg = "demo_cfg ''t4''" and ?env = "r_Env mem_reconciler" and ?ns = "''fake-gpu-operator''"
  let ?d = "DevicePluginDaemonSet ?env ?cfg ?ns" and ?e = "MetricsExporterDaemonSet ?env ?cfg ?ns"
  assume m: "labels_match (selectorLabels ?cfg ''device-plugin'') (tpl_Labels (ds_Template ?e))"
  have d: "ODaemonSet ?d \<in> set (component_objects mem_reconciler ?cfg)"
    and e: "ODaemonSet ?e \<in> set (component_objects mem_reconciler ?cfg)"
    by (simp_all add: component_objects_def Let_def on_by_default_def demo_cfg_def)
  have "match_labels (ODaemonSet ?d) = Some (selectorLabels ?cfg ''device-plugin'')"
    by (simp add: builder_simps)
  from selectors_exclusive [OF d this e pod_template.simps(1) m] show False by simp
qed

text \<open>
  C30: each service reaches the pods of its own component and configuration and no others, and
  each of its target ports is a port of a container of these pods.
\<close>

theorem services_reach_their_pods:
  assumes "OService svc \<in> set (component_objects r cfg)"
    and "ob \<in> set (component_objects r cfg')" and "pod_template ob = Some tpl"
  shows "(labels_match (Selector svc) (tpl_Labels tpl) \<longleftrightarrow>
      cfg_name cfg = cfg_name cfg'
      \<and> go_lookup (Labels (svc_meta svc)) keyComponent = go_lookup (Labels (obj_meta ob)) keyComponent)
    \<and> (labels_match (Selector svc) (tpl_Labels tpl) \<longrightarrow>
      list_all (\<lambda>p. list_ex (\<lambda>ct. TargetPort p \<in> set (map ContainerPort_number (Ports ct)))
        (Containers (tpl_Spec tpl))) (svc_Ports svc))"
proof -
  have svc: "svc = MetricsExporterService cfg (r_Namespace r) \<or> svc = TopologyServerService cfg (r_Namespace r)"
    using assms(1) by (auto simp: component_objects_def Let_def split: if_splits)
  obtain c where c: "tpl_Labels tpl = selectorLabels cfg' c"
      "go_lookup (Labels (obj_meta ob)) keyComponent = Some c"
    by (rule component_workload [OF assms(2,3)])
  have port: "c = ''metrics-exporter'' \<Longrightarrow>
      list_ex (\<lambda>ct. 9400 \<in> set (map ContainerPort_number (Ports ct))) (Containers (tpl_Spec tpl))"
    and port': "c = ''topology-server'' \<Longrightarrow>
      list_ex (\<lambda>ct. 8080 \<in> set (map ContainerPort_number (Ports ct))) (Containers (tpl_Spec tpl))"
    using assms(2,3) c(2) unfolding component_objects_def Let_def
    by (auto simp: builder_simps split: if_splits)
  from svc show ?thesis
    using port port' c by (auto simp: MetricsExporterService_def TopologyServerService_def selectorLabels_match)
qed

theorem services_reach_their_pods_witness:
  "labels_match (Selector (TopologyServerService (demo_cfg ''t4'') ''fake-gpu-operator''))
     (tpl_Labels (dep_Template (TopologyServerDeployment (r_Env mem_reconciler) (demo_cfg ''t4'') ''fake-gpu-operator'')))"
proof -
  let ?cfg = "demo_cfg ''t4''" and ?ns = "''fake-gpu-operator''"
  let ?d = "TopologyServerDeployment (r_Env mem_reconciler) ?cfg ?ns"
  have s: "OService (TopologyServerService ?cfg ?ns) \<in> set (component_objects mem_reconciler ?cfg)"
    and d: "ODeployment ?d \<in> set (component_objects mem_reconciler ?cfg)"
    by (simp_all add: component_objects_def Let_def on_by_default_def demo_cfg_def)
  from services_reach_their_pods [OF s d pod_template.simps(2)] show ?thesis
    by (simp add: builder_simps)
qed

section \<open>Roles and bindings\<close>

text \<open>
  C31: the RBAC objects of a configuration are closed. Every binding refers to a ClusterRole that
  is created with it, and each of its subjects is a service account that is created too, in the
  namespace where the pods run.
\<close>

theorem bindings_resolve:
  assumes "OClusterRoleBinding bd \<in> set (rbac_objects r cfg os)"
  shows "(\<exists>role. OClusterRole role \<in> set (rbac_objects r cfg os)
      \<and> Name (role_meta role) = ref_Name (binding_RoleRef bd))
    \<and> (\<forall>sub \<in> set (Subjects bd). \<exists>sa. OServiceAccount sa \<in> set (rbac_objects r cfg os)
        \<and> subj_Kind sub = ''ServiceAccount'' \<and> Name (sa_meta sa) = subj_Name sub
        \<and> Namespace (sa_meta sa) = subj_Namespace sub)"
proof -
  have sa: "OServiceAccount (ServiceAccount cfg c (r_Namespace r)) \<in> set (rbac_objects r cfg os)"
    if "c \<in> set account_components" for c
    using that by (simp add: rbac_objects_def account_objects_def)
  have sub: "\<exists>sa. OServiceAccount sa \<in> set (rbac_objects r cfg os)
      \<and> subj_Kind s = ''ServiceAccount'' \<and> Name (sa_meta sa) = subj_Name s
      \<and> Namespace (sa_meta sa) = subj_Namespace s"
    if "s = sa_subject (c @ ''-'' @ cfg_name cfg) (r_Namespace r)" "c \<in> set account_components" for s c
    using sa [OF that(2)] that(1) by (auto simp: sa_subject_def ServiceAccount_def intro!: exI)
  from assms have bd: "bd \<in> {ClusterRoleBinding cfg ''device-plugin'' (r_Namespace r) (DevicePluginClusterRole cfg),
      ClusterRoleBinding cfg ''status-updater'' (r_Namespace r) (StatusUpdaterClusterRole cfg),
      ClusterRoleBinding cfg ''metrics-exporter'' (r_Namespace r) (MetricsExporterClusterRole cfg)}
      \<or> os \<and> bd = SCCClusterRoleBinding cfg (r_Namespace r)"
    by (auto simp: rbac_objects_def account_objects_def role_objects_def scc_objects_def split: if_splits)
  then have "\<forall>s \<in> set (Subjects bd). \<exists>c \<in> set account_components.
      s = sa_subject (c @ ''-'' @ cfg_name cfg) (r_Namespace r)"
    by (auto simp: ClusterRoleBinding_def SCCClusterRoleBinding_def account_components_def)
  with sub have "\<forall>s \<in> set (Subjects bd). \<exists>sa. OServiceAccount sa \<in> set (rbac_objects r cfg os)
        \<and> subj_Kind s = ''ServiceAccount'' \<and> Name (sa_meta sa) = subj_Name s
        \<and> Namespace (sa_meta sa) = subj_Namespace s" by blast
  moreover have "\<exists>role. OClusterRole role \<in> set (rbac_objects r cfg os)
      \<and> Name (role_meta role) = ref_Name (binding_RoleRef bd)"
  proof -
    have roles: "OClusterRole (DevicePluginClusterRole cfg) \<in> set (rbac_objects r cfg os)"
      "OClusterRole (StatusUpdaterClusterRole cfg) \<in> set (rbac_objects r cfg os)"
      "OClusterRole (MetricsExporterClusterRole cfg) \<in> set (rbac_objects r cfg os)"
      "os \<Longrightarrow> OClusterRole (SCCClusterRole cfg) \<in> set (rbac_objects r cfg os)"
      by (simp_all add: rbac_objects_def role_objects_def scc_objects_def)
    have ref: "ref_Name (binding_RoleRef (ClusterRoleBinding cfg c ns role)) = Name (role_meta role)" for c ns role
      by (simp add: ClusterRoleBinding_def)
    have "ref_Name (binding_RoleRef (SCCClusterRoleBinding cfg (r_Namespace r))) = Name (role_meta (SCCClusterRole cfg))"
      by (simp add: SCCClusterRoleBinding_def SCCClusterRole_def)
    with bd roles ref show ?thesis by (elim disjE insertE conjE) (metis | blast)+
  qed
  ultimately show ?thesis by blast
qed

theorem bindings_resolve_witness:
  "\<exists>role. OClusterRole role \<in> set (rbac_objects mem_reconciler (demo_cfg ''t4'') True)
     \<and> Name (role_meta role) = ''fake-gpu-scc-demo''"
proof -
  have "OClusterRoleBinding (SCCClusterRoleBinding (demo_cfg ''t4'') ''fake-gpu-operator'')
      \<in> set (rbac_objects mem_reconciler (demo_cfg ''t4'') True)"
    by (simp add: rbac_objects_def scc_objects_def)
  from bindings_resolve [OF this] show ?thesis by (simp add: SCCClusterRoleBinding_def)
qed

text \<open>
  C32: the operator holds every permission of the roles it creates for the device plugin, the
  metrics exporter and OpenShift, and all but one of those it creates for the status updater:
  it may not patch pods itself. Kubernetes refuses that role to a subject without the escalate
  verb, which no marker asks for.
\<close>

theorem role_permissions_held:
  "escalations manager_rules (DevicePluginClusterRole cfg) = []
   \<and> escalations manager_rules (MetricsExporterClusterRole cfg) = []
   \<and> escalations manager_rules (SCCClusterRole cfg) = []
   \<and> escalations manager_rules (StatusUpdaterClusterRole cfg) = [([], ''pods'', ''patch'')]
   \<and> ''escalate'' \<notin> set (concat (map Verbs manager_rules))"
  by (simp add: escalation_defs builder_simps)

fun bound_subjects :: "obj list \<Rightarrow> string list" where
  "bound_subjects [] = []"
| "bound_subjects (OClusterRoleBinding bd # obs) = map subj_Name (Subjects bd) @ bound_subjects obs"
| "bound_subjects (_ # obs) = bound_subjects obs"

text \<open>
  The topology server runs without permissions. Its pods run under the account
  topology-server, which no binding of the configuration names, although it is given the
  ConfigMap it should read.
\<close>

lemma topology_server_unbound:
  "ServiceAccountName (tpl_Spec (dep_Template (TopologyServerDeployment env cfg ns))) = ''topology-server-'' @ cfg_name cfg
   \<and> ''topology-server-'' @ cfg_name cfg \<notin> set (bound_subjects (rbac_objects r cfg os))"
  by (simp add: rbac_objects_def account_objects_def account_components_def role_objects_def scc_objects_def
      ClusterRoleBinding_def SCCClusterRoleBinding_def sa_subject_def TopologyServerDeployment_def)

section \<open>Images\<close>

text \<open>
  Which image a component runs, in the documented order: an override of the component wins
  unconditionally; otherwise registry and tag are taken from the configuration, else from the
  environment of the operator, else the built-in defaults, around the component's repository.
\<close>

lemma image_precedence:
  "imageFor env cfg c =
     (case Option.bind (Images (Spec cfg)) (\<lambda>im. go_lookup (Overrides im) c) of
        Some img \<Rightarrow> img
      | None \<Rightarrow>
          hd (filter (\<lambda>s. s \<noteq> []) [case Images (Spec cfg) of None \<Rightarrow> [] | Some im \<Rightarrow> Registry im,
                env ''RELATED_IMAGE_REGISTRY'', defaultImageRegistry])
          @ ''/'' @ go_index componentRepos c @ '':''
          @ hd (filter (\<lambda>s. s \<noteq> []) [case Images (Spec cfg) of None \<Rightarrow> [] | Some im \<Rightarrow> Tag im,
                env ''RELATED_IMAGE_TAG'', defaultImageTag]))"
  by (cases "Images (Spec cfg)")
    (simp_all add: imageFor_def Image_def Let_def DefaultRegistry_def DefaultTag_def
      defaultImageRegistry_def defaultImageTag_def split: option.split)

section \<open>Configuration data\<close>

text \<open>
  C33: a node's topology lists exactly as many GPUs as the configuration asks for (none for a
  count that is not positive), in order and each with an identifier of its own; in particular
  the signed 32-bit counter of the loop does not wrap.
\<close>

theorem gpu_entries_exact:
  "\<exists>ids. gpuEntries nodeName cfg = map (gpu_entry nodeName) ids
    \<and> distinct (map (gpu_id nodeName) ids)
    \<and> map sint ids = [0..sint (GPUCount (Spec cfg)) - 1]
    \<and> length (gpuEntries nodeName cfg) = nat (sint (GPUCount (Spec cfg)))"
proof -
  let ?n = "sint (GPUCount (Spec cfg))"
  let ?ids = "map (\<lambda>j. word_of_int j :: int32) [0..?n - 1]"
  have lt: "?n < 2 ^ 31" using sint_lt [of "GPUCount (Spec cfg)"] by simp
  have "map sint ?ids = map (\<lambda>j. j) [0..?n - 1]"
    unfolding map_map comp_def
  proof (rule map_cong [OF refl])
    fix j
    assume "j \<in> set [0..?n - 1]"
    with lt show "sint (word_of_int j :: int32) = j"
      by (simp add: signed_of_int signed_take_bit_int_eq_self)
  qed
  then have sint: "map sint ?ids = [0..?n - 1]" by simp
  then have "distinct (map sint ?ids)" by simp
  then have "distinct ?ids" by (simp only: distinct_map)
  then have "distinct (map (gpu_id nodeName) ?ids)"
    by (auto simp: distinct_map inj_on_def dest: gpu_id_inject)
  with sint show ?thesis
    by (intro exI [of _ ?ids]) (simp add: gpuEntries_eq comp_def)
qed

text \<open>
  The memory of the GPU profile is converted to bytes without overflow: the 64-bit product
  is the memory in MiB times 2^20, for every 32-bit value.
\<close>

lemma total_bytes_exact:
  "sint (total_bytes profile) = sint (Memory profile) * 2 ^ 20"
  by (simp add: sint_total_bytes)

section \<open>Profiles\<close>

text \<open>
  C34: admission and resolution agree. For a specification that the schema of the resource
  admits, the profile resolves unless neither a profile nor a custom GPU is given, and the error
  is then the one that says so; an unknown profile cannot occur.
\<close>

theorem admitted_profiles_resolve:
  assumes "schema_valid (Spec cfg)"
  shows "(case resolveProfile cfg of
      Inr p \<Rightarrow> 0 < sint (Memory p) \<and> (Custom (Spec cfg) = None \<longrightarrow> prof_Name p = spec_GPUProfile (Spec cfg))
    | Inl msg \<Rightarrow> Custom (Spec cfg) = None \<and> spec_GPUProfile (Spec cfg) = []
        \<and> msg = ''either gpuProfile or custom must be specified'')"
proof (cases "Custom (Spec cfg)")
  case (Some c)
  with assms show ?thesis by (simp add: resolveProfile_def customProfile_def schema_valid_def)
next
  case None
  show ?thesis
  proof (cases "spec_GPUProfile (Spec cfg) = []")
    case True
    with None show ?thesis by (simp add: resolveProfile_def)
  next
    case False
    with assms have "spec_GPUProfile (Spec cfg) \<in> set profile_enum" by (simp add: schema_valid_def)
    with profiles_Get_Some_iff obtain p where p: "profiles_Get (spec_GPUProfile (Spec cfg)) = Some p" by blast
    from profiles_Get_in_table [OF p] ProfileTable_ok have "profile_ok (spec_GPUProfile (Spec cfg), p)"
      by (auto simp: list_all_iff)
    with None False p show ?thesis by (simp add: resolveProfile_def profile_ok_def)
  qed
qed

theorem admitted_profiles_resolve_witness:
  "\<not> isl (resolveProfile (demo_cfg ''l40s''))"
proof -
  have "schema_valid (Spec (demo_cfg ''l40s''))"
    by (simp add: schema_valid_def demo_cfg_def profile_enum_def)
  from admitted_profiles_resolve [OF this] show ?thesis by (auto split: sum.splits)
qed

text \<open>
  The profile table is consistent: the lookup succeeds exactly on the profiles that the
  schema lists; every row is filed under its own name, has memory, and lists MIG families
  exactly when it is MIG capable; the slices of each family, times its count, fit in the seven
  slices of a GPU.
\<close>

lemma profile_table_consistent:
  "((\<exists>p. profiles_Get n = Some p) = (n \<in> set profile_enum)) \<and> list_all profile_ok ProfileTable"
  using profiles_Get_Some_iff ProfileTable_ok by blast

section \<open>Keys\<close>

end
