(* ===== verification/Watches.thy ===== *)
theory Watches
  imports Controller
begin

text \<open>
  What makes the controller run: \<open>SetupWithManager\<close> of
  \<open>internal/controller/fakegpuconfig_controller.go\<close>, the API group of
  \<open>api/v1alpha1/groupversion_info.go\<close>, and the requests an event of the cluster enqueues. How
  controller-runtime maps an object to its owners is a parameter (\<open>owners\<close>), an argument of
  the definitions.
\<close>

section \<open>The API group\<close>

definition GroupVersion :: "string \<times> string" where
  "GroupVersion = (''gpu.openshift.io'', ''v1alpha1'')"

text \<open>The kinds that \<open>init\<close> of \<open>fakegpuconfig_types.go\<close> registers for the group.\<close>

definition registered_kinds :: "string list" where
  "registered_kinds = [''FakeGPUConfig'', ''FakeGPUConfigList'']"

section \<open>The watches\<close>

datatype watch = ForConfigs | Owns kind | WatchesNodes

definition SetupWithManager :: "string \<times> watch list" where
  "SetupWithManager =
     (''fakegpuconfig'',
      [ForConfigs, Owns KDaemonSet, Owns KDeployment, Owns KConfigMap, Owns KServiceAccount,
       Owns KService, WatchesNodes])"

text \<open>
  What the handlers of the watches are handed: a configuration, an object, a node, or, for an
  update of a node, the old and the new one. That the mapping functions are called with these, and
  that the requests they return are enqueued, is documented behaviour of controller-runtime
  (\<open>EnqueueRequestsFromMapFunc\<close> maps both objects of an update and enqueues the union); the
  mapping functions themselves are the code's (\<open>nodeToFakeGPUConfig\<close>) or a parameter (\<open>owners\<close>).
\<close>

datatype watch_event = ConfigEvent string | ObjectEvent obj | NodeEvent Node | NodeUpdate Node Node

definition requests_of ::
  "('s, 'e) Reconciler \<Rightarrow> (ObjectMeta \<Rightarrow> string list) \<Rightarrow> watch \<Rightarrow> watch_event \<Rightarrow> ('s, string list) prog" where
  "requests_of r owners wt ev =
     (case (wt, ev) of
        (ForConfigs, ConfigEvent n) \<Rightarrow> State_Monad.return [n]
      | (Owns kd, ObjectEvent ob) \<Rightarrow>
          State_Monad.return (if obj_kind ob = kd then owners (obj_meta ob) else [])
      | (WatchesNodes, NodeEvent node) \<Rightarrow> nodeToFakeGPUConfig r node
      | (WatchesNodes, NodeUpdate old new) \<Rightarrow>
          do {
            before \<leftarrow> nodeToFakeGPUConfig r old;
            after \<leftarrow> nodeToFakeGPUConfig r new;
            State_Monad.return (before @ filter (\<lambda>n. n \<notin> set before) after)
          }
      | _ \<Rightarrow> State_Monad.return [])"

fun requests_of_all ::
  "('s, 'e) Reconciler \<Rightarrow> (ObjectMeta \<Rightarrow> string list) \<Rightarrow> watch list \<Rightarrow> watch_event \<Rightarrow> ('s, string list) prog" where
  "requests_of_all r owners [] ev = State_Monad.return []"
| "requests_of_all r owners (wt # wts) ev =
     do {
       reqs \<leftarrow> requests_of r owners wt ev;
       more \<leftarrow> requests_of_all r owners wts ev;
       State_Monad.return (reqs @ more)
     }"

definition enqueued ::
  "('s, 'e) Reconciler \<Rightarrow> (ObjectMeta \<Rightarrow> string list) \<Rightarrow> watch_event \<Rightarrow> ('s, string list) prog" where
  "enqueued r owners ev = requests_of_all r owners (snd SetupWithManager) ev"

text \<open>
  The documented behaviour of the handler behind \<open>Owns\<close>: it enqueues names of owner references
  of the object.
\<close>

definition names_owners :: "(ObjectMeta \<Rightarrow> string list) \<Rightarrow> bool" where
  "names_owners owners \<longleftrightarrow> (\<forall>m. set (owners m) \<subseteq> owner_name ` set (OwnerReferences m))"

lemma enqueued_simps [simp]:
  "enqueued r owners (ConfigEvent n) = State_Monad.return [n]"
  "enqueued r owners (NodeEvent node) = nodeToFakeGPUConfig r node"
  "enqueued r owners (NodeUpdate old new) =
     do {
       before \<leftarrow> nodeToFakeGPUConfig r old;
       after \<leftarrow> nodeToFakeGPUConfig r new;
       State_Monad.return (before @ filter (\<lambda>n. n \<notin> set before) after)
     }"
  by (simp_all add: enqueued_def SetupWithManager_def requests_of_def)

lemma unowned_requests:
  assumes "names_owners owners" and "OwnerReferences (obj_meta ob) = []"
  shows "requests_of_all r owners wts (ObjectEvent ob) = State_Monad.return []"
proof (induction wts)
  case (Cons wt wts)
  have "set (owners (obj_meta ob)) \<subseteq> {}"
    using assms by (simp add: names_owners_def) (metis image_empty set_empty2 subset_empty)
  then have "owners (obj_meta ob) = []" by simp
  with Cons show ?case by (simp add: requests_of_def split: watch.split)
qed simp

end
