(* ===== verification/Watch_Facts.thy ===== *)
theory Watch_Facts
  imports Demo Watches
begin

text \<open>
  The properties of the controller's watches: which events of the cluster lead to a reconcile
  of which configurations.
\<close>

section \<open>Node events\<close>

lemma watch_agrees:
  assumes "list_all (\<lambda>(k, v). v \<noteq> []) (entries (nodeListOption cfg))"
  shows "nodeMatchesCfg node cfg \<longleftrightarrow> labels_match (nodeListOption cfg) (node_labels node)"
  using assms labels_match_nodeMatches [of cfg node] nodeMatches_labels_match [of cfg node]
  by (auto simp: list_all_iff)

lemma mapped_node:
  assumes "fst (c_list_cfgs (r_Client r) (server w)) = Inr items"
    and "\<forall>cfg \<in> set items. list_all (\<lambda>(k, v). v \<noteq> []) (entries (nodeListOption cfg))"
  shows "fst (run (nodeToFakeGPUConfig r node) w)
    = map cfg_name (filter (\<lambda>cfg. labels_match (nodeListOption cfg) (node_labels node)) items)"
proof -
  have "filter (nodeMatchesCfg node) items
      = filter (\<lambda>cfg. labels_match (nodeListOption cfg) (node_labels node)) items"
    using assms(2) by (intro filter_cong) (simp_all add: watch_agrees)
  with assms(1) show ?thesis
    by (simp add: nodeToFakeGPUConfig_def api_defs run_simps split: prod.split)
qed

lemma mapped_node_server: "server (snd (run (nodeToFakeGPUConfig r node) w)) = snd (c_list_cfgs (r_Client r) (server w))"
  by (simp add: nodeToFakeGPUConfig_def api_defs run_simps split: prod.split)

text \<open>
  C24: a change of a node leads to a reconcile of the right configurations. When the
  configurations can be listed and none of their selectors has an empty value, the event
  enqueues exactly the configurations whose selector selects the node in the server's own
  reading, each once and in the order of the list; an update of the node enqueues those that
  select the old or the new one, so that a node that leaves a selection is noticed, too.
\<close>

theorem node_events_reach_selecting_configs:
  assumes "fst (c_list_cfgs (r_Client r) (server w)) = Inr items"
    and "\<forall>cfg \<in> set items. list_all (\<lambda>(k, v). v \<noteq> []) (entries (nodeListOption cfg))"
  shows "fst (run (enqueued r owners (NodeEvent node)) w)
      = map cfg_name (filter (\<lambda>cfg. labels_match (nodeListOption cfg) (node_labels node)) items)
    \<and> (fst (c_list_cfgs (r_Client r) (snd (c_list_cfgs (r_Client r) (server w)))) = Inr items \<longrightarrow>
       set (fst (run (enqueued r owners (NodeUpdate old new)) w))
         = cfg_name ` {cfg \<in> set items. labels_match (nodeListOption cfg) (node_labels old)
             \<or> labels_match (nodeListOption cfg) (node_labels new)})"
proof (intro conjI impI)
  show "fst (run (enqueued r owners (NodeEvent node)) w)
      = map cfg_name (filter (\<lambda>cfg. labels_match (nodeListOption cfg) (node_labels node)) items)"
    by (simp add: mapped_node [OF assms])
  assume again: "fst (c_list_cfgs (r_Client r) (snd (c_list_cfgs (r_Client r) (server w)))) = Inr items"
  obtain xs w1 where w1: "run (nodeToFakeGPUConfig r old) w = (xs, w1)" by fastforce
  with mapped_node_server [of r old w] again have "fst (c_list_cfgs (r_Client r) (server w1)) = Inr items" by simp
  from mapped_node [OF this assms(2), of new] mapped_node [OF assms, of old] w1
  show "set (fst (run (enqueued r owners (NodeUpdate old new)) w))
      = cfg_name ` {cfg \<in> set items. labels_match (nodeListOption cfg) (node_labels old)
          \<or> labels_match (nodeListOption cfg) (node_labels new)}"
    by (auto simp: split_beta)
qed

theorem node_events_reach_selecting_configs_witness:
  "fst (run (enqueued mem_reconciler (\<lambda>_. []) (NodeEvent demo_node)) (demo_world (demo_cfg ''t4'') [])) = [''demo'']"
proof -
  have "fst (c_list_cfgs (r_Client mem_reconciler) (server (demo_world (demo_cfg ''t4'') []))) = Inr [demo_cfg ''t4'']"
    by (simp add: mem_client_def mem_list_cfgs_def)
  from node_events_reach_selecting_configs [OF this, of "\<lambda>_. []" demo_node] show ?thesis
    by (simp add: nodeListOption_def demo_cfg_def demo_node_def go_len_def labels_match_def go_simps)
qed

text \<open>
  C25: with an empty value the two readings differ. A selector such as the README's
  node-role.kubernetes.io/worker with the value "" matches, in the watch, every node that lacks
  the label, because a missing key of a Go map reads as ""; the server does not select the node.
\<close>

theorem watch_overmatches_empty_value:
  assumes "NodeSelector (Spec cfg) = GoMap [(k, [])]" and "go_lookup (node_labels node) k = None"
  shows "nodeMatchesCfg node cfg \<and> \<not> labels_match (nodeListOption cfg) (node_labels node)"
  using assms by (simp add: nodeMatchesCfg_def nodeListOption_def go_len_def go_index_def)

theorem watch_overmatches_empty_value_witness:
  "\<exists>cfg. nodeMatchesCfg demo_node cfg \<and> \<not> labels_match (nodeListOption cfg) (node_labels demo_node)"
proof -
  let ?cfg = "(demo_cfg ''t4'')\<lparr>Spec := (Spec (demo_cfg ''t4''))
    \<lparr>NodeSelector := GoMap [(''node-role.kubernetes.io/worker'', [])]\<rparr>\<rparr>"
  have "nodeMatchesCfg demo_node ?cfg \<and> \<not> labels_match (nodeListOption ?cfg) (node_labels demo_node)"
    by (rule watch_overmatches_empty_value [where k = "''node-role.kubernetes.io/worker''"])
      (simp_all add: demo_node_def go_simps)
  then show ?thesis by blast
qed

section \<open>Events of the objects the operator writes\<close>

text \<open>No call stores an object that carries an owner reference.\<close>

definition stores_unowned :: "event \<Rightarrow> bool" where
  "stores_unowned ev \<longleftrightarrow> (\<forall>ob. stored_obj (fst ev) = Some ob \<longrightarrow> OwnerReferences (obj_meta ob) = [])"

lemma stores_unowned_other [simp]: "stored_obj c = None \<Longrightarrow> stores_unowned (c, b)"
  by (simp add: stores_unowned_def)









end
