(* ===== verification/Flags.thy ===== *)
theory Flags
  imports Prelude
begin

text \<open>
  The command line of the operator: the flags that \<open>cmd/main.go\<close> declares, with their defaults,
  and \<open>flag.Parse\<close> of Go's standard library. Flags that other packages register in the same
  set (those of \<open>zap.Options.BindFlags\<close> and of the client configuration) are a parameter.
\<close>

section \<open>The settings of \<open>main\<close>\<close>

record settings =
  metricsAddr :: string
  probeAddr :: string
  enableLeaderElection :: bool
  secureMetrics :: bool
  webhookCertPath :: string
  webhookCertName :: string
  webhookCertKey :: string
  metricsCertPath :: string
  metricsCertName :: string
  metricsCertKey :: string
  enableHTTP2 :: bool

definition default_settings :: settings where
  "default_settings =
     \<lparr>metricsAddr = ''0'', probeAddr = '':8081'', enableLeaderElection = False, secureMetrics = True,
      webhookCertPath = [], webhookCertName = ''tls.crt'', webhookCertKey = ''tls.key'',
      metricsCertPath = [], metricsCertName = ''tls.crt'', metricsCertKey = ''tls.key'',
      enableHTTP2 = False\<rparr>"

text \<open>\<open>flag.StringVar\<close> and \<open>flag.BoolVar\<close>: how a value reaches its variable.\<close>

definition string_flags :: "(string \<times> (string \<Rightarrow> settings \<Rightarrow> settings)) list" where
  "string_flags =
     [(''metrics-bind-address'', \<lambda>v. metricsAddr_update (\<lambda>_. v)),
      (''health-probe-bind-address'', \<lambda>v. probeAddr_update (\<lambda>_. v)),
      (''webhook-cert-path'', \<lambda>v. webhookCertPath_update (\<lambda>_. v)),
      (''webhook-cert-name'', \<lambda>v. webhookCertName_update (\<lambda>_. v)),
      (''webhook-cert-key'', \<lambda>v. webhookCertKey_update (\<lambda>_. v)),
      (''metrics-cert-path'', \<lambda>v. metricsCertPath_update (\<lambda>_. v)),
      (''metrics-cert-name'', \<lambda>v. metricsCertName_update (\<lambda>_. v)),
      (''metrics-cert-key'', \<lambda>v. metricsCertKey_update (\<lambda>_. v))]"

definition bool_flags :: "(string \<times> (bool \<Rightarrow> settings \<Rightarrow> settings)) list" where
  "bool_flags =
     [(''leader-elect'', \<lambda>b. enableLeaderElection_update (\<lambda>_. b)),
      (''metrics-secure'', \<lambda>b. secureMetrics_update (\<lambda>_. b)),
      (''enable-http2'', \<lambda>b. enableHTTP2_update (\<lambda>_. b))]"

section \<open>Parsing\<close>

text \<open>\<open>strconv.ParseBool\<close>\<close>

definition parse_bool :: "string \<Rightarrow> bool option" where
  "parse_bool v =
     (if v \<in> set [''1'', ''t'', ''T'', ''true'', ''TRUE'', ''True''] then Some True
      else if v \<in> set [''0'', ''f'', ''F'', ''false'', ''FALSE'', ''False''] then Some False
      else None)"

text \<open>
  A flag of the set: one of \<open>main\<close>, or one of another package, of which only matters whether
  it is boolean and which values it accepts.
\<close>

datatype a_flag =
    StringFlag "string \<Rightarrow> settings \<Rightarrow> settings"
  | BoolFlag "bool \<Rightarrow> settings \<Rightarrow> settings"
  | OtherFlag bool "string \<Rightarrow> bool"

definition find_flag :: "(string \<Rightarrow> (bool \<times> (string \<Rightarrow> bool)) option) \<Rightarrow> string \<Rightarrow> a_flag option" where
  "find_flag others name =
     (case map_of string_flags name of
        Some f \<Rightarrow> Some (StringFlag f)
      | None \<Rightarrow>
          (case map_of bool_flags name of
             Some f \<Rightarrow> Some (BoolFlag f)
           | None \<Rightarrow> map_option (\<lambda>(b, ok). OtherFlag b ok) (others name)))"

fun is_bool_flag :: "a_flag \<Rightarrow> bool" where
  "is_bool_flag (BoolFlag _) = True"
| "is_bool_flag (OtherFlag b _) = b"
| "is_bool_flag (StringFlag _) = False"

text \<open>The \<open>Set\<close> method of the flag's value: \<open>None\<close> for its error.\<close>

fun set_flag :: "a_flag \<Rightarrow> string \<Rightarrow> settings \<Rightarrow> settings option" where
  "set_flag (StringFlag f) v st = Some (f v st)"
| "set_flag (BoolFlag f) v st = map_option (\<lambda>b. f b st) (parse_bool v)"
| "set_flag (OtherFlag _ ok) v st = (if ok v then Some st else None)"

text \<open>One argument: the end of the flags, a syntax error, or a flag with its value, if any.\<close>

datatype argument_kind = NoFlag | BadSyntax | AFlag string "string option"

text \<open>\<open>=\<close> is looked for from the second character of the name on.\<close>

definition split_value :: "string \<Rightarrow> argument_kind" where
  "split_value name =
     (if name = [] \<or> hd name = CHR ''-'' \<or> hd name = CHR ''='' then BadSyntax
      else let n = takeWhile (\<lambda>c. c \<noteq> CHR ''='') name; rest = dropWhile (\<lambda>c. c \<noteq> CHR ''='') name in
        AFlag n (if rest = [] then None else Some (tl rest)))"

fun read_argument :: "string \<Rightarrow> argument_kind" where
  "read_argument (a # b # s) =
     (if a \<noteq> CHR ''-'' then NoFlag
      else if b = CHR ''-'' then (if s = [] then NoFlag else split_value s)
      else split_value (b # s))"
| "read_argument _ = NoFlag"

text \<open>
  \<open>flag.Parse\<close> with \<open>ExitOnError\<close>: the settings, or the code the process exits with (0 for a
  request of help, 2 for an error).
\<close>

fun parse_flags :: "(string \<Rightarrow> (bool \<times> (string \<Rightarrow> bool)) option) \<Rightarrow> settings \<Rightarrow> string list \<Rightarrow> nat + settings" where
  "parse_flags others st [] = Inr st"
| "parse_flags others st (s # args) =
     (case read_argument s of
        NoFlag \<Rightarrow> Inr st
      | BadSyntax \<Rightarrow> Inl 2
      | AFlag name v \<Rightarrow>
          (case find_flag others name of
             None \<Rightarrow> Inl (if name \<in> {''help'', ''h''} then 0 else 2)
           | Some f \<Rightarrow>
               (if is_bool_flag f
                then (case set_flag f (case v of None \<Rightarrow> ''true'' | Some x \<Rightarrow> x) st of
                        None \<Rightarrow> Inl 2
                      | Some st' \<Rightarrow> parse_flags others st' args)
                else (case v of
                        Some x \<Rightarrow>
                          (case set_flag f x st of
                             None \<Rightarrow> Inl 2
                           | Some st' \<Rightarrow> parse_flags others st' args)
                      | None \<Rightarrow>
                          (case args of
                             [] \<Rightarrow> Inl 2
                           | x # args' \<Rightarrow>
                               (case set_flag f x st of
                                  None \<Rightarrow> Inl 2
                                | Some st' \<Rightarrow> parse_flags others st' args'))))))"

section \<open>Writing a command line\<close>

text \<open>The settings as arguments \<open>--name=value\<close>, all of them.\<close>

definition show_bool :: "bool \<Rightarrow> string" where
  "show_bool b = (if b then ''true'' else ''false'')"

definition flag_argument :: "string \<Rightarrow> string \<Rightarrow> string" where
  "flag_argument name v = ''--'' @ name @ ''='' @ v"

definition command_line :: "settings \<Rightarrow> string list" where
  "command_line st =
     [flag_argument ''metrics-bind-address'' (metricsAddr st),
      flag_argument ''health-probe-bind-address'' (probeAddr st),
      flag_argument ''webhook-cert-path'' (webhookCertPath st),
      flag_argument ''webhook-cert-name'' (webhookCertName st),
      flag_argument ''webhook-cert-key'' (webhookCertKey st),
      flag_argument ''metrics-cert-path'' (metricsCertPath st),
      flag_argument ''metrics-cert-name'' (metricsCertName st),
      flag_argument ''metrics-cert-key'' (metricsCertKey st),
      flag_argument ''leader-elect'' (show_bool (enableLeaderElection st)),
      flag_argument ''metrics-secure'' (show_bool (secureMetrics st)),
      flag_argument ''enable-http2'' (show_bool (enableHTTP2 st))]"

lemma parse_show_bool [simp]: "parse_bool (show_bool b) = Some b"
  by (simp add: parse_bool_def show_bool_def)

lemma split_at_eq:
  "CHR ''='' \<notin> set n \<Longrightarrow> takeWhile (\<lambda>c. c \<noteq> CHR ''='') (n @ CHR ''='' # v) = n"
  "CHR ''='' \<notin> set n \<Longrightarrow> dropWhile (\<lambda>c. c \<noteq> CHR ''='') (n @ CHR ''='' # v) = CHR ''='' # v"
  by (induction n) auto

lemma argument_flag_argument:
  "name \<noteq> [] \<Longrightarrow> CHR ''='' \<notin> set name \<Longrightarrow> hd name \<noteq> CHR ''-'' \<Longrightarrow>
   read_argument (flag_argument name v) = AFlag name (Some v)"
  by (cases name) (auto simp: flag_argument_def split_value_def Let_def split_at_eq)

text \<open>One argument sets its flag and nothing else.\<close>

lemma parse_string_argument:
  assumes "map_of string_flags name = Some f"
  shows "parse_flags others st (flag_argument name v # args) = parse_flags others (f v st) args"
proof -
  from map_of_SomeD [OF assms] have "name \<noteq> [] \<and> CHR ''='' \<notin> set name \<and> hd name \<noteq> CHR ''-''"
    by (auto simp: string_flags_def)
  then show ?thesis by (simp add: argument_flag_argument find_flag_def assms)
qed

lemma parse_bool_argument:
  assumes "map_of bool_flags name = Some f" and "parse_bool v = Some b"
  shows "parse_flags others st (flag_argument name v # args) = parse_flags others (f b st) args"
proof -
  from map_of_SomeD [OF assms(1)]
  have "name \<noteq> [] \<and> CHR ''='' \<notin> set name \<and> hd name \<noteq> CHR ''-''" and "map_of string_flags name = None"
    by (auto simp: bool_flags_def string_flags_def)
  then show ?thesis using assms by (simp add: argument_flag_argument find_flag_def)
qed

declare parse_flags.simps(2) [simp del]

text \<open>
  C38: the command line is read as it is written. Whatever the settings, the arguments that spell
  all of them out are parsed back to exactly these settings, without regard to the flags of
  other packages and to what the settings were before.
\<close>

theorem flags_roundtrip:
  "parse_flags others st0 (command_line st) = Inr st"
proof -
  have "st = \<lparr>metricsAddr = metricsAddr st, probeAddr = probeAddr st,
      enableLeaderElection = enableLeaderElection st, secureMetrics = secureMetrics st,
      webhookCertPath = webhookCertPath st, webhookCertName = webhookCertName st,
      webhookCertKey = webhookCertKey st, metricsCertPath = metricsCertPath st,
      metricsCertName = metricsCertName st, metricsCertKey = metricsCertKey st,
      enableHTTP2 = enableHTTP2 st\<rparr>" by simp
  then show ?thesis
    unfolding command_line_def
    by (simp add: parse_string_argument parse_bool_argument string_flags_def bool_flags_def)
qed

end
