(* ===== verification/Paths.thy ===== *)
theory Paths
  imports Prelude
begin

text \<open>
  \<open>filepath.Join\<close> and \<open>filepath.Clean\<close> of Go's standard library on Unix, which \<open>cmd/main.go\<close>
  uses for the files of a certificate.
\<close>

fun split_path :: "string \<Rightarrow> string list" where
  "split_path [] = [[]]"
| "split_path (c # cs) =
     (if c = CHR ''/'' then [] # split_path cs
      else (case split_path cs of p # ps \<Rightarrow> (c # p) # ps | [] \<Rightarrow> [[c]]))"

text \<open>The elements that are left, in reverse, after one more element of the path.\<close>

definition clean_step :: "bool \<Rightarrow> string list \<Rightarrow> string \<Rightarrow> string list" where
  "clean_step rooted out p =
     (if p = [] \<or> p = ''.'' then out
      else if p = ''..'' then
        (case out of
           q # out' \<Rightarrow> if q \<noteq> ''..'' then out' else p # out
         | [] \<Rightarrow> if rooted then [] else [p])
      else p # out)"

fun join_path :: "string list \<Rightarrow> string" where
  "join_path [] = []"
| "join_path [p] = p"
| "join_path (p # ps) = p @ ''/'' @ join_path ps"

definition filepath_Clean :: "string \<Rightarrow> string" where
  "filepath_Clean path =
     (let rooted = (path \<noteq> [] \<and> hd path = CHR ''/'');
          out = rev (foldl (clean_step rooted) [] (split_path path));
          s = (if rooted then ''/'' else []) @ join_path out
      in if s = [] then ''.'' else s)"

definition filepath_Join :: "string \<Rightarrow> string \<Rightarrow> string" where
  "filepath_Join a b =
     (if a \<noteq> [] then filepath_Clean (a @ ''/'' @ b)
      else if b \<noteq> [] then filepath_Clean b
      else [])"

lemma filepath_Join_examples:
  "filepath_Join ''/certs/'' ''tls.crt'' = ''/certs/tls.crt''"
  "filepath_Join ''a/../b'' ''./c'' = ''b/c''" "filepath_Join ''/..'' ''x'' = ''/x''"
  by (simp_all add: filepath_Join_def filepath_Clean_def clean_step_def Let_def)

end
