(* ===== verification/Slices.thy ===== *)
theory Slices
  imports Prelude
begin

text \<open>
  Go slices over backing arrays, and \<open>append\<close> of one element: it writes in place while the
  capacity lasts, so that two slices over one array can overwrite each other, and moves to a
  new array otherwise. The capacity the runtime chooses then is a parameter (\<open>grow\<close>, of the old
  capacity and the length that is needed). Used for the TLS options of \<open>cmd/main.go\<close>.
\<close>

type_synonym 'a arrays = "'a option list list"

record slice =
  s_array :: nat
  s_len :: nat
  s_cap :: nat

text \<open>A nil slice has no array; its capacity is 0, so its array is never looked at.\<close>

definition nil_slice :: slice where
  "nil_slice = \<lparr>s_array = 0, s_len = 0, s_cap = 0\<rparr>"

definition backing :: "'a arrays \<Rightarrow> slice \<Rightarrow> 'a option list" where
  "backing arrs s = (if s_cap s = 0 then [] else arrs ! s_array s)"

definition elements :: "'a arrays \<Rightarrow> slice \<Rightarrow> 'a list" where
  "elements arrs s = map the (take (s_len s) (backing arrs s))"

definition slice_append :: "(nat \<Rightarrow> nat \<Rightarrow> nat) \<Rightarrow> 'a arrays \<Rightarrow> slice \<Rightarrow> 'a \<Rightarrow> 'a arrays \<times> slice" where
  "slice_append grow arrs s x =
     (if s_len s < s_cap s
      then (arrs[s_array s := (arrs ! s_array s)[s_len s := Some x]], s\<lparr>s_len := s_len s + 1\<rparr>)
      else (let cap = max (s_len s + 1) (grow (s_cap s) (s_len s + 1)) in
        (arrs @ [take (s_len s) (backing arrs s) @ Some x # replicate (cap - s_len s - 1) None],
         \<lparr>s_array = length arrs, s_len = s_len s + 1, s_cap = cap\<rparr>)))"

text \<open>A slice that lies within its array, all of its elements set.\<close>

definition wf_slice :: "'a arrays \<Rightarrow> slice \<Rightarrow> bool" where
  "wf_slice arrs s \<longleftrightarrow>
     s_len s \<le> s_cap s
     \<and> (s_cap s = 0 \<or> s_array s < length arrs \<and> length (arrs ! s_array s) = s_cap s)
     \<and> None \<notin> set (take (s_len s) (backing arrs s))"

lemma nil_slice_simps [simp]:
  "s_len nil_slice = 0" "s_cap nil_slice = 0" "wf_slice arrs nil_slice" "elements arrs nil_slice = []"
  by (simp_all add: nil_slice_def wf_slice_def elements_def backing_def)

lemma wf_slice_length: "wf_slice arrs s \<Longrightarrow> length (backing arrs s) = s_cap s"
  by (auto simp: wf_slice_def backing_def)

text \<open>\<open>append\<close> adds its element at the end, whichever way it goes.\<close>

lemma slice_append_elements:
  assumes "wf_slice arrs s" and "slice_append grow arrs s x = (arrs', s')"
  shows "elements arrs' s' = elements arrs s @ [x]" and "wf_slice arrs' s'"
    and "length arrs \<le> length arrs'"
proof -
  note wf = assms(1) and len = wf_slice_length [OF assms(1)]
  have "elements arrs' s' = elements arrs s @ [x] \<and> wf_slice arrs' s' \<and> length arrs \<le> length arrs'"
  proof (cases "s_len s < s_cap s")
    case True
    with assms(2) have eq: "arrs' = arrs[s_array s := (arrs ! s_array s)[s_len s := Some x]]"
        "s' = s\<lparr>s_len := s_len s + 1\<rparr>" by (simp_all add: slice_append_def)
    let ?b = "arrs ! s_array s"
    from True wf have b: "s_array s < length arrs" "length ?b = s_cap s" "backing arrs s = ?b"
      by (auto simp: wf_slice_def backing_def)
    have t: "take (s_len s + 1) (?b[s_len s := Some x]) = take (s_len s) ?b @ [Some x]"
      using True b by (simp add: take_Suc_conv_app_nth)
    have "backing arrs' s' = ?b[s_len s := Some x]" using True b eq by (simp add: backing_def)
    with t True b wf eq show ?thesis by (simp add: elements_def wf_slice_def)
  next
    case False
    let ?cap = "max (s_len s + 1) (grow (s_cap s) (s_len s + 1))"
    let ?b = "take (s_len s) (backing arrs s) @ Some x # replicate (?cap - s_len s - 1) None"
    from False assms(2) have eq: "arrs' = arrs @ [?b]"
        "s' = \<lparr>s_array = length arrs, s_len = s_len s + 1, s_cap = ?cap\<rparr>"
      by (simp_all add: slice_append_def Let_def)
    have l: "length (take (s_len s) (backing arrs s)) = s_len s"
      using len wf by (simp add: wf_slice_def)
    have "backing arrs' s' = ?b" using eq by (simp add: backing_def)
    moreover have "take (s_len s + 1) ?b = take (s_len s) (backing arrs s) @ [Some x]"
      using l by simp
    moreover have "length ?b = ?cap" using l by simp
    ultimately show ?thesis using eq wf by (simp add: elements_def wf_slice_def)
  qed
  then show "elements arrs' s' = elements arrs s @ [x]" "wf_slice arrs' s'" "length arrs \<le> length arrs'"
    by simp_all
qed

text \<open>What it does to another slice: nothing, unless both share an array and room is left.\<close>

lemma slice_append_other:
  assumes "wf_slice arrs t" and "slice_append grow arrs s x = (arrs', s')"
    and "s_cap s = s_len s \<or> s_array t \<noteq> s_array s \<or> s_len t \<le> s_len s"
    and "wf_slice arrs s"
  shows "elements arrs' t = elements arrs t \<and> wf_slice arrs' t"
proof (cases "s_len s < s_cap s")
  case True
  with assms(2) have eq: "arrs' = arrs[s_array s := (arrs ! s_array s)[s_len s := Some x]]"
    by (simp add: slice_append_def)
  have t: "take (s_len t) (backing arrs' t) = take (s_len t) (backing arrs t)"
    using assms(3) True by (cases "s_array t = s_array s"; cases "s_array s < length arrs")
      (auto simp: backing_def eq list_update_beyond not_less)
  moreover have "s_array t < length arrs' \<longleftrightarrow> s_array t < length arrs" by (simp add: eq)
  moreover have "length (arrs' ! s_array t) = length (arrs ! s_array t)"
    by (cases "s_array t = s_array s"; cases "s_array s < length arrs") (simp_all add: eq list_update_beyond)
  ultimately show ?thesis using assms(1) by (simp add: elements_def wf_slice_def)
next
  case False
  with assms(2) have eq: "\<exists>b. arrs' = arrs @ [b]" by (auto simp: slice_append_def Let_def)
  then have "s_cap t = 0 \<or> arrs' ! s_array t = arrs ! s_array t \<and> s_array t < length arrs'"
    using assms(1) by (auto simp: wf_slice_def nth_append)
  then show ?thesis using assms(1) by (auto simp: elements_def wf_slice_def backing_def)
qed

end
