(* ===== verification/Manager.thy ===== *)
theory Manager
  imports Flags Paths Slices Images Watches
begin

text \<open>
  The start of the operator, \<open>cmd/main.go\<close>: the scheme, the flags, the TLS options of the
  webhook and metrics servers, and the calls to controller-runtime in their order, each of
  which may fail and end the process. What the calls answer is a parameter (\<open>answers\<close>, of
  the calls made so far and the call), as are the environment, the flags of other packages and
  the growth of slices. Log lines are not modelled.
\<close>

section \<open>TLS options\<close>

text \<open>A certificate watcher is known by its two files.\<close>

type_synonym watcher = "string \<times> string"

record tls_Config =
  NextProtos :: "string list"
  GetCertificate :: "watcher option"

text \<open>The closures \<open>main\<close> hands to the servers.\<close>

datatype tls_option = DisableHTTP2 | GetCertificateOf watcher

fun apply_tls_option :: "tls_option \<Rightarrow> tls_Config \<Rightarrow> tls_Config" where
  "apply_tls_option DisableHTTP2 c = c\<lparr>NextProtos := [''http/1.1'']\<rparr>"
| "apply_tls_option (GetCertificateOf cw) c = c\<lparr>GetCertificate := Some cw\<rparr>"

text \<open>
  What a list of such closures makes of a configuration, one after the other. The configuration a
  server starts from is controller-runtime's and an argument.
\<close>

definition with_options :: "tls_option arrays \<Rightarrow> slice \<Rightarrow> tls_Config \<Rightarrow> tls_Config" where
  "with_options arrs opts = fold apply_tls_option (elements arrs opts)"

section \<open>Calls\<close>

datatype filter_provider = WithAuthenticationAndAuthorization

record manager_Options =
  Metrics_BindAddress :: string
  Metrics_SecureServing :: bool
  Metrics_FilterProvider :: "filter_provider option"
  HealthProbeBindAddress :: string
  LeaderElection :: bool
  LeaderElectionID :: string

datatype main_call =
    AddClientGoToScheme
  | AddToScheme "string \<times> string" "string list"
  | NewCertWatcher watcher
  | GetConfigOrDie
  | NewManager manager_Options
  | SetupController string "string \<times> watch list"
  | AddRunnable watcher
  | AddHealthzCheck string
  | AddReadyzCheck string
  | StartManager

type_synonym answers = "main_call list \<Rightarrow> main_call \<Rightarrow> bool"

text \<open>The process: its backing arrays, the options of its two servers, and the calls made.\<close>

record process =
  arrays :: "tls_option arrays"
  webhook_opts :: slice
  metrics_opts :: slice
  calls :: "main_call list"

definition process0 :: process where
  "process0 = \<lparr>arrays = [], webhook_opts = nil_slice, metrics_opts = nil_slice, calls = []\<rparr>"

text \<open>A part of \<open>main\<close> either ends the process with an exit code or goes on with a value.\<close>

type_synonym 'a part = "(process, nat + 'a) state"

definition or_exit :: "'a part \<Rightarrow> ('a \<Rightarrow> 'b part) \<Rightarrow> 'b part" where
  "or_exit m f =
     do { res \<leftarrow> m; (case res of Inl c \<Rightarrow> State_Monad.return (Inl c) | Inr x \<Rightarrow> f x) }"

text \<open>One call, with the exit code of its failure.\<close>

definition perform :: "answers \<Rightarrow> nat \<Rightarrow> main_call \<Rightarrow> unit part" where
  "perform answers code c =
     State (\<lambda>p. (if answers (calls p) c then Inr () else Inl code, p\<lparr>calls := calls p @ [c]\<rparr>))"

definition append_option :: "(nat \<Rightarrow> nat \<Rightarrow> nat) \<Rightarrow> slice \<Rightarrow> tls_option \<Rightarrow> slice part" where
  "append_option grow s x =
     State (\<lambda>p. (case slice_append grow (arrays p) s x of
       (arrs, s') \<Rightarrow> (Inr s', p\<lparr>arrays := arrs\<rparr>)))"

section \<open>The parts of \<open>main\<close>\<close>

text \<open>\<open>func init\<close>: \<open>utilruntime.Must\<close> panics on an error, and a panic exits with 2.\<close>

definition main_init :: "answers \<Rightarrow> unit part" where
  "main_init answers =
     or_exit (perform answers 2 AddClientGoToScheme)
       (\<lambda>_. perform answers 2 (AddToScheme GroupVersion registered_kinds))"

definition tls_options :: "(nat \<Rightarrow> nat \<Rightarrow> nat) \<Rightarrow> settings \<Rightarrow> slice part" where
  "tls_options grow st =
     (if \<not> enableHTTP2 st then append_option grow nil_slice DisableHTTP2
      else State_Monad.return (Inr nil_slice))"

definition webhook_watcher :: "settings \<Rightarrow> watcher" where
  "webhook_watcher st =
     (filepath_Join (webhookCertPath st) (webhookCertName st),
      filepath_Join (webhookCertPath st) (webhookCertKey st))"

definition metrics_watcher :: "settings \<Rightarrow> watcher" where
  "metrics_watcher st =
     (filepath_Join (metricsCertPath st) (metricsCertName st),
      filepath_Join (metricsCertPath st) (metricsCertKey st))"

text \<open>The watcher and the option of one server's certificate, when a path is given.\<close>

definition with_certificate ::
  "answers \<Rightarrow> (nat \<Rightarrow> nat \<Rightarrow> nat) \<Rightarrow> string \<Rightarrow> watcher \<Rightarrow> slice \<Rightarrow> (slice \<times> watcher option) part" where
  "with_certificate answers grow path cw opts =
     (if path \<noteq> []
      then or_exit (perform answers 1 (NewCertWatcher cw)) (\<lambda>_.
           or_exit (append_option grow opts (GetCertificateOf cw)) (\<lambda>opts'.
           State_Monad.return (Inr (opts', Some cw))))
      else State_Monad.return (Inr (opts, None)))"

definition manager_options :: "settings \<Rightarrow> manager_Options" where
  "manager_options st =
     \<lparr>Metrics_BindAddress = metricsAddr st, Metrics_SecureServing = secureMetrics st,
      Metrics_FilterProvider =
        (if secureMetrics st then Some WithAuthenticationAndAuthorization else None),
      HealthProbeBindAddress = probeAddr st, LeaderElection = enableLeaderElection st,
      LeaderElectionID = ''af0594e2.openshift.io''\<rparr>"

definition operator_namespace :: "environment \<Rightarrow> string" where
  "operator_namespace env =
     (if env ''OPERATOR_NAMESPACE'' = [] then ''fake-gpu-operator-system''
      else env ''OPERATOR_NAMESPACE'')"

definition add_watcher :: "answers \<Rightarrow> watcher option \<Rightarrow> unit part" where
  "add_watcher answers cw =
     (case cw of None \<Rightarrow> State_Monad.return (Inr ()) | Some f \<Rightarrow> perform answers 1 (AddRunnable f))"

definition set_servers :: "slice \<Rightarrow> slice \<Rightarrow> unit part" where
  "set_servers wh me = State (\<lambda>p. (Inr (), p\<lparr>webhook_opts := wh, metrics_opts := me\<rparr>))"

text \<open>\<open>main\<close> after \<open>flag.Parse\<close>.\<close>

definition main_run ::
  "answers \<Rightarrow> (nat \<Rightarrow> nat \<Rightarrow> nat) \<Rightarrow> environment \<Rightarrow> settings \<Rightarrow> unit part" where
  "main_run answers grow env st =
     or_exit (tls_options grow st) (\<lambda>tlsOpts.
     or_exit (with_certificate answers grow (webhookCertPath st) (webhook_watcher st) tlsOpts)
       (\<lambda>(webhookTLSOpts, webhookCertWatcher).
     or_exit (with_certificate answers grow (metricsCertPath st) (metrics_watcher st) tlsOpts)
       (\<lambda>(metricsTLSOpts, metricsCertWatcher).
     or_exit (set_servers webhookTLSOpts metricsTLSOpts) (\<lambda>_.
     or_exit (perform answers 1 GetConfigOrDie) (\<lambda>_.
     or_exit (perform answers 1 (NewManager (manager_options st))) (\<lambda>_.
     or_exit (perform answers 1 (SetupController (operator_namespace env) SetupWithManager)) (\<lambda>_.
     or_exit (add_watcher answers metricsCertWatcher) (\<lambda>_.
     or_exit (add_watcher answers webhookCertWatcher) (\<lambda>_.
     or_exit (perform answers 1 (AddHealthzCheck ''healthz'')) (\<lambda>_.
     or_exit (perform answers 1 (AddReadyzCheck ''readyz'')) (\<lambda>_.
     perform answers 1 StartManager)))))))))))"

definition main ::
  "answers \<Rightarrow> (nat \<Rightarrow> nat \<Rightarrow> nat) \<Rightarrow> environment \<Rightarrow> (string \<Rightarrow> (bool \<times> (string \<Rightarrow> bool)) option)
    \<Rightarrow> string list \<Rightarrow> unit part" where
  "main answers grow env others args =
     or_exit (main_init answers) (\<lambda>_.
       (case parse_flags others default_settings args of
          Inl code \<Rightarrow> State_Monad.return (Inl code)
        | Inr st \<Rightarrow> main_run answers grow env st))"

section \<open>The plan of a start\<close>

text \<open>
  A reference definition: the calls of a start that meets no error, and how far a list of
  calls gets, the first failure being the last call.
\<close>

definition main_plan :: "environment \<Rightarrow> settings \<Rightarrow> main_call list" where
  "main_plan env st =
     (if webhookCertPath st \<noteq> [] then [NewCertWatcher (webhook_watcher st)] else [])
     @ (if metricsCertPath st \<noteq> [] then [NewCertWatcher (metrics_watcher st)] else [])
     @ [GetConfigOrDie, NewManager (manager_options st),
        SetupController (operator_namespace env) SetupWithManager]
     @ (if metricsCertPath st \<noteq> [] then [AddRunnable (metrics_watcher st)] else [])
     @ (if webhookCertPath st \<noteq> [] then [AddRunnable (webhook_watcher st)] else [])
     @ [AddHealthzCheck ''healthz'', AddReadyzCheck ''readyz'', StartManager]"

fun attempt :: "answers \<Rightarrow> main_call list \<Rightarrow> main_call list \<Rightarrow> main_call list \<times> bool" where
  "attempt answers before [] = (before, True)"
| "attempt answers before (c # cs) =
     (if answers before c then attempt answers (before @ [c]) cs else (before @ [c], False))"

lemma attempt_append:
  "attempt answers before (cs @ ds) =
     (case attempt answers before cs of
        (after, True) \<Rightarrow> attempt answers after ds | (after, False) \<Rightarrow> (after, False))"
  by (induction cs arbitrary: before) auto

text \<open>
  \<open>follows\<close>: a part makes the calls of a plan, as far as they are answered, and fails with
  the given code exactly when one of them does; the value it goes on with satisfies \<open>Q\<close>.
\<close>

definition follows :: "answers \<Rightarrow> 'a part \<Rightarrow> nat \<Rightarrow> main_call list \<Rightarrow> ('a \<Rightarrow> bool) \<Rightarrow> bool" where
  "follows answers m code cs Q \<longleftrightarrow>
     (\<forall>p. let (res, p') = run m p in
        calls p' = fst (attempt answers (calls p) cs)
        \<and> (case res of Inl c \<Rightarrow> c = code \<and> \<not> snd (attempt answers (calls p) cs)
           | Inr x \<Rightarrow> snd (attempt answers (calls p) cs) \<and> Q x))"

lemma follows_or_exit:
  assumes "follows answers m code cs Q" and "\<And>x. Q x \<Longrightarrow> follows answers (f x) code ds R"
  shows "follows answers (or_exit m f) code (cs @ ds) R"
  unfolding follows_def
proof
  fix p
  obtain res p1 where m: "run m p = (res, p1)" by (cases "run m p")
  obtain after ok where at: "attempt answers (calls p) cs = (after, ok)"
    by (cases "attempt answers (calls p) cs")
  have first: "calls p1 = after" "case res of Inl c \<Rightarrow> c = code \<and> \<not> ok | Inr x \<Rightarrow> ok \<and> Q x"
    using assms(1) [unfolded follows_def, rule_format, of p] m at by (simp_all split: sum.splits)
  show "let (res, p') = run (or_exit m f) p in
      calls p' = fst (attempt answers (calls p) (cs @ ds))
      \<and> (case res of Inl c \<Rightarrow> c = code \<and> \<not> snd (attempt answers (calls p) (cs @ ds))
         | Inr x \<Rightarrow> snd (attempt answers (calls p) (cs @ ds)) \<and> R x)"
  proof (cases res)
    case (Inl c)
    with first m at show ?thesis by (simp add: or_exit_def attempt_append)
  next
    case (Inr x)
    with first have ok: ok and f: "follows answers (f x) code ds R" using assms(2) by auto
    obtain res2 p2 where r2: "run (f x) p1 = (res2, p2)" by (cases "run (f x) p1")
    have "calls p2 = fst (attempt answers after ds)
      \<and> (case res2 of Inl c \<Rightarrow> c = code \<and> \<not> snd (attempt answers after ds)
         | Inr y \<Rightarrow> snd (attempt answers after ds) \<and> R y)"
      using f [unfolded follows_def, rule_format, of p1, unfolded r2 first(1)] by simp
    moreover have eq: "attempt answers (calls p) (cs @ ds) = attempt answers after ds"
      using at ok by (simp add: attempt_append)
    moreover have "run (or_exit m f) p = (res2, p2)" using m Inr r2 by (simp add: or_exit_def)
    ultimately show ?thesis unfolding eq by simp
  qed
qed

lemma follows_perform: "follows answers (perform answers code c) code [c] (\<lambda>_. True)"
  by (simp add: follows_def perform_def)

lemma follows_return: "Q x \<Longrightarrow> follows answers (State_Monad.return (Inr x)) code [] Q"
  by (simp add: follows_def)

lemma follows_append_option: "follows answers (append_option grow s x) code [] (\<lambda>_. True)"
  by (simp add: follows_def append_option_def split: prod.split)

lemma follows_set_servers: "follows answers (set_servers wh me) code [] (\<lambda>_. True)"
  by (simp add: follows_def set_servers_def)

lemma follows_tls_options: "follows answers (tls_options grow st) code [] (\<lambda>_. True)"
  by (simp add: tls_options_def follows_append_option follows_return)

lemma follows_with_certificate:
  "follows answers (with_certificate answers grow path cw opts) 1
     (if path \<noteq> [] then [NewCertWatcher cw] else [])
     (\<lambda>(_, w). w = (if path \<noteq> [] then Some cw else None))"
proof (cases "path = []")
  case False
  have "follows answers (with_certificate answers grow path cw opts) 1
     ([NewCertWatcher cw] @ [] @ []) (\<lambda>(_, w). w = Some cw)"
    unfolding with_certificate_def if_P [OF False]
    by (intro follows_or_exit [OF follows_perform] follows_or_exit [OF follows_append_option] follows_return) simp
  with False show ?thesis by simp
qed (simp add: with_certificate_def follows_return)

lemma follows_add_watcher:
  "follows answers (add_watcher answers (if b then Some cw else None)) 1
     (if b then [AddRunnable cw] else []) (\<lambda>_. True)"
  by (simp add: add_watcher_def follows_perform follows_return)

lemma main_run_follows: "follows answers (main_run answers grow env st) 1 (main_plan env st) (\<lambda>_. True)"
proof -
  have "follows answers (main_run answers grow env st) 1
    ([] @ (if webhookCertPath st \<noteq> [] then [NewCertWatcher (webhook_watcher st)] else [])
     @ (if metricsCertPath st \<noteq> [] then [NewCertWatcher (metrics_watcher st)] else [])
     @ [] @ [GetConfigOrDie] @ [NewManager (manager_options st)]
     @ [SetupController (operator_namespace env) SetupWithManager]
     @ (if metricsCertPath st \<noteq> [] then [AddRunnable (metrics_watcher st)] else [])
     @ (if webhookCertPath st \<noteq> [] then [AddRunnable (webhook_watcher st)] else [])
     @ [AddHealthzCheck ''healthz''] @ [AddReadyzCheck ''readyz''] @ [StartManager]) (\<lambda>_. True)"
    unfolding main_run_def
    apply (rule follows_or_exit [OF follows_tls_options])
    apply (rule follows_or_exit [OF follows_with_certificate], clarsimp simp only: split_paired_all prod.case)
    apply (rule follows_or_exit [OF follows_with_certificate], clarsimp simp only: split_paired_all prod.case)
    apply (rule follows_or_exit [OF follows_set_servers])
    apply (rule follows_or_exit [OF follows_perform])+
    apply (rule follows_or_exit [OF follows_add_watcher])+
    apply (rule follows_or_exit [OF follows_perform])+
    apply (rule follows_perform)
    done
  then show ?thesis by (simp add: main_plan_def)
qed

end
