(* ===== verification/Startup.thy ===== *)
theory Startup
  imports Manager
begin

text \<open>
  What the start of the operator guarantees: the calls of \<open>main\<close> follow their plan up to the
  first failure, and each server gets its own TLS configuration.
\<close>

section \<open>The calls\<close>

lemma main_init_follows:
  "follows answers (main_init answers) 2 [AddClientGoToScheme, AddToScheme GroupVersion registered_kinds] (\<lambda>_. True)"
  using follows_or_exit [OF follows_perform follows_perform,
      of answers 2 AddClientGoToScheme "AddToScheme GroupVersion registered_kinds"]
  by (simp add: main_init_def)

lemma attempt_prefix:
  "\<exists>k. fst (attempt answers before cs) = before @ take k cs"
proof (induction cs arbitrary: before)
  case (Cons c cs)
  show ?case
  proof (cases "answers before c")
    case True
    obtain k where "fst (attempt answers (before @ [c]) cs) = (before @ [c]) @ take k cs"
      using Cons.IH by blast
    with True show ?thesis by (intro exI [of _ "Suc k"]) simp
  qed (auto intro: exI [of _ 1])
qed simp

lemma attempt_last:
  assumes "x \<in> set (fst (attempt answers before (cs @ [x])))" and "x \<notin> set before" and "x \<notin> set cs"
  shows "fst (attempt answers before (cs @ [x])) = before @ cs @ [x]"
  using assms
proof (induction cs arbitrary: before)
  case (Cons c cs)
  then show ?case using Cons.IH [of "before @ [c]"] by (simp split: if_splits)
qed (simp split: if_splits)

definition scheme_calls :: "main_call list" where
  "scheme_calls = [AddClientGoToScheme, AddToScheme GroupVersion registered_kinds]"

lemma start_is_last:
  "\<exists>cs. main_plan env st = cs @ [StartManager] \<and> StartManager \<notin> set cs"
  by (simp add: main_plan_def scheme_calls_def)

text \<open>
  C36: the operator starts in order and stops at the first failure. With a command line that
  parses, \<open>main\<close> makes exactly the calls of its plan (the scheme, a watcher for each certificate
  that is given, the manager with the metrics filter when serving is secure, the controller for
  the configured namespace with all its watches, the health checks), each only after the ones
  before it succeeded, and returns normally when all of them did; the manager is started as
  the last call or not at all. The exit code is 2 (a panic) when the scheme cannot be built, and 1
  when a later call fails. A command line that does not parse ends the process after the
  scheme, with the code of \<open>flag.Parse\<close>.
\<close>

theorem main_follows_plan:
  assumes "run (main answers grow env others args) process0 = (res, p)"
  shows "(case parse_flags others default_settings args of
      Inl code \<Rightarrow> calls p = fst (attempt answers [] scheme_calls)
        \<and> res = (if snd (attempt answers [] scheme_calls) then Inl code else Inl 2)
    | Inr st \<Rightarrow> calls p = fst (attempt answers [] (scheme_calls @ main_plan env st))
        \<and> res = (if snd (attempt answers [] (scheme_calls @ main_plan env st)) then Inr ()
            else if snd (attempt answers [] scheme_calls) then Inl 1 else Inl 2)
        \<and> (StartManager \<in> set (calls p) \<longrightarrow> calls p = scheme_calls @ main_plan env st))"
proof -
  obtain r1 p1 where init: "run (main_init answers) process0 = (r1, p1)"
    by (cases "run (main_init answers) process0")
  obtain after ok where at: "attempt answers [] scheme_calls = (after, ok)"
    by (cases "attempt answers [] scheme_calls")
  have p1: "calls p1 = after" "case r1 of Inl c \<Rightarrow> c = 2 \<and> \<not> ok | Inr x \<Rightarrow> ok"
    using main_init_follows [unfolded follows_def, rule_format, of answers process0] init at
    by (simp_all add: scheme_calls_def [symmetric] process0_def split: sum.splits)
  obtain k where k: "after = take k scheme_calls"
    using attempt_prefix [of answers "[]" scheme_calls] at by auto
  show ?thesis
  proof (cases r1)
    case (Inl c)
    with p1 have c: "c = 2" "\<not> ok" by simp_all
    have run: "res = Inl 2" "p = p1" using assms init Inl c by (simp_all add: main_def or_exit_def)
    have "StartManager \<notin> set (take k scheme_calls)"
      by (auto simp: scheme_calls_def dest: in_set_takeD)
    with run c p1 k at show ?thesis
      by (auto simp: attempt_append split: sum.split)
  next
    case (Inr u)
    with p1 have ok by simp
    show ?thesis
    proof (cases "parse_flags others default_settings args")
      case (Inl code)
      then have "res = Inl code" "p = p1" using assms init Inr by (simp_all add: main_def or_exit_def)
      with Inl p1 \<open>ok\<close> at show ?thesis by simp
    next
      case parsed: (Inr st)
      then have main: "run (main_run answers grow env st) p1 = (res, p)"
        using assms init Inr by (simp add: main_def or_exit_def)
      have eq: "attempt answers [] (scheme_calls @ main_plan env st) = attempt answers after (main_plan env st)"
        using at \<open>ok\<close> by (simp add: attempt_append)
      have calls: "calls p = fst (attempt answers after (main_plan env st))"
        and res: "case res of Inl c \<Rightarrow> c = 1 \<and> \<not> snd (attempt answers after (main_plan env st))
          | Inr x \<Rightarrow> snd (attempt answers after (main_plan env st))"
        using main_run_follows [unfolded follows_def, rule_format, of answers grow env st p1, unfolded main p1(1)]
        by (auto split: sum.splits)
      have "calls p = scheme_calls @ main_plan env st" if start: "StartManager \<in> set (calls p)"
      proof -
        obtain cs where cs: "main_plan env st = cs @ [StartManager]" "StartManager \<notin> set cs"
          using start_is_last by blast
        have "StartManager \<in> set (fst (attempt answers [] ((scheme_calls @ cs) @ [StartManager])))"
          using start calls eq cs(1) by simp
        from attempt_last [OF this] cs show ?thesis using calls eq by (simp add: scheme_calls_def)
      qed
      then show ?thesis using parsed calls res at \<open>ok\<close> by (auto simp: eq split: sum.splits)
    qed
  qed
qed

theorem main_follows_plan_witness:
  "StartManager \<notin> set (calls (snd (run (main (\<lambda>_ c. c \<noteq> AddReadyzCheck ''readyz'') max (\<lambda>_. []) (\<lambda>_. None)
       [''--leader-elect'', ''--health-probe-bind-address=:8081'']) process0)))"
proof -
  let ?ok = "\<lambda>(_ :: main_call list) c. c \<noteq> AddReadyzCheck ''readyz''"
  let ?args = "[''--leader-elect'', ''--health-probe-bind-address=:8081'']"
  obtain res p where r: "run (main ?ok max (\<lambda>_. []) (\<lambda>_. None) ?args) process0 = (res, p)" by fastforce
  obtain st where st: "parse_flags (\<lambda>_. None) default_settings ?args = Inr st"
    by (simp add: parse_flags.simps find_flag_def string_flags_def bool_flags_def split_value_def parse_bool_def
        Let_def default_settings_def)
  have "\<not> snd (attempt ?ok [] (scheme_calls @ main_plan (\<lambda>_. []) st))"
    by (simp add: attempt_append main_plan_def scheme_calls_def split: prod.split)
  with main_follows_plan [OF r] st have "\<not> res = Inr ()"
     "calls p = fst (attempt ?ok [] (scheme_calls @ main_plan (\<lambda>_. []) st))" by simp_all
  moreover have "StartManager \<notin> set (fst (attempt ?ok [] (scheme_calls @ main_plan (\<lambda>_. []) st)))"
    by (simp add: attempt_append main_plan_def scheme_calls_def split: prod.split)
  ultimately show ?thesis using r by simp
qed

section \<open>The TLS configurations\<close>

lemma or_exit_InrE:
  assumes "run (or_exit m f) p = (Inr y, p')"
  obtains x p1 where "run m p = (Inr x, p1)" and "run (f x) p1 = (Inr y, p')"
  using assms by (cases "run m p") (auto simp: or_exit_def split: sum.splits)

text \<open>The servers' options as \<open>main\<close> leaves them, without the calls.\<close>

definition with_option :: "(nat \<Rightarrow> nat \<Rightarrow> nat) \<Rightarrow> bool \<Rightarrow> tls_option \<Rightarrow> tls_option arrays \<times> slice \<Rightarrow> tls_option arrays \<times> slice" where
  "with_option grow b x = (\<lambda>(arrs, s). if b then slice_append grow arrs s x else (arrs, s))"

lemma perform_Inr:
  "run (perform answers code c) p = (Inr x, p') \<Longrightarrow>
   arrays p' = arrays p \<and> webhook_opts p' = webhook_opts p \<and> metrics_opts p' = metrics_opts p"
  by (auto simp: perform_def split: if_splits)

lemma add_watcher_Inr:
  "run (add_watcher answers cw) p = (Inr x, p') \<Longrightarrow>
   arrays p' = arrays p \<and> webhook_opts p' = webhook_opts p \<and> metrics_opts p' = metrics_opts p"
  by (auto simp: add_watcher_def dest: perform_Inr split: option.splits)

lemma with_certificate_Inr:
  "run (with_certificate answers grow path cw opts) p = (Inr (opts', w), p') \<Longrightarrow>
   (arrays p', opts') = with_option grow (path \<noteq> []) (GetCertificateOf cw) (arrays p, opts)"
  by (auto simp: with_certificate_def append_option_def with_option_def split: if_splits prod.splits
      elim!: or_exit_InrE dest!: perform_Inr)

lemma tls_options_Inr:
  "run (tls_options grow st) p = (Inr s, p') \<Longrightarrow>
   (arrays p', s) = with_option grow (\<not> enableHTTP2 st) DisableHTTP2 (arrays p, nil_slice)"
  by (auto simp: tls_options_def append_option_def with_option_def split: if_splits prod.splits)

lemma main_run_options:
  assumes "run (main_run answers grow env st) p0 = (Inr (), p)" and "arrays p0 = []"
  obtains arrs0 s arrs1 where
    "(arrs0, s) = with_option grow (\<not> enableHTTP2 st) DisableHTTP2 ([], nil_slice)"
    and "(arrs1, webhook_opts p) = with_option grow (webhookCertPath st \<noteq> []) (GetCertificateOf (webhook_watcher st)) (arrs0, s)"
    and "(arrays p, metrics_opts p) = with_option grow (metricsCertPath st \<noteq> []) (GetCertificateOf (metrics_watcher st)) (arrs1, s)"
proof -
  from assms(1) show thesis
    unfolding main_run_def
    by (elim or_exit_InrE)
      (auto elim!: or_exit_InrE simp: set_servers_def assms(2)
        dest!: perform_Inr add_watcher_Inr with_certificate_Inr tls_options_Inr intro!: that)
qed

lemma with_option_elements:
  assumes "wf_slice arrs s" and "(arrs', s') = with_option grow b x (arrs, s)"
  shows "elements arrs' s' = elements arrs s @ (if b then [x] else [])" and "wf_slice arrs' s'"
  using assms slice_append_elements [of arrs s grow x arrs' s'] by (auto simp: with_option_def split: if_splits)

lemma with_option_other:
  assumes "wf_slice arrs s" and "wf_slice arrs t" and "(arrs', s') = with_option grow b x (arrs, s)"
    and "\<not> b \<or> s_cap s = s_len s \<or> s_len t \<le> s_len s"
  shows "elements arrs' t = elements arrs t" and "wf_slice arrs' t"
  using assms slice_append_other [of arrs t grow s x arrs' s'] by (auto simp: with_option_def split: if_splits)

text \<open>The one way in which two appends to the same slice clash.\<close>

lemma appends_clash:
  assumes "s_len s < s_cap s" and "wf_slice arrs s"
    and "slice_append grow arrs s x = (arrs1, t)" and "slice_append grow arrs1 s y = (arrs2, s')"
  shows "elements arrs2 t = elements arrs s @ [y]"
proof -
  have t: "t = s\<lparr>s_len := s_len s + 1\<rparr>" and s': "s' = t"
    using assms(1,3,4) by (auto simp: slice_append_def)
  have "wf_slice arrs1 s" "elements arrs1 s = elements arrs s"
    using slice_append_other [OF assms(2,3) _ assms(2)] by simp_all
  with slice_append_elements(1) [OF this(1) assms(4)] s' show ?thesis by simp
qed

text \<open>
  C37: each server gets its own TLS options. Whatever TLS configuration a server starts from, the
  options of the metrics server leave its protocols as they are when HTTP/2 is enabled and make
  them HTTP/1.1 only otherwise, and install the certificate of its own path, if one is given; so
  do those of the webhook server, provided the first \<open>append\<close> to a nil slice leaves no
  spare capacity (\<open>grow 0 1 \<le> 1\<close>, as in Go's runtime for a pointer). Otherwise, with HTTP/2 off
  and both paths given, the two appends of \<open>main\<close> write to the same slot of one array and the
  webhook server presents the metrics certificate.
\<close>

theorem tls_of_servers:
  assumes "run (main answers grow env others args) process0 = (Inr (), p)"
    and "parse_flags others default_settings args = Inr st"
  shows "with_options (arrays p) (metrics_opts p) start = start
      \<lparr>NextProtos := (if enableHTTP2 st then NextProtos start else [''http/1.1'']),
       GetCertificate := (if metricsCertPath st = [] then GetCertificate start else Some (metrics_watcher st))\<rparr>
    \<and> with_options (arrays p) (webhook_opts p) start = start
      \<lparr>NextProtos := (if enableHTTP2 st then NextProtos start else [''http/1.1'']),
       GetCertificate :=
         (if webhookCertPath st = [] then GetCertificate start
          else if 1 < grow 0 1 \<and> \<not> enableHTTP2 st \<and> metricsCertPath st \<noteq> [] then Some (metrics_watcher st)
          else Some (webhook_watcher st))\<rparr>"
proof -
  obtain u p1 where i: "run (main_init answers) process0 = (Inr u, p1)"
    and m: "run (main_run answers grow env st) p1 = (Inr (), p)"
    using assms unfolding main_def by (auto elim!: or_exit_InrE)
  from i have "arrays p1 = []"
    unfolding main_init_def by (auto elim!: or_exit_InrE dest!: perform_Inr simp: process0_def)
  from main_run_options [OF m this] obtain arrs0 s arrs1 where o:
    "(arrs0, s) = with_option grow (\<not> enableHTTP2 st) DisableHTTP2 ([], nil_slice)"
    "(arrs1, webhook_opts p) = with_option grow (webhookCertPath st \<noteq> []) (GetCertificateOf (webhook_watcher st)) (arrs0, s)"
    "(arrays p, metrics_opts p) = with_option grow (metricsCertPath st \<noteq> []) (GetCertificateOf (metrics_watcher st)) (arrs1, s)"
    by blast
  let ?base = "if enableHTTP2 st then [] else [DisableHTTP2]"
  have base: "elements arrs0 s = ?base" "wf_slice arrs0 s"
    using with_option_elements [OF nil_slice_simps(3) o(1)] by simp_all
  have room: "s_cap s = s_len s" if "\<not> (1 < grow 0 1 \<and> \<not> enableHTTP2 st)"
    using o(1) that by (auto simp: with_option_def slice_append_def nil_slice_def Let_def split: if_splits)
  have same: "elements arrs1 s = ?base" "wf_slice arrs1 s"
    using with_option_other [OF base(2) base(2) o(2)] base(1) by simp_all
  have wh: "elements arrs1 (webhook_opts p) =
      ?base @ (if webhookCertPath st \<noteq> [] then [GetCertificateOf (webhook_watcher st)] else [])"
    "wf_slice arrs1 (webhook_opts p)"
    using with_option_elements [OF base(2) o(2)] base(1) by simp_all
  have me: "elements (arrays p) (metrics_opts p) =
      ?base @ (if metricsCertPath st \<noteq> [] then [GetCertificateOf (metrics_watcher st)] else [])"
    using with_option_elements(1) [OF same(2) o(3)] same(1) by simp
  have "elements (arrays p) (webhook_opts p) =
      ?base @ (if webhookCertPath st = [] then []
        else if 1 < grow 0 1 \<and> \<not> enableHTTP2 st \<and> metricsCertPath st \<noteq> [] then [GetCertificateOf (metrics_watcher st)]
        else [GetCertificateOf (webhook_watcher st)])"
  proof (cases "webhookCertPath st \<noteq> [] \<and> metricsCertPath st \<noteq> [] \<and> 1 < grow 0 1 \<and> \<not> enableHTTP2 st")
    case True
    then have "s_len s < s_cap s"
      using o(1) by (auto simp: with_option_def slice_append_def nil_slice_def Let_def)
    moreover have "slice_append grow arrs0 s (GetCertificateOf (webhook_watcher st)) = (arrs1, webhook_opts p)"
      and "slice_append grow arrs1 s (GetCertificateOf (metrics_watcher st)) = (arrays p, metrics_opts p)"
      using o(2,3) True by (simp_all add: with_option_def)
    ultimately show ?thesis using appends_clash [OF _ base(2)] True base(1) by simp
  next
    case False
    have "s_len (webhook_opts p) \<le> s_len s" if "webhookCertPath st = []"
      using o(2) that by (simp add: with_option_def)
    then have "\<not> metricsCertPath st \<noteq> [] \<or> s_cap s = s_len s \<or> s_len (webhook_opts p) \<le> s_len s"
      using False room by blast
    from with_option_other(1) [OF same(2) wh(2) o(3) this] wh(1) False show ?thesis by auto
  qed
  with me show ?thesis by (simp add: with_options_def)
qed

text \<open>When every call succeeds, the start returns.\<close>

lemma attempt_all: "attempt (\<lambda>_ _. True) before cs = (before @ cs, True)"
  by (induction cs arbitrary: before) simp_all

lemma follows_all:
  "follows (\<lambda>_ _. True) m code cs Q \<Longrightarrow> \<exists>x p'. run m p = (Inr x, p')"
  by (cases "run m p") (auto simp: follows_def attempt_all Let_def dest!: spec [of _ p] split: sum.splits)

lemma main_returns:
  assumes "parse_flags others default_settings args = Inr st"
  shows "\<exists>p. run (main (\<lambda>_ _. True) grow env others args) process0 = (Inr (), p)"
proof -
  obtain u p1 where "run (main_init (\<lambda>_ _. True)) process0 = (Inr u, p1)"
    using follows_all [OF main_init_follows] by blast
  moreover obtain p where "run (main_run (\<lambda>_ _. True) grow env st) p1 = (Inr (), p)"
    using follows_all [OF main_run_follows, of grow env st p1] by auto
  ultimately show ?thesis using assms by (simp add: main_def or_exit_def)
qed

definition two_certificates :: "string list" where
  "two_certificates = [''--webhook-cert-path=/w'', ''--metrics-cert-path'', ''/m'']"

lemma two_certificates_parsed:
  "parse_flags (\<lambda>_. None) default_settings two_certificates
     = Inr (default_settings\<lparr>webhookCertPath := ''/w'', metricsCertPath := ''/m''\<rparr>)"
  by (simp add: two_certificates_def parse_flags.simps find_flag_def string_flags_def split_value_def Let_def)

definition h2 :: tls_Config where
  "h2 = \<lparr>NextProtos = [''h2''], GetCertificate = None\<rparr>"

theorem tls_of_servers_witness:
  "\<exists>p. run (main (\<lambda>_ _. True) max (\<lambda>_. []) (\<lambda>_. None) two_certificates) process0 = (Inr (), p)
     \<and> NextProtos (with_options (arrays p) (webhook_opts p) h2) = [''http/1.1'']
     \<and> GetCertificate (with_options (arrays p) (webhook_opts p) h2) = Some (''/w/tls.crt'', ''/w/tls.key'')
     \<and> GetCertificate (with_options (arrays p) (metrics_opts p) h2) = Some (''/m/tls.crt'', ''/m/tls.key'')"
proof -
  obtain p where r: "run (main (\<lambda>_ _. True) max (\<lambda>_. []) (\<lambda>_. None) two_certificates) process0 = (Inr (), p)"
    using main_returns [OF two_certificates_parsed] by blast
  from tls_of_servers [OF this two_certificates_parsed] r show ?thesis
    by (simp add: webhook_watcher_def metrics_watcher_def default_settings_def filepath_Join_def
        filepath_Clean_def clean_step_def Let_def)
qed

end
