(* ===== verification/Go_Heap.thy ===== *)
theory Go_Heap
  imports Prelude "HOL-Library.Sublist" "HOL-Library.AList" "HOL-Library.Multiset"
begin

text \<open>
  Pointers, slices and maps of Go as addresses of cells in a heap, and the copying of structures
  over them. A heap is the list of its cells, an address is an index, and \<open>new\<close> and \<open>make\<close>
  append a cell. The locale \<open>deep_copier\<close> says what a deep copy is: it stands for the same
  value, its memory is new, and nothing that was there changes. Copiers of parts combine to
  copiers of pointers, pairs, slices and structs.
\<close>

section \<open>Memory\<close>

definition new :: "'c \<Rightarrow> ('c list, nat) state" where
  "new c = State (\<lambda>h. (length h, h @ [c]))"

definition load :: "('c \<Rightarrow> 'a option) \<Rightarrow> nat \<Rightarrow> ('c list, 'a) state" where
  "load get a = State (\<lambda>h. (the (get (h ! a)), h))"

definition put_at :: "nat \<Rightarrow> 'c \<Rightarrow> ('c list, unit) state" where
  "put_at a c = State (\<lambda>h. ((), h[a := c]))"

lemma run_memory [simp]:
  "run (new c) h = (length h, h @ [c])" "run (load get a) h = (the (get (h ! a)), h)"
  "run (put_at a c) h = ((), h[a := c])"
  by (simp_all add: new_def load_def put_at_def)

lemma old_new_disjoint: "A \<subseteq> {..<n} \<Longrightarrow> B \<subseteq> {n..<m} \<Longrightarrow> A \<inter> B = {}" for n :: nat
  by (meson atLeastLessThan_iff disjoint_iff lessThan_iff not_le subsetD)

section \<open>Deep copies\<close>

text \<open>
  \<open>view\<close> is the value a structure stands for (\<open>None\<close> when a pointer dangles or has the wrong
  type), \<open>fp\<close> its footprint, the addresses it reaches.
\<close>

locale deep_copier =
  fixes view :: "'c list \<Rightarrow> 'a \<Rightarrow> 'v option"
    and fp :: "'c list \<Rightarrow> 'a \<Rightarrow> nat set"
    and copy :: "'a \<Rightarrow> ('c list, 'a) state"
  assumes bounded: "view h x = Some v \<Longrightarrow> fp h x \<subseteq> {..<length h}"
    and frame: "view h x = Some v \<Longrightarrow> \<forall>a \<in> fp h x. a < length h' \<and> h' ! a = h ! a \<Longrightarrow>
      view h' x = Some v \<and> fp h' x = fp h x"
    and copies: "view h x = Some v \<Longrightarrow> run (copy x) h = (y, h') \<Longrightarrow>
      prefix h h' \<and> view h' y = Some v \<and> fp h' y \<subseteq> {length h..<length h'}"
begin

lemma frame_prefix:
  assumes "view h x = Some v" and "prefix h h'"
  shows "view h' x = Some v" and "fp h' x = fp h x"
proof -
  have "\<forall>a \<in> fp h x. a < length h' \<and> h' ! a = h ! a"
    using bounded [OF assms(1)] assms(2) by (auto simp: prefix_def nth_append)
  from frame [OF assms(1) this] show "view h' x = Some v" "fp h' x = fp h x" by simp_all
qed

text \<open>Writing through the copy does not reach the original, nor the other way round.\<close>

theorem independent:
  assumes "view h x = Some v" and "run (copy x) h = (y, h')"
  shows "view h' x = Some v" and "view h' y = Some v" and "fp h' x \<inter> fp h' y = {}"
    and "\<lbrakk>length h' \<le> length h''; \<forall>a < length h'. a \<notin> fp h' y \<longrightarrow> h'' ! a = h' ! a\<rbrakk> \<Longrightarrow> view h'' x = Some v"
    and "\<lbrakk>length h' \<le> length h''; \<forall>a < length h'. a \<notin> fp h' x \<longrightarrow> h'' ! a = h' ! a\<rbrakk> \<Longrightarrow> view h'' y = Some v"
proof -
  note c = copies [OF assms]
  have pre: "prefix h h'" and y: "view h' y = Some v" and fresh: "fp h' y \<subseteq> {length h..<length h'}"
    using c by simp_all
  note x = frame_prefix [OF assms(1) pre]
  have old: "fp h' x \<subseteq> {..<length h}" using bounded [OF assms(1)] x(2) by simp
  show sep: "fp h' x \<inter> fp h' y = {}" by (rule old_new_disjoint [OF old fresh])
  have inx: "a < length h' \<and> a \<notin> fp h' y" if "a \<in> fp h' x" for a
    using that sep bounded [OF x(1)] by blast
  have iny: "a < length h' \<and> a \<notin> fp h' x" if "a \<in> fp h' y" for a
    using that sep bounded [OF y] by blast
  show "view h' x = Some v" "view h' y = Some v" by (rule x(1), rule y)
  show "view h'' x = Some v" if "length h' \<le> length h''" and "\<forall>a < length h'. a \<notin> fp h' y \<longrightarrow> h'' ! a = h' ! a"
    using frame [OF x(1), of h''] inx that by (metis order_less_le_trans)
  show "view h'' y = Some v" if "length h' \<le> length h''" and "\<forall>a < length h'. a \<notin> fp h' x \<longrightarrow> h'' ! a = h' ! a"
    using frame [OF y, of h''] iny that by (metis order_less_le_trans)
qed

end

section \<open>Values and structs\<close>

definition view_value :: "'c list \<Rightarrow> 'a \<Rightarrow> 'a option" where
  "view_value h x = Some x"

definition fp_value :: "'c list \<Rightarrow> 'a \<Rightarrow> nat set" where
  "fp_value h x = {}"

lemma copier_value: "deep_copier view_value fp_value State_Monad.return"
  by unfold_locales (simp_all add: view_value_def fp_value_def)

text \<open>Two fields, copied one after the other.\<close>

definition view_pair ::
  "('c list \<Rightarrow> 'a \<Rightarrow> 'v option) \<Rightarrow> ('c list \<Rightarrow> 'b \<Rightarrow> 'w option) \<Rightarrow> 'c list \<Rightarrow> 'a \<times> 'b \<Rightarrow> ('v \<times> 'w) option" where
  "view_pair v1 v2 h = (\<lambda>(x, y). case (v1 h x, v2 h y) of (Some a, Some b) \<Rightarrow> Some (a, b) | _ \<Rightarrow> None)"

definition fp_pair ::
  "('c list \<Rightarrow> 'a \<Rightarrow> nat set) \<Rightarrow> ('c list \<Rightarrow> 'b \<Rightarrow> nat set) \<Rightarrow> 'c list \<Rightarrow> 'a \<times> 'b \<Rightarrow> nat set" where
  "fp_pair fp1 fp2 h = (\<lambda>(x, y). fp1 h x \<union> fp2 h y)"

definition copy_pair ::
  "('a \<Rightarrow> ('c list, 'a) state) \<Rightarrow> ('b \<Rightarrow> ('c list, 'b) state) \<Rightarrow> 'a \<times> 'b \<Rightarrow> ('c list, 'a \<times> 'b) state" where
  "copy_pair f g = (\<lambda>(x, y). do { x' \<leftarrow> f x; y' \<leftarrow> g y; State_Monad.return (x', y') })"

lemma view_pair_Some:
  "view_pair v1 v2 h (x, y) = Some p \<longleftrightarrow> v1 h x = Some (fst p) \<and> v2 h y = Some (snd p)"
  by (cases p) (auto simp: view_pair_def split: option.splits)

lemma copier_pair:
  assumes "deep_copier v1 fp1 f" and "deep_copier v2 fp2 g"
  shows "deep_copier (view_pair v1 v2) (fp_pair fp1 fp2) (copy_pair f g)"
proof
  fix h :: "'a list" and x :: "'b \<times> 'd" and p
  obtain a b where x: "x = (a, b)" by fastforce
  assume "view_pair v1 v2 h x = Some p"
  then have va: "v1 h a = Some (fst p)" and vb: "v2 h b = Some (snd p)"
    using x by (simp_all add: view_pair_Some)
  show "fp_pair fp1 fp2 h x \<subseteq> {..<length h}"
    using deep_copier.bounded [OF assms(1) va] deep_copier.bounded [OF assms(2) vb] x
    by (simp add: fp_pair_def)
  show "view_pair v1 v2 h' x = Some p \<and> fp_pair fp1 fp2 h' x = fp_pair fp1 fp2 h x"
    if "\<forall>a \<in> fp_pair fp1 fp2 h x. a < length h' \<and> h' ! a = h ! a" for h'
    using deep_copier.frame [OF assms(1) va, of h'] deep_copier.frame [OF assms(2) vb, of h'] that x
    by (simp add: view_pair_Some fp_pair_def)
  show "prefix h h' \<and> view_pair v1 v2 h' y = Some p \<and> fp_pair fp1 fp2 h' y \<subseteq> {length h..<length h'}"
    if run: "run (copy_pair f g x) h = (y, h')" for y h'
  proof -
    obtain a' h1 where a': "run (f a) h = (a', h1)" by fastforce
    obtain b' h2 where b': "run (g b) h1 = (b', h2)" by fastforce
    have y: "y = (a', b')" "h' = h2" using run a' b' x by (simp_all add: copy_pair_def)
    note ca = deep_copier.copies [OF assms(1) va a']
    have "v2 h1 b = Some (snd p)" using deep_copier.frame_prefix(1) [OF assms(2) vb] ca by simp
    note cb = deep_copier.copies [OF assms(2) this b']
    note fa = deep_copier.frame_prefix [OF assms(1), of h1 a' "fst p" h2]
    have "prefix h h2" using ca cb prefix_order.trans by blast
    moreover have "length h \<le> length h1" "length h1 \<le> length h2"
      using ca cb by (simp_all add: prefix_length_le)
    ultimately show ?thesis using ca cb fa y by (auto simp: view_pair_Some fp_pair_def)
  qed
qed

text \<open>A struct is copied like the tuple of its fields.\<close>

lemma copier_struct:
  assumes "deep_copier v fp f" and "\<And>t. tuple (struct t) = t" and "\<And>s. struct (tuple s) = s"
    and "\<And>s. g s = do { t \<leftarrow> f (tuple s); State_Monad.return (struct t) }"
  shows "deep_copier (\<lambda>h s. v h (tuple s)) (\<lambda>h s. fp h (tuple s)) g"
proof
  fix h s w
  assume view: "v h (tuple s) = Some w"
  show "fp h (tuple s) \<subseteq> {..<length h}" by (rule deep_copier.bounded [OF assms(1) view])
  show "v h' (tuple s) = Some w \<and> fp h' (tuple s) = fp h (tuple s)"
    if "\<forall>a \<in> fp h (tuple s). a < length h' \<and> h' ! a = h ! a" for h'
    by (rule deep_copier.frame [OF assms(1) view that])
  show "prefix h h' \<and> v h' (tuple y) = Some w \<and> fp h' (tuple y) \<subseteq> {length h..<length h'}"
    if "run (g s) h = (y, h')" for y h'
    using that deep_copier.copies [OF assms(1) view] assms(2) by (auto simp: assms(4) split: prod.splits)
qed

section \<open>Pointers\<close>

text \<open>\<open>if in == nil { return nil }; out := new(T); in.DeepCopyInto(out); return out\<close>\<close>

definition copy_ptr ::
  "('c \<Rightarrow> 'a option) \<Rightarrow> ('a \<Rightarrow> 'c) \<Rightarrow> 'a \<Rightarrow> ('a \<Rightarrow> ('c list, 'a) state) \<Rightarrow> nat option \<Rightarrow> ('c list, nat option) state" where
  "copy_ptr get put zero copy p =
     (case p of
        None \<Rightarrow> State_Monad.return None
      | Some a \<Rightarrow>
          do {
            out \<leftarrow> new (put zero);
            x \<leftarrow> load get a;
            y \<leftarrow> copy x;
            _ \<leftarrow> put_at out (put y);
            State_Monad.return (Some out)
          })"

definition view_ptr ::
  "('c \<Rightarrow> 'a option) \<Rightarrow> ('c list \<Rightarrow> 'a \<Rightarrow> 'v option) \<Rightarrow> 'c list \<Rightarrow> nat option \<Rightarrow> 'v option option" where
  "view_ptr get v h p =
     (case p of
        None \<Rightarrow> Some None
      | Some a \<Rightarrow>
          if a < length h
          then (case get (h ! a) of None \<Rightarrow> None | Some x \<Rightarrow> map_option Some (v h x))
          else None)"

definition fp_ptr ::
  "('c \<Rightarrow> 'a option) \<Rightarrow> ('c list \<Rightarrow> 'a \<Rightarrow> nat set) \<Rightarrow> 'c list \<Rightarrow> nat option \<Rightarrow> nat set" where
  "fp_ptr get fp h p =
     (case p of
        None \<Rightarrow> {}
      | Some a \<Rightarrow> insert a (case get (h ! a) of None \<Rightarrow> {} | Some x \<Rightarrow> fp h x))"

lemma view_ptr_Some:
  "view_ptr get v h (Some a) = Some w \<longleftrightarrow>
     a < length h \<and> (\<exists>x u. get (h ! a) = Some x \<and> v h x = Some u \<and> w = Some u)"
  by (auto simp: view_ptr_def split: option.splits)

lemma view_ptr_None [simp]: "view_ptr get v h None = Some w \<longleftrightarrow> w = None" "fp_ptr get fp h None = {}"
  by (auto simp: view_ptr_def fp_ptr_def)

lemma copier_ptr:
  assumes "deep_copier v fp f" and "\<And>x. get (put x) = Some x"
  shows "deep_copier (view_ptr get v) (fp_ptr get fp) (copy_ptr get put zero f)"
proof
  fix h :: "'a list" and p w
  assume view: "view_ptr get v h p = Some w"
  have cases: thesis if "p = None \<Longrightarrow> w = None \<Longrightarrow> thesis"
    and "\<And>a x u. \<lbrakk>p = Some a; a < length h; get (h ! a) = Some x; v h x = Some u; w = Some u\<rbrakk> \<Longrightarrow> thesis" for thesis
    using view that by (cases p) (auto simp: view_ptr_Some)
  show "fp_ptr get fp h p \<subseteq> {..<length h}"
    by (rule cases) (auto simp: fp_ptr_def dest: deep_copier.bounded [OF assms(1)])
  show "view_ptr get v h' p = Some w \<and> fp_ptr get fp h' p = fp_ptr get fp h p"
    if same: "\<forall>a \<in> fp_ptr get fp h p. a < length h' \<and> h' ! a = h ! a" for h'
  proof (rule cases)
    fix a x u
    assume p: "p = Some a" "a < length h" "get (h ! a) = Some x" "v h x = Some u" "w = Some u"
    have "v h' x = Some u \<and> fp h' x = fp h x"
      using same p by (intro deep_copier.frame [OF assms(1) p(4)]) (simp add: fp_ptr_def)
    with same p show ?thesis by (auto simp: view_ptr_Some fp_ptr_def)
  qed simp
  show "prefix h h' \<and> view_ptr get v h' q = Some w \<and> fp_ptr get fp h' q \<subseteq> {length h..<length h'}"
    if run: "run (copy_ptr get put zero f p) h = (q, h')" for q h'
  proof (rule cases)
    assume "p = None" "w = None"
    then show ?thesis using run by (simp add: copy_ptr_def)
  next
    fix a x u
    assume p: "p = Some a" "a < length h" "get (h ! a) = Some x" "v h x = Some u" "w = Some u"
    let ?h1 = "h @ [put zero]" and ?out = "length h"
    obtain y h2 where y: "run (f x) ?h1 = (y, h2)" by fastforce
    have q: "q = Some ?out" "h' = h2[?out := put y]"
      using run p y by (simp_all add: copy_ptr_def nth_append)
    have "v ?h1 x = Some u" using deep_copier.frame_prefix(1) [OF assms(1) p(4)] by simp
    note c = deep_copier.copies [OF assms(1) this y]
    have len: "?out < length h2" using c by (auto simp: prefix_def)
    have "\<forall>b \<in> fp h2 y. b < length h' \<and> h' ! b = h2 ! b" using c q by fastforce
    then have y': "v h' y = Some u" "fp h' y = fp h2 y"
      using deep_copier.frame [OF assms(1)] c by blast+
    have "prefix h h'" using c q by (auto simp: prefix_def list_update_append)
    moreover have "get (h' ! ?out) = Some y" using q len assms(2) by simp
    ultimately show ?thesis using y' c q p(5) len by (auto simp: view_ptr_Some fp_ptr_def)
  qed
qed

section \<open>Slices\<close>

text \<open>
  \<open>*out = make([]T, len(*in)); for i := range *in { (*in)[i].DeepCopyInto(&(*out)[i]) }\<close>. A slice
  that is not nil is the address of the cell with its elements.
\<close>

fun copy_elements ::
  "('c \<Rightarrow> 'a list option) \<Rightarrow> ('a list \<Rightarrow> 'c) \<Rightarrow> ('a \<Rightarrow> ('c list, 'a) state) \<Rightarrow> nat \<Rightarrow> nat \<Rightarrow> nat list \<Rightarrow> ('c list, unit) state" where
  "copy_elements get put copy a out [] = State_Monad.return ()"
| "copy_elements get put copy a out (i # is) =
     do {
       xs \<leftarrow> load get a;
       y \<leftarrow> copy (xs ! i);
       ys \<leftarrow> load get out;
       _ \<leftarrow> put_at out (put (ys[i := y]));
       copy_elements get put copy a out is
     }"

definition copy_slice ::
  "('c \<Rightarrow> 'a list option) \<Rightarrow> ('a list \<Rightarrow> 'c) \<Rightarrow> 'a \<Rightarrow> ('a \<Rightarrow> ('c list, 'a) state) \<Rightarrow> nat option \<Rightarrow> ('c list, nat option) state" where
  "copy_slice get put zero copy p =
     (case p of
        None \<Rightarrow> State_Monad.return None
      | Some a \<Rightarrow>
          do {
            xs \<leftarrow> load get a;
            out \<leftarrow> new (put (replicate (length xs) zero));
            _ \<leftarrow> copy_elements get put copy a out [0..<length xs];
            State_Monad.return (Some out)
          })"

definition view_list :: "('c list \<Rightarrow> 'a \<Rightarrow> 'v option) \<Rightarrow> 'c list \<Rightarrow> 'a list \<Rightarrow> 'v list option" where
  "view_list v h xs = (if None \<in> set (map (v h) xs) then None else Some (map (\<lambda>x. the (v h x)) xs))"

definition fp_list :: "('c list \<Rightarrow> 'a \<Rightarrow> nat set) \<Rightarrow> 'c list \<Rightarrow> 'a list \<Rightarrow> nat set" where
  "fp_list fp h xs = (\<Union>x \<in> set xs. fp h x)"

lemma view_list_Some:
  "view_list v h xs = Some ws \<longleftrightarrow>
     length xs = length ws \<and> (\<forall>i < length xs. v h (xs ! i) = Some (ws ! i))"
proof
  assume "view_list v h xs = Some ws"
  then have "None \<notin> set (map (v h) xs)" "ws = map (\<lambda>x. the (v h x)) xs"
    by (auto simp: view_list_def split: if_splits)
  then show "length xs = length ws \<and> (\<forall>i < length xs. v h (xs ! i) = Some (ws ! i))"
    by (auto simp: image_iff in_set_conv_nth) (metis option.collapse nth_mem)
next
  assume r: "length xs = length ws \<and> (\<forall>i < length xs. v h (xs ! i) = Some (ws ! i))"
  then have "None \<notin> set (map (v h) xs)" by (auto simp: in_set_conv_nth)
  moreover have "map (\<lambda>x. the (v h x)) xs = ws" using r by (auto intro: nth_equalityI)
  ultimately show "view_list v h xs = Some ws" by (simp add: view_list_def)
qed

text \<open>
  The loop: after the elements before \<open>i\<close> are copied, the array \<open>out\<close> holds copies of them,
  whose memory lies behind it.
\<close>

definition copied_upto ::
  "('c list \<Rightarrow> 'a \<Rightarrow> 'v option) \<Rightarrow> ('c list \<Rightarrow> 'a \<Rightarrow> nat set) \<Rightarrow> ('c \<Rightarrow> 'a list option) \<Rightarrow> 'c list \<Rightarrow> 'v list \<Rightarrow> nat \<Rightarrow> 'c list \<Rightarrow> bool" where
  "copied_upto v fp get h ws i hi \<longleftrightarrow>
     length h < length hi \<and> prefix h hi
     \<and> (\<exists>ys. get (hi ! length h) = Some ys \<and> length ys = length ws
          \<and> (\<forall>j < i. v hi (ys ! j) = Some (ws ! j) \<and> fp hi (ys ! j) \<subseteq> {Suc (length h)..<length hi}))"

lemma copy_elements_copied:
  assumes "deep_copier v fp f" and "\<And>x. get (put x) = Some x"
    and a: "a < length h" "get (h ! a) = Some xs" "view_list v h xs = Some ws"
    and "i \<le> length xs" and "copied_upto v fp get h ws i hi"
    and "run (copy_elements get put f a (length h) [i..<length xs]) hi = (u, h')"
  shows "copied_upto v fp get h ws (length xs) h'"
  using assms(6-)
proof (induction "length xs - i" arbitrary: i hi)
  case 0
  then show ?case by simp
next
  case (Suc n)
  let ?out = "length h"
  have i: "i < length xs" and split: "[i..<length xs] = i # [Suc i..<length xs]"
    using Suc.hyps(2) by (simp_all add: upt_conv_Cons)
  obtain ys where hi: "?out < length hi" "prefix h hi" "get (hi ! ?out) = Some ys" "length ys = length ws"
    and prior: "\<And>j. j < i \<Longrightarrow> v hi (ys ! j) = Some (ws ! j) \<and> fp hi (ys ! j) \<subseteq> {Suc ?out..<length hi}"
    using Suc.prems(2) by (auto simp: copied_upto_def)
  have len: "length xs = length ws" and vi: "v h (xs ! i) = Some (ws ! i)"
    using a(3) i by (simp_all add: view_list_Some)
  have xs: "get (hi ! a) = Some xs" using a hi(2) by (auto simp: prefix_def nth_append)
  obtain y h2 where y: "run (f (xs ! i)) hi = (y, h2)" by fastforce
  note c = deep_copier.copies [OF assms(1) deep_copier.frame_prefix(1) [OF assms(1) vi hi(2)] y]
  have h2: "prefix hi h2" "length hi \<le> length h2" using c by (simp_all add: prefix_length_le)
  have out2: "get (h2 ! ?out) = Some ys" using h2 hi by (auto simp: prefix_def nth_append)
  let ?h3 = "h2[?out := put (ys[i := y])]"
  have rest: "run (copy_elements get put f a ?out [Suc i..<length xs]) ?h3 = (u, h')"
    using Suc.prems(3) y xs out2 by (simp add: split)
  have same: "v ?h3 z = Some w \<and> fp ?h3 z = fp h2 z"
    if "v h2 z = Some w" and "fp h2 z \<subseteq> {Suc ?out..<m}" for z w m
  proof -
    have "\<forall>b \<in> fp h2 z. b < length ?h3 \<and> ?h3 ! b = h2 ! b"
      using deep_copier.bounded [OF assms(1) that(1)] that(2) by fastforce
    from deep_copier.frame [OF assms(1) that(1) this] show ?thesis .
  qed
  have new: "v ?h3 y = Some (ws ! i) \<and> fp ?h3 y \<subseteq> {Suc ?out..<length ?h3}"
  proof -
    have "fp h2 y \<subseteq> {Suc ?out..<length h2}" using c hi(1) by fastforce
    with same [OF _ this, of "ws ! i"] c show ?thesis by simp
  qed
  have old: "v ?h3 (ys ! j) = Some (ws ! j) \<and> fp ?h3 (ys ! j) \<subseteq> {Suc ?out..<length ?h3}" if "j < i" for j
  proof -
    note d = prior [OF that]
    note fr = deep_copier.frame_prefix [OF assms(1) conjunct1 [OF d] h2(1)]
    from same [OF fr(1), of "length hi"] d fr(2) h2(2) show ?thesis by force
  qed
  have "prefix h ?h3" using hi(2) h2(1) by (auto simp: prefix_def list_update_append)
  moreover have "get (?h3 ! ?out) = Some (ys[i := y])" using hi(1) h2(2) assms(2) by simp
  moreover have "v ?h3 (ys[i := y] ! j) = Some (ws ! j) \<and> fp ?h3 (ys[i := y] ! j) \<subseteq> {Suc ?out..<length ?h3}"
    if "j < Suc i" for j
    using that old new i len hi(4) by (cases "j = i") simp_all
  ultimately have "copied_upto v fp get h ws (Suc i) ?h3"
    using hi(1,4) h2(2) unfolding copied_upto_def by (intro conjI exI [of _ "ys[i := y]"]) simp_all
  with Suc.hyps(1) [of "Suc i" ?h3] Suc.hyps(2) i rest show ?case by simp
qed

lemma copier_slice:
  assumes "deep_copier v fp f" and "\<And>x. get (put x) = Some x"
  shows "deep_copier (view_ptr get (view_list v)) (fp_ptr get (fp_list fp)) (copy_slice get put zero f)"
proof
  fix h :: "'a list" and p w
  assume view: "view_ptr get (view_list v) h p = Some w"
  have cases: thesis if "p = None \<Longrightarrow> w = None \<Longrightarrow> thesis"
    and "\<And>a xs ws. \<lbrakk>p = Some a; a < length h; get (h ! a) = Some xs; view_list v h xs = Some ws; w = Some ws\<rbrakk> \<Longrightarrow> thesis" for thesis
    using view that by (cases p) (auto simp: view_ptr_Some)
  have elem: "\<exists>u. v h x = Some u" if "view_list v h xs = Some ws" "x \<in> set xs" for x xs ws
    using that by (auto simp: view_list_Some in_set_conv_nth)
  show "fp_ptr get (fp_list fp) h p \<subseteq> {..<length h}"
  proof (rule cases)
    fix a xs ws
    assume p: "p = Some a" "a < length h" "get (h ! a) = Some xs" "view_list v h xs = Some ws"
    have "fp h x \<subseteq> {..<length h}" if "x \<in> set xs" for x
      using elem [OF p(4) that] deep_copier.bounded [OF assms(1)] by blast
    with p show ?thesis by (auto simp: fp_ptr_def fp_list_def)
  qed simp
  show "view_ptr get (view_list v) h' p = Some w \<and> fp_ptr get (fp_list fp) h' p = fp_ptr get (fp_list fp) h p"
    if same: "\<forall>a \<in> fp_ptr get (fp_list fp) h p. a < length h' \<and> h' ! a = h ! a" for h'
  proof (rule cases)
    fix a xs ws
    assume p: "p = Some a" "a < length h" "get (h ! a) = Some xs" "view_list v h xs = Some ws" "w = Some ws"
    have fr: "v h' x = v h x \<and> fp h' x = fp h x" if x: "x \<in> set xs" for x
    proof -
      obtain u where u: "v h x = Some u" using elem [OF p(4) x] by blast
      have "\<forall>b \<in> fp h x. b < length h' \<and> h' ! b = h ! b" using same p x by (auto simp: fp_ptr_def fp_list_def)
      from deep_copier.frame [OF assms(1) u this] u show ?thesis by simp
    qed
    then have "view_list v h' xs = Some ws" using p(4) by (simp add: view_list_Some)
    with same p fr show ?thesis by (auto simp: view_ptr_Some fp_ptr_def fp_list_def)
  qed simp
  show "prefix h h' \<and> view_ptr get (view_list v) h' q = Some w
      \<and> fp_ptr get (fp_list fp) h' q \<subseteq> {length h..<length h'}"
    if run: "run (copy_slice get put zero f p) h = (q, h')" for q h'
  proof (rule cases)
    assume "p = None" "w = None"
    then show ?thesis using run by (simp add: copy_slice_def)
  next
    fix a xs ws
    assume p: "p = Some a" "a < length h" "get (h ! a) = Some xs" "view_list v h xs = Some ws" "w = Some ws"
    let ?h1 = "h @ [put (replicate (length xs) zero)]"
    have len: "length xs = length ws" using p(4) by (simp add: view_list_Some)
    have q: "q = Some (length h)"
      and loop: "run (copy_elements get put f a (length h) [0..<length xs]) ?h1 = ((), h')"
      using run p by (simp_all add: copy_slice_def split: prod.splits)
    have "copied_upto v fp get h ws 0 ?h1" by (simp add: copied_upto_def assms(2) len)
    from copy_elements_copied [OF assms p(2-4) _ this loop]
    obtain ys where ys: "length h < length h'" "prefix h h'" "get (h' ! length h) = Some ys"
        "length ys = length ws"
        "\<forall>j < length xs. v h' (ys ! j) = Some (ws ! j) \<and> fp h' (ys ! j) \<subseteq> {Suc (length h)..<length h'}"
      by (auto simp: copied_upto_def)
    have "view_list v h' ys = Some ws" using ys(4,5) len by (simp add: view_list_Some)
    moreover have "fp_list fp h' ys \<subseteq> {length h..<length h'}"
      using ys(4,5) len by (fastforce simp: fp_list_def in_set_conv_nth)
    ultimately show ?thesis using ys(1-3) q p(5) by (auto simp: view_ptr_Some fp_ptr_def)
  qed
qed

text \<open>\<open>copy(*out, *in)\<close> of plain elements.\<close>

definition copy_plain_slice ::
  "('c \<Rightarrow> 'a list option) \<Rightarrow> ('a list \<Rightarrow> 'c) \<Rightarrow> 'a \<Rightarrow> nat option \<Rightarrow> ('c list, nat option) state" where
  "copy_plain_slice get put zero p =
     (case p of
        None \<Rightarrow> State_Monad.return None
      | Some a \<Rightarrow>
          do {
            xs \<leftarrow> load get a;
            out \<leftarrow> new (put (replicate (length xs) zero));
            _ \<leftarrow> put_at out (put xs);
            State_Monad.return (Some out)
          })"

lemma copier_cong:
  assumes "deep_copier v fp f" and "\<And>h x w. v h x = Some w \<Longrightarrow> run (g x) h = run (f x) h"
  shows "deep_copier v fp g"
proof -
  note a = assms(1)
  show ?thesis
    using deep_copier.bounded [OF a] deep_copier.frame [OF a] deep_copier.copies [OF a] assms(2)
    by (intro deep_copier.intro) metis+
qed

lemma copier_plain_slice:
  assumes "\<And>x. get (put x) = Some x"
  shows "deep_copier (view_ptr get view_value) (fp_ptr get fp_value) (copy_plain_slice get put zero)"
proof (rule copier_cong [OF copier_ptr [OF copier_value, where get = get and put = put and zero = "[]", OF assms]])
  fix h p w
  assume "view_ptr get view_value h p = Some w"
  then show "run (copy_plain_slice get put zero p) h = run (copy_ptr get put [] State_Monad.return p) h"
    by (cases p) (auto simp: copy_plain_slice_def copy_ptr_def view_ptr_Some nth_append)
qed

section \<open>Maps\<close>

text \<open>
  \<open>*out = make(map[string]string, len(*in)); for key, val := range *in { (*out)[key] = val }\<close>, in the
  order \<open>order\<close> in which Go ranges over the map.
\<close>

fun copy_entries ::
  "('c \<Rightarrow> (string \<times> string) list option) \<Rightarrow> ((string \<times> string) list \<Rightarrow> 'c) \<Rightarrow> nat \<Rightarrow> (string \<times> string) list \<Rightarrow> ('c list, unit) state" where
  "copy_entries get put out [] = State_Monad.return ()"
| "copy_entries get put out ((k, x) # kxs) =
     do {
       m \<leftarrow> load get out;
       _ \<leftarrow> put_at out (put (AList.update k x m));
       copy_entries get put out kxs
     }"

definition copy_map ::
  "((string \<times> string) list \<Rightarrow> (string \<times> string) list) \<Rightarrow> ('c \<Rightarrow> (string \<times> string) list option)
    \<Rightarrow> ((string \<times> string) list \<Rightarrow> 'c) \<Rightarrow> nat option \<Rightarrow> ('c list, nat option) state" where
  "copy_map order get put p =
     (case p of
        None \<Rightarrow> State_Monad.return None
      | Some a \<Rightarrow>
          do {
            out \<leftarrow> new (put []);
            m \<leftarrow> load get a;
            _ \<leftarrow> copy_entries get put out (order m);
            State_Monad.return (Some out)
          })"

text \<open>The entries of a map cell stand for a map when no key occurs twice.\<close>

definition view_entries :: "'c list \<Rightarrow> (string \<times> string) list \<Rightarrow> (string \<rightharpoonup> string) option" where
  "view_entries h m = (if distinct (map fst m) then Some (map_of m) else None)"

lemma copy_entries_run:
  assumes "\<And>x. get (put x) = Some x" and "out < length h" and "get (h ! out) = Some m"
  shows "\<exists>m'. run (copy_entries get put out kxs) h = ((), h[out := (if kxs = [] then h ! out else put m')])
    \<and> (kxs = [] \<longrightarrow> m' = m) \<and> m' = fold (\<lambda>(k, x). AList.update k x) kxs m"
  using assms(2,3)
proof (induction kxs arbitrary: h m)
  case Nil
  then show ?case by simp
next
  case (Cons kx kxs)
  obtain k x where kx: "kx = (k, x)" by fastforce
  let ?m = "AList.update k x m"
  have "get (h[out := put ?m] ! out) = Some ?m" using Cons.prems assms(1) by simp
  from Cons.IH [OF _ this] Cons.prems show ?case by (auto simp: kx)
qed

lemma fold_update_map_of:
  "distinct (map fst kxs) \<Longrightarrow> map_of (fold (\<lambda>(k, x). AList.update k x) kxs m) = map_of m ++ map_of kxs"
proof (induction kxs arbitrary: m)
  case (Cons kx kxs)
  obtain k x where kx: "kx = (k, x)" by fastforce
  from Cons have k: "map_of kxs k = None" by (simp add: kx map_of_eq_None_iff)
  from Cons have "map_of (fold (\<lambda>(k, x). AList.update k x) kxs (AList.update k x m))
      = map_of (AList.update k x m) ++ map_of kxs" by (simp add: kx)
  also have "\<dots> = map_of m ++ map_of (kx # kxs)"
    using k by (intro ext) (auto simp: kx map_add_def update_conv' split: option.splits)
  finally show ?case by (simp only: kx fold_simps prod.case)
qed simp

lemma fold_update_distinct:
  "distinct (map fst m) \<Longrightarrow> distinct (map fst (fold (\<lambda>(k, x). AList.update k x) kxs m))"
  by (induction kxs arbitrary: m) (auto intro: distinct_update)

lemma copier_map:
  assumes "\<And>x. get (put x) = Some x" and order: "\<And>m. mset (order m) = mset m"
  shows "deep_copier (view_ptr get view_entries) (fp_ptr get fp_value) (copy_map order get put)"
proof
  fix h :: "'a list" and p w
  assume view: "view_ptr get view_entries h p = Some w"
  have cases: thesis if "p = None \<Longrightarrow> w = None \<Longrightarrow> thesis"
    and "\<And>a m. \<lbrakk>p = Some a; a < length h; get (h ! a) = Some m; distinct (map fst m); w = Some (map_of m)\<rbrakk> \<Longrightarrow> thesis" for thesis
    using view that by (cases p) (auto simp: view_ptr_Some view_entries_def split: if_splits)
  show "fp_ptr get fp_value h p \<subseteq> {..<length h}"
    by (rule cases) (auto simp: fp_ptr_def fp_value_def)
  show "view_ptr get view_entries h' p = Some w \<and> fp_ptr get fp_value h' p = fp_ptr get fp_value h p"
    if "\<forall>a \<in> fp_ptr get fp_value h p. a < length h' \<and> h' ! a = h ! a" for h'
    using that by (rule_tac cases) (auto simp: view_ptr_Some fp_ptr_def view_entries_def fp_value_def)
  show "prefix h h' \<and> view_ptr get view_entries h' q = Some w \<and> fp_ptr get fp_value h' q \<subseteq> {length h..<length h'}"
    if run: "run (copy_map order get put p) h = (q, h')" for q h'
  proof (rule cases)
    assume "p = None" "w = None"
    then show ?thesis using run by (simp add: copy_map_def)
  next
    fix a m
    assume p: "p = Some a" "a < length h" "get (h ! a) = Some m" "distinct (map fst m)" "w = Some (map_of m)"
    let ?h1 = "h @ [put []]" and ?out = "length h"
    have "get (?h1 ! ?out) = Some []" by (simp add: assms(1))
    from copy_entries_run [of get put ?out ?h1 "[]" "order m", OF assms(1) _ this] obtain m' where
      m': "run (copy_entries get put ?out (order m)) ?h1 = ((), ?h1[?out := (if order m = [] then ?h1 ! ?out else put m')])"
        "m' = fold (\<lambda>(k, x). AList.update k x) (order m) []" by auto
    have q: "q = Some ?out" and h': "h' = h @ [put m']"
      using run p m' by (auto simp: copy_map_def nth_append split: if_splits)
    have "mset (map fst (order m)) = mset (map fst m)" using order [of m] by (metis mset_map)
    then have d: "distinct (map fst (order m))" using p(4) by (metis mset_eq_imp_distinct_iff)
    have "map_of (order m) = map_of m"
      using order [of m] p(4) d by (intro map_of_eqI) (auto dest: mset_eq_setD)
    then have "map_of m' = map_of m" using fold_update_map_of [OF d, of "[]"] m'(2) by simp
    moreover have "distinct (map fst m')" using fold_update_distinct [of "[]"] m'(2) by simp
    ultimately show ?thesis
      using q h' p(5) assms(1) by (simp add: view_ptr_Some view_entries_def fp_ptr_def fp_value_def)
  qed
qed

end
