(* ===== verification/Deep_Copy.thy ===== *)
theory Deep_Copy
  imports Go_Heap Api_Types
begin

text \<open>
  The generated deep copies of \<open>api/v1alpha1/zz_generated.deepcopy.go\<close>, over structures whose
  pointers, slices and maps are addresses of a heap. The two structs of other packages inside
  them, \<open>ObjectMeta\<close> and \<open>ListMeta\<close> of Kubernetes, and its \<open>Condition\<close>, are type parameters, and
  their \<open>DeepCopyInto\<close> methods are arguments. The order in which Go ranges over a map is one, too.
\<close>

section \<open>The structs in memory\<close>

record TypeMeta =
  tm_Kind :: string
  tm_APIVersion :: string

record mig_struct =
  mig_Enabled :: bool
  mig_Strategy :: string
  mig_Devices :: "nat option"

record images_struct =
  im_Registry :: string
  im_Tag :: string
  im_Overrides :: "nat option"

record spec_struct =
  sp_GPUProfile :: string
  sp_GPUCount :: int32
  sp_Custom :: "nat option"
  sp_NodeSelector :: "nat option"
  sp_MIG :: "nat option"
  sp_Components :: "nat option"
  sp_Images :: "nat option"

record status_struct =
  st_Conditions :: "nat option"
  st_ReadyNodes :: int32
  st_TotalNodes :: int32
  st_GPUProfile :: string
  st_GPUCountPerNode :: int32

record 'm config_struct =
  cf_TypeMeta :: TypeMeta
  cf_ObjectMeta :: 'm
  cf_Spec :: spec_struct
  cf_Status :: status_struct

record 'l list_struct =
  ls_TypeMeta :: TypeMeta
  ls_ListMeta :: 'l
  ls_Items :: "nat option"

text \<open>What a cell of the heap can hold; \<open>CellOther\<close> is memory of the other packages.\<close>

datatype ('m, 'l, 'c, 'x) cell =
    CellMap (the_map: "(string \<times> string) list")
  | CellCustom (the_custom: CustomGPUSpec)
  | CellDevice (the_device: MIGDevice)
  | CellDevices (the_devices: "MIGDevice list")
  | CellMIG (the_mig: mig_struct)
  | CellComponents (the_components: ComponentsSpec)
  | CellImages (the_images: images_struct)
  | CellSpec (the_spec: spec_struct)
  | CellConditions (the_conditions: "'c list")
  | CellStatus (the_status: status_struct)
  | CellConfig (the_config: "'m config_struct")
  | CellConfigs (the_configs: "'m config_struct list")
  | CellList (the_list: "'l list_struct")
  | CellOther (the_other: 'x)

definition getter :: "('c \<Rightarrow> bool) \<Rightarrow> ('c \<Rightarrow> 'a) \<Rightarrow> 'c \<Rightarrow> 'a option" where
  "getter is_it the_it c = (if is_it c then Some (the_it c) else None)"

section \<open>Zero values\<close>

definition zero_custom :: CustomGPUSpec where "zero_custom = \<lparr>GPUProduct = [], GPUMemory = 0\<rparr>"

definition zero_device :: MIGDevice where "zero_device = \<lparr>mig_device_name = [], mig_device_count = 0\<rparr>"

definition zero_components :: ComponentsSpec where
  "zero_components = \<lparr>DevicePlugin = False, MetricsExporter = False, TopologyServer = False,
     StatusUpdater = False, DRA = False, ComputeDomainController = False\<rparr>"

definition zero_mig :: mig_struct where
  "zero_mig = \<lparr>mig_Enabled = False, mig_Strategy = [], mig_Devices = None\<rparr>"

definition zero_images :: images_struct where
  "zero_images = \<lparr>im_Registry = [], im_Tag = [], im_Overrides = None\<rparr>"

definition zero_spec :: spec_struct where
  "zero_spec = \<lparr>sp_GPUProfile = [], sp_GPUCount = 0, sp_Custom = None, sp_NodeSelector = None,
     sp_MIG = None, sp_Components = None, sp_Images = None\<rparr>"

definition zero_status :: status_struct where
  "zero_status = \<lparr>st_Conditions = None, st_ReadyNodes = 0, st_TotalNodes = 0, st_GPUProfile = [],
     st_GPUCountPerNode = 0\<rparr>"

definition zero_config :: "'m \<Rightarrow> 'm config_struct" where
  "zero_config m = \<lparr>cf_TypeMeta = \<lparr>tm_Kind = [], tm_APIVersion = []\<rparr>, cf_ObjectMeta = m,
     cf_Spec = zero_spec, cf_Status = zero_status\<rparr>"

definition zero_list :: "'l \<Rightarrow> 'l list_struct" where
  "zero_list l = \<lparr>ls_TypeMeta = \<lparr>tm_Kind = [], tm_APIVersion = []\<rparr>, ls_ListMeta = l, ls_Items = None\<rparr>"

section \<open>\<open>DeepCopyInto\<close>\<close>

text \<open>
  Each function takes \<open>*in\<close> and returns what it leaves in \<open>*out\<close>: \<open>*out = *in\<close>, and then new
  memory for each pointer, slice and map that is not nil. Other packages' methods are gathered
  in a record.
\<close>

record ('m, 'l, 'c, 'x) meta_library =
  MapRange :: "(string \<times> string) list \<Rightarrow> (string \<times> string) list"
  ZeroObjectMeta :: 'm
  ZeroListMeta :: 'l
  ZeroCondition :: 'c
  ObjectMeta_DeepCopyInto :: "'m \<Rightarrow> (('m, 'l, 'c, 'x) cell list, 'm) state"
  ListMeta_DeepCopyInto :: "'l \<Rightarrow> (('m, 'l, 'c, 'x) cell list, 'l) state"
  Condition_DeepCopyInto :: "'c \<Rightarrow> (('m, 'l, 'c, 'x) cell list, 'c) state"

type_synonym ('m, 'l, 'c, 'x, 'a) copying = "(('m, 'l, 'c, 'x) cell list, 'a) state"

definition ComponentsSpec_DeepCopyInto :: "ComponentsSpec \<Rightarrow> ('m, 'l, 'c, 'x, ComponentsSpec) copying" where
  "ComponentsSpec_DeepCopyInto src = State_Monad.return src"

definition CustomGPUSpec_DeepCopyInto :: "CustomGPUSpec \<Rightarrow> ('m, 'l, 'c, 'x, CustomGPUSpec) copying" where
  "CustomGPUSpec_DeepCopyInto src = State_Monad.return src"

definition MIGDevice_DeepCopyInto :: "MIGDevice \<Rightarrow> ('m, 'l, 'c, 'x, MIGDevice) copying" where
  "MIGDevice_DeepCopyInto src = State_Monad.return src"

definition MIGSpec_DeepCopyInto :: "mig_struct \<Rightarrow> ('m, 'l, 'c, 'x, mig_struct) copying" where
  "MIGSpec_DeepCopyInto src =
     do {
       devices \<leftarrow> copy_plain_slice (getter is_CellDevices the_devices) CellDevices zero_device (mig_Devices src);
       State_Monad.return (src\<lparr>mig_Devices := devices\<rparr>)
     }"

definition ImagesSpec_DeepCopyInto ::
  "('m, 'l, 'c, 'x) meta_library \<Rightarrow> images_struct \<Rightarrow> ('m, 'l, 'c, 'x, images_struct) copying" where
  "ImagesSpec_DeepCopyInto lib src =
     do {
       overrides \<leftarrow> copy_map (MapRange lib) (getter is_CellMap the_map) CellMap (im_Overrides src);
       State_Monad.return (src\<lparr>im_Overrides := overrides\<rparr>)
     }"

definition FakeGPUConfigSpec_DeepCopyInto ::
  "('m, 'l, 'c, 'x) meta_library \<Rightarrow> spec_struct \<Rightarrow> ('m, 'l, 'c, 'x, spec_struct) copying" where
  "FakeGPUConfigSpec_DeepCopyInto lib src =
     do {
       custom \<leftarrow> copy_ptr (getter is_CellCustom the_custom) CellCustom zero_custom State_Monad.return (sp_Custom src);
       selector \<leftarrow> copy_map (MapRange lib) (getter is_CellMap the_map) CellMap (sp_NodeSelector src);
       mig \<leftarrow> copy_ptr (getter is_CellMIG the_mig) CellMIG zero_mig MIGSpec_DeepCopyInto (sp_MIG src);
       components \<leftarrow> copy_ptr (getter is_CellComponents the_components) CellComponents zero_components
         State_Monad.return (sp_Components src);
       images \<leftarrow> copy_ptr (getter is_CellImages the_images) CellImages zero_images
         (ImagesSpec_DeepCopyInto lib) (sp_Images src);
       State_Monad.return (src\<lparr>sp_Custom := custom, sp_NodeSelector := selector, sp_MIG := mig,
         sp_Components := components, sp_Images := images\<rparr>)
     }"

definition FakeGPUConfigStatus_DeepCopyInto ::
  "('m, 'l, 'c, 'x) meta_library \<Rightarrow> status_struct \<Rightarrow> ('m, 'l, 'c, 'x, status_struct) copying" where
  "FakeGPUConfigStatus_DeepCopyInto lib src =
     do {
       conditions \<leftarrow> copy_slice (getter is_CellConditions the_conditions) CellConditions (ZeroCondition lib)
         (Condition_DeepCopyInto lib) (st_Conditions src);
       State_Monad.return (src\<lparr>st_Conditions := conditions\<rparr>)
     }"

definition FakeGPUConfig_DeepCopyInto ::
  "('m, 'l, 'c, 'x) meta_library \<Rightarrow> 'm config_struct \<Rightarrow> ('m, 'l, 'c, 'x, 'm config_struct) copying" where
  "FakeGPUConfig_DeepCopyInto lib src =
     do {
       objectMeta \<leftarrow> ObjectMeta_DeepCopyInto lib (cf_ObjectMeta src);
       spec \<leftarrow> FakeGPUConfigSpec_DeepCopyInto lib (cf_Spec src);
       status \<leftarrow> FakeGPUConfigStatus_DeepCopyInto lib (cf_Status src);
       State_Monad.return (src\<lparr>cf_TypeMeta := cf_TypeMeta src, cf_ObjectMeta := objectMeta,
         cf_Spec := spec, cf_Status := status\<rparr>)
     }"

definition FakeGPUConfigList_DeepCopyInto ::
  "('m, 'l, 'c, 'x) meta_library \<Rightarrow> 'l list_struct \<Rightarrow> ('m, 'l, 'c, 'x, 'l list_struct) copying" where
  "FakeGPUConfigList_DeepCopyInto lib src =
     do {
       listMeta \<leftarrow> ListMeta_DeepCopyInto lib (ls_ListMeta src);
       items \<leftarrow> copy_slice (getter is_CellConfigs the_configs) CellConfigs (zero_config (ZeroObjectMeta lib))
         (FakeGPUConfig_DeepCopyInto lib) (ls_Items src);
       State_Monad.return (src\<lparr>ls_TypeMeta := ls_TypeMeta src, ls_ListMeta := listMeta, ls_Items := items\<rparr>)
     }"

section \<open>\<open>DeepCopy\<close> and \<open>DeepCopyObject\<close>\<close>

definition ComponentsSpec_DeepCopy :: "nat option \<Rightarrow> ('m, 'l, 'c, 'x, nat option) copying" where
  "ComponentsSpec_DeepCopy =
     copy_ptr (getter is_CellComponents the_components) CellComponents zero_components ComponentsSpec_DeepCopyInto"

definition CustomGPUSpec_DeepCopy :: "nat option \<Rightarrow> ('m, 'l, 'c, 'x, nat option) copying" where
  "CustomGPUSpec_DeepCopy =
     copy_ptr (getter is_CellCustom the_custom) CellCustom zero_custom CustomGPUSpec_DeepCopyInto"

definition MIGDevice_DeepCopy :: "nat option \<Rightarrow> ('m, 'l, 'c, 'x, nat option) copying" where
  "MIGDevice_DeepCopy =
     copy_ptr (getter is_CellDevice the_device) CellDevice zero_device MIGDevice_DeepCopyInto"

definition MIGSpec_DeepCopy :: "nat option \<Rightarrow> ('m, 'l, 'c, 'x, nat option) copying" where
  "MIGSpec_DeepCopy = copy_ptr (getter is_CellMIG the_mig) CellMIG zero_mig MIGSpec_DeepCopyInto"

definition ImagesSpec_DeepCopy :: "('m, 'l, 'c, 'x) meta_library \<Rightarrow> nat option \<Rightarrow> ('m, 'l, 'c, 'x, nat option) copying" where
  "ImagesSpec_DeepCopy lib =
     copy_ptr (getter is_CellImages the_images) CellImages zero_images (ImagesSpec_DeepCopyInto lib)"

definition FakeGPUConfigSpec_DeepCopy ::
  "('m, 'l, 'c, 'x) meta_library \<Rightarrow> nat option \<Rightarrow> ('m, 'l, 'c, 'x, nat option) copying" where
  "FakeGPUConfigSpec_DeepCopy lib =
     copy_ptr (getter is_CellSpec the_spec) CellSpec zero_spec (FakeGPUConfigSpec_DeepCopyInto lib)"

definition FakeGPUConfigStatus_DeepCopy ::
  "('m, 'l, 'c, 'x) meta_library \<Rightarrow> nat option \<Rightarrow> ('m, 'l, 'c, 'x, nat option) copying" where
  "FakeGPUConfigStatus_DeepCopy lib =
     copy_ptr (getter is_CellStatus the_status) CellStatus zero_status (FakeGPUConfigStatus_DeepCopyInto lib)"

definition FakeGPUConfig_DeepCopy ::
  "('m, 'l, 'c, 'x) meta_library \<Rightarrow> nat option \<Rightarrow> ('m, 'l, 'c, 'x, nat option) copying" where
  "FakeGPUConfig_DeepCopy lib =
     copy_ptr (getter is_CellConfig the_config) CellConfig (zero_config (ZeroObjectMeta lib))
       (FakeGPUConfig_DeepCopyInto lib)"

definition FakeGPUConfigList_DeepCopy ::
  "('m, 'l, 'c, 'x) meta_library \<Rightarrow> nat option \<Rightarrow> ('m, 'l, 'c, 'x, nat option) copying" where
  "FakeGPUConfigList_DeepCopy lib =
     copy_ptr (getter is_CellList the_list) CellList (zero_list (ZeroListMeta lib))
       (FakeGPUConfigList_DeepCopyInto lib)"

text \<open>\<open>if c := in.DeepCopy(); c != nil { return c }; return nil\<close>: never an interface around nil.\<close>

definition FakeGPUConfig_DeepCopyObject ::
  "('m, 'l, 'c, 'x) meta_library \<Rightarrow> nat option \<Rightarrow> ('m, 'l, 'c, 'x, nat option) copying" where
  "FakeGPUConfig_DeepCopyObject lib src =
     do {
       c \<leftarrow> FakeGPUConfig_DeepCopy lib src;
       State_Monad.return (case c of Some a \<Rightarrow> Some a | None \<Rightarrow> None)
     }"

definition FakeGPUConfigList_DeepCopyObject ::
  "('m, 'l, 'c, 'x) meta_library \<Rightarrow> nat option \<Rightarrow> ('m, 'l, 'c, 'x, nat option) copying" where
  "FakeGPUConfigList_DeepCopyObject lib src =
     do {
       c \<leftarrow> FakeGPUConfigList_DeepCopy lib src;
       State_Monad.return (case c of Some a \<Rightarrow> Some a | None \<Rightarrow> None)
     }"

end
