(* ===== verification/Deep_Copy_Facts.thy ===== *)
theory Deep_Copy_Facts
  imports Deep_Copy
begin

text \<open>
  The generated functions are deep copies: the copy stands for the same value, shares no memory
  with the original, and leaves all memory that was there as it is, whatever the sizes and the
  order of the maps. So the configuration a reconcile gets from the client's cache can be changed
  without changing the cache.
\<close>

section \<open>What the structs stand for\<close>

text \<open>A struct stands for the tuple of its fields, with pointers followed.\<close>

definition mig_tuple :: "mig_struct \<Rightarrow> (bool \<times> string) \<times> nat option" where
  "mig_tuple s = ((mig_Enabled s, mig_Strategy s), mig_Devices s)"

definition images_tuple :: "images_struct \<Rightarrow> (string \<times> string) \<times> nat option" where
  "images_tuple s = ((im_Registry s, im_Tag s), im_Overrides s)"

definition spec_tuple ::
  "spec_struct \<Rightarrow> (string \<times> int32) \<times> nat option \<times> nat option \<times> nat option \<times> nat option \<times> nat option" where
  "spec_tuple s = ((sp_GPUProfile s, sp_GPUCount s), sp_Custom s, sp_NodeSelector s, sp_MIG s,
     sp_Components s, sp_Images s)"

definition status_tuple :: "status_struct \<Rightarrow> (int32 \<times> int32 \<times> string \<times> int32) \<times> nat option" where
  "status_tuple s = ((st_ReadyNodes s, st_TotalNodes s, st_GPUProfile s, st_GPUCountPerNode s), st_Conditions s)"

definition config_tuple :: "'m config_struct \<Rightarrow> TypeMeta \<times> 'm \<times> spec_struct \<times> status_struct" where
  "config_tuple s = (cf_TypeMeta s, cf_ObjectMeta s, cf_Spec s, cf_Status s)"

definition list_tuple :: "'l list_struct \<Rightarrow> TypeMeta \<times> 'l \<times> nat option" where
  "list_tuple s = (ls_TypeMeta s, ls_ListMeta s, ls_Items s)"

abbreviation "view_custom \<equiv> view_ptr (getter is_CellCustom the_custom) view_value"
abbreviation "fp_custom \<equiv> fp_ptr (getter is_CellCustom the_custom) fp_value"
abbreviation "view_map \<equiv> view_ptr (getter is_CellMap the_map) view_entries"
abbreviation "fp_map \<equiv> fp_ptr (getter is_CellMap the_map) fp_value"
abbreviation "view_devices \<equiv> view_ptr (getter is_CellDevices the_devices) view_value"
abbreviation "fp_devices \<equiv> fp_ptr (getter is_CellDevices the_devices) fp_value"
abbreviation "view_components \<equiv> view_ptr (getter is_CellComponents the_components) view_value"
abbreviation "fp_components \<equiv> fp_ptr (getter is_CellComponents the_components) fp_value"

definition "view_mig h s = view_pair view_value view_devices h (mig_tuple s)"
definition "fp_mig h s = fp_pair fp_value fp_devices h (mig_tuple s)"
definition "view_images h s = view_pair view_value view_map h (images_tuple s)"
definition "fp_images h s = fp_pair fp_value fp_map h (images_tuple s)"

definition "view_spec h s =
  view_pair view_value (view_pair view_custom (view_pair view_map
    (view_pair (view_ptr (getter is_CellMIG the_mig) view_mig)
      (view_pair view_components (view_ptr (getter is_CellImages the_images) view_images))))) h (spec_tuple s)"

definition "fp_spec h s =
  fp_pair fp_value (fp_pair fp_custom (fp_pair fp_map
    (fp_pair (fp_ptr (getter is_CellMIG the_mig) fp_mig)
      (fp_pair fp_components (fp_ptr (getter is_CellImages the_images) fp_images))))) h (spec_tuple s)"

definition "view_status cv h s =
  view_pair view_value (view_ptr (getter is_CellConditions the_conditions) (view_list cv)) h (status_tuple s)"

definition "fp_status cf h s =
  fp_pair fp_value (fp_ptr (getter is_CellConditions the_conditions) (fp_list cf)) h (status_tuple s)"

definition "view_config mv cv h s =
  view_pair view_value (view_pair mv (view_pair view_spec (view_status cv))) h (config_tuple s)"

definition "fp_config mf cf h s =
  fp_pair fp_value (fp_pair mf (fp_pair fp_spec (fp_status cf))) h (config_tuple s)"

definition "view_config_list mv lv cv h s =
  view_pair view_value (view_pair lv
    (view_ptr (getter is_CellConfigs the_configs) (view_list (view_config mv cv)))) h (list_tuple s)"

definition "fp_config_list mf lf cf h s =
  fp_pair fp_value (fp_pair lf
    (fp_ptr (getter is_CellConfigs the_configs) (fp_list (fp_config mf cf)))) h (list_tuple s)"

section \<open>The copiers\<close>

lemma getter_simps [simp]:
  "getter is_CellMap the_map (CellMap a) = Some a"
  "getter is_CellCustom the_custom (CellCustom b) = Some b"
  "getter is_CellDevices the_devices (CellDevices d) = Some d"
  "getter is_CellMIG the_mig (CellMIG e) = Some e"
  "getter is_CellComponents the_components (CellComponents f) = Some f"
  "getter is_CellImages the_images (CellImages g) = Some g"
  "getter is_CellConditions the_conditions (CellConditions i) = Some i"
  "getter is_CellConfig the_config (CellConfig j) = Some j"
  "getter is_CellConfigs the_configs (CellConfigs k) = Some k"
  "getter is_CellList the_list (CellList l) = Some l"
  by (simp_all add: getter_def)

lemma copier_mig: "deep_copier view_mig fp_mig MIGSpec_DeepCopyInto"
  unfolding view_mig_def fp_mig_def
  by (rule copier_struct [OF copier_pair [OF copier_value copier_plain_slice],
        where struct = "\<lambda>((e, s), d). \<lparr>mig_Enabled = e, mig_Strategy = s, mig_Devices = d\<rparr>"
          and zero2 = zero_device and put2 = CellDevices];
      (rename_tac s, case_tac s)?; auto simp: mig_tuple_def MIGSpec_DeepCopyInto_def copy_pair_def)

lemma copier_images:
  assumes "\<And>m. mset (MapRange lib m) = mset m"
  shows "deep_copier view_images fp_images (ImagesSpec_DeepCopyInto lib)"
  unfolding view_images_def fp_images_def
  by (rule copier_struct [OF copier_pair [OF copier_value copier_map],
        where struct = "\<lambda>((r, t), d). \<lparr>im_Registry = r, im_Tag = t, im_Overrides = d\<rparr>"
          and order2 = "MapRange lib" and put2 = CellMap];
      (rename_tac s, case_tac s)?; auto simp: assms images_tuple_def ImagesSpec_DeepCopyInto_def copy_pair_def)

lemma copier_spec:
  assumes "\<And>m. mset (MapRange lib m) = mset m"
  shows "deep_copier view_spec fp_spec (FakeGPUConfigSpec_DeepCopyInto lib)"
proof -
  note parts = copier_pair [OF copier_value
      copier_pair [OF copier_ptr [where put = CellCustom and zero = zero_custom, OF copier_value]
      copier_pair [OF copier_map [where put = CellMap and order = "MapRange lib"]
      copier_pair [OF copier_ptr [where put = CellMIG and zero = zero_mig, OF copier_mig]
      copier_pair [OF copier_ptr [where put = CellComponents and zero = zero_components, OF copier_value]
        copier_ptr [where put = CellImages and zero = zero_images, OF copier_images [OF assms]]]]]]]
  show ?thesis
    unfolding view_spec_def fp_spec_def
    by (rule copier_struct [OF parts,
        where struct = "\<lambda>((p, n), cu, se, mi, co, im). \<lparr>sp_GPUProfile = p, sp_GPUCount = n, sp_Custom = cu,
          sp_NodeSelector = se, sp_MIG = mi, sp_Components = co, sp_Images = im\<rparr>"];
      (rename_tac s, case_tac s)?;
      auto simp: assms spec_tuple_def FakeGPUConfigSpec_DeepCopyInto_def copy_pair_def)
qed

text \<open>
  What is relied on of the other packages: a map is ranged over in some order of its entries,
  and the copies of the metadata and of a condition are deep copies.
\<close>

definition copies_metadata ::
  "('m, 'l, 'c, 'x) meta_library
    \<Rightarrow> (('m, 'l, 'c, 'x) cell list \<Rightarrow> 'm \<Rightarrow> 'mv option) \<Rightarrow> (('m, 'l, 'c, 'x) cell list \<Rightarrow> 'm \<Rightarrow> nat set)
    \<Rightarrow> (('m, 'l, 'c, 'x) cell list \<Rightarrow> 'l \<Rightarrow> 'lv option) \<Rightarrow> (('m, 'l, 'c, 'x) cell list \<Rightarrow> 'l \<Rightarrow> nat set)
    \<Rightarrow> (('m, 'l, 'c, 'x) cell list \<Rightarrow> 'c \<Rightarrow> 'cv option) \<Rightarrow> (('m, 'l, 'c, 'x) cell list \<Rightarrow> 'c \<Rightarrow> nat set) \<Rightarrow> bool" where
  "copies_metadata lib mv mf lv lf cv cf \<longleftrightarrow>
     (\<forall>m. mset (MapRange lib m) = mset m) \<and> deep_copier mv mf (ObjectMeta_DeepCopyInto lib)
     \<and> deep_copier lv lf (ListMeta_DeepCopyInto lib) \<and> deep_copier cv cf (Condition_DeepCopyInto lib)"

lemma copier_status:
  assumes "copies_metadata lib mv mf lv lf cv cf"
  shows "deep_copier (view_status cv) (fp_status cf) (FakeGPUConfigStatus_DeepCopyInto lib)"
proof -
  have "deep_copier cv cf (Condition_DeepCopyInto lib)" using assms by (simp add: copies_metadata_def)
  note parts = copier_pair [OF copier_value
      copier_slice [where put = CellConditions and zero = "ZeroCondition lib", OF this]]
  show ?thesis
    unfolding view_status_def fp_status_def
    by (rule copier_struct [OF parts,
        where struct = "\<lambda>((r, t, p, g), c). \<lparr>st_Conditions = c, st_ReadyNodes = r, st_TotalNodes = t,
          st_GPUProfile = p, st_GPUCountPerNode = g\<rparr>"];
      (rename_tac s, case_tac s)?;
      auto simp: status_tuple_def FakeGPUConfigStatus_DeepCopyInto_def copy_pair_def)
qed

lemma copier_config:
  assumes "copies_metadata lib mv mf lv lf cv cf"
  shows "deep_copier (view_config mv cv) (fp_config mf cf) (FakeGPUConfig_DeepCopyInto lib)"
proof -
  have m: "deep_copier mv mf (ObjectMeta_DeepCopyInto lib)" and r: "\<And>m. mset (MapRange lib m) = mset m"
    using assms by (simp_all add: copies_metadata_def)
  note parts = copier_pair [OF copier_value copier_pair [OF m
      copier_pair [OF copier_spec [OF r] copier_status [OF assms]]]]
  show ?thesis
    unfolding view_config_def fp_config_def
    by (rule copier_struct [OF parts,
        where struct = "\<lambda>(t, m, s, st). \<lparr>cf_TypeMeta = t, cf_ObjectMeta = m, cf_Spec = s, cf_Status = st\<rparr>"];
      (rename_tac s, case_tac s)?;
      auto simp: config_tuple_def FakeGPUConfig_DeepCopyInto_def copy_pair_def)
qed

lemma copier_config_list:
  assumes "copies_metadata lib mv mf lv lf cv cf"
  shows "deep_copier (view_config_list mv lv cv) (fp_config_list mf lf cf) (FakeGPUConfigList_DeepCopyInto lib)"
proof -
  have l: "deep_copier lv lf (ListMeta_DeepCopyInto lib)" using assms by (simp add: copies_metadata_def)
  note parts = copier_pair [OF copier_value copier_pair [OF l
      copier_slice [where put = CellConfigs and zero = "zero_config (ZeroObjectMeta lib)", OF copier_config [OF assms]]]]
  show ?thesis
    unfolding view_config_list_def fp_config_list_def
    by (rule copier_struct [OF parts,
        where struct = "\<lambda>(t, l, i). \<lparr>ls_TypeMeta = t, ls_ListMeta = l, ls_Items = i\<rparr>"];
      (rename_tac s, case_tac s)?;
      auto simp: list_tuple_def FakeGPUConfigList_DeepCopyInto_def copy_pair_def)
qed

lemma DeepCopyObject_eq:
  "FakeGPUConfig_DeepCopyObject lib = FakeGPUConfig_DeepCopy lib"
  "FakeGPUConfigList_DeepCopyObject lib = FakeGPUConfigList_DeepCopy lib"
proof -
  have id: "(case c of Some a \<Rightarrow> Some a | None \<Rightarrow> None) = c" for c :: "nat option" by (cases c) simp_all
  show "FakeGPUConfig_DeepCopyObject lib = FakeGPUConfig_DeepCopy lib"
    "FakeGPUConfigList_DeepCopyObject lib = FakeGPUConfigList_DeepCopy lib"
    by (rule ext, simp only: FakeGPUConfig_DeepCopyObject_def FakeGPUConfigList_DeepCopyObject_def id State_Monad.bind_right_identity)+
qed

lemma copier_DeepCopyObject:
  assumes "copies_metadata lib mv mf lv lf cv cf"
  shows "deep_copier (view_ptr (getter is_CellConfig the_config) (view_config mv cv))
      (fp_ptr (getter is_CellConfig the_config) (fp_config mf cf)) (FakeGPUConfig_DeepCopyObject lib)"
    and "deep_copier (view_ptr (getter is_CellList the_list) (view_config_list mv lv cv))
      (fp_ptr (getter is_CellList the_list) (fp_config_list mf lf cf)) (FakeGPUConfigList_DeepCopyObject lib)"
  using copier_ptr [OF copier_config [OF assms], of "getter is_CellConfig the_config" CellConfig "zero_config (ZeroObjectMeta lib)"]
    copier_ptr [OF copier_config_list [OF assms], of "getter is_CellList the_list" CellList "zero_list (ZeroListMeta lib)"]
  by (simp_all add: DeepCopyObject_eq FakeGPUConfig_DeepCopy_def FakeGPUConfigList_DeepCopy_def)

section \<open>The copies the generated code makes on concrete metadata\<close>

text \<open>
  Metadata that is a plain value, maps ranged over backwards: the interfaces hold here, for each
  of the generated methods.
\<close>

definition plain_library :: "(string, string, Condition, unit) meta_library" where
  "plain_library =
     \<lparr>MapRange = rev, ZeroObjectMeta = [], ZeroListMeta = [],
      ZeroCondition = \<lparr>cond_Type = [], cond_Status = [], cond_Reason = [], cond_Message = []\<rparr>,
      ObjectMeta_DeepCopyInto = State_Monad.return, ListMeta_DeepCopyInto = State_Monad.return,
      Condition_DeepCopyInto = State_Monad.return\<rparr>"

lemma plain_copies: "copies_metadata plain_library view_value fp_value view_value fp_value view_value fp_value"
  by (simp add: copies_metadata_def plain_library_def copier_value)

interpretation mig_copy: deep_copier view_mig fp_mig MIGSpec_DeepCopyInto
  by (rule copier_mig)

interpretation spec_copy: deep_copier view_spec fp_spec "FakeGPUConfigSpec_DeepCopyInto plain_library"
  by (rule copier_spec) (simp add: plain_library_def)

interpretation config_copy: deep_copier
    "view_ptr (getter is_CellConfig the_config) (view_config view_value view_value)"
    "fp_ptr (getter is_CellConfig the_config) (fp_config fp_value fp_value)"
    "FakeGPUConfig_DeepCopyObject plain_library"
  by (rule copier_DeepCopyObject(1) [OF plain_copies])

definition demo_heap :: "(string, string, Condition, unit) cell list" where
  "demo_heap =
     [CellMap [(''zone'', ''a''), (''disk'', ''ssd'')], CellDevices [\<lparr>mig_device_name = ''1g.5gb'', mig_device_count = 7\<rparr>],
      CellMIG \<lparr>mig_Enabled = True, mig_Strategy = ''mixed'', mig_Devices = Some 1\<rparr>,
      CellConfig \<lparr>cf_TypeMeta = \<lparr>tm_Kind = ''FakeGPUConfig'', tm_APIVersion = ''gpu.openshift.io/v1alpha1''\<rparr>,
        cf_ObjectMeta = ''demo'', cf_Spec = zero_spec\<lparr>sp_NodeSelector := Some 0, sp_MIG := Some 2\<rparr>,
        cf_Status = zero_status\<rparr>,
      CellConfigs [\<lparr>cf_TypeMeta = \<lparr>tm_Kind = [], tm_APIVersion = []\<rparr>, cf_ObjectMeta = ''demo'',
        cf_Spec = zero_spec\<lparr>sp_NodeSelector := Some 0\<rparr>, cf_Status = zero_status\<rparr>],
      CellList \<lparr>ls_TypeMeta = \<lparr>tm_Kind = [], tm_APIVersion = []\<rparr>, ls_ListMeta = ''7'', ls_Items = Some 4\<rparr>]"

lemma demo_views:
  "\<exists>v. view_ptr (getter is_CellConfig the_config) (view_config view_value view_value) demo_heap (Some 3) = Some v"
  "\<exists>v. view_ptr (getter is_CellList the_list) (view_config_list view_value view_value view_value) demo_heap (Some 5) = Some v"
  by (simp_all add: view_ptr_def demo_heap_def view_config_list_def list_tuple_def view_config_def config_tuple_def
      view_pair_def view_value_def view_spec_def spec_tuple_def view_status_def status_tuple_def zero_spec_def
      zero_status_def view_entries_def view_mig_def mig_tuple_def view_list_def)

section \<open>Properties\<close>

text \<open>
  C39: a deep copy is equal to its original and shares no memory with it. For a list of
  configurations in a heap without dangling pointers, \<open>DeepCopyObject\<close> returns a pointer to a list
  that stands for the same value (nil maps, slices and pointers staying nil), all of whose
  memory is new; the original keeps its value, and every cell that was there its content.
\<close>

theorem deep_copy_equal_and_separate:
  assumes "copies_metadata lib mv mf lv lf cv cf"
    and "view_ptr (getter is_CellList the_list) (view_config_list mv lv cv) h p = Some v"
    and "run (FakeGPUConfigList_DeepCopyObject lib p) h = (q, h')"
  shows "prefix h h'
    \<and> view_ptr (getter is_CellList the_list) (view_config_list mv lv cv) h' q = Some v
    \<and> view_ptr (getter is_CellList the_list) (view_config_list mv lv cv) h' p = Some v
    \<and> fp_ptr (getter is_CellList the_list) (fp_config_list mf lf cf) h' q \<subseteq> {length h..<length h'}
    \<and> fp_ptr (getter is_CellList the_list) (fp_config_list mf lf cf) h' p
      \<inter> fp_ptr (getter is_CellList the_list) (fp_config_list mf lf cf) h' q = {}"
  using deep_copier.copies [OF copier_DeepCopyObject(2) [OF assms(1)] assms(2,3)]
    deep_copier.independent(1,3) [OF copier_DeepCopyObject(2) [OF assms(1)] assms(2,3)] by simp

theorem deep_copy_equal_and_separate_witness:
  "\<exists>q h'. run (FakeGPUConfigList_DeepCopyObject plain_library (Some 5)) demo_heap = (q, h') \<and> prefix demo_heap h'
     \<and> view_ptr (getter is_CellList the_list) (view_config_list view_value view_value view_value) h' q
       = view_ptr (getter is_CellList the_list) (view_config_list view_value view_value view_value) demo_heap (Some 5)"
proof -
  obtain q h' where r: "run (FakeGPUConfigList_DeepCopyObject plain_library (Some 5)) demo_heap = (q, h')" by fastforce
  obtain v where v: "view_ptr (getter is_CellList the_list) (view_config_list view_value view_value view_value)
      demo_heap (Some 5) = Some v" using demo_views(2) by blast
  from deep_copy_equal_and_separate [OF plain_copies v r] r v show ?thesis by auto
qed

text \<open>
  C40: what is done to the copy does not reach the original. Whatever is written afterwards to the
  memory of the copy of a configuration (a finalizer, a condition, a label of its selector) or to
  memory allocated later, the original stands for the value it had; and the other way round. This
  is what allows a reconcile to change the configuration it got from the client's cache.
\<close>

theorem deep_copy_independent:
  assumes "copies_metadata lib mv mf lv lf cv cf"
    and "view_ptr (getter is_CellConfig the_config) (view_config mv cv) h p = Some v"
    and "run (FakeGPUConfig_DeepCopyObject lib p) h = (q, h')" and "length h' \<le> length h''"
  shows "((\<forall>a < length h'. a \<notin> fp_ptr (getter is_CellConfig the_config) (fp_config mf cf) h' q \<longrightarrow> h'' ! a = h' ! a)
      \<longrightarrow> view_ptr (getter is_CellConfig the_config) (view_config mv cv) h'' p = Some v)
    \<and> ((\<forall>a < length h'. a \<notin> fp_ptr (getter is_CellConfig the_config) (fp_config mf cf) h' p \<longrightarrow> h'' ! a = h' ! a)
      \<longrightarrow> view_ptr (getter is_CellConfig the_config) (view_config mv cv) h'' q = Some v)"
  using deep_copier.independent(4,5) [OF copier_DeepCopyObject(1) [OF assms(1)] assms(2,3,4)] by blast

theorem deep_copy_independent_witness:
  "\<exists>a h'. run (FakeGPUConfig_DeepCopyObject plain_library (Some 3)) demo_heap = (Some a, h')
     \<and> view_ptr (getter is_CellConfig the_config) (view_config view_value view_value) (h'[a := CellOther ()]) (Some 3)
       = view_ptr (getter is_CellConfig the_config) (view_config view_value view_value) demo_heap (Some 3)"
proof -
  obtain q h' where r: "run (FakeGPUConfig_DeepCopyObject plain_library (Some 3)) demo_heap = (q, h')" by fastforce
  obtain v where v: "view_ptr (getter is_CellConfig the_config) (view_config view_value view_value)
      demo_heap (Some 3) = Some v" using demo_views(1) by blast
  have "q = Some (length demo_heap)"
    using r by (auto simp: DeepCopyObject_eq FakeGPUConfig_DeepCopy_def copy_ptr_def split: prod.splits)
  then obtain a where a: "q = Some a" by blast
  have "\<forall>b < length h'. b \<notin> fp_ptr (getter is_CellConfig the_config) (fp_config fp_value fp_value) h' q
      \<longrightarrow> (h'[a := CellOther ()]) ! b = h' ! b"
    by (auto simp: a fp_ptr_def)
  with deep_copy_independent [OF plain_copies v r, of "h'[a := CellOther ()]"] v a r show ?thesis by auto
qed

end
