(* ===== verification/Spec2Isabelle.thy ===== *)
theory Spec2Isabelle
  imports Histories Guarantees Effort Concurrency Resource_Facts Watch_Facts Startup Deep_Copy_Facts
begin

text \<open>
  A model of the OpenShift fake GPU operator (Go, \<open>src/\<close>) and the theorems that make it correct.

  The program. A custom resource, \<open>FakeGPUConfig\<close> (\<open>api/v1alpha1\<close>), asks for fake GPUs on some
  nodes. \<open>cmd/main.go\<close> starts a controller-runtime manager with one controller,
  \<open>internal/controller/fakegpuconfig_controller.go\<close>, whose \<open>Reconcile\<close> brings the cluster to what
  the resource says: service accounts and roles, ConfigMaps with the topology, DaemonSets,
  Deployments and services, labels on the nodes, a ConfigMap for each node, the status. The
  objects are built by pure functions in \<open>internal/resources\<close> from the resource and a GPU profile
  of \<open>internal/profiles\<close>. A resource that is being deleted is cleaned up after
  (\<open>handleDeletion\<close>), held by a finalizer until then.

  Theories, in the order of their imports.

  \<^item> \<open>Prelude\<close>, \<open>Go_Strings\<close>: int32 and int64 as words; Go's string maps with their nil map
    (\<open>gomap\<close>); errors as values (\<open>error\<close>: a client error, a formatted one, a wrapped one, a panic);
    the state monad with its rules (\<open>hoare\<close>); decimal and quoted rendering.
  \<^item> \<open>Api_Types\<close>, \<open>Profiles\<close>: the structs of \<open>fakegpuconfig_types.go\<close>, its validation markers as
    \<open>schema_valid\<close>, its omitempty and default markers as \<open>wire_spec\<close> (what comes back of a
    specification the operator sends); the table of \<open>profiles.go\<close>.
  \<^item> \<open>Objects\<close>, \<open>Images\<close>, \<open>Workloads\<close>, \<open>Services_Rbac\<close>, \<open>ConfigMaps\<close>: the objects the operator
    builds, one definition for each function of \<open>internal/resources\<close>, field by field; the rendered
    texts character by character; \<open>manager_rules\<close> are the kubebuilder:rbac markers. The locale
    \<open>builder\<close> (and \<open>workload_builder\<close>) is what the controller relies on of a builder: kind, name,
    namespace, labels; every builder is an interpretation of it.
  \<^item> \<open>Api_Client\<close>: what is not under \<open>src/\<close>, as parameters: the API client (\<open>Client\<close>, over a server
    state of any type) and five functions of apimachinery and controller-runtime (\<open>Library\<close>). A
    \<open>World\<close> is the server's state, the cached OpenShift answer and a ghost trace of the calls.
  \<^item> \<open>Controller\<close>: one definition for each method of the reconciler, as programs over a \<open>World\<close>,
    with every early return, swallowed error and wrapped error. \<open>Watches\<close>: \<open>SetupWithManager\<close>, the
    API group, and the requests an event enqueues.
  \<^item> \<open>Store\<close>: the abstract store (keys to objects, resource versions aside) and the laws of a server
    that keeps its promises, as locales that extend each other: \<open>object_store\<close>, \<open>node_store\<close>,
    \<open>api_server\<close>. \<open>Mem_Server\<close> is a server in memory that satisfies them (the interpretation \<open>mem\<close>).
  \<^item> \<open>Desired\<close>: the abstract specification, the objects a configuration asks for. It translates no
    code; the theorems compare runs of the controller with it.
  \<^item> \<open>Safety\<close>, \<open>Outcomes\<close>, \<open>Guarantees\<close>: what holds for every server, one that fails or that others
    change meanwhile included: statements on the trace and the returned error. \<open>Success\<close> tells what
    a nil error stands for, \<open>Fail_Stop\<close> that a refused write is the last call, \<open>Effort\<close> counts the
    calls; \<open>Concurrency\<close> runs the code over a client that keeps a log, and shows that
    no update is blind, so that optimistic concurrency protects the writes of others.
  \<^item> \<open>Node_Labels\<close>, \<open>Convergence\<close>, \<open>Deletion\<close>, \<open>Refusal\<close>, \<open>Isolation\<close>: runs on a server that keeps
    its promises (locale \<open>healthy_run\<close>). \<open>realises b m obs\<close> says that a program puts exactly \<open>obs\<close> into the
    store; \<open>converged\<close> is the specification of a reconcile, \<open>swept\<close> the reach of a deletion.
    \<open>Histories\<close> has runs one after the other: a reconcile and the deletion, two configurations.
  \<^item> \<open>Demo\<close>: concrete runs for the witnesses. \<open>Resource_Facts\<close>, \<open>Watch_Facts\<close>: properties of the
    built objects and of the watches.
  \<^item> \<open>Flags\<close>, \<open>Paths\<close>, \<open>Slices\<close>, \<open>Manager\<close>, \<open>Startup\<close>: \<open>cmd/main.go\<close>. The flags and \<open>flag.Parse\<close>,
    \<open>filepath.Join\<close>, slices over backing arrays with \<open>append\<close>, \<open>main\<close> as a chain of parts each of
    which may exit, and its theorems against the plan of a start (\<open>main_plan\<close>).
  \<^item> \<open>Go_Heap\<close>, \<open>Deep_Copy\<close>, \<open>Deep_Copy_Facts\<close>: \<open>zz_generated.deepcopy.go\<close> over a heap of cells. The
    locale \<open>deep_copier\<close> is the contract (same value, new memory, old memory unchanged), with a rule
    for each way the generated code combines copies.

  What the theorems show. On a healthy server a reconcile converges, is idempotent, and is undone
  by the deletion, without touching other configurations but for the shared objects that are
  named; conflicts and invalid profiles change nothing. On any server the order of accounts,
  workloads and finalizer holds, an error is not lost, and nothing outside the configuration's
  own objects is written. The built objects fit each other: selectors, services, bindings,
  accounts, labels. The start of the process is fail-fast, and the generated copies are deep.
  Some theorems state defects: switches that cannot be turned off, shared objects taken by a
  deletion, the shared topology, a permission the operator does not have, watches that never or
  too often fire, the remembered failure of the OpenShift lookup.

  Bounds. Programs are total: the loops of the code run over finite lists, so there is no fuel.
  The loop over the GPUs of a node counts in 32 bits and has a termination measure; the order of
  every range over a map is arbitrary (\<open>r_Range\<close>, \<open>MapRange\<close>).

  Healthy servers. The theorems about convergence, deletion and refusal suppose a server that
  accepts what it should, that nobody else writes to during a run, and whose reads see the run's own
  writes. The last point is an idealisation: \<open>main.go\<close> passes \<open>mgr.GetClient()\<close>, which answers reads
  from a cache that may lag behind. With a lagging cache a run may fail with a conflict or an
  AlreadyExists error and is retried, or miss a node until the next event. The theorems for
  every server (of \<open>Guarantees\<close>, \<open>Effort\<close>, \<open>Concurrency\<close>, \<open>Watch_Facts\<close>) cover it: their client
  may answer anything, so also what a stale cache answers, and anyone may write between two calls.
  Healthy means authorised, too: \<open>role_permissions_held\<close> tells where the operator's own role falls
  short.

  Not modelled. Log lines and contexts. The fields of Kubernetes objects that the operator never
  sets. The server's validation of names, the owner mapping of controller-runtime and the TLS
  configuration its servers start from are parameters; its event dispatch is taken from its
  documentation (\<open>Watches\<close>). The copies of Kubernetes' metadata and what a certificate watcher does
  are absent. Manifests, the bundle, the end-to-end tests and the build files have no logic of
  the operator.
\<close>

text \<open>
  C1: on a server that keeps its promises, where nothing of a Helm installation is present and
  the profile of the configuration is known, one call of \<open>Reconcile\<close> returns without an
  error and meets its specification: the store is the old one with every desired object put
  into it, the selected nodes carry the wanted labels, every other object and node is
  untouched, the status is the one computed from the nodes, and the configuration has the
  finalizer. The desired objects are those of the configuration as it is once the finalizer is
  in place (\<open>adopted\<close>).
\<close>

theorem reconcile_converges:
  assumes "healthy_run r I objs nodes cfgs scc" and "I (server w)"
    and "isOpenShift w = None \<or> isOpenShift w = Some (scc (server w))"
    and "cfgs (server w) n = Some cfg" and "IsZero (DeletionTimestamp (cfg_meta cfg))" and "n \<noteq> []"
    and "helm_free (store_view objs (server w))" and "resolveProfile cfg = Inr profile"
  shows "\<exists>w' cfg1 cfg'. run (Reconcile r ns n) w = ((ctrl_Result0, None), w') \<and> I (server w')
    \<and> adopted cfg cfg1
    \<and> converged r cfg1 profile (scc (server w)) (store_view objs (server w)) (nodes_view nodes (server w))
        (store_view objs (server w')) (nodes_view nodes (server w')) (Status cfg')
    \<and> cfgs (server w') = (cfgs (server w))(n \<mapsto> cfg')
    \<and> same_spec cfg' cfg1 \<and> finalizerName \<in> set (Finalizers (cfg_meta cfg'))"
  using healthy_run.Reconcile_ok [OF assms(1) healthy_run.st_world [OF assms(1-3)] assms(4-8), of ns]
  unfolding healthy_run.st_def [OF assms(1)] by blast

theorem reconcile_converges_witness:
  "\<exists>w'. run (Reconcile mem_reconciler [] ''demo'') (demo_world (demo_cfg ''a100'') [])
     = ((ctrl_Result0, None), w') \<and> mem_inv (server w')"
proof -
  obtain p where "resolveProfile (demo_cfg ''a100'') = Inr p" using demo_profile by blast
  from reconcile_converges [OF mem_run.healthy_run_axioms _ _ _ _ _ _ this,
      of "demo_world (demo_cfg ''a100'') []" "''demo''" "[]"]
  show ?thesis by auto
qed

lemma reconcile_start_demo:
  "\<exists>w1. run (Reconcile mem_reconciler [] ''demo'') (demo_world (demo_cfg ''a100'') []) = ((ctrl_Result0, None), w1)
     \<and> mem_inv (server w1)"
proof -
  obtain p where p: "resolveProfile (demo_cfg ''a100'') = Inr p" using demo_profile by blast
  show ?thesis
    using mem_run.Reconcile_ok [OF mem_run.st_world [of "demo_world (demo_cfg ''a100'') []"] _ _ _ _ p,
        of "''demo''" "[]"] by (auto simp: mem_run.st_def)
qed

text \<open>
  C2: reconciling is idempotent. A second call of \<open>Reconcile\<close> right after a first one, on the
  same healthy server, again returns without an error and changes neither an object (resource
  versions aside) nor the labels of a node.
\<close>

theorem reconcile_idempotent:
  assumes "healthy_run r I objs nodes cfgs scc" and "I (server w)"
    and "isOpenShift w = None \<or> isOpenShift w = Some (scc (server w))"
    and "cfgs (server w) n = Some cfg" and "IsZero (DeletionTimestamp (cfg_meta cfg))" and "n \<noteq> []"
    and "helm_free (store_view objs (server w))" and "resolveProfile cfg = Inr profile"
    and "run (Reconcile r ns n) w = (out1, w1)" and "run (Reconcile r ns n) w1 = (out2, w2)"
  shows "out2 = (ctrl_Result0, None)
    \<and> store_view objs (server w2) = store_view objs (server w1)
    \<and> nodes_view nodes (server w2) = nodes_view nodes (server w1)"
proof -
  note H = assms(1)
  let ?b = "scc (server w)"
  let ?V = "store_view objs (server w)" and ?N = "nodes_view nodes (server w)"
  obtain V1 N1 cfga cfg1 where ad: "adopted cfg cfga" and c1: "converged r cfga profile ?b ?V ?N V1 N1 (Status cfg1)"
    and same: "same_spec cfg1 cfga" and fin: "finalizerName \<in> set (Finalizers (cfg_meta cfg1))"
    and live: "IsZero (DeletionTimestamp (cfg_meta cfg1))"
    and s1: "healthy_run.st I objs nodes cfgs scc V1 N1 ((cfgs (server w))(n \<mapsto> cfg1)) ?b w1"
    using healthy_run.Reconcile_ok [OF H healthy_run.st_world [OF H assms(2,3)] assms(4-8), of ns] assms(9)
    by auto
  have free: "helm_free V1" by (rule helm_free_converged [OF assms(7) c1])
  have prof: "resolveProfile cfg1 = Inr profile"
    by (simp add: same_spec_questions [OF same] adopted_profile [OF ad] assms(8))
  obtain V2 N2 cfgb cfg2 where out: "out2 = (ctrl_Result0, None)" and ad2: "adopted cfg1 cfgb"
    and c2: "converged r cfgb profile ?b V1 N1 V2 N2 (Status cfg2)"
    and s2: "healthy_run.st I objs nodes cfgs scc V2 N2
      (((cfgs (server w))(n \<mapsto> cfg1))(n \<mapsto> cfg2)) ?b w2"
    using healthy_run.Reconcile_ok [OF H s1 fun_upd_same live assms(6) free prof, of ns] assms(10)
    by (auto simp del: fun_upd_apply)
  have "same_spec cfgb cfga"
    using adopted_again [OF ad2 fin] same by (simp add: same_spec_def)
  then have "V2 = V1 \<and> N2 = N1"
    using converged_again [OF c1] converged_spec_cong [OF _ c2] by blast
  with s1 s2 out show ?thesis by (simp add: healthy_run.st_def [OF H])
qed

theorem reconcile_idempotent_witness:
  "\<exists>w1 w2. run (Reconcile mem_reconciler [] ''demo'') (demo_world (demo_cfg ''a100'') [])
      = ((ctrl_Result0, None), w1)
    \<and> run (Reconcile mem_reconciler [] ''demo'') w1 = ((ctrl_Result0, None), w2)
    \<and> store_view (\<lambda>s. map_of (m_objs s)) (server w2) = store_view (\<lambda>s. map_of (m_objs s)) (server w1)"
proof -
  let ?w = "demo_world (demo_cfg ''a100'') []" and ?R = "Reconcile mem_reconciler [] ''demo''"
  obtain p where p: "resolveProfile (demo_cfg ''a100'') = Inr p" using demo_profile by blast
  obtain w1 where w1: "run ?R ?w = ((ctrl_Result0, None), w1)"
    using mem_run.Reconcile_ok [OF mem_run.st_world [of ?w] _ _ _ _ p, of "''demo''" "[]"] by auto
  obtain out2 w2 where w2: "run ?R w1 = (out2, w2)" by (cases "run ?R w1")
  from reconcile_idempotent [OF mem_run.healthy_run_axioms _ _ _ _ _ _ p w1 w2] w1 w2 show ?thesis
    by auto
qed

text \<open>
  C3: the deletion of a configuration on a healthy server returns without an error and leaves
  the store without exactly the objects in its reach (\<open>swept\<close>: those of its instance, all node
  topologies of the namespace, its cluster-scoped objects and the runtime class), takes the
  operator's labels from exactly the nodes of its pool, and takes the finalizer away, so that
  the configuration itself is gone unless something else holds it.
\<close>

theorem deletion_cleans_up:
  assumes "healthy_run r I objs nodes cfgs scc" and "I (server w)"
    and "isOpenShift w = None \<or> isOpenShift w = Some (scc (server w))"
    and "cfgs (server w) n = Some cfg" and "\<not> IsZero (DeletionTimestamp (cfg_meta cfg))"
  shows "\<exists>w'. run (Reconcile r ns n) w = ((ctrl_Result0, None), w') \<and> I (server w')
    \<and> store_view objs (server w') = remove (swept r cfg (scc (server w))) (store_view objs (server w))
    \<and> nodes_view nodes (server w') = (\<lambda>x. map_option (unlabel_view cfg) (nodes_view nodes (server w) x))
    \<and> (\<forall>x. x \<noteq> n \<longrightarrow> cfgs (server w') x = cfgs (server w) x)
    \<and> (case cfgs (server w') n of
         None \<Rightarrow> set (Finalizers (cfg_meta cfg)) \<subseteq> {finalizerName}
       | Some cfg' \<Rightarrow> Finalizers (cfg_meta cfg') \<noteq> []
           \<and> set (Finalizers (cfg_meta cfg')) = set (Finalizers (cfg_meta cfg)) - {finalizerName})"
proof -
  obtain w' C' where run: "run (Reconcile r ns n) w = ((ctrl_Result0, None), w')"
    and st: "healthy_run.st I objs nodes cfgs scc
        (remove (swept r cfg (scc (server w))) (store_view objs (server w)))
        (\<lambda>x. map_option (unlabel_view cfg) (nodes_view nodes (server w) x)) C' (scc (server w)) w'"
    and others: "\<forall>x. x \<noteq> n \<longrightarrow> C' x = cfgs (server w) x"
    and fin: "case C' n of None \<Rightarrow> set (Finalizers (cfg_meta cfg)) \<subseteq> {finalizerName}
       | Some cfg' \<Rightarrow> cfg_name cfg' = n \<and> Spec cfg' = wire_spec (Spec cfg)
           \<and> set (Finalizers (cfg_meta cfg')) = set (Finalizers (cfg_meta cfg)) - {finalizerName}
           \<and> Finalizers (cfg_meta cfg') \<noteq> []"
    using healthy_run.Reconcile_deleted [OF assms(1) healthy_run.st_world [OF assms(1-3)] assms(4,5), of ns]
    by blast
  have "case C' n of None \<Rightarrow> set (Finalizers (cfg_meta cfg)) \<subseteq> {finalizerName}
       | Some cfg' \<Rightarrow> Finalizers (cfg_meta cfg') \<noteq> []
           \<and> set (Finalizers (cfg_meta cfg')) = set (Finalizers (cfg_meta cfg)) - {finalizerName}"
    using fin by (simp split: option.splits)
  with run st others show ?thesis unfolding healthy_run.st_def [OF assms(1)] by blast
qed

definition dying_cfg :: FakeGPUConfig where
  "dying_cfg = (demo_cfg ''a100'')\<lparr>cfg_meta :=
     (cfg_meta (demo_cfg ''a100''))\<lparr>DeletionTimestamp := Some 5, Finalizers := [finalizerName]\<rparr>\<rparr>"

lemma dying_facts [simp]:
  "mem_inv (demo_mem dying_cfg [])" "DeletionTimestamp (cfg_meta dying_cfg) = Some 5"
  "\<not> IsZero (Some 5)"
  by (simp_all add: demo_mem_def mem_inv_def dying_cfg_def demo_cfg_def demo_node_def IsZero_def)

theorem deletion_cleans_up_witness:
  "\<exists>w'. run (Reconcile mem_reconciler [] ''demo'') (demo_world dying_cfg []) = ((ctrl_Result0, None), w')"
proof -
  from deletion_cleans_up [OF mem_run.healthy_run_axioms,
      of "demo_world dying_cfg []" "''demo''" dying_cfg "[]"]
  show ?thesis by auto
qed

text \<open>
  C4: creation and deletion are inverse to each other. On a healthy server a configuration is
  reconciled, then someone asks for its deletion (nothing but the configurations changes in
  between), and \<open>Reconcile\<close> is called again. Both calls return without an error. At the end no
  key that the first call changed holds an object, and every other key holds what it held at
  the beginning, unless that is in the reach of the deletion; every node that had no labels of the
  operator is as it was at the beginning.
\<close>

theorem reconcile_then_delete:
  assumes "healthy_run r I objs nodes cfgs scc" and "I (server w)"
    and "isOpenShift w = None \<or> isOpenShift w = Some (scc (server w))"
    and "cfgs (server w) n = Some cfg" and "IsZero (DeletionTimestamp (cfg_meta cfg))" and "n \<noteq> []"
    and "helm_free (store_view objs (server w))" and "resolveProfile cfg = Inr profile"
    and "run (Reconcile r ns n) w = (out1, w1)"
    and "I s" and "store_view objs s = store_view objs (server w1)"
    and "nodes_view nodes s = nodes_view nodes (server w1)" and "scc s = scc (server w1)"
    and "cfgs s n = Some gone" and "\<not> IsZero (DeletionTimestamp (cfg_meta gone))"
    and "run (Reconcile r ns n) (w1\<lparr>server := s\<rparr>) = (out2, w2)"
  shows "out1 = (ctrl_Result0, None) \<and> out2 = (ctrl_Result0, None)
    \<and> (\<forall>k. store_view objs (server w2) k =
         (if store_view objs (server w1) k = store_view objs (server w) k
          then remove (swept r gone (scc (server w))) (store_view objs (server w)) k else None))
    \<and> (\<forall>x. (\<forall>k \<in> node_keys. \<forall>v. nodes_view nodes (server w) x = Some v \<longrightarrow> snd v k = None)
         \<longrightarrow> nodes_view nodes (server w2) x = nodes_view nodes (server w) x)"
proof -
  note undone = healthy_run.Reconcile_undone [OF assms(1) healthy_run.st_world [OF assms(1-3)] assms(4-16)]
  show ?thesis
    by (intro conjI allI impI) (rule undone(1), rule undone(2), rule undone(3), erule undone(4))
qed

text \<open>The server after someone has asked for the deletion of the demonstration configuration.\<close>

definition asked_to_delete :: "mem \<Rightarrow> mem" where
  "asked_to_delete s = s\<lparr>m_cfgs := [(''demo'', dying_cfg)]\<rparr>"

theorem reconcile_then_delete_witness:
  "\<exists>w1 w2. run (Reconcile mem_reconciler [] ''demo'') (demo_world (demo_cfg ''a100'') []) = ((ctrl_Result0, None), w1)
     \<and> run (Reconcile mem_reconciler [] ''demo'') (w1\<lparr>server := asked_to_delete (server w1)\<rparr>) = ((ctrl_Result0, None), w2)
     \<and> store_view (\<lambda>s. map_of (m_objs s)) (server w2) = (\<lambda>_. None)"
proof -
  let ?w = "demo_world (demo_cfg ''a100'') []" and ?R = "Reconcile mem_reconciler [] ''demo''"
  obtain p where p: "resolveProfile (demo_cfg ''a100'') = Inr p" using demo_profile by blast
  obtain w1 where w1: "run ?R ?w = ((ctrl_Result0, None), w1)" and inv: "mem_inv (server w1)"
    using reconcile_start_demo by blast
  let ?s = "asked_to_delete (server w1)"
  obtain out2 w2 where w2: "run ?R (w1\<lparr>server := ?s\<rparr>) = (out2, w2)" by (cases "run ?R (w1\<lparr>server := ?s\<rparr>)")
  have s: "mem_inv ?s" "m_objs ?s = m_objs (server w1)" "m_nodes ?s = m_nodes (server w1)"
    "m_scc ?s = m_scc (server w1)" "map_of (m_cfgs ?s) ''demo'' = Some dying_cfg"
    using inv by (simp_all add: asked_to_delete_def mem_inv_def dying_cfg_def)
  have "out2 = (ctrl_Result0, None) \<and> (\<forall>k. store_view (\<lambda>s. map_of (m_objs s)) (server w2) k = None)"
    using reconcile_then_delete [OF mem_run.healthy_run_axioms _ _ _ _ _ _ p w1 s(1) _ _ _ s(5) _ w2] s(2-4)
    by (auto simp: remove_def split: if_splits) (metis option.distinct(1))+
  with w1 w2 show ?thesis by (auto simp: fun_eq_iff)
qed

text \<open>
  C5: configurations of different names are isolated. A reconcile of one, whatever comes of it
  (convergence, a refusal, a deletion), leaves every workload, service, account, role and
  binding that another one has in the store as it is, even where one name is a prefix of the
  other.
\<close>

theorem configurations_isolated:
  assumes "healthy_run r I objs nodes cfgs scc" and "I (server w)"
    and "isOpenShift w = None \<or> isOpenShift w = Some (scc (server w))"
    and "cfgs (server w) n = Some cfg" and "n \<noteq> []" and "r_Namespace r \<noteq> []"
    and "ob \<in> set (rbac_objects r other os @ component_objects r other)" and "obj_kind ob \<noteq> KRuntimeClass"
    and "cfg_name other \<noteq> n" and "store_view objs (server w) (obj_key ob) = Some (strip ob)"
    and "run (Reconcile r ns n) w = (out, w')"
  shows "store_view objs (server w') (obj_key ob) = Some (strip ob)"
  by (rule healthy_run.Reconcile_spares_others [OF assms(1) healthy_run.st_world [OF assms(1-3)] assms(4-11)])

definition other_cfg :: FakeGPUConfig where
  "other_cfg = (demo_cfg ''t4'')\<lparr>cfg_meta := object_meta ''demo-2'' [] NilMap\<rparr>"

definition other_daemonset :: obj where
  "other_daemonset =
     ODaemonSet (DevicePluginDaemonSet (r_Env mem_reconciler) other_cfg ''fake-gpu-operator'')"

lemma other_facts:
  "mem_inv (demo_mem (demo_cfg p) [(obj_key other_daemonset, other_daemonset)])"
  "other_daemonset \<in> set (rbac_objects mem_reconciler other_cfg True @ component_objects mem_reconciler other_cfg)"
  "obj_kind other_daemonset = KDaemonSet" "cfg_name other_cfg = ''demo-2''"
  by (simp_all add: other_daemonset_def other_cfg_def demo_mem_def mem_inv_def demo_cfg_def demo_node_def
      component_objects_def Let_def dp_ds.build_plain)

theorem configurations_isolated_witness:
  "\<exists>out w'. run (Reconcile mem_reconciler [] ''demo'')
       (demo_world (demo_cfg ''a100'') [(obj_key other_daemonset, other_daemonset)]) = (out, w')
     \<and> store_view (\<lambda>s. map_of (m_objs s)) (server w') (obj_key other_daemonset) = Some (strip other_daemonset)"
proof -
  let ?w = "demo_world (demo_cfg ''a100'') [(obj_key other_daemonset, other_daemonset)]"
  obtain out w' where r: "run (Reconcile mem_reconciler [] ''demo'') ?w = (out, w')" by fastforce
  have "mem_inv (server ?w)" and "map_of (m_cfgs (server ?w)) ''demo'' = Some (demo_cfg ''a100'')"
    and "store_view (\<lambda>s. map_of (m_objs s)) (server ?w) (obj_key other_daemonset) = Some (strip other_daemonset)"
    and "isOpenShift ?w = None \<or> isOpenShift ?w = Some (m_scc (server ?w))"
    by (simp_all add: other_facts)
  from configurations_isolated [OF mem_run.healthy_run_axioms this(1,4,2) _ _ other_facts(2) _ _ this(3) r] r
  show ?thesis by (simp add: other_facts)
qed

text \<open>
  C6: the exceptions. The deletion of a configuration takes the topology ConfigMaps of the nodes
  of every other one and the \<open>nvidia\<close> runtime class that all share, since these do not carry the
  name of their configuration.
\<close>

theorem deletion_takes_shared_objects:
  assumes "healthy_run r I objs nodes cfgs scc" and "I (server w)"
    and "isOpenShift w = None \<or> isOpenShift w = Some (scc (server w))"
    and "cfgs (server w) n = Some cfg" and "\<not> IsZero (DeletionTimestamp (cfg_meta cfg))"
    and "ob = node_topology_object r other profile x \<or> ob = ORuntimeClass (NvidiaRuntimeClass other)"
    and "store_view objs (server w) (obj_key ob) = Some (strip ob)"
    and "run (Reconcile r ns n) w = (out, w')"
  shows "objs (server w') (obj_key ob) = None"
  by (rule healthy_run.Reconcile_takes_shared [OF assms(1) healthy_run.st_world [OF assms(1-3)] assms(4-8)])

theorem deletion_takes_shared_objects_witness:
  "\<exists>out w'. run (Reconcile mem_reconciler [] ''demo'')
       (demo_world dying_cfg [((KRuntimeClass, [], ''nvidia''), ORuntimeClass (NvidiaRuntimeClass other_cfg))]) = (out, w')
     \<and> map_of (m_objs (server w')) (KRuntimeClass, [], ''nvidia'') = None"
proof -
  let ?ob = "ORuntimeClass (NvidiaRuntimeClass other_cfg)"
  let ?w = "demo_world dying_cfg [((KRuntimeClass, [], ''nvidia''), ?ob)]"
  obtain out w' where r: "run (Reconcile mem_reconciler [] ''demo'') ?w = (out, w')" by fastforce
  have inv: "mem_inv (server ?w)" and cfg: "map_of (m_cfgs (server ?w)) ''demo'' = Some dying_cfg"
    and os: "isOpenShift ?w = None \<or> isOpenShift ?w = Some (m_scc (server ?w))"
    and stored: "store_view (\<lambda>s. map_of (m_objs s)) (server ?w) (obj_key ?ob) = Some (strip ?ob)"
    by (simp_all add: demo_mem_def mem_inv_def dying_cfg_def demo_cfg_def demo_node_def plain_def builder_simps
        obj_key_def GetName_def GetNamespace_def)
  have dying: "\<not> IsZero (DeletionTimestamp (cfg_meta dying_cfg))" by simp
  from deletion_takes_shared_objects [OF mem_run.healthy_run_axioms inv os cfg dying disjI2 [OF refl] stored r] r
  show ?thesis by simp
qed

text \<open>
  C7: where a Helm installation of the operator is present (a release secret, or a Helm-managed
  ConfigMap named topology), a reconcile writes no object and labels no node. It returns without
  an error, so that it is not retried, and reports the conflict, with the namespace of the
  installation, in the status.
\<close>

theorem helm_conflict_refused:
  assumes "healthy_run r I objs nodes cfgs scc" and "I (server w)"
    and "isOpenShift w = None \<or> isOpenShift w = Some (scc (server w))"
    and "cfgs (server w) n = Some cfg" and "IsZero (DeletionTimestamp (cfg_meta cfg))"
    and "\<not> helm_free (store_view objs (server w))"
  shows "\<exists>w' cfg' ns'. run (Reconcile r ns n) w = ((ctrl_Result0, None), w')
    \<and> store_view objs (server w') = store_view objs (server w)
    \<and> nodes_view nodes (server w') = nodes_view nodes (server w)
    \<and> cfgs (server w') = (cfgs (server w))(n \<mapsto> cfg')
    \<and> Spec cfg' = (if finalizerName \<in> set (Finalizers (cfg_meta cfg)) then Spec cfg else wire_spec (Spec cfg))
    \<and> (\<exists>k ob. store_view objs (server w) k = Some ob \<and> helm_object ob \<and> GetNamespace ob = ns')
    \<and> \<lparr>cond_Type = ''Available'', cond_Status = ''False'', cond_Reason = ''HelmConflict'',
        cond_Message = helm_message ns'\<rparr> \<in> set (Conditions (Status cfg'))"
  using healthy_run.Reconcile_helm [OF assms(1) healthy_run.st_world [OF assms(1-3)] assms(4-6), of ns]
  unfolding healthy_run.st_def [OF assms(1)] by blast

definition helm_secret :: obj where
  "helm_secret = OSecret \<lparr>secret_meta = object_meta ''sh.helm.release.v1.gpu-operator.v1'' ''gpu-operator''
     (GoMap [(''owner'', ''helm''), (''name'', ''gpu-operator'')])\<rparr>"

lemma helm_secret_facts [simp]: "helm_object helm_secret" "plain helm_secret" "strip helm_secret = helm_secret"
  by (simp_all add: helm_secret_def helm_object_def plain_def labels_match_def go_simps strip_def
      SetResourceVersion_def object_meta_def)

theorem helm_conflict_refused_witness:
  "\<exists>w'. run (Reconcile mem_reconciler [] ''demo'')
       (demo_world (demo_cfg ''a100'') [(obj_key helm_secret, helm_secret)]) = ((ctrl_Result0, None), w')
     \<and> map_option strip (map_of (m_objs (server w')) (KDaemonSet, ''fake-gpu-operator'', ''device-plugin-demo''))
       = None"
proof -
  let ?w = "demo_world (demo_cfg ''a100'') [(obj_key helm_secret, helm_secret)]"
  have inv: "mem_inv (server ?w)"
    by (simp add: demo_mem_def mem_inv_def demo_cfg_def demo_node_def)
  have key: "obj_key helm_secret = (KSecret, ''gpu-operator'', ''sh.helm.release.v1.gpu-operator.v1'')"
    by (simp add: helm_secret_def obj_key_def GetName_def GetNamespace_def)
  have notfree: "\<not> helm_free (store_view (\<lambda>s. map_of (m_objs s)) (server ?w))"
    by (simp add: helm_free_def key)
  obtain w' where "run (Reconcile mem_reconciler [] ''demo'') ?w = ((ctrl_Result0, None), w')"
    and same: "store_view (\<lambda>s. map_of (m_objs s)) (server w') = store_view (\<lambda>s. map_of (m_objs s)) (server ?w)"
    using helm_conflict_refused [OF mem_run.healthy_run_axioms inv _ _ _ notfree, of "''demo''" "demo_cfg ''a100''" "[]"]
    by auto
  then show ?thesis using fun_cong [OF same, of "(KDaemonSet, ''fake-gpu-operator'', ''device-plugin-demo'')"] key
    by auto
qed

text \<open>
  C8: a configuration that names no known profile (nor a custom one) makes a reconcile return
  the error that says so, with the same text as a condition of the status, and changes no object
  and no node. An empty specification is such a configuration (the witness runs one), although
  the repository's controller test reconciles one and expects no error.
\<close>

theorem invalid_profile_refused:
  assumes "healthy_run r I objs nodes cfgs scc" and "I (server w)"
    and "isOpenShift w = None \<or> isOpenShift w = Some (scc (server w))"
    and "cfgs (server w) n = Some cfg" and "IsZero (DeletionTimestamp (cfg_meta cfg))"
    and "helm_free (store_view objs (server w))" and "resolveProfile cfg = Inl msg"
  shows "\<exists>w' cfg'. run (Reconcile r ns n) w = ((ctrl_Result0, Some (Errorf msg)), w')
    \<and> store_view objs (server w') = store_view objs (server w)
    \<and> nodes_view nodes (server w') = nodes_view nodes (server w)
    \<and> cfgs (server w') = (cfgs (server w))(n \<mapsto> cfg')
    \<and> Spec cfg' = (if finalizerName \<in> set (Finalizers (cfg_meta cfg)) then Spec cfg else wire_spec (Spec cfg))
    \<and> \<lparr>cond_Type = ''Available'', cond_Status = ''False'', cond_Reason = ''InvalidProfile'',
        cond_Message = msg\<rparr> \<in> set (Conditions (Status cfg'))"
  using healthy_run.Reconcile_invalid [OF assms(1) healthy_run.st_world [OF assms(1-3)] assms(4-7), of ns]
  unfolding healthy_run.st_def [OF assms(1)] by blast

lemma demo_unknown: "resolveProfile (demo_cfg ''k80'') = Inl ''unknown GPU profile: k80''"
  by (simp add: resolveProfile_def profiles_Get_def ProfileTable_def)

lemma demo_empty: "resolveProfile (demo_cfg []) = Inl ''either gpuProfile or custom must be specified''"
  by (simp add: resolveProfile_def)

theorem invalid_profile_refused_witness:
  "(\<exists>w'. run (Reconcile mem_reconciler [] ''demo'') (demo_world (demo_cfg ''k80'') [])
     = ((ctrl_Result0, Some (Errorf ''unknown GPU profile: k80'')), w'))
   \<and> (\<exists>w'. run (Reconcile mem_reconciler [] ''demo'') (demo_world (demo_cfg []) [])
     = ((ctrl_Result0, Some (Errorf ''either gpuProfile or custom must be specified'')), w'))"
  using invalid_profile_refused [OF mem_run.healthy_run_axioms _ _ _ _ _ demo_unknown,
      of "demo_world (demo_cfg ''k80'') []" "''demo''" "[]"]
    invalid_profile_refused [OF mem_run.healthy_run_axioms _ _ _ _ _ demo_empty,
      of "demo_world (demo_cfg []) []" "''demo''" "[]"]
  by auto

text \<open>
  C9: a switch that is on by default cannot be turned off. Adding the finalizer sends the whole
  configuration to the server; a switch that is false is left out of the request and comes
  back as the default, so the status updater, the metrics exporter and the topology server are
  deployed by the first reconcile, whatever the configuration says, and stay switched on.
\<close>

theorem disabled_components_come_back:
  assumes "healthy_run r I objs nodes cfgs scc" and "I (server w)"
    and "isOpenShift w = None \<or> isOpenShift w = Some (scc (server w))"
    and "cfgs (server w) n = Some cfg" and "IsZero (DeletionTimestamp (cfg_meta cfg))" and "n \<noteq> []"
    and "helm_free (store_view objs (server w))" and "resolveProfile cfg = Inr profile"
    and "finalizerName \<notin> set (Finalizers (cfg_meta cfg))"
  shows "\<exists>w' cfg'. run (Reconcile r ns n) w = ((ctrl_Result0, None), w') \<and> cfgs (server w') n = Some cfg'
    \<and> on_by_default StatusUpdater cfg' \<and> on_by_default MetricsExporter cfg' \<and> on_by_default TopologyServer cfg'
    \<and> (\<forall>ob \<in> {ODeployment (StatusUpdaterDeployment (r_Env r) cfg' (r_Namespace r)),
                ODaemonSet (MetricsExporterDaemonSet (r_Env r) cfg' (r_Namespace r)),
                ODeployment (TopologyServerDeployment (r_Env r) cfg' (r_Namespace r))}.
         store_view objs (server w') (obj_key ob) = Some (strip ob))"
proof -
  obtain w' V' N' cfg1 cfg' where run: "run (Reconcile r ns n) w = ((ctrl_Result0, None), w')"
    and ad: "adopted cfg cfg1"
    and conv: "converged r cfg1 profile (scc (server w)) (store_view objs (server w)) (nodes_view nodes (server w))
      V' N' (Status cfg')"
    and same: "same_spec cfg' cfg1"
    and st: "healthy_run.st I objs nodes cfgs scc V' N' ((cfgs (server w))(n \<mapsto> cfg')) (scc (server w)) w'"
    using healthy_run.Reconcile_ok [OF assms(1) healthy_run.st_world [OF assms(1-3)] assms(4-8), of ns] by blast
  from st have view: "store_view objs (server w') = V'" "cfgs (server w') n = Some cfg'"
    by (simp_all add: healthy_run.st_def [OF assms(1)])
  from ad assms(9) have "Spec cfg1 = wire_spec (Spec cfg)" by (simp add: adopted_def)
  then have on: "on_by_default X cfg1" if "X \<in> {StatusUpdater, MetricsExporter, TopologyServer}" for X
    using that by (auto simp: on_by_default_def wire_spec_def wire_components_def wire_bool_def split: option.splits)
  have "\<forall>ob \<in> {ODeployment (StatusUpdaterDeployment (r_Env r) cfg1 (r_Namespace r)),
                ODaemonSet (MetricsExporterDaemonSet (r_Env r) cfg1 (r_Namespace r)),
                ODeployment (TopologyServerDeployment (r_Env r) cfg1 (r_Namespace r))}. ob \<in> set (component_objects r cfg1)"
    using on by (simp add: component_objects_def Let_def)
  then have "\<forall>ob \<in> {ODeployment (StatusUpdaterDeployment (r_Env r) cfg1 (r_Namespace r)),
                ODaemonSet (MetricsExporterDaemonSet (r_Env r) cfg1 (r_Namespace r)),
                ODeployment (TopologyServerDeployment (r_Env r) cfg1 (r_Namespace r))}. V' (obj_key ob) = Some (strip ob)"
    using converged_stored [OF conv] unfolding set_append by blast
  then have "store_view objs (server w') (obj_key ob) = Some (strip ob)"
    if "ob \<in> {ODeployment (StatusUpdaterDeployment (r_Env r) cfg' (r_Namespace r)),
                ODaemonSet (MetricsExporterDaemonSet (r_Env r) cfg' (r_Namespace r)),
                ODeployment (TopologyServerDeployment (r_Env r) cfg' (r_Namespace r))}" for ob
    using that by (simp only: same_spec_builders [OF same] fun_cong [OF view(1)])
  moreover have "on_by_default X cfg'" if "X \<in> {StatusUpdater, MetricsExporter, TopologyServer}" for X
    using on [OF that] by (simp add: same_spec_questions [OF same])
  ultimately show ?thesis using run view(2) by blast
qed

definition minimal_cfg :: FakeGPUConfig where
  "minimal_cfg = (demo_cfg ''a100'')\<lparr>Spec := (Spec (demo_cfg ''a100''))\<lparr>Components :=
     Some \<lparr>DevicePlugin = True, MetricsExporter = False, TopologyServer = False, StatusUpdater = True,
           DRA = False, ComputeDomainController = False\<rparr>\<rparr>\<rparr>"

theorem disabled_components_come_back_witness:
  "\<not> on_by_default MetricsExporter minimal_cfg
   \<and> (\<exists>w' cfg'. run (Reconcile mem_reconciler [] ''demo'') (demo_world minimal_cfg []) = ((ctrl_Result0, None), w')
        \<and> map_of (m_cfgs (server w')) ''demo'' = Some cfg' \<and> on_by_default MetricsExporter cfg')"
proof -
  let ?w = "demo_world minimal_cfg []"
  have cfg: "mem_inv (demo_mem minimal_cfg [])" "DeletionTimestamp (cfg_meta minimal_cfg) = None"
    "Finalizers (cfg_meta minimal_cfg) = []" "\<not> on_by_default MetricsExporter minimal_cfg"
    by (simp_all add: minimal_cfg_def demo_mem_def mem_inv_def demo_cfg_def demo_node_def on_by_default_def)
  obtain p where "resolveProfile (demo_cfg ''a100'') = Inr p" using demo_profile by blast
  then have p: "resolveProfile minimal_cfg = Inr p"
    by (simp add: minimal_cfg_def resolveProfile_def split: option.splits)
  have "helm_free (store_view (\<lambda>s. map_of (m_objs s)) (server ?w))" by simp
  from disabled_components_come_back [OF mem_run.healthy_run_axioms _ _ _ _ _ this p, of "''demo''" "[]"] cfg
  show ?thesis by auto
qed

text \<open>
  C10: the status counts the nodes. On any server \<open>updateStatus\<close> asks for the nodes of the
  configuration's selector and, when it is answered, sends a status with the number of these
  nodes and the number of those among them that carry the label of the device plugin. On a
  healthy server the status stored by a reconcile counts exactly the nodes that the selector
  selects at the end, all of them ready, and names the profile.
\<close>

theorem status_counts_selected_nodes:
  assumes "healthy_run r I objs nodes cfgs scc" and "I (server w)"
    and "isOpenShift w = None \<or> isOpenShift w = Some (scc (server w))"
    and "cfgs (server w) n = Some cfg" and "IsZero (DeletionTimestamp (cfg_meta cfg))" and "n \<noteq> []"
    and "helm_free (store_view objs (server w))" and "resolveProfile cfg = Inr profile"
    and "run (Reconcile r ns n) w = (out, w')"
  shows "(\<exists>cfg'. cfgs (server w') n = Some cfg'
      \<and> TotalNodes (Status cfg') = word_of_nat (card
          {x. \<exists>node. nodes (server w') x = Some node \<and> labels_match (nodeListOption cfg) (node_labels node)})
      \<and> ReadyNodes (Status cfg') = TotalNodes (Status cfg')
      \<and> status_GPUProfile (Status cfg') = prof_Name profile)
    \<and> (\<forall>w cfg items s profile. c_list_nodes (r_Client r) (nodeListOption cfg) (server w) = (Inr items, s) \<longrightarrow>
        (\<exists>c ok. trace (snd (run (updateStatus r cfg profile) w))
            = trace w @ [(ListNode (nodeListOption cfg), True), (UpdateStatus c, ok)]
          \<and> TotalNodes (Status c) = word_of_nat (length items)
          \<and> ReadyNodes (Status c) = word_of_nat (length (filter
              (\<lambda>node. go_lookup (node_labels node) deployDPLabel = Some ''true'') items))))"
proof (intro conjI allI impI)
  obtain V' N' cfg1 cfg' where ad: "adopted cfg cfg1"
    and c: "converged r cfg1 profile (scc (server w)) (store_view objs (server w)) (nodes_view nodes (server w))
      V' N' (Status cfg')"
    and st: "healthy_run.st I objs nodes cfgs scc V' N' ((cfgs (server w))(n \<mapsto> cfg')) (scc (server w)) w'"
    using healthy_run.Reconcile_ok [OF assms(1) healthy_run.st_world [OF assms(1-3)] assms(4-8), of ns] assms(9)
    by auto
  from st have view: "N' = nodes_view nodes (server w')" "cfgs (server w') n = Some cfg'"
    by (simp_all add: healthy_run.st_def [OF assms(1)])
  show "\<exists>cfg'. cfgs (server w') n = Some cfg'
      \<and> TotalNodes (Status cfg') = word_of_nat (card
          {x. \<exists>node. nodes (server w') x = Some node \<and> labels_match (nodeListOption cfg) (node_labels node)})
      \<and> ReadyNodes (Status cfg') = TotalNodes (Status cfg')
      \<and> status_GPUProfile (Status cfg') = prof_Name profile"
    using converged_all_ready [OF c] converged_profile [OF c] view(2)
    unfolding adopted_nodeListOption [OF ad] view(1) selected_nodes by blast
next
  fix w :: "'a World" and cfg items s profile
  assume "c_list_nodes (r_Client r) (nodeListOption cfg) (server w) = (Inr items, s)"
  then show "\<exists>c ok. trace (snd (run (updateStatus r cfg profile) w))
            = trace w @ [(ListNode (nodeListOption cfg), True), (UpdateStatus c, ok)]
          \<and> TotalNodes (Status c) = word_of_nat (length items)
          \<and> ReadyNodes (Status c) = word_of_nat (length (filter
              (\<lambda>node. go_lookup (node_labels node) deployDPLabel = Some ''true'') items))"
    by (rule updateStatus_reports)
qed

theorem status_counts_selected_nodes_witness:
  "\<exists>w' cfg'. run (Reconcile mem_reconciler [] ''demo'') (demo_world (demo_cfg ''a100'') []) = ((ctrl_Result0, None), w')
     \<and> map_of (m_cfgs (server w')) ''demo'' = Some cfg' \<and> ReadyNodes (Status cfg') = TotalNodes (Status cfg')"
proof -
  obtain p where p: "resolveProfile (demo_cfg ''a100'') = Inr p" using demo_profile by blast
  obtain w1 where w1: "run (Reconcile mem_reconciler [] ''demo'') (demo_world (demo_cfg ''a100'') [])
      = ((ctrl_Result0, None), w1)" and inv: "mem_inv (server w1)"
    using reconcile_start_demo by blast
  from status_counts_selected_nodes [OF mem_run.healthy_run_axioms _ _ _ _ _ _ p w1] w1 show ?thesis by auto
qed

text \<open>
  C35: the topology of the pools is shared. When two configurations are reconciled one after the
  other on a healthy server, the ConfigMap \<open>topology\<close> that the second leaves behind is its own: the
  one of the first, with its pool, is overwritten.
\<close>

theorem shared_topology_overwritten:
  assumes "healthy_run r I objs nodes cfgs scc" and "I (server w)"
    and "isOpenShift w = None \<or> isOpenShift w = Some (scc (server w))"
    and "cfgs (server w) n = Some a" and "IsZero (DeletionTimestamp (cfg_meta a))" and "n \<noteq> []"
    and "cfgs (server w) m = Some b" and "IsZero (DeletionTimestamp (cfg_meta b))" and "m \<noteq> []" and "m \<noteq> n"
    and "helm_free (store_view objs (server w))"
    and "resolveProfile a = Inr p" and "resolveProfile b = Inr q"
    and "run (Reconcile r ns n) w = (out1, w1)" and "run (Reconcile r ns m) w1 = (out2, w2)"
  shows "\<exists>a' b'. cfgs (server w1) n = Some a' \<and> cfgs (server w2) m = Some b'
    \<and> store_view objs (server w1) (KConfigMap, r_Namespace r, ''topology'')
        = Some (strip (OConfigMap (TopologyConfigMap a' p (r_Namespace r))))
    \<and> store_view objs (server w2) (KConfigMap, r_Namespace r, ''topology'')
        = Some (strip (OConfigMap (TopologyConfigMap b' q (r_Namespace r))))
    \<and> strip (OConfigMap (TopologyConfigMap b' q (r_Namespace r))) \<noteq> strip (OConfigMap (TopologyConfigMap a' p (r_Namespace r)))"
proof -
  note H = assms(1)
  let ?b = "scc (server w)"
  obtain V1 N1 ca a' where c1: "converged r ca p ?b (store_view objs (server w)) (nodes_view nodes (server w)) V1 N1 (Status a')"
    and same1: "same_spec a' ca"
    and s1: "healthy_run.st I objs nodes cfgs scc V1 N1 ((cfgs (server w))(n \<mapsto> a')) ?b w1"
    using healthy_run.Reconcile_ok [OF H healthy_run.st_world [OF H assms(2,3)] assms(4,5,6,11,12), of ns] assms(14)
    by auto
  have b: "((cfgs (server w))(n \<mapsto> a')) m = Some b" using assms(7,10) by simp
  obtain V2 N2 cb b' where c2: "converged r cb q ?b V1 N1 V2 N2 (Status b')" and same2: "same_spec b' cb"
    and s2: "healthy_run.st I objs nodes cfgs scc V2 N2 (((cfgs (server w))(n \<mapsto> a'))(m \<mapsto> b')) ?b w2"
    using healthy_run.Reconcile_ok [OF H s1 b assms(8,9) helm_free_converged [OF assms(11) c1] assms(13), of ns] assms(15)
    by (auto simp del: fun_upd_apply)
  from s1 s2 have views: "store_view objs (server w1) = V1" "store_view objs (server w2) = V2"
    "cfgs (server w1) n = Some a'" "cfgs (server w2) m = Some b'" "I (server w1)" "I (server w2)"
    by (simp_all add: healthy_run.st_def [OF H])
  have "cfg_name b' \<noteq> cfg_name a'"
    using healthy_run.cfgs_named [OF H views(5,3)] healthy_run.cfgs_named [OF H views(6,4)] assms(10) by simp
  then show ?thesis
    using topology_of [OF c1] topology_of [OF c2] topologies_differ [of b' a'] views(3,4)
      fun_cong [OF views(1)] fun_cong [OF views(2)] same_spec_builders(19) [OF same1] same_spec_builders(19) [OF same2]
    by metis
qed

definition two_configurations :: "mem World" where
  "two_configurations = \<lparr>server = (demo_mem (demo_cfg ''a100'') [])
     \<lparr>m_cfgs := [(''demo'', demo_cfg ''a100''), (''demo-2'', other_cfg)]\<rparr>, isOpenShift = None, trace = []\<rparr>"

theorem shared_topology_overwritten_witness:
  "\<exists>out1 w1 out2 w2. run (Reconcile mem_reconciler [] ''demo'') two_configurations = (out1, w1)
     \<and> run (Reconcile mem_reconciler [] ''demo-2'') w1 = (out2, w2)
     \<and> store_view (\<lambda>s. map_of (m_objs s)) (server w2) (KConfigMap, ''fake-gpu-operator'', ''topology'')
        \<noteq> store_view (\<lambda>s. map_of (m_objs s)) (server w1) (KConfigMap, ''fake-gpu-operator'', ''topology'')"
proof -
  obtain out1 w1 where r1: "run (Reconcile mem_reconciler [] ''demo'') two_configurations = (out1, w1)" by fastforce
  obtain out2 w2 where r2: "run (Reconcile mem_reconciler [] ''demo-2'') w1 = (out2, w2)" by fastforce
  obtain p where p: "resolveProfile (demo_cfg ''a100'') = Inr p" using demo_profile by blast
  obtain q where q: "resolveProfile other_cfg = Inr q"
    by (simp add: other_cfg_def resolveProfile_def profiles_Get_def ProfileTable_def)
  have w: "mem_inv (server two_configurations)" "isOpenShift two_configurations = None"
    "map_of (m_cfgs (server two_configurations)) ''demo'' = Some (demo_cfg ''a100'')"
    "map_of (m_cfgs (server two_configurations)) ''demo-2'' = Some other_cfg"
    "store_view (\<lambda>s. map_of (m_objs s)) (server two_configurations) = (\<lambda>_. None)"
    "IsZero (DeletionTimestamp (cfg_meta other_cfg))"
    by (simp_all add: two_configurations_def demo_mem_def mem_inv_def demo_cfg_def demo_node_def other_cfg_def)
  show ?thesis
    using shared_topology_overwritten [OF mem_run.healthy_run_axioms w(1) _ w(3) _ _ w(4) w(6) _ _ _ p q r1 r2] w(2,5) r1 r2
    by auto
qed

end
